(* ===== verification/Prelude.thy ===== *)
theory Prelude
  imports Main "HOL-Library.Word" "HOL-Library.Char_ord" "HOL-Library.List_Lexorder"
begin

text \<open>
  Shared vocabulary of the development: the errors a C++ operation can end in and the result
  type that carries them, bounded integers and their decimal text (\<open>std::to_string\<close>,
  \<open>std::stoi\<close>, \<open>std::stoll\<close>), \<open>std::map\<close> with string keys as an ordered association list,
  and three interfaces that several components implement: a finite map, a pool in which the
  first value stored under a key wins, and a state machine with an invariant.
\<close>

named_theorems res_simps \<open>unfolding of the error monad\<close>
named_theorems keeping \<open>programs that leave a part of their state alone\<close>
named_theorems preserving \<open>programs that preserve a predicate\<close>

subsection \<open>Errors and results\<close>

text \<open>
  An operation of the program either returns or ends in one of these ways.
  \<open>Undefined_Behaviour\<close> stands for an execution to which C++ gives no meaning (an index
  outside a container, a null pointer dereferenced, a signed overflow, a function that reaches
  its end without the \<open>return\<close> its type asks for); the others are exceptions of the standard
  library, of the JSON library and of the database library.
\<close>

datatype cpp_error =
    Undefined_Behaviour
  | Invalid_Argument
  | Out_Of_Range
  | Length_Error
  | Bad_Optional_Access
  | Json_Type_Error
  | Json_Pointer_Error
  | Json_Parse_Error
  | Json_Invalid_Iterator
  | Logic_Error
  | Sql_Error
  | Bad_Cast
  | Std_Exception

type_synonym 'a result = "cpp_error + 'a"

definition rbind :: "'a result \<Rightarrow> ('a \<Rightarrow> 'b result) \<Rightarrow> 'b result" where
  "rbind m f = (case m of Inl e \<Rightarrow> Inl e | Inr x \<Rightarrow> f x)"

lemma rbind_simps [simp, res_simps]:
  "rbind (Inl e) f = Inl e"
  "rbind (Inr x) f = f x"
  by (simp_all add: rbind_def)

lemma rbind_eq_Inr [res_simps]: "rbind m f = Inr y \<longleftrightarrow> (\<exists>x. m = Inr x \<and> f x = Inr y)"
  by (cases m) simp_all

lemma rbind_eq_Inl: "rbind m f = Inl e \<longleftrightarrow> m = Inl e \<or> (\<exists>x. m = Inr x \<and> f x = Inl e)"
  by (cases m) simp_all

text \<open>
  A member function that assigns to its object and may throw on the way: the object keeps what
  was assigned before the exception, so the state is returned in both cases.
\<close>

type_synonym ('s, 'a) prog = "'s \<Rightarrow> 's \<times> 'a result"

definition sret :: "'a \<Rightarrow> ('s, 'a) prog" where
  "sret x s = (s, Inr x)"

definition sbind :: "('s, 'a) prog \<Rightarrow> ('a \<Rightarrow> ('s, 'b) prog) \<Rightarrow> ('s, 'b) prog" where
  "sbind m f s = (case m s of (t, Inl e) \<Rightarrow> (t, Inl e) | (t, Inr x) \<Rightarrow> f x t)"

definition slift :: "'a result \<Rightarrow> ('s, 'a) prog" where
  "slift r s = (s, r)"

definition assign :: "'a result \<Rightarrow> ('a \<Rightarrow> 's \<Rightarrow> 's) \<Rightarrow> ('s, unit) prog" where
  "assign r upd s = (case r of Inl e \<Rightarrow> (s, Inl e) | Inr x \<Rightarrow> (upd x s, Inr ()))"

definition seq :: "('s, unit) prog list \<Rightarrow> ('s, unit) prog" where
  "seq ms = foldr (\<lambda>m k. sbind m (\<lambda>_. k)) ms (sret ())"

text \<open>
  \<open>try { m; return true; } catch (...) { return false; }\<close>: every exception is caught, undefined
  behaviour is not.
\<close>

definition try_bool :: "('s, bool) prog \<Rightarrow> ('s, bool) prog" where
  "try_bool m s = (case m s of
       (t, Inl Undefined_Behaviour) \<Rightarrow> (t, Inl Undefined_Behaviour)
     | (t, Inl e) \<Rightarrow> (t, Inr False)
     | (t, Inr b) \<Rightarrow> (t, Inr b))"

lemma sbind_simps [res_simps]:
  "m s = (t, Inl e) \<Longrightarrow> sbind m f s = (t, Inl e)"
  "m s = (t, Inr x) \<Longrightarrow> sbind m f s = f x t"
  by (simp_all add: sbind_def)

lemma sret_slift_simps [simp, res_simps]:
  "sret x s = (s, Inr x)"
  "slift r s = (s, r)"
  by (simp_all add: sret_def slift_def)

lemma assign_simps [simp, res_simps]:
  "assign (Inl e) upd s = (s, Inl e)"
  "assign (Inr x) upd s = (upd x s, Inr ())"
  by (simp_all add: assign_def)

lemma sbind_assign [simp, res_simps]:
  "sbind (assign (Inr x) upd) f s = f () (upd x s)"
  "sbind (assign (Inl e) upd) f s = (s, Inl e)"
  "sbind (sret y) g s = g y s"
  "sbind (slift (Inr y)) g s = g y s"
  "sbind (slift (Inl e)) g s = (s, Inl e)"
  by (simp_all add: sbind_def)

lemma seq_simps [simp, res_simps]:
  "seq [] = sret ()"
  "seq (m # ms) = sbind m (\<lambda>_. seq ms)"
  by (simp_all add: seq_def)

lemma sbind_Inr: "sbind m f s = (t, Inr y) \<longleftrightarrow> (\<exists>s' x. m s = (s', Inr x) \<and> f x s' = (t, Inr y))"
  by (auto simp: sbind_def split: prod.splits sum.splits)

text \<open>A part of the state a program leaves as it was.\<close>

definition keeps :: "('s \<Rightarrow> 'x) \<Rightarrow> ('s, 'a) prog \<Rightarrow> bool" where
  "keeps f m \<longleftrightarrow> (\<forall>s. f (fst (m s)) = f s)"

lemma keepsD: "keeps f m \<Longrightarrow> m s = (t, r) \<Longrightarrow> f t = f s"
  by (metis fst_conv keeps_def)

lemma keeps_sret [keeping]: "keeps f (sret x)" "keeps f (slift r)"
  by (simp_all add: keeps_def)

lemma keeps_assign [keeping]: "(\<And>x s. f (upd x s) = f s) \<Longrightarrow> keeps f (assign r upd)"
  by (cases r) (simp_all add: keeps_def)

lemma keeps_sbind [keeping]: "keeps f m \<Longrightarrow> (\<And>x. keeps f (k x)) \<Longrightarrow> keeps f (sbind m k)"
  unfolding keeps_def sbind_def by (auto split: prod.split sum.split) (metis fst_conv)+

lemma keeps_seq [keeping]: "(\<And>m. m \<in> set ms \<Longrightarrow> keeps f m) \<Longrightarrow> keeps f (seq ms)"
  by (induction ms) (simp_all add: keeping)

lemma keeps_try_bool [keeping]: "keeps f m \<Longrightarrow> keeps f (try_bool m)"
  unfolding keeps_def try_bool_def
  by (auto split: prod.split sum.split cpp_error.split) (metis fst_conv)+

text \<open>A predicate a program preserves, whether it returns or throws.\<close>

definition preserves :: "('s \<Rightarrow> bool) \<Rightarrow> ('s, 'a) prog \<Rightarrow> bool" where
  "preserves Q m \<longleftrightarrow> (\<forall>s. Q s \<longrightarrow> Q (fst (m s)))"

lemma preservesI: "(\<And>s. Q s \<Longrightarrow> Q (fst (m s))) \<Longrightarrow> preserves Q m"
  by (simp add: preserves_def)

lemma preservesD: "preserves Q m \<Longrightarrow> Q s \<Longrightarrow> m s = (t, r) \<Longrightarrow> Q t"
  by (metis fst_conv preserves_def)

lemma preserves_pure [preserving]: "preserves Q (sret x)" "preserves Q (slift r)"
  by (simp_all add: preserves_def)

lemma preserves_assign [preserving]:
  "(\<And>x s. r = Inr x \<Longrightarrow> Q s \<Longrightarrow> Q (upd x s)) \<Longrightarrow> preserves Q (assign r upd)"
  by (cases r) (simp_all add: preserves_def)

lemma preserves_sbind [preserving]:
  "preserves Q m \<Longrightarrow> (\<And>x. preserves Q (k x)) \<Longrightarrow> preserves Q (sbind m k)"
  unfolding preserves_def sbind_def by (fastforce split: prod.split sum.split)

lemma preserves_if: "(c \<Longrightarrow> preserves Q m) \<Longrightarrow> (\<not> c \<Longrightarrow> preserves Q k) \<Longrightarrow> preserves Q (if c then m else k)"
  by simp

lemma preserves_seq [preserving]: "(\<And>m. m \<in> set ms \<Longrightarrow> preserves Q m) \<Longrightarrow> preserves Q (seq ms)"
  by (induction ms) (simp_all add: preserving)

text \<open>A program chosen by the state it starts in.\<close>

lemma preserves_at: "(\<And>s. preserves Q (m s)) \<Longrightarrow> preserves Q (\<lambda>s. m s s)"
  by (simp add: preserves_def)

lemma preserves_keeps: "keeps f m \<Longrightarrow> (\<And>s t. f s = f t \<Longrightarrow> Q s = Q t) \<Longrightarrow> preserves Q m"
  unfolding preserves_def keeps_def by blast

lemma sbind_InrE:
  assumes "snd (sbind m k s) = Inr x"
  obtains t y where "m s = (t, Inr y)" "snd (k y t) = Inr x"
  using assms by (auto simp: sbind_def split: prod.splits sum.splits)

lemma try_bool_no_throw: "snd (try_bool m s) = Inl e \<Longrightarrow> e = Undefined_Behaviour"
  by (auto simp: try_bool_def split: prod.splits sum.splits cpp_error.splits)

text \<open>\<open>std::optional::value\<close>.\<close>

definition opt_value :: "'a option \<Rightarrow> 'a result" where
  "opt_value x = (case x of None \<Rightarrow> Inl Bad_Optional_Access | Some y \<Rightarrow> Inr y)"

lemma opt_value_simps [simp, res_simps]:
  "opt_value None = Inl Bad_Optional_Access"
  "opt_value (Some y) = Inr y"
  by (simp_all add: opt_value_def)

lemma opt_value_eq_Inr [res_simps]: "opt_value x = Inr y \<longleftrightarrow> x = Some y"
  by (cases x) simp_all

text \<open>Indexing a vector or a deque with a signed index: undefined outside the container.\<close>

definition at_index :: "'a list \<Rightarrow> int \<Rightarrow> 'a result" where
  "at_index xs i = (if 0 \<le> i \<and> i < int (length xs) then Inr (xs ! nat i) else Inl Undefined_Behaviour)"

lemma at_index_Inr [res_simps]:
  "at_index xs i = Inr x \<longleftrightarrow> 0 \<le> i \<and> nat i < length xs \<and> x = xs ! nat i"
  by (auto simp: at_index_def)

lemma at_index_nat [simp]: "n < length xs \<Longrightarrow> at_index xs (int n) = Inr (xs ! n)"
  by (simp add: at_index_def)

subsection \<open>Bounded integers\<close>

abbreviation int_min :: int where "int_min \<equiv> - (2 ^ 31)"
abbreviation int_max :: int where "int_max \<equiv> 2 ^ 31 - 1"
abbreviation llong_min :: int where "llong_min \<equiv> - (2 ^ 63)"
abbreviation llong_max :: int where "llong_max \<equiv> 2 ^ 63 - 1"

text \<open>The value of a signed \<open>int\<close> expression: undefined where it does not fit.\<close>

definition chk_int :: "int \<Rightarrow> int result" where
  "chk_int x = (if int_min \<le> x \<and> x \<le> int_max then Inr x else Inl Undefined_Behaviour)"

lemma chk_int_eq_Inr [res_simps]: "chk_int x = Inr y \<longleftrightarrow> int_min \<le> x \<and> x \<le> int_max \<and> y = x"
  by (auto simp: chk_int_def)

text \<open>\<open>static_cast<int>\<close> of an unsigned 64-bit value keeps the low 32 bits.\<close>

definition u64_to_int :: "64 word \<Rightarrow> int" where
  "u64_to_int w = sint (ucast w :: 32 word)"

lemma u64_to_int_of_int: "u64_to_int (word_of_int k) = signed_take_bit 31 k"
  by (simp add: u64_to_int_def unsigned_of_int signed_of_int signed_take_bit_take_bit)
lemma nat_less_of_nat_pow: "int n < 2 ^ k \<longleftrightarrow> n < 2 ^ k"
  by (metis of_nat_less_iff of_nat_numeral of_nat_power)
lemma u64_to_int_diff:
  assumes "unat a < 2 ^ 31" "unat b < 2 ^ 31"
  shows "u64_to_int (a - b) = int (unat a) - int (unat b)"
proof -
  have "a - b = word_of_int (int (unat a) - int (unat b))" by simp
  moreover have "int (unat a) < 2 ^ 31" "int (unat b) < 2 ^ 31"
    using assms by (simp_all only: nat_less_of_nat_pow)
  then have "- (2 ^ 31) \<le> int (unat a) - int (unat b)" "int (unat a) - int (unat b) < 2 ^ 31"
    by linarith+
  ultimately show ?thesis
    by (simp only: u64_to_int_of_int) (simp only: signed_take_bit_int_eq_self)
qed
lemma u64_to_int_small: "unat w < 2 ^ 31 \<Longrightarrow> u64_to_int w = int (unat w)"
  using u64_to_int_diff [of w 0] by simp

lemma unat_diff_le: "b \<le> a \<Longrightarrow> unat (a - b) = unat a - unat b" for a b :: "'a::len word"
  by (simp add: word_le_nat_alt unat_sub)

text \<open>\<open>int32_t\<close> arithmetic that wraps, as the stored result of a narrowing conversion.\<close>

definition i32 :: "int \<Rightarrow> int" where
  "i32 x = signed_take_bit 31 x"

lemma i32_small: "int_min \<le> x \<Longrightarrow> x \<le> int_max \<Longrightarrow> i32 x = x"
  by (simp add: i32_def signed_take_bit_int_eq_self)

subsection \<open>Decimal text\<close>

definition digit :: "nat \<Rightarrow> char" where
  "digit n = char_of (48 + n)"

definition digit_val :: "char \<Rightarrow> nat" where
  "digit_val c = of_char c - 48"

definition is_digit :: "char \<Rightarrow> bool" where
  "is_digit c \<longleftrightarrow> 48 \<le> (of_char c :: nat) \<and> (of_char c :: nat) \<le> 57"

definition is_space :: "char \<Rightarrow> bool" where
  "is_space c \<longleftrightarrow> (9 \<le> (of_char c :: nat) \<and> (of_char c :: nat) \<le> 13) \<or> (of_char c :: nat) = 32"

fun dec_nat :: "nat \<Rightarrow> string" where
  "dec_nat n = (if n < 10 then [digit n] else dec_nat (n div 10) @ [digit (n mod 10)])"

declare dec_nat.simps [simp del]

text \<open>\<open>std::to_string\<close> of a signed and of an unsigned value.\<close>

definition dec_int :: "int \<Rightarrow> string" where
  "dec_int x = (if x < 0 then CHR ''-'' # dec_nat (nat (- x)) else dec_nat (nat x))"

definition dec_u64 :: "64 word \<Rightarrow> string" where
  "dec_u64 w = dec_nat (unat w)"

text \<open>
  The reading of a number as \<open>strtol\<close> does it in base ten: white space, a sign, then as many
  digits as there are; the rest of the text is not looked at.
\<close>

definition digits_val :: "string \<Rightarrow> nat" where
  "digits_val ds = foldl (\<lambda>a c. 10 * a + digit_val c) 0 ds"

definition strto :: "string \<Rightarrow> int option" where
  "strto s = (let s1 = dropWhile is_space s;
                  (neg, s2) = (case s1 of [] \<Rightarrow> (False, [])
                               | c # r \<Rightarrow> if c = CHR ''-'' then (True, r)
                                         else if c = CHR ''+'' then (False, r) else (False, s1));
                  ds = takeWhile is_digit s2
              in if ds = [] then None
                 else Some (if neg then - int (digits_val ds) else int (digits_val ds)))"

definition stoi :: "string \<Rightarrow> int result" where
  "stoi s = (case strto s of None \<Rightarrow> Inl Invalid_Argument
             | Some x \<Rightarrow> if int_min \<le> x \<and> x \<le> int_max then Inr x else Inl Out_Of_Range)"

definition stoll :: "string \<Rightarrow> int result" where
  "stoll s = (case strto s of None \<Rightarrow> Inl Invalid_Argument
              | Some x \<Rightarrow> if llong_min \<le> x \<and> x \<le> llong_max then Inr x else Inl Out_Of_Range)"

text \<open>\<open>static_cast<uint64_t>(stoll(s))\<close>, the way the program reads heights and times.\<close>

definition stou64 :: "string \<Rightarrow> 64 word result" where
  "stou64 s = rbind (stoll s) (\<lambda>x. Inr (word_of_int x))"

lemma of_char_digit: "n < 10 \<Longrightarrow> (of_char (digit n) :: nat) = 48 + n"
  by (simp add: digit_def)

lemma digit_facts [simp]:
  assumes "n < 10"
  shows "is_digit (digit n)" "digit_val (digit n) = n" "\<not> is_space (digit n)"
    "digit n \<noteq> CHR ''-''" "digit n \<noteq> CHR ''+''"
proof -
  show "is_digit (digit n)" "digit_val (digit n) = n" "\<not> is_space (digit n)"
    using assms by (simp_all add: is_digit_def digit_val_def is_space_def of_char_digit)
  have "(of_char (digit n) :: nat) \<noteq> of_char (CHR ''-'')" "(of_char (digit n) :: nat) \<noteq> of_char (CHR ''+'')"
    using assms by (simp_all add: of_char_digit)
  then show "digit n \<noteq> CHR ''-''" "digit n \<noteq> CHR ''+''" by metis+
qed

lemma dec_nat_digits: "list_all is_digit (dec_nat n)"
  by (induction n rule: dec_nat.induct) (subst dec_nat.simps, auto)

lemma dec_nat_hd: "\<exists>d r. d < 10 \<and> dec_nat n = digit d # r"
proof (induction n rule: dec_nat.induct)
  case (1 n)
  show ?case
  proof (cases "n < 10")
    case True
    then show ?thesis by (subst dec_nat.simps) auto
  next
    case False
    with 1 obtain d r where "d < 10" "dec_nat (n div 10) = digit d # r" by auto
    then have "dec_nat n = digit d # r @ [digit (n mod 10)]"
      using False by (subst dec_nat.simps) simp
    then show ?thesis using \<open>d < 10\<close> by blast
  qed
qed

lemma digits_val_snoc: "digits_val (xs @ [c]) = 10 * digits_val xs + digit_val c"
  by (simp add: digits_val_def)

lemma digits_val_dec_nat [simp]: "digits_val (dec_nat n) = n"
proof (induction n rule: dec_nat.induct)
  case (1 n)
  show ?case
    by (cases "n < 10"; subst dec_nat.simps)
      (auto simp: 1 digits_val_snoc digits_val_def [of "[_]"])
qed

lemma dec_nat_not_Nil [simp]: "dec_nat n \<noteq> []"
  using dec_nat_hd [of n] by auto

lemma takeWhile_dec_nat [simp]: "takeWhile is_digit (dec_nat n) = dec_nat n"
  using dec_nat_digits [of n] by (simp add: list_all_iff takeWhile_eq_all_conv)

lemma strto_dec_nat: "strto (dec_nat n) = Some (int n)"
proof -
  obtain d r where d: "d < 10" "dec_nat n = digit d # r" using dec_nat_hd by blast
  then have "takeWhile is_digit r = r" "digits_val (digit d # r) = n"
    using takeWhile_dec_nat [of n] digits_val_dec_nat [of n] by simp_all
  then show ?thesis
    using d by (simp add: strto_def Let_def takeWhile_eq_all_conv [THEN iffD2])
qed

lemma strto_dec_int [simp]: "strto (dec_int x) = Some x"
proof (cases "x < 0")
  case True
  have "\<not> is_space (CHR ''-'')" by (simp add: is_space_def)
  then show ?thesis using True by (simp add: dec_int_def strto_def)
next
  case False
  then show ?thesis by (simp add: dec_int_def strto_dec_nat)
qed

lemma stoi_dec_int: "int_min \<le> x \<Longrightarrow> x \<le> int_max \<Longrightarrow> stoi (dec_int x) = Inr x"
  by (simp add: stoi_def)

lemma stou64_dec_u64:
  assumes "unat w < 2 ^ 63"
  shows "stou64 (dec_u64 w) = Inr w"
proof -
  have "int (unat w) \<le> llong_max"
    using assms nat_less_of_nat_pow [of "unat w" 63] by linarith
  moreover have "llong_min \<le> int (unat w)" by (rule order_trans [of _ 0]) simp_all
  ultimately show ?thesis
    by (simp add: stou64_def stoll_def dec_u64_def strto_dec_nat)
qed

end
