(* ===== verification/Containers.thy ===== *)
theory Containers
  imports Prelude
begin

text \<open>
  The containers and the JSON values the components share. A \<open>std::map\<close> is an association list
  sorted by its keys (iteration order is then list order), with \<open>operator[]=\<close>, \<open>try_emplace\<close> and
  \<open>erase\<close>. A JSON value is the tree \<open>nlohmann::json\<close> holds, without floating point numbers, which
  the program never reads. Three interfaces that several components implement are stated as
  locales: a finite map, a pool in which the first value stored under a key wins, and a state
  machine with an invariant.
\<close>

subsection \<open>Ordered maps\<close>

type_synonym ('k, 'v) omap = "('k \<times> 'v) list"

fun om_put :: "'k::linorder \<Rightarrow> 'v \<Rightarrow> ('k, 'v) omap \<Rightarrow> ('k, 'v) omap" where
  "om_put k v [] = [(k, v)]"
| "om_put k v ((k', v') # m) =
     (if k < k' then (k, v) # (k', v') # m
      else if k = k' then (k, v) # m
      else (k', v') # om_put k v m)"

definition om_try :: "'k::linorder \<Rightarrow> 'v \<Rightarrow> ('k, 'v) omap \<Rightarrow> ('k, 'v) omap" where
  "om_try k v m = (case map_of m k of None \<Rightarrow> om_put k v m | Some _ \<Rightarrow> m)"

definition om_erase :: "'k \<Rightarrow> ('k, 'v) omap \<Rightarrow> ('k, 'v) omap" where
  "om_erase k m = filter (\<lambda>(k', _). k' \<noteq> k) m"

definition om_ok :: "('k::linorder, 'v) omap \<Rightarrow> bool" where
  "om_ok m \<longleftrightarrow> sorted_wrt (<) (map fst m)"

lemma map_of_om_put [simp]: "map_of (om_put k v m) = (map_of m)(k \<mapsto> v)"
  by (induction k v m rule: om_put.induct) (auto simp: fun_eq_iff)

lemma map_of_om_try [simp]:
  "map_of (om_try k v m) = (if map_of m k = None then (map_of m)(k \<mapsto> v) else map_of m)"
  by (auto simp: om_try_def split: option.split)

lemma map_of_om_erase [simp]: "map_of (om_erase k m) = (map_of m)(k := None)"
  by (induction m) (auto simp: om_erase_def fun_eq_iff)

lemma fst_om_put: "fst ` set (om_put k v m) = insert k (fst ` set m)"
  by (induction k v m rule: om_put.induct) auto

lemma om_ok_put [simp, intro]: "om_ok m \<Longrightarrow> om_ok (om_put k v m)"
proof (induction k v m rule: om_put.induct)
  case (2 k v k' v' m)
  then show ?case
    using fst_om_put [of k v m] by (fastforce simp: om_ok_def)
qed (simp add: om_ok_def)

lemma om_ok_try [simp, intro]: "om_ok m \<Longrightarrow> om_ok (om_try k v m)"
  by (auto simp: om_try_def split: option.split)

lemma om_ok_erase [simp, intro]: "om_ok m \<Longrightarrow> om_ok (om_erase k m)"
  by (induction m) (auto simp: om_ok_def om_erase_def)

lemma om_ok_Nil [simp]: "om_ok []"
  by (simp add: om_ok_def)

lemma om_ok_distinct: "om_ok m \<Longrightarrow> distinct (map fst m)"
  unfolding om_ok_def by (rule strict_sorted_iff [THEN iffD1, THEN conjunct2])

lemma length_om_put:
  "om_ok m \<Longrightarrow> length (om_put k v m) = length m + (if map_of m k = None then 1 else 0)"
proof (induction k v m rule: om_put.induct)
  case (2 k v k' v' m)
  have "map_of m k = None" if "k < k'"
    using 2(2) that by (auto simp: om_ok_def map_of_eq_None_iff dest: less_trans)
  with 2 show ?case by (auto simp: om_ok_def)
qed simp

subsection \<open>Vectors\<close>

text \<open>\<open>resize\<close>, and the position at which a loop with a \<open>break\<close> stops.\<close>

definition resize :: "nat \<Rightarrow> 'a \<Rightarrow> 'a list \<Rightarrow> 'a list" where
  "resize n d xs = take n xs @ replicate (n - length xs) d"

fun first_index :: "('a \<Rightarrow> bool) \<Rightarrow> 'a list \<Rightarrow> nat option" where
  "first_index P [] = None"
| "first_index P (x # xs) = (if P x then Some 0 else map_option Suc (first_index P xs))"

lemma length_resize [simp]: "length (resize n d xs) = n"
  by (simp add: resize_def)

lemma nth_resize: "i < n \<Longrightarrow> resize n d xs ! i = (if i < length xs then xs ! i else d)"
  by (simp add: resize_def nth_append)

lemma map_update_same: "f u = f (xs ! i) \<Longrightarrow> map f (xs[i := u]) = map f xs"
  by (cases "i < length xs") (auto intro!: nth_equalityI simp: nth_list_update list_update_beyond)

lemma first_index_None: "first_index P xs = None \<longleftrightarrow> (\<forall>x\<in>set xs. \<not> P x)"
  by (induction xs) auto

lemma first_index_Some:
  "first_index P xs = Some i \<Longrightarrow> i < length xs \<and> P (xs ! i) \<and> (\<forall>j<i. \<not> P (xs ! j))"
proof (induction xs arbitrary: i)
  case (Cons x xs)
  then show ?case by (auto split: if_splits simp: less_Suc_eq_0_disj)
qed simp

lemma first_index_append:
  "first_index P (xs @ ys) = (case first_index P xs of
       Some i \<Rightarrow> Some i | None \<Rightarrow> map_option ((+) (length xs)) (first_index P ys))"
  by (induction xs) (auto split: option.split simp: map_option_case)

lemma first_index_cong:
  "map f xs = map f ys \<Longrightarrow> first_index (\<lambda>x. P (f x)) xs = first_index (\<lambda>x. P (f x)) ys"
proof (induction xs arbitrary: ys)
  case (Cons x xs)
  then show ?case by (cases ys) auto
qed simp

subsection \<open>Interfaces\<close>

text \<open>A store of values by key in which a later value replaces an earlier one.\<close>

locale finite_map =
  fixes put :: "'k \<Rightarrow> 'v \<Rightarrow> 's \<Rightarrow> 's"
    and get :: "'s \<Rightarrow> 'k \<Rightarrow> 'v option"
  assumes get_put: "get (put k v s) j = (if j = k then Some v else get s j)"
begin

lemma get_put_same [simp]: "get (put k v s) k = Some v"
  by (simp add: get_put)

lemma get_fold_other:
  "j \<notin> fst ` set kvs \<Longrightarrow> get (fold (\<lambda>(k, v). put k v) kvs s) j = get s j"
  by (induction kvs arbitrary: s) (auto simp: get_put)

lemma get_fold:
  "distinct (map fst kvs) \<Longrightarrow> (k, v) \<in> set kvs \<Longrightarrow> get (fold (\<lambda>(k, v). put k v) kvs s) k = Some v"
proof (induction kvs arbitrary: s)
  case (Cons a kvs)
  obtain k' v' where a: "a = (k', v')" by (cases a)
  show ?case
  proof (cases "(k, v) = (k', v')")
    case True
    then show ?thesis using Cons.prems a by (simp add: get_fold_other)
  next
    case False
    then show ?thesis using Cons a by (auto simp: rev_image_eqI)
  qed
qed simp

end

interpretation omap: finite_map "om_put :: string \<Rightarrow> 'v \<Rightarrow> (string, 'v) omap \<Rightarrow> (string, 'v) omap" map_of
  by unfold_locales auto

text \<open>A pool that keeps the first value offered under a key (\<open>std::map::try_emplace\<close>).\<close>

locale first_wins =
  fixes offer :: "'k \<Rightarrow> 'v \<Rightarrow> 's \<Rightarrow> 's"
    and held :: "'s \<Rightarrow> 'k \<Rightarrow> 'v option"
  assumes held_offer: "held (offer k v s) j = (if j = k \<and> held s k = None then Some v else held s j)"
begin

lemma held_stays: "held s k = Some v \<Longrightarrow> held (fold (\<lambda>(k, v). offer k v) kvs s) k = Some v"
proof (induction kvs arbitrary: s)
  case (Cons kv kvs)
  obtain j w where "kv = (j, w)" by (cases kv)
  moreover have "held (offer j w s) k = Some v" using Cons.prems by (auto simp: held_offer)
  ultimately show ?case using Cons.IH by simp
qed simp

lemma held_fold:
  "held (fold (\<lambda>(k, v). offer k v) kvs s) k
     = (case held s k of Some v \<Rightarrow> Some v | None \<Rightarrow> map_of kvs k)"
  by (induction kvs arbitrary: s) (auto simp: held_offer split: option.split)

end

interpretation omap_try: first_wins "om_try :: string \<Rightarrow> 'v \<Rightarrow> (string, 'v) omap \<Rightarrow> (string, 'v) omap" map_of
  by unfold_locales auto

text \<open>A component driven by steps, with an invariant every step keeps.\<close>

locale state_machine =
  fixes start :: "'s \<Rightarrow> bool"
    and step :: "'s \<Rightarrow> 's \<Rightarrow> bool"
    and inv :: "'s \<Rightarrow> bool"
  assumes start_inv: "start s \<Longrightarrow> inv s"
    and step_inv: "step s t \<Longrightarrow> inv s \<Longrightarrow> inv t"
begin

lemma steps_inv: "step\<^sup>*\<^sup>* s t \<Longrightarrow> inv s \<Longrightarrow> inv t"
  by (induction rule: rtranclp_induct) (auto intro: step_inv)

lemma reachable_inv: "start s \<Longrightarrow> step\<^sup>*\<^sup>* s t \<Longrightarrow> inv t"
  by (blast intro: steps_inv start_inv)

end

subsection \<open>JSON values\<close>

datatype json =
    JNull
  | JBool bool
  | JInt int
  | JStr string
  | JArr "json list"
  | JObj "(string \<times> json) list"

text \<open>An object filled by assignments \<open>json[key] = value\<close>.\<close>

definition json_obj :: "(string \<times> json) list \<Rightarrow> json" where
  "json_obj kvs = JObj (fold (\<lambda>(k, v). om_put k v) kvs [])"

text \<open>\<open>json.contains(key)\<close> and \<open>json[key]\<close> on a constant value.\<close>

definition json_contains :: "json \<Rightarrow> string \<Rightarrow> bool" where
  "json_contains j k = (case j of JObj m \<Rightarrow> map_of m k \<noteq> None | _ \<Rightarrow> False)"

definition json_idx :: "json \<Rightarrow> string \<Rightarrow> json result" where
  "json_idx j k = (case j of
       JObj m \<Rightarrow> (case map_of m k of None \<Rightarrow> Inl Undefined_Behaviour | Some v \<Rightarrow> Inr v)
     | _ \<Rightarrow> Inl Json_Type_Error)"

text \<open>\<open>j[key]\<close> on a value that is not constant: a missing member is created as null.\<close>

definition json_at_mut :: "json \<Rightarrow> string \<Rightarrow> json result" where
  "json_at_mut j k = (case j of
       JObj m \<Rightarrow> Inr (case map_of m k of Some v \<Rightarrow> v | None \<Rightarrow> JNull)
     | JNull \<Rightarrow> Inr JNull
     | _ \<Rightarrow> Inl Json_Type_Error)"

text \<open>Conversion of a JSON value to a string.\<close>

definition json_to_str :: "json \<Rightarrow> string result" where
  "json_to_str j = (case j of JStr s \<Rightarrow> Inr s | _ \<Rightarrow> Inl Json_Type_Error)"

text \<open>Conversion to a truth value.\<close>

definition json_to_bool :: "json \<Rightarrow> bool result" where
  "json_to_bool j = (case j of JBool b \<Rightarrow> Inr b | _ \<Rightarrow> Inl Json_Type_Error)"

text \<open>\<open>json::get<string>\<close> of \<open>lib/json/include/json.hpp\<close>.\<close>

definition json_get :: "json \<Rightarrow> string \<Rightarrow> string option result" where
  "json_get j k = (if json_contains j k
                   then rbind (json_idx j k) (\<lambda>v. rbind (json_to_str v) (\<lambda>s. Inr (Some s)))
                   else Inr None)"

text \<open>\<open>json::get<string>(j, k).value()\<close>.\<close>

definition json_str :: "json \<Rightarrow> string \<Rightarrow> string result" where
  "json_str j k = rbind (json_get j k) opt_value"

text \<open>\<open>json::get<nlohmann::json>\<close>.\<close>

definition json_member_opt :: "json \<Rightarrow> string \<Rightarrow> json option result" where
  "json_member_opt j k = (if json_contains j k then rbind (json_idx j k) (\<lambda>v. Inr (Some v)) else Inr None)"

text \<open>
  Access through a JSON pointer, \<open>json["/a/b"_json_pointer]\<close>: a missing member of an object is
  undefined, a token that cannot be resolved throws.
\<close>

fun json_ptr :: "json \<Rightarrow> string list \<Rightarrow> json result" where
  "json_ptr j [] = Inr j"
| "json_ptr (JObj m) (k # ks) =
     (case map_of m k of None \<Rightarrow> Inl Undefined_Behaviour | Some v \<Rightarrow> json_ptr v ks)"
| "json_ptr j (k # ks) = Inl Json_Pointer_Error"

text \<open>\<open>empty\<close>, \<open>size\<close> and the values a range-based loop visits.\<close>

definition json_items :: "json \<Rightarrow> json list" where
  "json_items j = (case j of JNull \<Rightarrow> [] | JArr xs \<Rightarrow> xs | JObj m \<Rightarrow> map snd m | _ \<Rightarrow> [j])"

text \<open>\<open>items()\<close>: the members of an object, the elements of an array under their index.\<close>

definition json_kvs :: "json \<Rightarrow> (string \<times> json) list" where
  "json_kvs j = (case j of JObj m \<Rightarrow> m | JArr xs \<Rightarrow> map (\<lambda>(i, x). (dec_nat i, x)) (enumerate 0 xs)
     | JNull \<Rightarrow> [] | _ \<Rightarrow> [([], j)])"

definition json_empty :: "json \<Rightarrow> bool" where
  "json_empty j \<longleftrightarrow> json_items j = []"

definition json_is_array :: "json \<Rightarrow> bool" where
  "json_is_array j = (case j of JArr _ \<Rightarrow> True | _ \<Rightarrow> False)"

definition json_nth :: "json \<Rightarrow> nat \<Rightarrow> json result" where
  "json_nth j i = (case j of
       JArr xs \<Rightarrow> if i < length xs then Inr (xs ! i) else Inl Undefined_Behaviour
     | _ \<Rightarrow> Inl Json_Type_Error)"

lemma json_str_JObj [simp]:
  "json_str (JObj m) k = (case map_of m k of None \<Rightarrow> Inl Bad_Optional_Access | Some v \<Rightarrow> json_to_str v)"
  by (auto simp: json_str_def json_get_def json_contains_def json_idx_def json_to_str_def
      split: option.split json.split)

lemma json_to_str_JStr [simp]: "json_to_str (JStr s) = Inr s"
  by (simp add: json_to_str_def)

end
