(* ===== verification/Storage_Types.thy ===== *)
theory Storage_Types
  imports Containers
begin

text \<open>
  The data of the chain plugin: the structures of \<open>config/storage_type.hpp\<close> and the classes of
  \<open>structure/\<close> (\<open>Block\<close>, \<open>Transaction\<close>, \<open>Endorser\<close>, \<open>Certificate\<close>, \<open>Signature\<close>) with the
  functions that read blocks and transactions from JSON. Bytes and text are both \<open>string\<close>
  (a \<open>char\<close> is a byte). The utility library, which is not part of the repository, and the
  serialisers of the JSON library are the parameter \<open>utils\<close>. A member the C++ constructor leaves
  uninitialised is zero here.
\<close>

subsection \<open>Utility library\<close>

record utils =
  u_sha256 :: "string \<Rightarrow> string"
  u_bytes_dec :: "int \<Rightarrow> string"
  u_to58 :: "string \<Rightarrow> string"
  u_from58 :: "string \<Rightarrow> string"
  u_to64 :: "string \<Rightarrow> string"
  u_from64 :: "string \<Rightarrow> string"
  u_to_cbor :: "json \<Rightarrow> string"
  u_from_cbor :: "string \<Rightarrow> json option"
  u_dump :: "json \<Rightarrow> string"

text \<open>A concrete instance, for evaluating the model on examples.\<close>

definition demo_utils :: utils where
  "demo_utils = \<lparr>u_sha256 = (\<lambda>s. take 32 (s @ replicate 32 (CHR 0x00))), u_bytes_dec = dec_int,
     u_to58 = (\<lambda>s. s), u_from58 = (\<lambda>s. s), u_to64 = (\<lambda>s. s), u_from64 = (\<lambda>s. s),
     u_to_cbor = (\<lambda>_. []), u_from_cbor = (\<lambda>_. None), u_dump = (\<lambda>_. [])\<rparr>"

subsection \<open>Structures of the storage layer\<close>

type_synonym timestamp_t = "64 word"
type_synonym block_height_type = "64 word"

datatype QueryType = Q_INSERT | Q_UPDATE | Q_DELETE

fun query_type_int :: "QueryType \<Rightarrow> int" where
  "query_type_int Q_INSERT = 0"
| "query_type_int Q_UPDATE = 1"
| "query_type_int Q_DELETE = 2"

record LocalChainState =
  lc_chain_id :: string
  lc_world_id :: string
  lc_created_time :: string
  lc_allow_custom_contract :: bool
  lc_allow_oracle :: bool
  lc_allow_tag :: bool
  lc_allow_heavy_contract :: bool
  lc_creator_id :: string
  lc_creator_pk :: string
  lc_creator_sig :: string
  lc_tracker_addresses :: "string list"

record WorldState =
  ws_world_id :: string
  ws_created_time :: string
  ws_keyc_name :: string
  ws_keyc_initial_amount :: string
  ws_allow_mining :: bool
  ws_mining_rule :: string
  ws_allow_anonymous_user :: bool
  ws_join_fee :: string
  ws_authority_id :: string
  ws_authority_pk :: string
  ws_creator_id :: string
  ws_creator_pk :: string
  ws_creator_sig :: string
  ws_eden_sig :: string

record ProofType =
  pf_block_id :: string
  pf_siblings :: "(bool \<times> string) list"

text \<open>
  The indices of a push result are only assigned when the block is stored; before that they hold
  no value (\<open>None\<close>).
\<close>

record BlockPushResult =
  pr_block_id :: string
  pr_block_height :: block_height_type
  pr_deq_idx :: "int option"
  pr_vec_idx :: "int option"
  pr_linked :: bool
  pr_duplicated :: bool

record BlockInfo =
  bi_tx_agg_cbor :: string
  bi_block_id :: string
  bi_tx_pos :: int
  bi_tx_output :: string

definition mk_block_info :: "string \<Rightarrow> string \<Rightarrow> BlockInfo" where
  "mk_block_info agg bid = \<lparr>bi_tx_agg_cbor = agg, bi_block_id = bid, bi_tx_pos = -1, bi_tx_output = []\<rparr>"

record BlockPoolInfo =
  bp_block_id :: string
  bp_block_height :: block_height_type
  bp_deq_idx :: int
  bp_vec_idx :: int

definition BlockPoolInfo_default :: BlockPoolInfo where
  "BlockPoolInfo_default = \<lparr>bp_block_id = [], bp_block_height = 0, bp_deq_idx = -1, bp_vec_idx = -1\<rparr>"

record ResultQueryInfo =
  rq_block_id :: string
  rq_block_height :: block_height_type
  rq_tx_id :: string
  rq_status :: bool
  rq_info :: string
  rq_author :: string
  rq_user :: string
  rq_receiver :: string
  rq_self :: string
  rq_friends :: "string list"
  rq_fee_author :: int
  rq_fee_user :: int

record SelfInfo =
  si_enc_sk :: string
  si_cert :: string
  si_id :: string

record UserLedger =
  ul_var_name :: string
  ul_var_value :: string
  ul_var_type :: int
  ul_uid :: string
  ul_up_time :: timestamp_t
  ul_up_block :: block_height_type
  ul_tag :: string
  ul_pid :: string
  ul_query_type :: QueryType
  ul_is_empty :: bool

record ContractLedger =
  cl_var_name :: string
  cl_var_value :: string
  cl_var_type :: int
  cl_cid :: string
  cl_up_time :: timestamp_t
  cl_up_block :: block_height_type
  cl_var_info :: string
  cl_pid :: string
  cl_query_type :: QueryType
  cl_is_empty :: bool

definition UserLedger_default :: UserLedger where
  "UserLedger_default = \<lparr>ul_var_name = [], ul_var_value = [], ul_var_type = 0, ul_uid = [], ul_up_time = 0,
     ul_up_block = 0, ul_tag = [], ul_pid = [], ul_query_type = Q_INSERT, ul_is_empty = True\<rparr>"

definition ContractLedger_default :: ContractLedger where
  "ContractLedger_default = \<lparr>cl_var_name = [], cl_var_value = [], cl_var_type = 0, cl_cid = [], cl_up_time = 0,
     cl_up_block = 0, cl_var_info = [], cl_pid = [], cl_query_type = Q_INSERT, cl_is_empty = True\<rparr>"

text \<open>The bytes a ledger entry is named by, and the constructors that hash them.\<close>

definition user_pid :: "utils \<Rightarrow> string \<Rightarrow> int \<Rightarrow> string \<Rightarrow> string \<Rightarrow> string" where
  "user_pid u var_name var_type uid tag =
     u_sha256 u (var_name @ u_bytes_dec u var_type @ u_from58 u uid @ tag)"

definition contract_pid :: "utils \<Rightarrow> string \<Rightarrow> int \<Rightarrow> string \<Rightarrow> string \<Rightarrow> string" where
  "contract_pid u var_name var_type cid var_info =
     u_sha256 u (var_name @ u_bytes_dec u var_type @ cid @ var_info)"

definition mk_UserLedger :: "utils \<Rightarrow> string \<Rightarrow> int \<Rightarrow> string \<Rightarrow> string \<Rightarrow> UserLedger" where
  "mk_UserLedger u var_name var_type uid tag = UserLedger_default
     \<lparr>ul_var_name := var_name, ul_var_type := var_type, ul_uid := uid, ul_tag := tag,
      ul_pid := user_pid u var_name var_type uid tag\<rparr>"

definition mk_ContractLedger :: "utils \<Rightarrow> string \<Rightarrow> int \<Rightarrow> string \<Rightarrow> string \<Rightarrow> ContractLedger" where
  "mk_ContractLedger u var_name var_type cid var_info = ContractLedger_default
     \<lparr>cl_var_name := var_name, cl_var_type := var_type, cl_cid := cid, cl_var_info := var_info,
      cl_pid := contract_pid u var_name var_type cid var_info\<rparr>"

record LedgerSearchResult =
  sr_not_found :: bool
  sr_user_ledger :: UserLedger
  sr_contract_ledger :: ContractLedger

definition LedgerSearchResult_default :: LedgerSearchResult where
  "LedgerSearchResult_default = \<lparr>sr_not_found = False, sr_user_ledger = UserLedger_default,
     sr_contract_ledger = ContractLedger_default\<rparr>"

record UserAttribute =
  ua_uid :: string
  ua_register_day :: timestamp_t
  ua_register_code :: string
  ua_gender :: int
  ua_isc_type :: string
  ua_isc_code :: string
  ua_location :: string
  ua_age_limit :: int
  ua_sigma :: string

record UserCert =
  uc_uid :: string
  uc_sn :: string
  uc_nvbefore :: timestamp_t
  uc_nvafter :: timestamp_t
  uc_x509 :: string

record Contract =
  ct_cid :: string
  ct_after :: timestamp_t
  ct_before :: timestamp_t
  ct_author :: string
  ct_friends :: string
  ct_contract :: string
  ct_desc :: string
  ct_sigma :: string
  ct_query_type :: QueryType

subsection \<open>Endorsers, certificates, signatures\<close>

record Endorser =
  endorser_id :: string
  endorser_pk :: string
  endorser_sig :: string
  endorser_agga :: string
  endorser_aggz :: string

definition Endorser_sig :: "string \<Rightarrow> string \<Rightarrow> string \<Rightarrow> Endorser" where
  "Endorser_sig i pk sg = \<lparr>endorser_id = i, endorser_pk = pk, endorser_sig = sg, endorser_agga = [], endorser_aggz = []\<rparr>"

definition Endorser_agg :: "string \<Rightarrow> string \<Rightarrow> string \<Rightarrow> string \<Rightarrow> Endorser" where
  "Endorser_agg i pk a z = \<lparr>endorser_id = i, endorser_pk = pk, endorser_sig = [], endorser_agga = a, endorser_aggz = z\<rparr>"

record Certificate =
  cert_id :: string
  cert_content :: string

record Signature =
  signer_id :: string
  signer_sig :: string

subsection \<open>Transactions\<close>

record Transaction =
  m_txid :: string
  m_world :: string
  m_chain :: string
  m_tx_time :: timestamp_t
  m_contract_id :: string
  m_receiver_id :: string
  m_fee :: int
  m_tx_input_cbor :: string
  m_tx_user_id :: string
  m_tx_user_pk :: string
  m_tx_user_sig :: string
  m_tx_user_agga :: string
  m_tx_user_aggz :: string
  m_tx_endorsers :: "Endorser list"
  m_tx_agg_cbor :: string
  m_tx_block_id :: string

definition Transaction_default :: Transaction where
  "Transaction_default = \<lparr>m_txid = [], m_world = [], m_chain = [], m_tx_time = 0, m_contract_id = [],
     m_receiver_id = [], m_fee = 0, m_tx_input_cbor = [], m_tx_user_id = [], m_tx_user_pk = [],
     m_tx_user_sig = [], m_tx_user_agga = [], m_tx_user_aggz = [], m_tx_endorsers = [],
     m_tx_agg_cbor = [], m_tx_block_id = []\<rparr>"

text \<open>\<open>Transaction::setEndorsers\<close>: an endorser with a plain signature, or with the two halves of an aggregate.\<close>

definition parse_endorser :: "json \<Rightarrow> Endorser result" where
  "parse_endorser e = rbind (json_get e ''sig'') (\<lambda>sg.
     case sg of
       Some _ \<Rightarrow> rbind (json_str e ''id'') (\<lambda>i. rbind (json_str e ''pk'') (\<lambda>pk.
                  rbind (json_str e ''sig'') (\<lambda>s. Inr (Endorser_sig i pk s))))
     | None \<Rightarrow> rbind (json_str e ''id'') (\<lambda>i. rbind (json_str e ''pk'') (\<lambda>pk.
                 rbind (json_str e ''a'') (\<lambda>a. rbind (json_str e ''z'') (\<lambda>z.
                   Inr (Endorser_agg i pk a z))))))"

definition setEndorsers :: "json \<Rightarrow> (Transaction, bool) prog" where
  "setEndorsers j = (if \<not> json_is_array j then sret False
     else sbind (seq (assign (Inr ()) (\<lambda>_ t. t\<lparr>m_tx_endorsers := []\<rparr>)
            # map (\<lambda>e. assign (parse_endorser e) (\<lambda>x t. t\<lparr>m_tx_endorsers := m_tx_endorsers t @ [x]\<rparr>))
                (json_items j)))
       (\<lambda>_. sret True))"

text \<open>\<open>Transaction::extractPubKeyIfUnauthorized\<close>.\<close>

definition extractPubKeyIfUnauthorized :: "json \<Rightarrow> string result" where
  "extractPubKeyIfUnauthorized msg = rbind (json_idx msg ''user'') (\<lambda>us. rbind (json_idx us ''pk'') (\<lambda>pk.
     if pk = JNull then Inr [] else json_to_str pk))"

abbreviation ptr_str :: "json \<Rightarrow> string list \<Rightarrow> string result" where
  "ptr_str j p \<equiv> rbind (json_ptr j p) json_to_str"

text \<open>\<open>json::get<string>(j[k1], k2).value()\<close>.\<close>

abbreviation sub_str :: "json \<Rightarrow> string \<Rightarrow> string \<Rightarrow> string result" where
  "sub_str j k1 k2 \<equiv> rbind (json_idx j k1) (\<lambda>v. json_str v k2)"

definition inputMsgTx :: "utils \<Rightarrow> json \<Rightarrow> (Transaction, bool) prog" where
  "inputMsgTx u j = try_bool (sbind (seq
     [assign (ptr_str j [''txid'']) (\<lambda>x t. t\<lparr>m_txid := x\<rparr>),
      assign (ptr_str j [''world'']) (\<lambda>x t. t\<lparr>m_world := x\<rparr>),
      assign (ptr_str j [''chain'']) (\<lambda>x t. t\<lparr>m_chain := x\<rparr>),
      assign (rbind (json_str j ''time'') stou64) (\<lambda>x t. t\<lparr>m_tx_time := x\<rparr>),
      assign (ptr_str j [''body'', ''cid'']) (\<lambda>x t. t\<lparr>m_contract_id := x\<rparr>),
      assign (ptr_str j [''body'', ''receiver'']) (\<lambda>x t. t\<lparr>m_receiver_id := x\<rparr>),
      assign (rbind (sub_str j ''body'' ''fee'') stoi) (\<lambda>x t. t\<lparr>m_fee := x\<rparr>),
      assign (rbind (json_idx j ''body'') (\<lambda>b. json_idx b ''input''))
        (\<lambda>x t. t\<lparr>m_tx_input_cbor := u_to_cbor u x\<rparr>),
      assign (ptr_str j [''user'', ''id'']) (\<lambda>x t. t\<lparr>m_tx_user_id := x\<rparr>),
      assign (extractPubKeyIfUnauthorized j) (\<lambda>x t. t\<lparr>m_tx_user_pk := x\<rparr>),
      assign (ptr_str j [''user'', ''sig'']) (\<lambda>x t. t\<lparr>m_tx_user_sig := x\<rparr>)])
     (\<lambda>_. sbind (slift (json_idx j ''endorser'')) setEndorsers))"

definition inputMsgTxAgg_json :: "utils \<Rightarrow> json \<Rightarrow> (Transaction, bool) prog" where
  "inputMsgTxAgg_json u j = try_bool (sbind (seq
     [assign (json_str j ''txid'') (\<lambda>x t. t\<lparr>m_txid := x\<rparr>),
      assign (rbind (json_str j ''time'') stou64) (\<lambda>x t. t\<lparr>m_tx_time := x\<rparr>),
      assign (sub_str j ''body'' ''cid'') (\<lambda>x t. t\<lparr>m_contract_id := x\<rparr>),
      assign (sub_str j ''body'' ''receiver'') (\<lambda>x t. t\<lparr>m_receiver_id := x\<rparr>),
      assign (rbind (sub_str j ''body'' ''fee'') stoi) (\<lambda>x t. t\<lparr>m_fee := x\<rparr>),
      assign (rbind (json_idx j ''body'') (\<lambda>b. json_idx b ''input''))
        (\<lambda>x t. t\<lparr>m_tx_input_cbor := u_to_cbor u x\<rparr>),
      assign (sub_str j ''user'' ''id'') (\<lambda>x t. t\<lparr>m_tx_user_id := x\<rparr>),
      assign (sub_str j ''user'' ''pk'') (\<lambda>x t. t\<lparr>m_tx_user_pk := x\<rparr>),
      assign (sub_str j ''user'' ''a'') (\<lambda>x t. t\<lparr>m_tx_user_agga := x\<rparr>),
      assign (sub_str j ''user'' ''z'') (\<lambda>x t. t\<lparr>m_tx_user_aggz := x\<rparr>)])
     (\<lambda>_. sbind (slift (json_idx j ''endorser'')) setEndorsers))"

text \<open>The result of reading the JSON value is not looked at; the call always reports success.\<close>

definition inputMsgTxAgg :: "utils \<Rightarrow> json \<Rightarrow> BlockInfo \<Rightarrow> (Transaction, bool) prog" where
  "inputMsgTxAgg u j info = sbind (inputMsgTxAgg_json u j) (\<lambda>_.
     sbind (assign (Inr info) (\<lambda>i t. t\<lparr>m_tx_agg_cbor := bi_tx_agg_cbor i, m_tx_block_id := bi_block_id i\<rparr>))
       (\<lambda>_. sret True))"

subsection \<open>Blocks\<close>

record Block =
  m_block_pub_time :: timestamp_t
  m_block_id :: string
  m_block_time :: timestamp_t
  m_world_id :: string
  m_chain_id :: string
  m_block_height :: block_height_type
  m_block_prev_id :: string
  m_block_prev_sig :: string
  m_block_hash :: string
  m_txaggs :: "string list"
  m_transactions :: "Transaction list"
  m_tx_root :: string
  m_us_state_root :: string
  m_cs_state_root :: string
  m_sg_root :: string
  m_signers :: "Signature list"
  m_user_certs :: "Certificate list"
  m_block_prod_info :: Signature
  m_block_certificate :: string

definition Block_default :: Block where
  "Block_default = \<lparr>m_block_pub_time = 0, m_block_id = [], m_block_time = 0, m_world_id = [], m_chain_id = [],
     m_block_height = 0, m_block_prev_id = [], m_block_prev_sig = [], m_block_hash = [], m_txaggs = [],
     m_transactions = [], m_tx_root = [], m_us_state_root = [], m_cs_state_root = [], m_sg_root = [],
     m_signers = [], m_user_certs = [], m_block_prod_info = \<lparr>signer_id = [], signer_sig = []\<rparr>,
     m_block_certificate = []\<rparr>"

text \<open>\<open>Block::operator==\<close>: two blocks are the same when height and hash are.\<close>

definition block_eq :: "Block \<Rightarrow> Block \<Rightarrow> bool" where
  "block_eq a b \<longleftrightarrow> m_block_height a = m_block_height b \<and> m_block_hash a = m_block_hash b"

definition getNumSigners :: "Block \<Rightarrow> int" where
  "getNumSigners b = int (length (m_signers b))"

definition setTxaggs :: "json \<Rightarrow> (Block, bool) prog" where
  "setTxaggs j = (if \<not> json_is_array j then sret False
     else sbind (seq (assign (Inr ()) (\<lambda>_ b. b\<lparr>m_txaggs := []\<rparr>)
            # map (\<lambda>t. assign (json_to_str t) (\<lambda>x b. b\<lparr>m_txaggs := m_txaggs b @ [x]\<rparr>)) (json_items j)))
       (\<lambda>_. sret True))"

text \<open>One transaction of \<open>Block::setTransaction\<close>; what could not be read keeps its default.\<close>

definition read_txagg :: "utils \<Rightarrow> string \<Rightarrow> string \<Rightarrow> Transaction result" where
  "read_txagg u block_id agg = (case u_from_cbor u (u_from64 u agg) of
       None \<Rightarrow> Inl Json_Parse_Error
     | Some j \<Rightarrow> (case inputMsgTxAgg u j (mk_block_info agg block_id) Transaction_default of
                   (t, Inl e) \<Rightarrow> Inl e
                 | (t, Inr _) \<Rightarrow> Inr t))"

definition setTransaction :: "utils \<Rightarrow> string list \<Rightarrow> (Block, bool) prog" where
  "setTransaction u aggs b = sbind (seq (assign (Inr ()) (\<lambda>_ b. b\<lparr>m_transactions := []\<rparr>)
       # map (\<lambda>a. assign (read_txagg u (m_block_id b) a)
                (\<lambda>t b. b\<lparr>m_transactions := m_transactions b @ [t]\<rparr>)) aggs))
     (\<lambda>_. sret True) b"

definition setSigners_vec :: "Signature list \<Rightarrow> (Block, bool) prog" where
  "setSigners_vec sgs = (if sgs = [] then sret False
     else sbind (assign (Inr sgs) (\<lambda>x b. b\<lparr>m_signers := x\<rparr>)) (\<lambda>_. sret True))"

definition parse_signer :: "json \<Rightarrow> Signature result" where
  "parse_signer j = rbind (json_str j ''id'') (\<lambda>i. rbind (json_str j ''sig'') (\<lambda>s.
     Inr \<lparr>signer_id = i, signer_sig = s\<rparr>))"

definition setSigners :: "json \<Rightarrow> (Block, bool) prog" where
  "setSigners j = (if \<not> json_is_array j then sret False
     else sbind (seq (assign (Inr ()) (\<lambda>_ b. b\<lparr>m_signers := []\<rparr>)
            # map (\<lambda>s. assign (parse_signer s) (\<lambda>x b. b\<lparr>m_signers := m_signers b @ [x]\<rparr>)) (json_items j)))
       (\<lambda>_. sret True))"

text \<open>The lines of one certificate, joined with line feeds; \<open>from\<close> is the loop's index.\<close>

fun cert_lines :: "json \<Rightarrow> nat list \<Rightarrow> string result" where
  "cert_lines cert [] = Inr []"
| "cert_lines cert (i # is) = rbind (rbind (json_nth cert i) json_to_str) (\<lambda>l.
     rbind (cert_lines cert is) (\<lambda>r. Inr (l @ [CHR 0x0A] @ r)))"

definition parse_cert :: "json \<Rightarrow> Certificate option result" where
  "parse_cert j = rbind (json_get j ''id'') (\<lambda>i. case i of
       None \<Rightarrow> Inr None
     | Some cid \<Rightarrow> rbind (json_idx j ''cert'') (\<lambda>cert.
         rbind (cert_lines cert [0..<length (json_items cert)]) (\<lambda>c.
           Inr (Some \<lparr>cert_id = cid, cert_content = c\<rparr>))))"

definition setUserCerts :: "json \<Rightarrow> (Block, bool) prog" where
  "setUserCerts j = sbind (seq (assign (Inr ()) (\<lambda>_ b. b\<lparr>m_user_certs := []\<rparr>)
       # map (\<lambda>c. assign (parse_cert c)
                (\<lambda>x b. case x of None \<Rightarrow> b | Some y \<Rightarrow> b\<lparr>m_user_certs := m_user_certs b @ [y]\<rparr>)) (json_items j)))
     (\<lambda>_. sret True)"

text \<open>\<open>Block::initialize\<close>. The results of the first two setters are not looked at.\<close>

definition initialize_head :: "json \<Rightarrow> (Block, unit) prog" where
  "initialize_head j = seq
     [assign (rbind (json_str j ''btime'') stou64) (\<lambda>x b. b\<lparr>m_block_pub_time := x\<rparr>),
      assign (sub_str j ''block'' ''id'') (\<lambda>x b. b\<lparr>m_block_id := x\<rparr>),
      assign (rbind (sub_str j ''block'' ''time'') stou64) (\<lambda>x b. b\<lparr>m_block_time := x\<rparr>),
      assign (sub_str j ''block'' ''world'') (\<lambda>x b. b\<lparr>m_world_id := x\<rparr>),
      assign (sub_str j ''block'' ''chain'') (\<lambda>x b. b\<lparr>m_chain_id := x\<rparr>),
      assign (rbind (sub_str j ''block'' ''height'') stoi) (\<lambda>x b. b\<lparr>m_block_height := word_of_int x\<rparr>),
      assign (sub_str j ''block'' ''previd'') (\<lambda>x b. b\<lparr>m_block_prev_id := x\<rparr>),
      assign (sub_str j ''block'' ''link'') (\<lambda>x b. b\<lparr>m_block_prev_sig := x\<rparr>),
      assign (sub_str j ''block'' ''hash'') (\<lambda>x b. b\<lparr>m_block_hash := x\<rparr>)]"

definition initialize_roots :: "json \<Rightarrow> (Block, unit) prog" where
  "initialize_roots j = seq
     [assign (sub_str j ''state'' ''txroot'') (\<lambda>x b. b\<lparr>m_tx_root := x\<rparr>),
      assign (sub_str j ''state'' ''usroot'') (\<lambda>x b. b\<lparr>m_us_state_root := x\<rparr>),
      assign (sub_str j ''state'' ''csroot'') (\<lambda>x b. b\<lparr>m_cs_state_root := x\<rparr>),
      assign (sub_str j ''state'' ''sgroot'') (\<lambda>x b. b\<lparr>m_sg_root := x\<rparr>)]"

definition initialize_tail :: "utils \<Rightarrow> json \<Rightarrow> (Block, unit) prog" where
  "initialize_tail u j = seq
     [sbind (slift (json_idx j ''certificate'')) (\<lambda>c. sbind (setUserCerts c) (\<lambda>_. sret ())),
      assign (sub_str j ''producer'' ''id'')
        (\<lambda>x b. b\<lparr>m_block_prod_info := (m_block_prod_info b)\<lparr>signer_id := x\<rparr>\<rparr>),
      assign (sub_str j ''producer'' ''sig'')
        (\<lambda>x b. b\<lparr>m_block_prod_info := (m_block_prod_info b)\<lparr>signer_sig := x\<rparr>\<rparr>),
      assign (json_idx j ''certificate'') (\<lambda>x b. b\<lparr>m_block_certificate := u_dump u x\<rparr>)]"

definition block_initialize :: "utils \<Rightarrow> json \<Rightarrow> (Block, bool) prog" where
  "block_initialize u j = (if json_empty j then sret False
     else sbind (initialize_head j) (\<lambda>_.
       sbind (slift (json_idx j ''tx'')) (\<lambda>txs.
       sbind (setTxaggs txs) (\<lambda>_.
       sbind (\<lambda>b. setTransaction u (m_txaggs b) b) (\<lambda>_.
       sbind (initialize_roots j) (\<lambda>_.
       sbind (slift (json_idx j ''signer'')) (\<lambda>sg.
       sbind (setSigners sg) (\<lambda>ok.
         if \<not> ok then sret False
         else sbind (initialize_tail u j) (\<lambda>_. sret True)))))))))"

end
