(* ===== verification/State_Tree.thy ===== *)
theory State_Tree
  imports Storage_Types
begin

unbundle bit_operations_syntax

text \<open>
  The state tree of \<open>mem_ledger.hpp\<close> and \<open>mem_ledger.cpp\<close>: a binary tree of depth at most 16 that
  holds ledger entries at the leaves of the paths their identifiers spell, with a hash in every
  node. Nodes are shared through pointers, so the model keeps a heap: a list of nodes, addressed by
  index, to which allocation appends. A null pointer is \<open>None\<close>; following it is undefined.
  The stack of the class is a list with its top first. The printing functions are not modelled.
\<close>

subsection \<open>Nodes\<close>

record StateNode =
  n_pid :: string
  n_left :: "nat option"
  n_right :: "nat option"
  n_hash_value :: string
  n_suffix :: "256 word"
  n_suffix_len :: int
  n_bin_path :: "256 word"
  n_user_ledger :: "UserLedger option"
  n_contract_ledger :: "ContractLedger option"

definition StateNode_default :: StateNode where
  "StateNode_default = \<lparr>n_pid = [], n_left = None, n_right = None, n_hash_value = [], n_suffix = 0,
     n_suffix_len = 0, n_bin_path = 0, n_user_ledger = None, n_contract_ledger = None\<rparr>"

abbreviation TREE_DEPTH :: nat where "TREE_DEPTH \<equiv> 16"

text \<open>The two kinds of entries a node can be made of (\<open>insertNode\<close> is a template over them).\<close>

datatype ledger = User UserLedger | Contract ContractLedger

fun ledger_pid :: "ledger \<Rightarrow> string" where
  "ledger_pid (User l) = ul_pid l"
| "ledger_pid (Contract l) = cl_pid l"

fun ledger_value :: "ledger \<Rightarrow> string" where
  "ledger_value (User l) = ul_var_value l"
| "ledger_value (Contract l) = cl_var_value l"

definition makeValue :: "utils \<Rightarrow> ledger \<Rightarrow> string" where
  "makeValue u l = u_sha256 u (ledger_pid l @ ledger_value l)"

fun mk_StateNode :: "utils \<Rightarrow> ledger \<Rightarrow> StateNode" where
  "mk_StateNode u (User l) = StateNode_default
     \<lparr>n_suffix_len := -1, n_hash_value := makeValue u (User l), n_user_ledger := Some l\<rparr>"
| "mk_StateNode u (Contract l) = StateNode_default
     \<lparr>n_suffix_len := -1, n_hash_value := makeValue u (Contract l), n_contract_ledger := Some l\<rparr>"

text \<open>\<open>calPathFromPid\<close>: the bits of the bytes, last byte first; a last byte of zero is left out. A path
  has room for 256 bits.\<close>

definition calPathFromPid :: "string \<Rightarrow> 256 word result" where
  "calPathFromPid pid =
     (let r = rev pid;
          bs = (case r of [] \<Rightarrow> [] | c # cs \<Rightarrow> if c = CHR 0x00 then cs else r)
      in if 8 * length bs \<le> 256
         then Inr (word_of_int (foldr (\<lambda>c acc. of_char c + 256 * acc) bs 0))
         else Inl Undefined_Behaviour)"

definition isDummy :: "StateNode \<Rightarrow> bool" where
  "isDummy n \<longleftrightarrow> n_bin_path n = 0"

text \<open>\<open>path & (1 << pos)\<close>; a negative shift is undefined.\<close>

definition getDirectionOf :: "256 word \<Rightarrow> int \<Rightarrow> bool result" where
  "getDirectionOf path pos = (if 0 \<le> pos \<and> pos < 31 then Inr (bit path (nat pos)) else Inl Undefined_Behaviour)"

definition setSuffix :: "256 word \<Rightarrow> int \<Rightarrow> StateNode \<Rightarrow> StateNode" where
  "setSuffix path pos n = n\<lparr>n_suffix := take_bit (nat pos) path, n_suffix_len := pos\<rparr>"

definition setNodeInfo :: "utils \<Rightarrow> StateNode \<Rightarrow> StateNode \<Rightarrow> StateNode" where
  "setNodeInfo u new n = (case n_user_ledger new of
       Some l \<Rightarrow> n\<lparr>n_user_ledger := Some l, n_hash_value := makeValue u (User l)\<rparr>
     | None \<Rightarrow> (case n_contract_ledger new of
         Some l \<Rightarrow> n\<lparr>n_contract_ledger := Some l, n_hash_value := makeValue u (Contract l)\<rparr>
       | None \<Rightarrow> n))"

definition moveToParent :: "StateNode \<Rightarrow> StateNode result" where
  "moveToParent n = (if n_suffix_len n = int TREE_DEPTH then Inr n
     else rbind (getDirectionOf (n_bin_path n) (n_suffix_len n)) (\<lambda>b.
       Inr (n\<lparr>n_suffix := n_suffix n OR (if b then push_bit (nat (n_suffix_len n)) 1 else 0),
              n_suffix_len := n_suffix_len n + 1\<rparr>)))"

definition overwriteNode :: "StateNode \<Rightarrow> StateNode \<Rightarrow> StateNode result" where
  "overwriteNode n node = moveToParent (n
     \<lparr>n_left := None, n_right := None, n_hash_value := n_hash_value node, n_suffix := n_suffix node,
      n_suffix_len := n_suffix_len node, n_bin_path := n_bin_path node,
      n_user_ledger := n_user_ledger node, n_contract_ledger := n_contract_ledger node\<rparr>)"

subsection \<open>The tree\<close>

record StateTree =
  t_heap :: "StateNode list"
  t_root :: "nat option"
  t_size :: "64 word"
  t_stk :: "nat list"

text \<open>The constructor leaves the root a null pointer.\<close>

definition StateTree_new :: StateTree where
  "StateTree_new = \<lparr>t_heap = [], t_root = None, t_size = 0, t_stk = []\<rparr>"

definition node_at :: "StateTree \<Rightarrow> nat option \<Rightarrow> StateNode result" where
  "node_at t p = (case p of
       Some a \<Rightarrow> if a < length (t_heap t) then Inr (t_heap t ! a) else Inl Undefined_Behaviour
     | None \<Rightarrow> Inl Undefined_Behaviour)"

definition deref :: "nat option \<Rightarrow> (StateTree, StateNode) prog" where
  "deref p t = (t, node_at t p)"

definition update_node :: "nat option \<Rightarrow> (StateNode \<Rightarrow> StateNode) \<Rightarrow> (StateTree, unit) prog" where
  "update_node p f = sbind (deref p) (\<lambda>n t. (t\<lparr>t_heap := (t_heap t)[the p := f n]\<rparr>, Inr ()))"

definition alloc :: "StateNode \<Rightarrow> (StateTree, nat) prog" where
  "alloc n t = (t\<lparr>t_heap := t_heap t @ [n]\<rparr>, Inr (length (t_heap t)))"

definition push_stk :: "nat \<Rightarrow> (StateTree, unit) prog" where
  "push_stk a t = (t\<lparr>t_stk := a # t_stk t\<rparr>, Inr ())"

definition set_child :: "bool \<Rightarrow> nat option \<Rightarrow> nat \<Rightarrow> (StateTree, unit) prog" where
  "set_child dir p a = update_node p (\<lambda>n. if dir then n\<lparr>n_right := Some a\<rparr> else n\<lparr>n_left := Some a\<rparr>)"

definition get_child :: "bool \<Rightarrow> StateNode \<Rightarrow> nat option" where
  "get_child dir n = (if dir then n_right n else n_left n)"

text \<open>\<open>reHash\<close>: the hash of the encoded hashes of the children there are.\<close>

definition child_text :: "utils \<Rightarrow> StateTree \<Rightarrow> nat option \<Rightarrow> string result" where
  "child_text u t p = (case p of None \<Rightarrow> Inr []
     | Some _ \<Rightarrow> rbind (node_at t p) (\<lambda>n. Inr (u_to64 u (n_hash_value n))))"

definition combine_text :: "string \<Rightarrow> string \<Rightarrow> string" where
  "combine_text l r = (if l = [] then r else if r = [] then l else l @ r)"

definition reHash :: "utils \<Rightarrow> nat option \<Rightarrow> (StateTree, unit) prog" where
  "reHash u p = sbind (deref p) (\<lambda>n t. sbind
     (slift (rbind (child_text u t (n_left n)) (\<lambda>l. rbind (child_text u t (n_right n)) (\<lambda>r.
        Inr (u_sha256 u (combine_text l r))))))
     (\<lambda>h. update_node p (\<lambda>n. n\<lparr>n_hash_value := h\<rparr>)) t)"

text \<open>Popping the stack and rehashing every node on it, up to the root.\<close>

fun rehash_list :: "utils \<Rightarrow> nat list \<Rightarrow> (StateTree, unit) prog" where
  "rehash_list u [] = sret ()"
| "rehash_list u (a # as) = sbind (reHash u (Some a)) (\<lambda>_. rehash_list u as)"

definition rehash_stk :: "utils \<Rightarrow> (StateTree, unit) prog" where
  "rehash_stk u t = rehash_list u (t_stk t) (t\<lparr>t_stk := []\<rparr>)"

definition clear_stk :: "(StateTree, unit) prog" where
  "clear_stk t = (t\<lparr>t_stk := []\<rparr>, Inr ())"

subsection \<open>Insertion\<close>

text \<open>Where the way down ends: the new node was hung in, or a node with data is in the way.\<close>

datatype descent = Placed | Collided int "nat option" "nat option"

text \<open>
  The first loop of \<open>insertNode\<close>; its argument is \<open>dir_pos + 1\<close>, and \<open>depth = 16 - dir_pos\<close>
  throughout. Below the last level the shift distance is negative.
\<close>

fun descend :: "256 word \<Rightarrow> nat \<Rightarrow> nat \<Rightarrow> nat option \<Rightarrow> nat option \<Rightarrow> (StateTree, descent) prog" where
  "descend path new n node prev = sbind (deref node) (\<lambda>nd.
     if \<not> isDummy nd then sret (Collided (int n - 1) node prev)
     else sbind (push_stk (the node)) (\<lambda>_.
       sbind (slift (getDirectionOf path (int n - 1))) (\<lambda>dir.
         case get_child dir nd of
           None \<Rightarrow> sbind (set_child dir node new) (\<lambda>_.
                     sbind (update_node (Some new) (setSuffix path (int n - 1))) (\<lambda>_. sret Placed))
         | Some c \<Rightarrow> (case n of 0 \<Rightarrow> slift (Inl Undefined_Behaviour)
                      | Suc m \<Rightarrow> descend path new m (Some c) node))))"

definition modifyNode :: "utils \<Rightarrow> nat option \<Rightarrow> nat option \<Rightarrow> (StateTree, unit) prog" where
  "modifyNode u old new = sbind (deref new) (\<lambda>nn.
     sbind (update_node old (setNodeInfo u nn)) (\<lambda>_. rehash_stk u))"

text \<open>The second loop: dummy nodes as long as both paths agree. It returns \<open>dir_pos\<close> and the parent.\<close>

fun split_down :: "256 word \<Rightarrow> 256 word \<Rightarrow> nat \<Rightarrow> nat \<Rightarrow> (StateTree, int \<times> nat) prog" where
  "split_down new_path old_path 0 prev = sret (-1, prev)"
| "split_down new_path old_path (Suc m) prev =
     sbind (slift (getDirectionOf new_path (int m))) (\<lambda>a.
     sbind (slift (getDirectionOf old_path (int m))) (\<lambda>b.
       if a \<noteq> b then sret (int m, prev)
       else sbind (alloc StateNode_default) (\<lambda>d.
            sbind (push_stk d) (\<lambda>_.
            sbind (set_child a (Some prev) d) (\<lambda>_. split_down new_path old_path m d)))))"

text \<open>
  The part of \<open>insertNode\<close> under \<open>if (collision)\<close>. No node ever gets a \<open>pid\<close>, so the comparison of
  the two always succeeds; after \<open>modifyNode\<close> the code goes on.
\<close>

definition collide :: "utils \<Rightarrow> 256 word \<Rightarrow> nat \<Rightarrow> int \<Rightarrow> nat option \<Rightarrow> nat option \<Rightarrow> (StateTree, unit) prog" where
  "collide u new_path new dir_pos old prev =
     sbind (deref old) (\<lambda>on. let old_path = n_bin_path on in
     sbind (deref (Some new)) (\<lambda>nn.
     sbind (if n_pid on = n_pid nn then modifyNode u old (Some new) else sret ()) (\<lambda>_.
     sbind (alloc StateNode_default) (\<lambda>d.
     sbind (push_stk d) (\<lambda>_.
     sbind (slift (getDirectionOf new_path (dir_pos + 1))) (\<lambda>dir.
     sbind (set_child dir prev d) (\<lambda>_.
     sbind (split_down new_path old_path (nat (dir_pos + 1)) d) (\<lambda>(pos, parent).
     sbind (slift (getDirectionOf new_path pos)) (\<lambda>dir.
     sbind (set_child dir (Some parent) new) (\<lambda>_.
     sbind (set_child (\<not> dir) (Some parent) (the old)) (\<lambda>_.
     sbind (update_node (Some new) (setSuffix new_path pos)) (\<lambda>_.
     update_node old (setSuffix old_path pos)))))))))))))"

definition insertNode :: "utils \<Rightarrow> ledger \<Rightarrow> (StateTree, unit) prog" where
  "insertNode u l =
     sbind (slift (calPathFromPid (ledger_pid l))) (\<lambda>path.
     sbind (alloc ((mk_StateNode u l)\<lparr>n_bin_path := path\<rparr>)) (\<lambda>new.
     sbind clear_stk (\<lambda>_.
     sbind (\<lambda>t. descend path new TREE_DEPTH (t_root t) None t) (\<lambda>d.
     sbind (case d of Placed \<Rightarrow> sret () | Collided pos old prev \<Rightarrow> collide u path new pos old prev) (\<lambda>_.
     sbind (rehash_stk u) (\<lambda>_ t. (t\<lparr>t_size := t_size t + 1\<rparr>, Inr ())))))))"

definition updateUserState :: "utils \<Rightarrow> UserLedger list \<Rightarrow> (StateTree, unit) prog" where
  "updateUserState u ls = seq (map (\<lambda>l. insertNode u (User l)) ls)"

definition updateContractState :: "utils \<Rightarrow> ContractLedger list \<Rightarrow> (StateTree, unit) prog" where
  "updateContractState u ls = seq (map (\<lambda>l. insertNode u (Contract l)) ls)"

subsection \<open>Lookup\<close>

text \<open>
  \<open>getMerkleNode\<close>: the first node with data on the way down. (\<open>calPathFromPid\<close> is called through a
  null pointer, but reads no member.)
\<close>

fun find_node :: "256 word \<Rightarrow> nat \<Rightarrow> nat option \<Rightarrow> (StateTree, nat option) prog" where
  "find_node path n node = sbind (deref node) (\<lambda>nd.
     if \<not> isDummy nd then sret node
     else (case n of 0 \<Rightarrow> sret None
           | Suc m \<Rightarrow> sbind (push_stk (the node)) (\<lambda>_.
               sbind (slift (getDirectionOf path (int m))) (\<lambda>dir. find_node path m (get_child dir nd)))))"

definition getMerkleNode :: "string \<Rightarrow> (StateTree, nat option) prog" where
  "getMerkleNode pid = sbind (slift (calPathFromPid pid)) (\<lambda>path.
     sbind clear_stk (\<lambda>_ t. find_node path TREE_DEPTH (t_root t) t))"

definition getSiblings :: "string \<Rightarrow> (StateTree, string list) prog" where
  "getSiblings pid = sbind (getMerkleNode pid) (\<lambda>node t.
     let step = (\<lambda>(p, nd). if n_left nd = node
                   then (case n_right nd of None \<Rightarrow> Inr [] | Some r \<Rightarrow> rbind (node_at t (Some r)) (\<lambda>x. Inr (n_hash_value x)))
                   else if n_right nd = node
                   then (case n_left nd of None \<Rightarrow> Inr [] | Some l \<Rightarrow> rbind (node_at t (Some l)) (\<lambda>x. Inr (n_hash_value x)))
                   else Inr []);
         one = (\<lambda>a. rbind (node_at t (Some a)) (\<lambda>nd. step (a, nd)))
     in (t\<lparr>t_stk := []\<rparr>, foldr (\<lambda>a acc. rbind (one a) (\<lambda>v. rbind acc (\<lambda>vs. Inr (v # vs)))) (t_stk t) (Inr [])))"

text \<open>\<open>removeNode\<close>: the loop that collapses nodes with one child; its argument is the stack.\<close>

fun collapse :: "utils \<Rightarrow> nat list \<Rightarrow> nat \<Rightarrow> (StateTree, nat \<times> nat list) prog" where
  "collapse u stk parent = (\<lambda>t.
     if t_root t = Some parent then sbind (reHash u (Some parent)) (\<lambda>_. sret (parent, stk)) t
     else sbind (deref (Some parent)) (\<lambda>pn.
       let over = (\<lambda>c. sbind (deref c) (\<lambda>cn.
                     if isDummy cn then sret False
                     else sbind (slift (overwriteNode pn cn)) (\<lambda>n. sbind (update_node (Some parent) (\<lambda>_. n)) (\<lambda>_. sret True))));
           go_on = (case (n_left pn, n_right pn) of
               (Some _, Some _) \<Rightarrow> sret False
             | (_, Some r) \<Rightarrow> over (Some r)
             | (Some l, None) \<Rightarrow> over (Some l)
             | (None, None) \<Rightarrow> sret True)
       in sbind go_on (\<lambda>b. if \<not> b then sret (parent, stk)
            else (case stk of [] \<Rightarrow> sret (parent, []) | p # rest \<Rightarrow> collapse u rest p))) t)"

definition removeNode :: "utils \<Rightarrow> string \<Rightarrow> (StateTree, unit) prog" where
  "removeNode u pid = sbind (getMerkleNode pid) (\<lambda>node t.
     case t_stk t of
       [] \<Rightarrow> (t, Inl Undefined_Behaviour)
     | parent # stk \<Rightarrow> sbind (deref (Some parent)) (\<lambda>pn.
         sbind (if n_left pn = node then update_node (Some parent) (\<lambda>n. n\<lparr>n_left := None\<rparr>)
                else if n_right pn = node then update_node (Some parent) (\<lambda>n. n\<lparr>n_right := None\<rparr>)
                else sret ()) (\<lambda>_.
         sbind (collapse u stk parent) (\<lambda>(p, rest).
         sbind (rehash_list u (p # rest)) (\<lambda>_ t. (t\<lparr>t_size := t_size t - 1\<rparr>, Inr ()))))) (t\<lparr>t_stk := []\<rparr>))"

definition getRootValue :: "StateTree \<Rightarrow> string result" where
  "getRootValue t = rbind (node_at t (t_root t)) (\<lambda>n. Inr (n_hash_value n))"

end
