(* ===== verification/Text_Formats.thy ===== *)
theory Text_Formats
  imports Containers
begin

text \<open>
  Texts the components recognise: the alphabets of the base encodings and hexadecimal digits, the
  regular expression for base 64, searching and splitting.
\<close>

definition is_base58 :: "char \<Rightarrow> bool" where
  "is_base58 c = (let n = of_char c :: nat in
     (49 \<le> n \<and> n \<le> 57) \<or> (65 \<le> n \<and> n \<le> 72) \<or> (74 \<le> n \<and> n \<le> 78) \<or> (80 \<le> n \<and> n \<le> 90)
     \<or> (97 \<le> n \<and> n \<le> 107) \<or> (109 \<le> n \<and> n \<le> 122))"

definition char_in :: "nat \<Rightarrow> nat \<Rightarrow> char \<Rightarrow> bool" where
  "char_in a b c \<longleftrightarrow> a \<le> (of_char c :: nat) \<and> (of_char c :: nat) \<le> b"

definition is_base64_char :: "char \<Rightarrow> bool" where
  "is_base64_char c \<longleftrightarrow> char_in 65 90 c \<or> char_in 97 122 c \<or> is_digit c \<or> c = CHR ''+'' \<or> c = CHR ''/''"

text \<open>Groups of four characters, the last of which may end in one or two padding characters.\<close>

fun is_base64 :: "string \<Rightarrow> bool" where
  "is_base64 [] = True"
| "is_base64 (a # b # c # d # s) =
     (is_base64_char a \<and> is_base64_char b \<and>
       (if is_base64_char c \<and> is_base64_char d then is_base64 s
        else s = [] \<and> d = CHR ''='' \<and> (is_base64_char c \<or> c = CHR ''='')))"
| "is_base64 _ = False"

definition is_xdigit :: "char \<Rightarrow> bool" where
  "is_xdigit c \<longleftrightarrow> is_digit c \<or> char_in 65 70 c \<or> char_in 97 102 c"

text \<open>\<open>string::find\<close>.\<close>

fun find_text :: "string \<Rightarrow> string \<Rightarrow> nat option" where
  "find_text p [] = (if p = [] then Some 0 else None)"
| "find_text p (c # s) = (if take (length p) (c # s) = p then Some 0 else map_option Suc (find_text p s))"

definition contains_text :: "string \<Rightarrow> string \<Rightarrow> bool" where
  "contains_text p s \<longleftrightarrow> find_text p s \<noteq> None"

text \<open>\<open>split\<close>, for the delimiter \<open>::\<close>, the only one that is used; the first argument is the token so far.\<close>

fun mt_split :: "string \<Rightarrow> string \<Rightarrow> string list" where
  "mt_split tok [] = [tok]"
| "mt_split tok [c] = [tok @ [c]]"
| "mt_split tok (a # b # s) =
     (if a = CHR '':'' \<and> b = CHR '':'' then tok # mt_split [] s else mt_split (tok @ [a]) (b # s))"

end
