(* ===== verification/Ledger_Ops.thy ===== *)
theory Ledger_Ops
  imports Block_Pool State_Tree Text_Formats
begin

text \<open>
  The queries a contract may issue (\<open>chain.cpp\<close>, \<open>Chain::query...\<close>): each reads its options from
  JSON, reads ledger entries from the block under processing, the state tree, the pool or the
  database, and records its result in the block under processing. A query keeps what it has
  recorded when it throws later on, so it is a program over the state \<open>QueryState\<close>.
  The clock, the pool, the answers of the database and the value an uninitialised integer happens
  to hold are the environment.
\<close>

subsection \<open>Environment and state\<close>

record env =
  e_utils :: utils
  e_now :: timestamp_t
  e_pool :: UnresolvedBlockPool
  e_rdb_var_type :: "string \<Rightarrow> string \<Rightarrow> int"
  e_rdb_user :: "string \<Rightarrow> UserLedger"
  e_rdb_contract :: "string \<Rightarrow> ContractLedger"
  e_junk :: int

record QueryState =
  q_ur :: UnresolvedBlock
  q_us_tree :: StateTree
  q_cs_tree :: StateTree

abbreviation NO_VALUE :: int where "NO_VALUE \<equiv> -1"
abbreviation NOT_UNIQUE :: int where "NOT_UNIQUE \<equiv> -2"

abbreviation users :: "QueryState \<Rightarrow> (string, UserLedger) omap" where
  "users s \<equiv> user_ledger_list (q_ur s)"

abbreviation contracts :: "QueryState \<Rightarrow> (string, ContractLedger) omap" where
  "contracts s \<equiv> contract_ledger_list (q_ur s)"

definition put_user :: "string \<Rightarrow> UserLedger \<Rightarrow> (QueryState, unit) prog" where
  "put_user pid l s = (s\<lparr>q_ur := (q_ur s)\<lparr>user_ledger_list := om_put pid l (users s)\<rparr>\<rparr>, Inr ())"

definition put_contract :: "string \<Rightarrow> ContractLedger \<Rightarrow> (QueryState, unit) prog" where
  "put_contract pid l s = (s\<lparr>q_ur := (q_ur s)\<lparr>contract_ledger_list := om_put pid l (contracts s)\<rparr>\<rparr>, Inr ())"

text \<open>Steps that only compute.\<close>

abbreviation need :: "json \<Rightarrow> string \<Rightarrow> ('s, string) prog" where
  "need option key \<equiv> slift (json_str option key)"

abbreviation maybe :: "json \<Rightarrow> string \<Rightarrow> ('s, string option) prog" where
  "maybe option key \<equiv> slift (json_get option key)"

abbreviation need_int :: "json \<Rightarrow> string \<Rightarrow> ('s, int) prog" where
  "need_int option key \<equiv> slift (rbind (json_str option key) stoi)"

abbreviation need_u64 :: "json \<Rightarrow> string \<Rightarrow> ('s, 64 word) prog" where
  "need_u64 option key \<equiv> slift (rbind (json_str option key) stou64)"

text \<open>\<open>stoi(a) - stoi(b)\<close> and \<open>stoi(a) + stoi(b)\<close> in \<open>int\<close>.\<close>

definition int_diff :: "string \<Rightarrow> string \<Rightarrow> int result" where
  "int_diff a b = rbind (stoi a) (\<lambda>x. rbind (stoi b) (\<lambda>y. chk_int (x - y)))"

definition int_sum :: "string \<Rightarrow> string \<Rightarrow> int result" where
  "int_sum a b = rbind (stoi a) (\<lambda>x. rbind (stoi b) (\<lambda>y. chk_int (x + y)))"

subsection \<open>Identifiers\<close>

definition isUserId :: "string \<Rightarrow> bool" where
  "isUserId uid \<longleftrightarrow> length uid = 44 \<and> list_all is_base58 uid"

definition isContractId :: "string \<Rightarrow> bool" where
  "isContractId cid \<longleftrightarrow> 45 < length cid"

definition pid_owner :: "utils \<Rightarrow> string \<Rightarrow> string" where
  "pid_owner u owner = (if isContractId owner then owner else if isUserId owner then u_from58 u owner else [])"

definition calculatePid :: "utils \<Rightarrow> string \<Rightarrow> int \<Rightarrow> string \<Rightarrow> string" where
  "calculatePid u var_name var_type owner =
     u_sha256 u (var_name @ u_bytes_dec u var_type @ pid_owner u owner)"

definition calculatePid_tag :: "utils \<Rightarrow> string \<Rightarrow> int \<Rightarrow> string \<Rightarrow> string \<Rightarrow> string" where
  "calculatePid_tag u var_name var_type owner tag =
     u_sha256 u (var_name @ u_bytes_dec u var_type @ pid_owner u owner @ tag)"

subsection \<open>The type of a variable\<close>

text \<open>One pass over the types found in a block; \<open>None\<close> is the early return of \<open>NOT_UNIQUE\<close>.\<close>

fun scan_types :: "int \<Rightarrow> int list \<Rightarrow> int option" where
  "scan_types vt [] = Some vt"
| "scan_types vt (t # ts) = (if vt \<noteq> NO_VALUE \<and> vt \<noteq> t then None else scan_types t ts)"

definition user_types :: "string \<Rightarrow> string \<Rightarrow> UnresolvedBlock \<Rightarrow> int list" where
  "user_types owner name u = map ul_var_type
     (filter (\<lambda>l. ul_uid l = owner \<and> ul_var_name l = name \<and> ul_tag l = []) (map snd (user_ledger_list u)))"

definition contract_types :: "string \<Rightarrow> string \<Rightarrow> UnresolvedBlock \<Rightarrow> int list" where
  "contract_types owner name u = map cl_var_type
     (filter (\<lambda>l. cl_cid l = owner \<and> cl_var_name l = name \<and> cl_var_info l = []) (map snd (contract_ledger_list u)))"

text \<open>The loop over the linked blocks; its first argument is \<open>pool_deque_idx + 1\<close>.\<close>

fun pool_types :: "UnresolvedBlockPool \<Rightarrow> (UnresolvedBlock \<Rightarrow> int list) \<Rightarrow> nat \<Rightarrow> int \<Rightarrow> int \<Rightarrow> int option result" where
  "pool_types p types 0 vec vt = Inr (Some vt)"
| "pool_types p types (Suc d) vec vt =
     rbind (getUnresolvedBlock p (int d) vec) (\<lambda>u.
       case scan_types vt (types u) of
         None \<Rightarrow> Inr None
       | Some vt' \<Rightarrow> pool_types p types d (prev_vec_idx u) vt')"

text \<open>The comparison with the database; two values that are neither a type nor a known mark fall
  through to the end of the function.\<close>

definition merge_types :: "int \<Rightarrow> int \<Rightarrow> int result" where
  "merge_types vt rdb =
     (if rdb = NOT_UNIQUE then Inr NOT_UNIQUE
      else if vt = NO_VALUE \<and> rdb = NO_VALUE then Inr NO_VALUE
      else if 0 \<le> vt \<and> 0 \<le> rdb then Inr (if vt = rdb then vt else NOT_UNIQUE)
      else if vt = NO_VALUE then Inr rdb
      else if rdb = NO_VALUE then Inr vt
      else Inl Undefined_Behaviour)"

definition getVarType :: "env \<Rightarrow> string \<Rightarrow> string \<Rightarrow> block_height_type \<Rightarrow> int \<Rightarrow> int result" where
  "getVarType e owner name height vec_idx =
     (let d = u64_to_int (height - m_latest_confirmed_height (e_pool e) - 1);
          search = (if isUserId owner then pool_types (e_pool e) (user_types owner name) (nat (d + 1)) vec_idx NO_VALUE
                    else if isContractId owner
                    then pool_types (e_pool e) (contract_types owner name) (nat (d + 1)) vec_idx NO_VALUE
                    else Inr (Some NO_VALUE))
      in rbind search (\<lambda>r. case r of None \<Rightarrow> Inr NOT_UNIQUE
           | Some vt \<Rightarrow> merge_types vt (e_rdb_var_type e owner name)))"

definition checkUniqueVarName :: "env \<Rightarrow> string \<Rightarrow> string \<Rightarrow> block_height_type \<Rightarrow> int \<Rightarrow> bool result" where
  "checkUniqueVarName e owner name height vec_idx =
     rbind (getVarType e owner name height vec_idx) (\<lambda>t. Inr (t \<noteq> NOT_UNIQUE))"

text \<open>\<open>getVarType\<close> as the queries call it, at the position of the block under processing.\<close>

definition var_type_here :: "env \<Rightarrow> string \<Rightarrow> string \<Rightarrow> (QueryState, int) prog" where
  "var_type_here e owner name s =
     (s, getVarType e owner name (m_block_height (ub_block (q_ur s))) (cur_vec_idx (q_ur s)))"

subsection \<open>Finding ledger entries\<close>

text \<open>
  \<open>findUserLedgerFromHead\<close>: \<open>operator[]\<close> stores an empty entry when there is none; an entry that is
  not empty is copied, but the function then ends without a \<open>return\<close>.
\<close>

definition findUserLedgerFromHead :: "string \<Rightarrow> (QueryState, UserLedger) prog" where
  "findUserLedgerFromHead pid s =
     (let found = (case map_of (users s) pid of Some l \<Rightarrow> l | None \<Rightarrow> UserLedger_default);
          s1 = s\<lparr>q_ur := (q_ur s)\<lparr>user_ledger_list := om_try pid UserLedger_default (users s)\<rparr>\<rparr>
      in if \<not> ul_is_empty found then (s1, Inl Undefined_Behaviour)
         else (case getMerkleNode pid (q_us_tree s) of
             (t, Inl err) \<Rightarrow> (s1\<lparr>q_us_tree := t\<rparr>, Inl err)
           | (t, Inr None) \<Rightarrow> (s1\<lparr>q_us_tree := t\<rparr>, Inr found)
           | (t, Inr (Some a)) \<Rightarrow> (s1\<lparr>q_us_tree := t\<rparr>,
               rbind (node_at t (Some a)) (\<lambda>n. case n_user_ledger n of
                 None \<Rightarrow> Inl Undefined_Behaviour | Some l \<Rightarrow> Inr l))))"

definition findContractLedgerFromHead :: "string \<Rightarrow> (QueryState, ContractLedger) prog" where
  "findContractLedgerFromHead pid s =
     (let found = (case map_of (contracts s) pid of Some l \<Rightarrow> l | None \<Rightarrow> ContractLedger_default);
          s1 = s\<lparr>q_ur := (q_ur s)\<lparr>contract_ledger_list := om_try pid ContractLedger_default (contracts s)\<rparr>\<rparr>
      in if \<not> cl_is_empty found then (s1, Inl Undefined_Behaviour)
         else (case getMerkleNode pid (q_cs_tree s) of
             (t, Inl err) \<Rightarrow> (s1\<lparr>q_cs_tree := t\<rparr>, Inl err)
           | (t, Inr None) \<Rightarrow> (s1\<lparr>q_cs_tree := t\<rparr>, Inr found)
           | (t, Inr (Some a)) \<Rightarrow> (s1\<lparr>q_cs_tree := t\<rparr>,
               rbind (node_at t (Some a)) (\<lambda>n. case n_contract_ledger n of
                 None \<Rightarrow> Inl Undefined_Behaviour | Some l \<Rightarrow> Inr l))))"

text \<open>\<open>find...LedgerFromPoint\<close>: down the linked blocks of the pool, then the database. The loop tests
  the index only after its first round.\<close>

fun user_from_point :: "env \<Rightarrow> string \<Rightarrow> nat \<Rightarrow> int \<Rightarrow> LedgerSearchResult result" where
  "user_from_point e pid d vec =
     rbind (getUnresolvedBlock (e_pool e) (int d) vec) (\<lambda>u.
       case map_of (user_ledger_list u) pid of
         Some l \<Rightarrow> Inr (LedgerSearchResult_default\<lparr>sr_user_ledger := l\<rparr>)
       | None \<Rightarrow> (case d of
             0 \<Rightarrow> Inr (LedgerSearchResult_default\<lparr>sr_user_ledger := e_rdb_user e pid,
                      sr_not_found := ul_is_empty (e_rdb_user e pid)\<rparr>)
           | Suc d' \<Rightarrow> user_from_point e pid d' (prev_vec_idx u)))"

fun contract_from_point :: "env \<Rightarrow> string \<Rightarrow> nat \<Rightarrow> int \<Rightarrow> LedgerSearchResult result" where
  "contract_from_point e pid d vec =
     rbind (getUnresolvedBlock (e_pool e) (int d) vec) (\<lambda>u.
       case map_of (contract_ledger_list u) pid of
         Some l \<Rightarrow> Inr (LedgerSearchResult_default\<lparr>sr_contract_ledger := l\<rparr>)
       | None \<Rightarrow> (case d of
             0 \<Rightarrow> Inr (LedgerSearchResult_default\<lparr>sr_contract_ledger := e_rdb_contract e pid,
                      sr_not_found := cl_is_empty (e_rdb_contract e pid)\<rparr>)
           | Suc d' \<Rightarrow> contract_from_point e pid d' (prev_vec_idx u)))"

definition findUserLedgerFromPoint :: "env \<Rightarrow> string \<Rightarrow> block_height_type \<Rightarrow> int \<Rightarrow> LedgerSearchResult result" where
  "findUserLedgerFromPoint e pid height vec =
     (let d = u64_to_int (height - m_latest_confirmed_height (e_pool e) - 1)
      in if d < 0 then Inl Undefined_Behaviour else user_from_point e pid (nat d) vec)"

definition findContractLedgerFromPoint :: "env \<Rightarrow> string \<Rightarrow> block_height_type \<Rightarrow> int \<Rightarrow> LedgerSearchResult result" where
  "findContractLedgerFromPoint e pid height vec =
     (let d = u64_to_int (height - m_latest_confirmed_height (e_pool e) - 1)
      in if d < 0 then Inl Undefined_Behaviour else contract_from_point e pid (nat d) vec)"

end
