(* ===== verification/Ledger_Queries.thy ===== *)
theory Ledger_Queries
  imports Ledger_Ops
begin

text \<open>
  The queries of \<open>chain.cpp\<close> themselves. Every query takes the options of the query and the result
  the transaction belongs to, and returns the boolean of the code.
\<close>

subsection \<open>Joining, certificates, contracts\<close>

definition put_attribute :: "UserAttribute \<Rightarrow> (QueryState, unit) prog" where
  "put_attribute a s = (s\<lparr>q_ur := (q_ur s)\<lparr>user_attribute_list :=
     om_put (ua_uid a) a (user_attribute_list (q_ur s))\<rparr>\<rparr>, Inr ())"

definition put_cert :: "UserCert \<Rightarrow> (QueryState, unit) prog" where
  "put_cert c s = (s\<lparr>q_ur := (q_ur s)\<lparr>user_cert_list := om_put (uc_sn c) c (user_cert_list (q_ur s))\<rparr>\<rparr>, Inr ())"

definition put_contract_info :: "Contract \<Rightarrow> (QueryState, unit) prog" where
  "put_contract_info c s = (s\<lparr>q_ur := (q_ur s)\<lparr>contract_list := om_put (ct_cid c) c (contract_list (q_ur s))\<rparr>\<rparr>, Inr ())"

definition queryUserJoin :: "json \<Rightarrow> ResultQueryInfo \<Rightarrow> (QueryState, bool) prog" where
  "queryUserJoin option info =
     sbind (need_u64 option ''register_day'') (\<lambda>day.
     sbind (need option ''register_code'') (\<lambda>code.
     sbind (need_int option ''gender'') (\<lambda>gender.
     sbind (need option ''isc_type'') (\<lambda>isc_t.
     sbind (need option ''isc_code'') (\<lambda>isc_c.
     sbind (need option ''location'') (\<lambda>loc.
     sbind (need_int option ''age_limit'') (\<lambda>age.
     sbind (put_attribute \<lparr>ua_uid = rq_user info, ua_register_day = day, ua_register_code = code,
              ua_gender = gender, ua_isc_type = isc_t, ua_isc_code = isc_c, ua_location = loc,
              ua_age_limit = age, ua_sigma = ''TODO: signature by Tethys Authority''\<rparr>)
       (\<lambda>_. sret True))))))))"

definition queryUserCert :: "json \<Rightarrow> ResultQueryInfo \<Rightarrow> (QueryState, bool) prog" where
  "queryUserCert option info =
     sbind (need option ''sn'') (\<lambda>sn.
     sbind (need_u64 option ''notbefore'') (\<lambda>nb.
     sbind (need_u64 option ''notafter'') (\<lambda>na.
     sbind (need option ''x509'') (\<lambda>x.
     sbind (put_cert \<lparr>uc_uid = rq_user info, uc_sn = sn, uc_nvbefore = nb, uc_nvafter = na, uc_x509 = x\<rparr>)
       (\<lambda>_. sret True)))))"

text \<open>The option \<open>friend\<close> is read, but the contract keeps its empty list of friends.\<close>

definition queryContractNew :: "json \<Rightarrow> ResultQueryInfo \<Rightarrow> (QueryState, bool) prog" where
  "queryContractNew option info =
     sbind (need option ''cid'') (\<lambda>cid.
     sbind (need_u64 option ''after'') (\<lambda>aft.
     sbind (need_u64 option ''before'') (\<lambda>bef.
     sbind (need option ''author'') (\<lambda>author.
     sbind (need option ''friend'') (\<lambda>friends.
     sbind (need option ''contract'') (\<lambda>con.
     sbind (need option ''desc'') (\<lambda>desc.
     sbind (need option ''sigma'') (\<lambda>sigma.
     sbind (put_contract_info \<lparr>ct_cid = cid, ct_after = aft, ct_before = bef, ct_author = author, ct_friends = [],
              ct_contract = con, ct_desc = desc, ct_sigma = sigma, ct_query_type = Q_INSERT\<rparr>)
       (\<lambda>_. sret True)))))))))"

definition queryContractDisable :: "env \<Rightarrow> json \<Rightarrow> ResultQueryInfo \<Rightarrow> (QueryState, bool) prog" where
  "queryContractDisable e option info =
     sbind (need option ''cid'') (\<lambda>cid.
     sbind (put_contract_info \<lparr>ct_cid = cid, ct_after = 0, ct_before = e_now e, ct_author = [], ct_friends = [],
              ct_contract = [], ct_desc = [], ct_sigma = [], ct_query_type = Q_UPDATE\<rparr>)
       (\<lambda>_. sret True))"

subsection \<open>Values\<close>

text \<open>A result below zero is logged, and stored all the same.\<close>

definition queryIncinerate :: "json \<Rightarrow> ResultQueryInfo \<Rightarrow> (QueryState, bool) prog" where
  "queryIncinerate option info =
     sbind (need option ''amount'') (\<lambda>amount.
     sbind (need option ''pid'') (\<lambda>pid.
     sbind (findUserLedgerFromHead pid) (\<lambda>found.
       if ul_is_empty found then sret False
       else if ul_uid found \<noteq> rq_user info then sret False
       else sbind (slift (int_diff (ul_var_value found) amount)) (\<lambda>v.
            sbind (put_user pid (found\<lparr>ul_var_value := dec_int v,
                     ul_query_type := (if v = 0 then Q_DELETE else if 0 < v then Q_UPDATE
                                       else ul_query_type found)\<rparr>))
              (\<lambda>_. sret True)))))"

definition queryCreate :: "env \<Rightarrow> json \<Rightarrow> ResultQueryInfo \<Rightarrow> (QueryState, bool) prog" where
  "queryCreate e option info =
     sbind (need option ''amount'') (\<lambda>amount.
     sbind (need option ''name'') (\<lambda>var_name.
     sbind (need_int option ''type'') (\<lambda>var_type.
     sbind (need option ''tag'') (\<lambda>tag.
     let l = mk_UserLedger (e_utils e) var_name var_type (rq_user info) tag; pid = ul_pid l in
     sbind (findUserLedgerFromHead pid) (\<lambda>found.
       if \<not> ul_is_empty found then sret False
       else sbind (put_user pid (l\<lparr>ul_var_value := amount, ul_up_time := e_now e,
                     ul_up_block := rq_block_height info, ul_query_type := Q_INSERT, ul_is_empty := False\<rparr>))
              (\<lambda>_. sret True))))))"

subsection \<open>Transfer\<close>

text \<open>The identifier of the paying entry: given, or computed from the only type of the variable.\<close>

definition payer_pid :: "env \<Rightarrow> string option \<Rightarrow> string \<Rightarrow> string \<Rightarrow> (QueryState, string option) prog" where
  "payer_pid e given owner var_name = (case given of
       Some pid \<Rightarrow> sret (Some pid)
     | None \<Rightarrow> sbind (var_type_here e owner var_name) (\<lambda>t.
         if t = NOT_UNIQUE then sret None else sret (Some (calculatePid (e_utils e) var_name t owner))))"

text \<open>The entry of the paying side after the payment.\<close>

definition paid_user :: "env \<Rightarrow> block_height_type \<Rightarrow> UserLedger \<Rightarrow> int \<Rightarrow> UserLedger" where
  "paid_user e up_block f v = f\<lparr>ul_var_value := dec_int v, ul_up_time := e_now e, ul_up_block := up_block,
     ul_query_type := (if v = 0 then Q_DELETE else Q_UPDATE)\<rparr>"

definition paid_contract :: "env \<Rightarrow> block_height_type \<Rightarrow> ContractLedger \<Rightarrow> int \<Rightarrow> ContractLedger" where
  "paid_contract e up_block f v = f\<lparr>cl_var_value := dec_int v, cl_up_time := e_now e, cl_up_block := up_block,
     cl_query_type := (if v = 0 then Q_DELETE else Q_UPDATE)\<rparr>"

text \<open>The paying side; \<open>None\<close> when the query returns false, else the type of the variable.\<close>

definition pay_from_contract ::
    "env \<Rightarrow> string option \<Rightarrow> string \<Rightarrow> string \<Rightarrow> string \<Rightarrow> block_height_type \<Rightarrow> (QueryState, int option) prog" where
  "pay_from_contract e given from_id var_name amount up_block =
     sbind (payer_pid e given from_id var_name) (\<lambda>p. case p of None \<Rightarrow> sret None | Some pid \<Rightarrow>
     sbind (findContractLedgerFromHead pid) (\<lambda>found.
       if cl_is_empty found then sret None
       else sbind (slift (int_diff (cl_var_value found) amount)) (\<lambda>v.
         if v < 0 then sret None
         else sbind (put_contract pid (paid_contract e up_block found v))
              (\<lambda>_. sret (Some (cl_var_type found))))))"

definition pay_from_user ::
    "env \<Rightarrow> string option \<Rightarrow> string \<Rightarrow> string \<Rightarrow> string \<Rightarrow> block_height_type \<Rightarrow> (QueryState, int option) prog" where
  "pay_from_user e given from_id var_name amount up_block =
     sbind (payer_pid e given from_id var_name) (\<lambda>p. case p of None \<Rightarrow> sret None | Some pid \<Rightarrow>
     sbind (findUserLedgerFromHead pid) (\<lambda>found.
       if ul_is_empty found then sret None
       else sbind (slift (int_diff (ul_var_value found) amount)) (\<lambda>v.
         if v < 0 then sret None
         else sbind (put_user pid (paid_user e up_block found v))
              (\<lambda>_. sret (Some (ul_var_type found))))))"

text \<open>The query type of the receiving entry.\<close>

definition receive_type :: "bool \<Rightarrow> bool \<Rightarrow> QueryType \<Rightarrow> QueryType" where
  "receive_type none same_block old =
     (if none then Q_INSERT else if same_block \<and> old = Q_INSERT then Q_INSERT else Q_UPDATE)"

definition received_user :: "env \<Rightarrow> block_height_type \<Rightarrow> UserLedger \<Rightarrow> int \<Rightarrow> UserLedger" where
  "received_user e up_block t v = t
     \<lparr>ul_query_type := receive_type (ul_var_value t = [] \<or> ul_is_empty t) (ul_up_block t = up_block) (ul_query_type t),
      ul_var_value := dec_int v, ul_up_time := e_now e, ul_up_block := up_block, ul_is_empty := False\<rparr>"

definition received_contract :: "env \<Rightarrow> block_height_type \<Rightarrow> ContractLedger \<Rightarrow> int \<Rightarrow> ContractLedger" where
  "received_contract e up_block t v = t
     \<lparr>cl_query_type := receive_type (cl_var_value t = [] \<or> cl_is_empty t) (cl_up_block t = up_block) (cl_query_type t),
      cl_var_value := dec_int v, cl_up_time := e_now e, cl_up_block := up_block, cl_is_empty := False\<rparr>"

definition pay_to_contract :: "env \<Rightarrow> string \<Rightarrow> string \<Rightarrow> block_height_type \<Rightarrow> (QueryState, unit) prog" where
  "pay_to_contract e pid amount up_block =
     sbind (findContractLedgerFromHead pid) (\<lambda>found.
     sbind (slift (int_sum (cl_var_value found) amount)) (\<lambda>v.
       put_contract pid (received_contract e up_block found v)))"

definition pay_to_user :: "env \<Rightarrow> string \<Rightarrow> string \<Rightarrow> block_height_type \<Rightarrow> (QueryState, unit) prog" where
  "pay_to_user e pid amount up_block =
     sbind (findUserLedgerFromHead pid) (\<lambda>found.
     sbind (slift (int_sum (ul_var_value found) amount)) (\<lambda>v.
       put_user pid (received_user e up_block found v)))"

text \<open>The identifier of the receiving entry of a user, with the tag if there is one.\<close>

definition receiver_pid :: "utils \<Rightarrow> string \<Rightarrow> int \<Rightarrow> string \<Rightarrow> string option \<Rightarrow> string" where
  "receiver_pid u var_name var_type to_id tag = (case tag of
       Some t \<Rightarrow> calculatePid_tag u var_name var_type to_id t
     | None \<Rightarrow> calculatePid u var_name var_type to_id)"

definition queryTransfer :: "env \<Rightarrow> json \<Rightarrow> ResultQueryInfo \<Rightarrow> (QueryState, bool) prog" where
  "queryTransfer e option info =
     sbind (need option ''from'') (\<lambda>from.
     sbind (need option ''to'') (\<lambda>to_id.
     sbind (need option ''amount'') (\<lambda>amount.
     sbind (need option ''unit'') (\<lambda>var_name.
     sbind (maybe option ''pid'') (\<lambda>from_pid.
     sbind (maybe option ''tag'') (\<lambda>tag.
     let up_block = rq_block_height info;
         from_id = (if from = ''contract'' then rq_self info else if from = ''user'' then rq_user info
                    else if from = ''author'' then rq_author info else [])
     in sbind (if from = ''contract'' then pay_from_contract e from_pid from_id var_name amount up_block
               else pay_from_user e from_pid from_id var_name amount up_block) (\<lambda>paid.
       case paid of None \<Rightarrow> sret False
       | Some var_type \<Rightarrow>
           if isContractId to_id
           then sbind (pay_to_contract e (calculatePid_tag (e_utils e) var_name var_type to_id from_id) amount up_block)
                  (\<lambda>_. sret True)
           else if isUserId to_id
           then sbind (pay_to_user e (receiver_pid (e_utils e) var_name var_type to_id tag) amount up_block)
                  (\<lambda>_. sret True)
           else sret True)))))))"

subsection \<open>Scopes\<close>

text \<open>
  The identifier and type a scope query writes to; \<open>None\<close> when the query returns false. With an
  identifier but no type, the type variable was never assigned.
\<close>

definition scope_target :: "env \<Rightarrow> string option \<Rightarrow> string option \<Rightarrow> string \<Rightarrow> string
    \<Rightarrow> (QueryState, (string \<times> int \<times> QueryType) option) prog" where
  "scope_target e pid type owner name = (case pid of
       Some p \<Rightarrow> (case type of
           Some t \<Rightarrow> sbind (slift (stoi t)) (\<lambda>vt. sret (Some (p, vt, Q_INSERT)))
         | None \<Rightarrow> sret (Some (p, e_junk e, Q_UPDATE)))
     | None \<Rightarrow> (case type of
           Some t \<Rightarrow> sbind (slift (stoi t)) (\<lambda>vt. sret (Some (calculatePid (e_utils e) name vt owner, vt, Q_INSERT)))
         | None \<Rightarrow> sbind (var_type_here e owner name) (\<lambda>vt.
             if vt = NOT_UNIQUE then sret None
             else sret (Some (calculatePid (e_utils e) name vt owner, vt, Q_UPDATE)))))"

definition queryUserScope :: "env \<Rightarrow> json \<Rightarrow> ResultQueryInfo \<Rightarrow> (QueryState, bool) prog" where
  "queryUserScope e option info =
     sbind (need option ''name'') (\<lambda>name.
     sbind (need option ''for'') (\<lambda>target.
     let uid = (if target = ''user'' then rq_user info else if target = ''author'' then rq_author info else []) in
     sbind (need option ''value'') (\<lambda>val.
     sbind (maybe option ''pid'') (\<lambda>pid.
     sbind (maybe option ''tag'') (\<lambda>tag.
     sbind (maybe option ''type'') (\<lambda>type.
     sbind (scope_target e pid type uid name) (\<lambda>r. case r of None \<Rightarrow> sret False
       | Some (p, vt, qt) \<Rightarrow> sbind (\<lambda>s. put_user p
           \<lparr>ul_var_name = name, ul_var_value = val, ul_var_type = vt, ul_uid = uid, ul_up_time = e_now e,
            ul_up_block = m_block_height (ub_block (q_ur s)),
            ul_tag = (if pid = None then [] else case tag of Some t \<Rightarrow> t | None \<Rightarrow> []),
            ul_pid = p, ul_query_type = qt, ul_is_empty = False\<rparr> s) (\<lambda>_. sret True))))))))"

definition queryContractScope :: "env \<Rightarrow> json \<Rightarrow> ResultQueryInfo \<Rightarrow> (QueryState, bool) prog" where
  "queryContractScope e option info =
     sbind (need option ''name'') (\<lambda>name.
     sbind (need option ''cid'') (\<lambda>cid.
     sbind (need option ''value'') (\<lambda>val.
     sbind (maybe option ''pid'') (\<lambda>pid.
     sbind (maybe option ''type'') (\<lambda>type.
     sbind (scope_target e pid type cid name) (\<lambda>r. case r of None \<Rightarrow> sret False
       | Some (p, vt, qt) \<Rightarrow> sbind (\<lambda>s. put_contract p
           \<lparr>cl_var_name = name, cl_var_value = val, cl_var_type = vt, cl_cid = cid, cl_up_time = e_now e,
            cl_up_block = m_block_height (ub_block (q_ur s)), cl_var_info = [], cl_pid = p,
            cl_query_type = qt, cl_is_empty = False\<rparr> s) (\<lambda>_. sret True)))))))"

subsection \<open>Queries that only check their options\<close>

text \<open>\<open>option["key"]\<close> on a mutable value: it creates a missing member, and throws on anything but an
  object or null.\<close>

definition json_member :: "json \<Rightarrow> string \<Rightarrow> json result" where
  "json_member j k = (case j of
       JObj m \<Rightarrow> Inr (case map_of m k of Some v \<Rightarrow> v | None \<Rightarrow> JNull)
     | JNull \<Rightarrow> Inr JNull | _ \<Rightarrow> Inl Json_Type_Error)"

definition queryTradeItem :: "json \<Rightarrow> ResultQueryInfo \<Rightarrow> (QueryState, bool) prog" where
  "queryTradeItem option info =
     sbind (slift (json_member option ''costs'')) (\<lambda>_.
     sbind (slift (json_member option ''units'')) (\<lambda>_.
     sbind (need option ''author'') (\<lambda>_. sbind (need option ''user'') (\<lambda>_. sbind (need option ''pid'') (\<lambda>_. sret True)))))"

definition queryTradeVal :: "json \<Rightarrow> ResultQueryInfo \<Rightarrow> (QueryState, bool) prog" where
  "queryTradeVal option info = sret True"

definition queryRunQuery :: "json \<Rightarrow> ResultQueryInfo \<Rightarrow> (QueryState, bool) prog" where
  "queryRunQuery option info =
     sbind (need option ''type'') (\<lambda>type.
     sbind (slift (json_member option ''query'')) (\<lambda>_.
     sbind (need_u64 option ''after'') (\<lambda>_.
       sret (\<not> (type = ''run.query'' \<or> type = ''user.cert'')))))"

definition queryRunContract :: "json \<Rightarrow> ResultQueryInfo \<Rightarrow> (QueryState, bool) prog" where
  "queryRunContract option info =
     sbind (need option ''cid'') (\<lambda>_. sbind (need option ''input'') (\<lambda>_.
     sbind (need_u64 option ''after'') (\<lambda>_. sret True)))"

end
