(* ===== verification/Kv_Store.thy ===== *)
theory Kv_Store
  imports Storage_Types "HOL-Library.Sublist"
begin

text \<open>
  The key-value store (\<open>kv_store.cpp\<close>): eleven LevelDB databases, each with a batch of pending
  writes. A database is a partial map; LevelDB applies a batch as a whole or, when a write fails,
  not at all. Which databases accept writes is a part of the state, because the code does not look
  at the status of a write. The identifiers of the current world and chain, which the application
  object keeps, are arguments.
\<close>

subsection \<open>Databases and batches\<close>

definition db_names :: "string list" where
  "db_names = [''built_in_contract'', ''world'', ''chain'', ''backup_block'', ''backup_user_ledger'',
     ''backup_contract_ledger'', ''backup_user_attribute'', ''backup_user_cert'', ''backup_contract'',
     ''UNRESOLVED_BLOCK_IDS_KEY'', ''self_info'']"

datatype batch_op = Put string string | Delete string

record KvStore =
  kv_db :: "string \<Rightarrow> string \<Rightarrow> string option"
  kv_batch :: "string \<Rightarrow> batch_op list"
  kv_ok :: "string \<Rightarrow> bool"

fun apply_op :: "batch_op \<Rightarrow> (string \<Rightarrow> string option) \<Rightarrow> string \<Rightarrow> string option" where
  "apply_op (Put k v) m = m(k \<mapsto> v)"
| "apply_op (Delete k) m = m(k := None)"

definition addBatch :: "string \<Rightarrow> string \<Rightarrow> string \<Rightarrow> KvStore \<Rightarrow> KvStore" where
  "addBatch what key val kv = kv\<lparr>kv_batch := (kv_batch kv)(what := kv_batch kv what @ [Put key val])\<rparr>"

definition delBatch :: "string \<Rightarrow> string \<Rightarrow> KvStore \<Rightarrow> KvStore" where
  "delBatch what key kv = kv\<lparr>kv_batch := (kv_batch kv)(what := kv_batch kv what @ [Delete key])\<rparr>"

definition clearBatchAll :: "KvStore \<Rightarrow> KvStore" where
  "clearBatchAll kv = kv\<lparr>kv_batch := (\<lambda>_. [])\<rparr>"

definition commitBatchAll :: "KvStore \<Rightarrow> KvStore" where
  "commitBatchAll kv = clearBatchAll (kv\<lparr>kv_db := (\<lambda>name.
     if name \<in> set db_names \<and> kv_ok kv name then fold apply_op (kv_batch kv name) (kv_db kv name)
     else kv_db kv name)\<rparr>)"

definition rollbackBatchAll :: "KvStore \<Rightarrow> KvStore" where
  "rollbackBatchAll kv = clearBatchAll kv"

text \<open>A key that is missing, or cannot be read, has the empty value.\<close>

definition getValueByKey :: "KvStore \<Rightarrow> string \<Rightarrow> string \<Rightarrow> string" where
  "getValueByKey kv what key = (case kv_db kv what key of Some v \<Rightarrow> v | None \<Rightarrow> [])"

definition to_bool :: "string \<Rightarrow> bool" where
  "to_bool s \<longleftrightarrow> s \<noteq> ''0'' \<and> s \<noteq> ''false''"

definition bool_str :: "bool \<Rightarrow> string" where
  "bool_str b = (if b then ''1'' else ''0'')"

definition save_all :: "string \<Rightarrow> (string \<times> string) list \<Rightarrow> KvStore \<Rightarrow> KvStore" where
  "save_all what kvs kv = commitBatchAll (fold (\<lambda>(k, v). addBatch what k v) kvs kv)"

subsection \<open>Saving\<close>

definition saveBuiltInContracts :: "(string, string) omap \<Rightarrow> KvStore \<Rightarrow> KvStore \<times> bool" where
  "saveBuiltInContracts cs kv = (save_all ''built_in_contract'' cs kv, True)"

definition saveLatestWorldId :: "string \<Rightarrow> KvStore \<Rightarrow> KvStore \<times> bool" where
  "saveLatestWorldId wid kv = (save_all ''world'' [(''latest_world_id'', wid)] kv, True)"

definition saveLatestChainId :: "string \<Rightarrow> KvStore \<Rightarrow> KvStore \<times> bool" where
  "saveLatestChainId cid kv = (save_all ''chain'' [(''latest_chain_id'', cid)] kv, True)"

definition world_entries :: "WorldState \<Rightarrow> (string \<times> string) list" where
  "world_entries w = map (\<lambda>(k, v). (ws_world_id w @ k, v))
     [(''_wId'', ws_world_id w), (''_ctime'', ws_created_time w), (''_cid'', ws_creator_id w),
      (''_cpk'', ws_creator_pk w), (''_aid'', ws_authority_id w), (''_apk'', ws_authority_pk w),
      (''_kcn'', ws_keyc_name w), (''_kcia'', ws_keyc_initial_amount w),
      (''_amine'', bool_str (ws_allow_mining w)), (''_mrule'', ws_mining_rule w),
      (''_tmp_aauser'', bool_str (ws_allow_anonymous_user w)), (''_tmp_jfee'', ws_join_fee w)]"

definition saveWorld :: "WorldState \<Rightarrow> KvStore \<Rightarrow> KvStore \<times> bool" where
  "saveWorld w kv = (save_all ''world'' (world_entries w) kv, True)"

definition chain_entries :: "LocalChainState \<Rightarrow> (string \<times> string) list" where
  "chain_entries c = map (\<lambda>(k, v). (lc_chain_id c @ k, v))
     [(''_chid'', lc_chain_id c), (''_ctime'', lc_created_time c), (''_crid'', lc_creator_id c),
      (''_cpk'', lc_creator_pk c), (''_acc'', bool_str (lc_allow_custom_contract c)),
      (''_ao'', bool_str (lc_allow_oracle c)), (''_atag'', bool_str (lc_allow_tag c)),
      (''_ahc'', bool_str (lc_allow_heavy_contract c)),
      (''_tk_addr'', butlast (concat (map (\<lambda>a. a @ '','') (lc_tracker_addresses c))))]"

text \<open>\<open>pop_back\<close> on the empty list of tracker addresses is undefined.\<close>

definition saveChain :: "LocalChainState \<Rightarrow> (KvStore, bool) prog" where
  "saveChain c kv = (if lc_tracker_addresses c = [] then (kv, Inl Undefined_Behaviour)
     else (save_all ''chain'' (chain_entries c) kv, Inr True))"

definition saveSelfInfo :: "SelfInfo \<Rightarrow> KvStore \<Rightarrow> KvStore \<times> bool" where
  "saveSelfInfo i kv = (save_all ''self_info''
     [(''self_enc_sk'', si_enc_sk i), (''self_cert'', si_cert i), (''self_id'', si_id i)] kv, True)"

definition saveBlockIds :: "string \<Rightarrow> KvStore \<Rightarrow> KvStore \<times> bool" where
  "saveBlockIds ids kv = (save_all ''UNRESOLVED_BLOCK_IDS_KEY'' [(''UNRESOLVED_BLOCK_IDS_KEY'', ids)] kv, True)"

definition saveBackupBlock :: "string \<Rightarrow> string \<Rightarrow> KvStore \<Rightarrow> KvStore \<times> bool" where
  "saveBackupBlock block_id v kv = (save_all ''backup_block'' [(block_id, v)] kv, True)"

definition saveBackupUserLedgers :: "string \<Rightarrow> string \<Rightarrow> KvStore \<Rightarrow> KvStore \<times> bool" where
  "saveBackupUserLedgers block_id v kv = (save_all ''backup_user_ledger'' [(block_id, v)] kv, True)"

definition saveBackupContractLedgers :: "string \<Rightarrow> string \<Rightarrow> KvStore \<Rightarrow> KvStore \<times> bool" where
  "saveBackupContractLedgers block_id v kv = (save_all ''backup_contract_ledger'' [(block_id, v)] kv, True)"

definition saveBackupUserAttributes :: "string \<Rightarrow> string \<Rightarrow> KvStore \<Rightarrow> KvStore \<times> bool" where
  "saveBackupUserAttributes block_id v kv = (save_all ''backup_user_attribute'' [(block_id, v)] kv, True)"

definition saveBackupUserCerts :: "string \<Rightarrow> string \<Rightarrow> KvStore \<Rightarrow> KvStore \<times> bool" where
  "saveBackupUserCerts block_id v kv = (save_all ''backup_user_cert'' [(block_id, v)] kv, True)"

definition saveBackupContracts :: "string \<Rightarrow> string \<Rightarrow> KvStore \<Rightarrow> KvStore \<times> bool" where
  "saveBackupContracts block_id v kv = (save_all ''backup_contract'' [(block_id, v)] kv, True)"

text \<open>The backup of the block itself is kept.\<close>

definition delBackup :: "string \<Rightarrow> KvStore \<Rightarrow> KvStore" where
  "delBackup block_id kv = (if block_id = [] then kv
     else commitBatchAll (fold (\<lambda>what. delBatch what block_id)
       [''backup_user_ledger'', ''backup_contract_ledger'', ''backup_user_attribute'', ''backup_user_cert'',
        ''backup_contract''] kv))"

subsection \<open>Loading\<close>

definition loadCurrentWorld :: "KvStore \<Rightarrow> string \<Rightarrow> WorldState" where
  "loadCurrentWorld kv wid = (let get = (\<lambda>k. getValueByKey kv ''world'' (wid @ k)) in
     \<lparr>ws_world_id = get ''_wId'', ws_created_time = get ''_ctime'', ws_keyc_name = get ''_kcn'',
      ws_keyc_initial_amount = get ''_kcia'', ws_allow_mining = to_bool (get ''_amine''),
      ws_mining_rule = get ''_mrule'', ws_allow_anonymous_user = to_bool (get ''_tmp_aauser''),
      ws_join_fee = get ''_tmp_jfee'', ws_authority_id = get ''_aid'', ws_authority_pk = get ''_apk'',
      ws_creator_id = get ''_cid'', ws_creator_pk = get ''_cpk'', ws_creator_sig = [], ws_eden_sig = []\<rparr>)"

definition loadCurrentChain :: "KvStore \<Rightarrow> string \<Rightarrow> LocalChainState" where
  "loadCurrentChain kv cid = (let get = (\<lambda>k. getValueByKey kv ''chain'' (cid @ k)) in
     \<lparr>lc_chain_id = get ''_chid'', lc_world_id = [], lc_created_time = get ''_ctime'',
      lc_allow_custom_contract = to_bool (get ''_acc''), lc_allow_oracle = to_bool (get ''_ao''),
      lc_allow_tag = to_bool (get ''_atag''), lc_allow_heavy_contract = to_bool (get ''_ahc''),
      lc_creator_id = get ''_crid'', lc_creator_pk = get ''_cpk'', lc_creator_sig = [], lc_tracker_addresses = []\<rparr>)"

text \<open>The options \<open>block_height\<close> and \<open>txid\<close> must be there, but only the identifier is used.\<close>

definition kv_queryBlockGet :: "KvStore \<Rightarrow> json \<Rightarrow> string result" where
  "kv_queryBlockGet kv j = rbind (json_str j ''block_id'') (\<lambda>i.
     rbind (rbind (json_str j ''block_height'') stoi) (\<lambda>_.
     rbind (json_str j ''txid'') (\<lambda>_. Inr (getValueByKey kv ''backup_block'' i))))"

definition loadBlockIds :: "KvStore \<Rightarrow> string" where
  "loadBlockIds kv = getValueByKey kv ''UNRESOLVED_BLOCK_IDS_KEY'' ''UNRESOLVED_BLOCK_IDS_KEY''"

definition loadBackupBlock :: "KvStore \<Rightarrow> string \<Rightarrow> string" where
  "loadBackupBlock kv key = getValueByKey kv ''backup_block'' key"

definition loadBackupUserLedgers :: "KvStore \<Rightarrow> string \<Rightarrow> string" where
  "loadBackupUserLedgers kv key = getValueByKey kv ''backup_user_ledger'' key"

definition loadBackupContractLedgers :: "KvStore \<Rightarrow> string \<Rightarrow> string" where
  "loadBackupContractLedgers kv key = getValueByKey kv ''backup_contract_ledger'' key"

definition loadBackupUserAttributes :: "KvStore \<Rightarrow> string \<Rightarrow> string" where
  "loadBackupUserAttributes kv key = getValueByKey kv ''backup_user_attribute'' key"

definition loadBackupUserCerts :: "KvStore \<Rightarrow> string \<Rightarrow> string" where
  "loadBackupUserCerts kv key = getValueByKey kv ''backup_user_cert'' key"

definition loadBackupContracts :: "KvStore \<Rightarrow> string \<Rightarrow> string" where
  "loadBackupContracts kv key = getValueByKey kv ''backup_contract'' key"

subsection \<open>Committing\<close>

text \<open>Nothing is pending between two operations of the class.\<close>

definition idle :: "KvStore \<Rightarrow> bool" where
  "idle kv \<longleftrightarrow> kv_batch kv = (\<lambda>_. [])"

interpretation leveldb: finite_map "\<lambda>k v (m :: string \<Rightarrow> string option). m(k \<mapsto> v)" "\<lambda>m. m"
  by unfold_locales simp

lemma fold_addBatch:
  "fold (\<lambda>(k, v). addBatch what k v) kvs kv
     = kv\<lparr>kv_batch := (kv_batch kv)(what := kv_batch kv what @ map (\<lambda>(k, v). Put k v) kvs)\<rparr>"
  by (induction kvs arbitrary: kv) (auto simp: addBatch_def)

lemma fold_delBatch:
  "distinct whats \<Longrightarrow> fold (\<lambda>what. delBatch what key) whats kv
     = kv\<lparr>kv_batch := (\<lambda>what. kv_batch kv what @ (if what \<in> set whats then [Delete key] else []))\<rparr>"
  by (induction whats arbitrary: kv) (auto simp: delBatch_def fun_eq_iff)

lemma fold_puts: "fold apply_op (map (\<lambda>(k, v). Put k v) kvs) m = fold (\<lambda>(k, v) m. m(k \<mapsto> v)) kvs m"
  by (induction kvs arbitrary: m) auto

lemma save_all_db:
  assumes "idle kv" "what \<in> set db_names"
  shows "kv_db (save_all what kvs kv) =
    (if kv_ok kv what then (kv_db kv)(what := fold (\<lambda>(k, v) m. m(k \<mapsto> v)) kvs (kv_db kv what)) else kv_db kv)"
    and "idle (save_all what kvs kv)" and "kv_ok (save_all what kvs kv) = kv_ok kv"
  using assms
  by (auto simp: save_all_def fold_addBatch commitBatchAll_def clearBatchAll_def idle_def fold_puts fun_eq_iff)

lemma getValueByKey_saved:
  assumes "idle kv" "what \<in> set db_names" "kv_ok kv what" "distinct (map fst kvs)" "(k, v) \<in> set kvs"
  shows "getValueByKey (save_all what kvs kv) what k = v"
  using leveldb.get_fold [OF assms(4,5), of "kv_db kv what"] save_all_db(1) [OF assms(1,2), of kvs] assms(3)
  by (simp add: getValueByKey_def)

lemma getValueByKey_kept:
  assumes "idle kv" "what \<in> set db_names" "what' \<noteq> what \<or> k \<notin> fst ` set kvs"
  shows "getValueByKey (save_all what kvs kv) what' k = getValueByKey kv what' k"
  using leveldb.get_fold_other [of k kvs "kv_db kv what"] save_all_db(1) [OF assms(1,2), of kvs] assms(3)
  by (auto simp: getValueByKey_def)

lemma db_names_simps [simp]:
  "''world'' \<in> set db_names" "''chain'' \<in> set db_names" "''backup_user_ledger'' \<in> set db_names"
  "''backup_contract_ledger'' \<in> set db_names" "''backup_user_attribute'' \<in> set db_names"
  "''backup_user_cert'' \<in> set db_names" "''backup_contract'' \<in> set db_names"
  "''backup_block'' \<in> set db_names"
  by (simp_all add: db_names_def)

lemma to_bool_bool_str [simp]: "to_bool (bool_str b) = b"
  by (simp add: to_bool_def bool_str_def)

definition demo_kv :: KvStore where
  "demo_kv = \<lparr>kv_db = (\<lambda>_ _. None), kv_batch = (\<lambda>_. []), kv_ok = (\<lambda>_. True)\<rparr>"

definition demo_world :: WorldState where
  "demo_world = \<lparr>ws_world_id = ''TETHYS19'', ws_created_time = ''1'', ws_keyc_name = ''KEYC'',
     ws_keyc_initial_amount = ''100'', ws_allow_mining = True, ws_mining_rule = ''r'', ws_allow_anonymous_user = False,
     ws_join_fee = ''2'', ws_authority_id = ''a'', ws_authority_pk = ''k'', ws_creator_id = ''c'', ws_creator_pk = ''p'',
     ws_creator_sig = ''s'', ws_eden_sig = ''e''\<rparr>"

lemma demo_kv_idle [simp]: "idle demo_kv" "kv_ok demo_kv what"
  by (simp_all add: demo_kv_def idle_def)

subsection \<open>Properties\<close>

text \<open>A world that was saved while the database accepts writes is loaded again as it was, except for the
  two signatures, which are not stored.\<close>

theorem world_roundtrip:
  assumes "idle kv" "kv_ok kv ''world''"
  shows "loadCurrentWorld (fst (saveWorld w kv)) (ws_world_id w) = w\<lparr>ws_creator_sig := [], ws_eden_sig := []\<rparr>"
proof -
  have "distinct (map fst (world_entries w))" by (simp add: world_entries_def)
  note get = getValueByKey_saved [OF assms(1) _ assms(2) this]
  have "getValueByKey (save_all ''world'' (world_entries w) kv) ''world'' (ws_world_id w @ k) = v"
    if "(k, v) \<in> set [(''_wId'', ws_world_id w), (''_ctime'', ws_created_time w), (''_cid'', ws_creator_id w),
      (''_cpk'', ws_creator_pk w), (''_aid'', ws_authority_id w), (''_apk'', ws_authority_pk w),
      (''_kcn'', ws_keyc_name w), (''_kcia'', ws_keyc_initial_amount w),
      (''_amine'', bool_str (ws_allow_mining w)), (''_mrule'', ws_mining_rule w),
      (''_tmp_aauser'', bool_str (ws_allow_anonymous_user w)), (''_tmp_jfee'', ws_join_fee w)]" for k v
    using that by (intro get) (force simp: world_entries_def)+
  then show ?thesis by (simp add: loadCurrentWorld_def saveWorld_def Let_def)
qed

lemma world_roundtrip_witness:
  "loadCurrentWorld (fst (saveWorld demo_world demo_kv)) (ws_world_id demo_world)
     = demo_world\<lparr>ws_creator_sig := [], ws_eden_sig := []\<rparr>"
  by (rule world_roundtrip) simp_all

text \<open>No suffix of a world's keys is the end of another one, so keys of different worlds never meet.\<close>

definition world_suffixes :: "string list" where
  "world_suffixes = [''_wId'', ''_ctime'', ''_cid'', ''_cpk'', ''_aid'', ''_apk'', ''_kcn'', ''_kcia'', ''_amine'',
     ''_mrule'', ''_tmp_aauser'', ''_tmp_jfee'']"

lemma world_suffixes_free:
  "list_all (\<lambda>a. list_all (\<lambda>b. prefix (rev a) (rev b) \<longrightarrow> a = b) world_suffixes) world_suffixes"
  by code_simp

lemma world_keys_apart:
  assumes "i @ a = j @ b" "a \<in> set world_suffixes" "b \<in> set world_suffixes"
  shows "i = j"
proof -
  have "suffix a b \<or> suffix b a"
    using suffix_same_cases [OF suffixI [OF refl, of a i] suffixI [OF assms(1)]] by blast
  then have "prefix (rev a) (rev b) \<or> prefix (rev b) (rev a)" by (simp add: suffix_to_prefix)
  then have "a = b" using world_suffixes_free assms(2,3) by (auto simp: list_all_iff)
  then show ?thesis using assms(1) by simp
qed

lemma fst_world_entries: "fst ` set (world_entries w) = (\<lambda>a. ws_world_id w @ a) ` set world_suffixes"
  by (auto simp: world_entries_def world_suffixes_def)

text \<open>Saving a world leaves what is loaded for every other world unchanged, whatever the two identifiers
  are: the keys of two different worlds never coincide.\<close>

theorem world_frame:
  assumes "idle kv" "wid \<noteq> ws_world_id w"
  shows "loadCurrentWorld (fst (saveWorld w kv)) wid = loadCurrentWorld kv wid"
proof -
  have "wid @ a \<notin> fst ` set (world_entries w)" if "a \<in> set world_suffixes" for a
    using world_keys_apart [OF _ that] assms(2) by (auto simp: fst_world_entries)
  then have "getValueByKey (save_all ''world'' (world_entries w) kv) ''world'' (wid @ a) = getValueByKey kv ''world'' (wid @ a)"
    if "a \<in> set world_suffixes" for a
    using getValueByKey_kept [OF assms(1), of "''world''" "''world''" "wid @ a"] that by simp
  then show ?thesis
    by (simp add: loadCurrentWorld_def saveWorld_def Let_def world_suffixes_def)
qed

lemma world_frame_witness:
  "loadCurrentWorld (fst (saveWorld demo_world demo_kv)) ''OTHER'' = loadCurrentWorld demo_kv ''OTHER''"
  by (rule world_frame) (simp_all add: demo_world_def)

text \<open>A chain with at least one tracker is saved and loaded again with its policy and creator; its world,
  its trackers and its signature are not restored. Saving a chain without trackers is undefined.\<close>

theorem chain_roundtrip:
  assumes "idle kv" "kv_ok kv ''chain''"
  shows "(if lc_tracker_addresses c = [] then saveChain c kv = (kv, Inl Undefined_Behaviour)
     else snd (saveChain c kv) = Inr True
       \<and> loadCurrentChain (fst (saveChain c kv)) (lc_chain_id c)
           = c\<lparr>lc_world_id := [], lc_creator_sig := [], lc_tracker_addresses := []\<rparr>)"
proof -
  have "distinct (map fst (chain_entries c))" by (simp add: chain_entries_def)
  note get = getValueByKey_saved [OF assms(1) _ assms(2) this]
  have "getValueByKey (save_all ''chain'' (chain_entries c) kv) ''chain'' (lc_chain_id c @ k) = v"
    if "(k, v) \<in> set [(''_chid'', lc_chain_id c), (''_ctime'', lc_created_time c), (''_crid'', lc_creator_id c),
      (''_cpk'', lc_creator_pk c), (''_acc'', bool_str (lc_allow_custom_contract c)),
      (''_ao'', bool_str (lc_allow_oracle c)), (''_atag'', bool_str (lc_allow_tag c)),
      (''_ahc'', bool_str (lc_allow_heavy_contract c))]" for k v
    using that by (intro get) (force simp: chain_entries_def)+
  then show ?thesis by (simp add: loadCurrentChain_def saveChain_def Let_def)
qed

definition demo_chain :: LocalChainState where
  "demo_chain = \<lparr>lc_chain_id = ''C1'', lc_world_id = ''W'', lc_created_time = ''3'', lc_allow_custom_contract = True,
     lc_allow_oracle = False, lc_allow_tag = True, lc_allow_heavy_contract = False, lc_creator_id = ''c'',
     lc_creator_pk = ''p'', lc_creator_sig = ''s'', lc_tracker_addresses = [''t1'', ''t2'']\<rparr>"

lemma chain_roundtrip_witness:
  "lc_allow_tag (loadCurrentChain (fst (saveChain demo_chain demo_kv)) ''C1'')"
  using chain_roundtrip [of demo_kv demo_chain] by (simp add: demo_chain_def)

text \<open>Deleting the backup of a block removes what was recorded for it in the five result databases and
  nothing else: other blocks and the block itself stay.\<close>

theorem delBackup_exact:
  assumes "idle kv" "block_id \<noteq> []" "\<forall>name. kv_ok kv name"
  shows "kv_db (delBackup block_id kv) what key =
    (if key = block_id \<and> what \<in> {''backup_user_ledger'', ''backup_contract_ledger'', ''backup_user_attribute'',
          ''backup_user_cert'', ''backup_contract''}
     then None else kv_db kv what key)
    \<and> loadBackupBlock (delBackup block_id kv) block_id = loadBackupBlock kv block_id"
proof -
  let ?five = "[''backup_user_ledger'', ''backup_contract_ledger'', ''backup_user_attribute'', ''backup_user_cert'',
    ''backup_contract'']"
  have five: "distinct ?five" "set ?five \<subseteq> set db_names" by (simp_all add: db_names_def)
  have "kv_db (delBackup block_id kv) what key =
      (if what \<in> set ?five \<and> key = block_id then None else kv_db kv what key)" for what key
    using assms fold_delBatch [OF five(1), of block_id kv] five(2)
    by (simp add: delBackup_def commitBatchAll_def clearBatchAll_def idle_def del: set_simps) auto
  then show ?thesis by (auto simp: loadBackupBlock_def getValueByKey_def)
qed

lemma delBackup_exact_witness:
  "kv_db (delBackup ''b'' (fst (saveBackupUserLedgers ''b'' ''x'' demo_kv))) ''backup_user_ledger'' ''b'' = None"
  using delBackup_exact [of "fst (saveBackupUserLedgers ''b'' ''x'' demo_kv)" "''b''" "''backup_user_ledger''" "''b''"]
  by (simp add: saveBackupUserLedgers_def save_all_db)

text \<open>When the database refuses the write, saving a world still reports success; nothing is stored and
  the pending writes are gone.\<close>

lemma failed_write_is_lost:
  assumes "idle kv" "\<not> kv_ok kv ''world''"
  shows "snd (saveWorld w kv) \<and> kv_db (fst (saveWorld w kv)) = kv_db kv \<and> idle (fst (saveWorld w kv))"
  using save_all_db [OF assms(1), of "''world''"] assms(2) by (simp add: saveWorld_def)

lemma failed_write_demo:
  "kv_db (fst (saveWorld demo_world (demo_kv\<lparr>kv_ok := (\<lambda>_. False)\<rparr>))) = kv_db (demo_kv\<lparr>kv_ok := (\<lambda>_. False)\<rparr>)"
  by (rule failed_write_is_lost [THEN conjunct2, THEN conjunct1]) (simp_all add: demo_kv_def idle_def)

end
