(* ===== verification/Chain_State.thy ===== *)
theory Chain_State
  imports Ledger_Queries Kv_Store
begin

text \<open>
  The class \<open>Chain\<close> (chain.cpp) around the pool, the two state trees and the key-value store: the
  world and chain descriptions, the backup and its restoration, pushing and resolving blocks, the
  head of the state trees, and the tables that answer read queries.  The answers of the relational
  database are arguments (\<open>rdb\<close>), what is written to it is recorded in \<open>ch_rdb\<close>; the identifiers
  that the program keeps in the application object are \<open>ch_app\<close>.
\<close>

subsection \<open>State\<close>

datatype rdb_write =
    W_Block Block
  | W_Transactions Block
  | W_User_Ledgers "(string, UserLedger) omap"
  | W_Contract_Ledgers "(string, ContractLedger) omap"
  | W_User_Attributes "(string, UserAttribute) omap"
  | W_User_Certs "(string, UserCert) omap"
  | W_Contracts "(string, Contract) omap"

record app_ids =
  ap_world_id :: string
  ap_chain_id :: string
  ap_auth_cert :: string

record Chain =
  ch_kv :: KvStore
  ch_pool :: UnresolvedBlockPool
  ch_us_tree :: StateTree
  ch_cs_tree :: StateTree
  ch_head :: BlockPoolInfo
  ch_longest :: BlockPoolInfo
  ch_app :: app_ids
  ch_rdb :: "rdb_write list"

record rdb =
  r_contract_scan :: "json \<Rightarrow> string list result"
  r_contract_get :: "json \<Rightarrow> string"
  r_cert_get :: "json \<Rightarrow> UserCert list"
  r_user_info_get :: "json \<Rightarrow> UserAttribute"
  r_user_scope_get :: "json \<Rightarrow> UserLedger list"
  r_contract_scope_get :: "json \<Rightarrow> ContractLedger list"
  r_tx_get :: "json \<Rightarrow> string"
  r_block_scan :: "json \<Rightarrow> string list"
  r_tx_scan :: "json \<Rightarrow> string list"
  r_all_user_ledger :: "UserLedger list"
  r_all_contract_ledger :: "ContractLedger list"
  r_get_blocks :: "int \<Rightarrow> int \<Rightarrow> Block list result"
  r_latest_block :: "Block option"

text \<open>Programs over one part of the chain.\<close>

definition on_pool :: "(UnresolvedBlockPool, 'a) prog \<Rightarrow> (Chain, 'a) prog" where
  "on_pool m ch = (case m (ch_pool ch) of (p, r) \<Rightarrow> (ch\<lparr>ch_pool := p\<rparr>, r))"

definition on_us_tree :: "(StateTree, 'a) prog \<Rightarrow> (Chain, 'a) prog" where
  "on_us_tree m ch = (case m (ch_us_tree ch) of (t, r) \<Rightarrow> (ch\<lparr>ch_us_tree := t\<rparr>, r))"

definition on_cs_tree :: "(StateTree, 'a) prog \<Rightarrow> (Chain, 'a) prog" where
  "on_cs_tree m ch = (case m (ch_cs_tree ch) of (t, r) \<Rightarrow> (ch\<lparr>ch_cs_tree := t\<rparr>, r))"

definition on_kv :: "(KvStore \<Rightarrow> KvStore \<times> bool) \<Rightarrow> (Chain, unit) prog" where
  "on_kv f ch = (ch\<lparr>ch_kv := fst (f (ch_kv ch))\<rparr>, Inr ())"

definition from_cbor :: "utils \<Rightarrow> string \<Rightarrow> json result" where
  "from_cbor u s = (case u_from_cbor u s of None \<Rightarrow> Inl Json_Parse_Error | Some j \<Rightarrow> Inr j)"

subsection \<open>Descriptions of the world and of the chain\<close>

text \<open>
  \<open>state["/a/b"_json_pointer]\<close> on a value that is not constant: a missing member is created as null
  (the members it creates in the caller's value are not part of the state here), an array wants an
  index.
\<close>

fun json_ptr_mut :: "json \<Rightarrow> string list \<Rightarrow> json result" where
  "json_ptr_mut j [] = Inr j"
| "json_ptr_mut (JObj m) (k # ks) = json_ptr_mut (case map_of m k of Some v \<Rightarrow> v | None \<Rightarrow> JNull) ks"
| "json_ptr_mut JNull (k # ks) = json_ptr_mut JNull ks"
| "json_ptr_mut (JArr xs) (k # ks) = Inl Json_Parse_Error"
| "json_ptr_mut j (k # ks) = Inl Json_Pointer_Error"

text \<open>\<open>state["a"]["b"]\<close>.\<close>

fun json_sub_mut :: "json \<Rightarrow> string list \<Rightarrow> json result" where
  "json_sub_mut j [] = Inr j"
| "json_sub_mut (JObj m) (k # ks) = json_sub_mut (case map_of m k of Some v \<Rightarrow> v | None \<Rightarrow> JNull) ks"
| "json_sub_mut JNull (k # ks) = json_sub_mut JNull ks"
| "json_sub_mut j (k # ks) = Inl Json_Type_Error"

fun str_list :: "json list \<Rightarrow> string list result" where
  "str_list [] = Inr []"
| "str_list (j # js) = rbind (json_to_str j) (\<lambda>s. rbind (str_list js) (\<lambda>r. Inr (s # r)))"

definition json_to_strs :: "json \<Rightarrow> string list result" where
  "json_to_strs j = (case j of JArr js \<Rightarrow> str_list js | _ \<Rightarrow> Inl Json_Type_Error)"

abbreviation ptr_text :: "json \<Rightarrow> string list \<Rightarrow> string result" where
  "ptr_text j p \<equiv> rbind (json_ptr_mut j p) json_to_str"

abbreviation ptr_bool :: "json \<Rightarrow> string list \<Rightarrow> bool result" where
  "ptr_bool j p \<equiv> rbind (json_ptr_mut j p) json_to_bool"

abbreviation LF :: char where "LF \<equiv> CHR 0x0A"

definition parseCertContent :: "string list \<Rightarrow> string" where
  "parseCertContent cert = concat (map (\<lambda>l. l @ [LF]) cert)"

definition unmarshalWorldState :: "json \<Rightarrow> WorldState result" where
  "unmarshalWorldState st =
     rbind (ptr_text st [''world'', ''id'']) (\<lambda>wid.
     rbind (ptr_text st [''world'', ''after'']) (\<lambda>ctime.
     rbind (ptr_text st [''key_currency'', ''name'']) (\<lambda>kname.
     rbind (ptr_text st [''key_currency'', ''initial_amount'']) (\<lambda>kamount.
     rbind (ptr_bool st [''mining_policy'', ''allow_mining'']) (\<lambda>mining.
     rbind (ptr_bool st [''user_policy'', ''allow_anonymous_user'']) (\<lambda>anon.
     rbind (ptr_text st [''user_policy'', ''join_fee'']) (\<lambda>fee.
     rbind (rbind (json_sub_mut st [''eden_sig'']) json_to_str) (\<lambda>eden.
     rbind (ptr_text st [''authority'', ''id'']) (\<lambda>aid.
     rbind (rbind (json_sub_mut st [''authority'', ''cert'']) json_to_strs) (\<lambda>acert.
     rbind (ptr_text st [''creator'', ''id'']) (\<lambda>cid.
     rbind (rbind (json_sub_mut st [''creator'', ''cert'']) json_to_strs) (\<lambda>ccert.
     rbind (ptr_text st [''creator'', ''sig'']) (\<lambda>csig.
       Inr \<lparr>ws_world_id = wid, ws_created_time = ctime, ws_keyc_name = kname,
            ws_keyc_initial_amount = kamount, ws_allow_mining = mining, ws_mining_rule = [],
            ws_allow_anonymous_user = anon, ws_join_fee = fee, ws_authority_id = aid,
            ws_authority_pk = parseCertContent acert, ws_creator_id = cid,
            ws_creator_pk = parseCertContent ccert, ws_creator_sig = csig,
            ws_eden_sig = eden\<rparr>)))))))))))))"

fun tracker_addresses :: "json list \<Rightarrow> string list result" where
  "tracker_addresses [] = Inr []"
| "tracker_addresses (t # ts) = rbind (rbind (json_sub_mut t [''address'']) json_to_str) (\<lambda>a.
     rbind (tracker_addresses ts) (\<lambda>r. Inr (a # r)))"

definition unmarshalChainState :: "json \<Rightarrow> LocalChainState result" where
  "unmarshalChainState st =
     rbind (ptr_text st [''chain'', ''id'']) (\<lambda>cid.
     rbind (ptr_text st [''chain'', ''world'']) (\<lambda>wid.
     rbind (ptr_text st [''chain'', ''after'']) (\<lambda>ctime.
     rbind (ptr_bool st [''policy'', ''allow_custom_contract'']) (\<lambda>custom.
     rbind (ptr_bool st [''policy'', ''allow_oracle'']) (\<lambda>oracle.
     rbind (ptr_bool st [''policy'', ''allow_tag'']) (\<lambda>tag.
     rbind (ptr_bool st [''policy'', ''allow_heavy_contract'']) (\<lambda>heavy.
     rbind (ptr_text st [''creator'', ''id'']) (\<lambda>crid.
     rbind (rbind (json_sub_mut st [''creator'', ''cert'']) json_to_strs) (\<lambda>ccert.
     rbind (ptr_text st [''creator'', ''sig'']) (\<lambda>csig.
     rbind (json_sub_mut st [''tracker'']) (\<lambda>tr.
     rbind (tracker_addresses (json_items tr)) (\<lambda>addrs.
       Inr \<lparr>lc_chain_id = cid, lc_world_id = wid, lc_created_time = ctime,
            lc_allow_custom_contract = custom, lc_allow_oracle = oracle, lc_allow_tag = tag,
            lc_allow_heavy_contract = heavy, lc_creator_id = crid,
            lc_creator_pk = parseCertContent ccert, lc_creator_sig = csig,
            lc_tracker_addresses = addrs\<rparr>))))))))))))"

text \<open>The loop of \<open>initWorld\<close> over \<open>authority_pk\<close>, which is a string.\<close>

fun join_lines :: "string \<Rightarrow> string" where
  "join_lines [] = []"
| "join_lines [c] = [c]"
| "join_lines (c # d # cs) = c # LF # join_lines (d # cs)"

definition initWorld :: "json \<Rightarrow> (Chain, unit) prog" where
  "initWorld st = sbind (slift (unmarshalWorldState st)) (\<lambda>w.
     sbind (assign (Inr w) (\<lambda>w ch. ch\<lparr>ch_app := (ch_app ch)
        \<lparr>ap_world_id := ws_world_id w, ap_auth_cert := join_lines (ws_authority_pk w)\<rparr>\<rparr>)) (\<lambda>_.
     sbind (on_kv (saveWorld w)) (\<lambda>_. on_kv (saveLatestWorldId (ws_world_id w)))))"

definition initChain :: "json \<Rightarrow> (Chain, string list option) prog" where
  "initChain st = sbind (slift (unmarshalChainState st)) (\<lambda>c ch.
     if ap_world_id (ch_app ch) \<noteq> lc_world_id c then (ch, Inr None)
     else sbind (assign (Inr c) (\<lambda>c ch. ch\<lparr>ch_app := (ch_app ch)\<lparr>ap_chain_id := lc_chain_id c\<rparr>\<rparr>)) (\<lambda>_.
          sbind (\<lambda>ch. case saveChain c (ch_kv ch) of (kv, r) \<Rightarrow> (ch\<lparr>ch_kv := kv\<rparr>, r)) (\<lambda>_.
          sbind (on_kv (saveLatestChainId (lc_chain_id c))) (\<lambda>_.
            sret (Some (lc_tracker_addresses c))))) ch)"

subsection \<open>Tables\<close>

definition table :: "string list \<Rightarrow> json list list \<Rightarrow> json" where
  "table names rows = json_obj [(''name'', JArr (map JStr names)), (''data'', JArr (map JArr rows))]"

definition queryWorldGet :: "Chain \<Rightarrow> json" where
  "queryWorldGet ch = (let w = loadCurrentWorld (ch_kv ch) (ap_world_id (ch_app ch)) in
     table [''world_id'', ''created_time'', ''creator_id'', ''creator_pk'', ''authority_id'', ''authority_pk'',
            ''keyc_name'', ''keyc_initial_amount'', ''allow_mining'', ''mining_rule'',
            ''allow_anonymous_user'', ''join_fee'']
       [[JStr (ws_world_id w), JStr (ws_created_time w), JStr (ws_creator_id w), JStr (ws_creator_pk w),
         JStr (ws_authority_id w), JStr (ws_authority_pk w), JStr (ws_keyc_name w),
         JStr (ws_keyc_initial_amount w), JBool (ws_allow_mining w), JStr (ws_mining_rule w),
         JBool (ws_allow_anonymous_user w), JStr (ws_join_fee w)]])"

definition queryChainGet :: "Chain \<Rightarrow> json" where
  "queryChainGet ch = (let c = loadCurrentChain (ch_kv ch) (ap_chain_id (ch_app ch)) in
     table [''chain_id'', ''created_time'', ''creator_id'', ''creator_pk'', ''allow_custom_contract'',
            ''allow_oracle'', ''allow_tag'', ''allow_heavy_contract'']
       [[JStr (lc_chain_id c), JStr (lc_created_time c), JStr (lc_creator_id c), JStr (lc_creator_pk c),
         JBool (lc_allow_custom_contract c), JBool (lc_allow_oracle c), JBool (lc_allow_tag c),
         JBool (lc_allow_heavy_contract c)]])"

end
