(* ===== verification/Chain_Ops.thy ===== *)
theory Chain_Ops
  imports Chain_State
begin

text \<open>
  The remaining operations of \<open>Chain\<close>: the tables over the relational database, the backup of
  blocks and its restoration, pushing and resolving blocks, the longest chain, and the movement of
  the head together with the state trees.
\<close>

subsection \<open>Tables over the relational database\<close>

definition queryBlockGet :: "utils \<Rightarrow> json \<Rightarrow> Chain \<Rightarrow> json result" where
  "queryBlockGet u wh ch = rbind (rbind (kv_queryBlockGet (ch_kv ch) wh) (from_cbor u)) (\<lambda>msg.
     Inr (table [''block''] [[msg]]))"

definition queryContractScan :: "rdb \<Rightarrow> json \<Rightarrow> json result" where
  "queryContractScan r wh = rbind (r_contract_scan r wh) (\<lambda>cs.
     Inr (table [''cid''] (map (\<lambda>c. [JStr c]) cs)))"

definition queryContractGet :: "rdb \<Rightarrow> json \<Rightarrow> json" where
  "queryContractGet r wh = table [''contract''] [[JStr (r_contract_get r wh)]]"

definition cert_row :: "UserCert \<Rightarrow> json list" where
  "cert_row c = [JStr (uc_sn c), JStr (dec_u64 (uc_nvbefore c)), JStr (dec_u64 (uc_nvafter c)), JStr (uc_x509 c)]"

definition queryCertGet :: "rdb \<Rightarrow> json \<Rightarrow> json" where
  "queryCertGet r wh = table [''sn'', ''nvbefore'', ''nvafter'', ''x509''] (map cert_row (r_cert_get r wh))"

definition queryUserInfoGet :: "rdb \<Rightarrow> json \<Rightarrow> json" where
  "queryUserInfoGet r wh = (let a = r_user_info_get r wh in
     table [''register_day'', ''register_code'', ''gender'', ''isc_type'', ''isc_code'', ''location'', ''age_limit'']
       [[JStr (dec_u64 (ua_register_day a)), JStr (ua_register_code a), JStr (dec_int (ua_gender a)),
         JStr (ua_isc_type a), JStr (ua_isc_code a), JStr (ua_location a), JStr (dec_int (ua_age_limit a))]])"

definition user_row :: "UserLedger \<Rightarrow> json list" where
  "user_row l = [JStr (ul_var_name l), JStr (ul_var_value l), JStr (dec_int (ul_var_type l)),
     JStr (dec_u64 (ul_up_time l)), JStr (dec_u64 (ul_up_block l)), JStr (ul_tag l), JStr (ul_pid l)]"

definition queryUserScopeGet :: "rdb \<Rightarrow> json \<Rightarrow> json" where
  "queryUserScopeGet r wh =
     table [''var_name'', ''var_value'', ''var_type'', ''up_time'', ''up_block'', ''tag'', ''pid'']
       (map user_row (r_user_scope_get r wh))"

text \<open>Here the type of the variable is a number, in the user's table it is a text.\<close>

definition contract_row :: "ContractLedger \<Rightarrow> json list" where
  "contract_row l = [JStr (cl_var_name l), JStr (cl_var_value l), JInt (cl_var_type l), JStr (cl_var_info l),
     JStr (dec_u64 (cl_up_time l)), JStr (dec_u64 (cl_up_block l)), JStr (cl_pid l)]"

definition queryContractScopeGet :: "rdb \<Rightarrow> json \<Rightarrow> json" where
  "queryContractScopeGet r wh =
     table [''var_name'', ''var_value'', ''var_type'', ''var_info'', ''up_time'', ''up_block'', ''pid'']
       (map contract_row (r_contract_scope_get r wh))"

definition queryTxGet :: "utils \<Rightarrow> rdb \<Rightarrow> json \<Rightarrow> json result" where
  "queryTxGet u r wh = rbind (from_cbor u (r_tx_get r wh)) (\<lambda>agg. Inr (table [''tx''] [[agg]]))"

definition queryBlockScan :: "rdb \<Rightarrow> json \<Rightarrow> json" where
  "queryBlockScan r wh = table [''block_id''] (map (\<lambda>b. [JStr b]) (r_block_scan r wh))"

definition queryTxScan :: "rdb \<Rightarrow> json \<Rightarrow> json" where
  "queryTxScan r wh = table [''tx_id''] (map (\<lambda>t. [JStr t]) (r_tx_scan r wh))"

definition getBlocksByHeight :: "rdb \<Rightarrow> int \<Rightarrow> int \<Rightarrow> Block list result" where
  "getBlocksByHeight r from to = (if from > to then Inr [] else r_get_blocks r from to)"

definition getLatestResolvedHeight :: "rdb \<Rightarrow> block_height_type" where
  "getLatestResolvedHeight r = (case r_latest_block r of Some b \<Rightarrow> m_block_height b | None \<Rightarrow> 0)"

subsection \<open>Backup\<close>

definition chain_saveBlockIds :: "utils \<Rightarrow> (Chain, unit) prog" where
  "chain_saveBlockIds u ch = on_kv (saveBlockIds (u_to_cbor u (getPoolBlockIds (ch_pool ch)))) ch"

definition chain_saveBackupBlock :: "utils \<Rightarrow> json \<Rightarrow> (Chain, unit) prog" where
  "chain_saveBackupBlock u block_json =
     sbind (slift (rbind (json_idx block_json ''block'') (\<lambda>b. json_str b ''id''))) (\<lambda>block_id.
       on_kv (saveBackupBlock block_id (u_to_cbor u block_json)))"

definition saveBackupResult :: "utils \<Rightarrow> UnresolvedBlock \<Rightarrow> (Chain, unit) prog" where
  "saveBackupResult u ur = (let i = ub_id ur in seq
     [on_kv (saveBackupUserLedgers i (serializeUserLedgerList u ur)),
      on_kv (saveBackupContractLedgers i (serializeContractLedgerList u ur)),
      on_kv (saveBackupUserAttributes i (serializeUserAttributeList u ur)),
      on_kv (saveBackupUserCerts i (serializeUserCertList u ur)),
      on_kv (saveBackupContracts i (serializeContractList u ur))])"

subsection \<open>Restoration\<close>

text \<open>\<open>json::get<bool>(j, key).value()\<close>.\<close>

definition json_bool :: "json \<Rightarrow> string \<Rightarrow> bool result" where
  "json_bool j k = (if json_contains j k then rbind (json_idx j k) json_to_bool else Inl Bad_Optional_Access)"

text \<open>The values of the enumeration; a number that names none of them is not represented.\<close>

definition query_type_of :: "int \<Rightarrow> QueryType result" where
  "query_type_of i = (if i = 0 then Inr Q_INSERT else if i = 1 then Inr Q_UPDATE
     else if i = 2 then Inr Q_DELETE else Inl Undefined_Behaviour)"

abbreviation text_int :: "json \<Rightarrow> string \<Rightarrow> int result" where
  "text_int j k \<equiv> rbind (json_str j k) stoi"

abbreviation text_u64 :: "json \<Rightarrow> string \<Rightarrow> 64 word result" where
  "text_u64 j k \<equiv> rbind (json_str j k) stou64"

definition parse_user_ledger :: "json \<Rightarrow> UserLedger result" where
  "parse_user_ledger j =
     rbind (json_str j ''var_name'') (\<lambda>name. rbind (json_str j ''var_value'') (\<lambda>val.
     rbind (text_int j ''var_type'') (\<lambda>ty. rbind (json_str j ''uid'') (\<lambda>uid.
     rbind (text_u64 j ''up_time'') (\<lambda>ut. rbind (text_int j ''up_block'') (\<lambda>ub.
     rbind (json_str j ''tag'') (\<lambda>tag. rbind (json_str j ''pid'') (\<lambda>pid.
     rbind (rbind (text_int j ''query_type'') query_type_of) (\<lambda>q. rbind (json_bool j ''is_empty'') (\<lambda>em.
       Inr \<lparr>ul_var_name = name, ul_var_value = val, ul_var_type = ty, ul_uid = uid, ul_up_time = ut,
            ul_up_block = word_of_int ub, ul_tag = tag, ul_pid = pid, ul_query_type = q,
            ul_is_empty = em\<rparr>))))))))))"

definition parse_contract_ledger :: "json \<Rightarrow> ContractLedger result" where
  "parse_contract_ledger j =
     rbind (json_str j ''var_name'') (\<lambda>name. rbind (json_str j ''var_value'') (\<lambda>val.
     rbind (text_int j ''var_type'') (\<lambda>ty. rbind (json_str j ''cid'') (\<lambda>cid.
     rbind (text_u64 j ''up_time'') (\<lambda>ut. rbind (text_int j ''up_block'') (\<lambda>ub.
     rbind (json_str j ''var_info'') (\<lambda>info. rbind (json_str j ''pid'') (\<lambda>pid.
     rbind (rbind (text_int j ''query_type'') query_type_of) (\<lambda>q. rbind (json_bool j ''is_empty'') (\<lambda>em.
       Inr \<lparr>cl_var_name = name, cl_var_value = val, cl_var_type = ty, cl_cid = cid, cl_up_time = ut,
            cl_up_block = word_of_int ub, cl_var_info = info, cl_pid = pid, cl_query_type = q,
            cl_is_empty = em\<rparr>))))))))))"

definition parse_user_attribute :: "json \<Rightarrow> UserAttribute result" where
  "parse_user_attribute j =
     rbind (json_str j ''uid'') (\<lambda>uid. rbind (text_u64 j ''register_day'') (\<lambda>day.
     rbind (json_str j ''register_code'') (\<lambda>code. rbind (text_int j ''gender'') (\<lambda>gender.
     rbind (json_str j ''isc_type'') (\<lambda>it. rbind (json_str j ''isc_code'') (\<lambda>ic.
     rbind (json_str j ''location'') (\<lambda>loc. rbind (text_int j ''age_limit'') (\<lambda>age.
     rbind (json_str j ''sigma'') (\<lambda>sigma.
       Inr \<lparr>ua_uid = uid, ua_register_day = day, ua_register_code = code, ua_gender = gender,
            ua_isc_type = it, ua_isc_code = ic, ua_location = loc, ua_age_limit = age,
            ua_sigma = sigma\<rparr>)))))))))"

definition parse_user_cert :: "json \<Rightarrow> UserCert result" where
  "parse_user_cert j =
     rbind (json_str j ''uid'') (\<lambda>uid. rbind (json_str j ''sn'') (\<lambda>sn.
     rbind (text_u64 j ''nvbefore'') (\<lambda>nb. rbind (text_u64 j ''nvafter'') (\<lambda>na.
     rbind (json_str j ''x509'') (\<lambda>x.
       Inr \<lparr>uc_uid = uid, uc_sn = sn, uc_nvbefore = nb, uc_nvafter = na, uc_x509 = x\<rparr>)))))"

definition parse_contract :: "json \<Rightarrow> Contract result" where
  "parse_contract j =
     rbind (json_str j ''cid'') (\<lambda>cid. rbind (text_u64 j ''after'') (\<lambda>af.
     rbind (text_u64 j ''before'') (\<lambda>be. rbind (json_str j ''author'') (\<lambda>au.
     rbind (json_str j ''friends'') (\<lambda>fr. rbind (json_str j ''contract'') (\<lambda>co.
     rbind (json_str j ''desc'') (\<lambda>de. rbind (json_str j ''sigma'') (\<lambda>si.
       Inr \<lparr>ct_cid = cid, ct_after = af, ct_before = be, ct_author = au, ct_friends = fr,
            ct_contract = co, ct_desc = de, ct_sigma = si, ct_query_type = Q_INSERT\<rparr>))))))))"

definition restoreUserLedgerList :: "json \<Rightarrow> (UnresolvedBlock, unit) prog" where
  "restoreUserLedgerList js = seq (map (\<lambda>j. assign (parse_user_ledger j)
     (\<lambda>l u. u\<lparr>user_ledger_list := om_put (ul_pid l) l (user_ledger_list u)\<rparr>)) (json_items js))"

definition restoreContractLedgerList :: "json \<Rightarrow> (UnresolvedBlock, unit) prog" where
  "restoreContractLedgerList js = seq (map (\<lambda>j. assign (parse_contract_ledger j)
     (\<lambda>l u. u\<lparr>contract_ledger_list := om_put (cl_pid l) l (contract_ledger_list u)\<rparr>)) (json_items js))"

definition restoreUserAttributeList :: "json \<Rightarrow> (UnresolvedBlock, unit) prog" where
  "restoreUserAttributeList js = seq (map (\<lambda>j. assign (parse_user_attribute j)
     (\<lambda>a u. u\<lparr>user_attribute_list := om_put (ua_uid a) a (user_attribute_list u)\<rparr>)) (json_items js))"

definition restoreUserCertList :: "json \<Rightarrow> (UnresolvedBlock, unit) prog" where
  "restoreUserCertList js = seq (map (\<lambda>j. assign (parse_user_cert j)
     (\<lambda>c u. u\<lparr>user_cert_list := om_put (uc_sn c) c (user_cert_list u)\<rparr>)) (json_items js))"

definition restoreContractList :: "json \<Rightarrow> (UnresolvedBlock, unit) prog" where
  "restoreContractList js = seq (map (\<lambda>j. assign (parse_contract j)
     (\<lambda>c u. u\<lparr>contract_list := om_put (ct_cid c) c (contract_list u)\<rparr>)) (json_items js))"

text \<open>
  One block of \<open>restorePool\<close>: the block is pushed, then the lists are restored into the local copy
  \<open>restored_unresolved_block\<close>, which the loop drops. \<open>clock\<close> is the time at which a block is pushed.
\<close>

definition restore_lists :: "utils \<Rightarrow> KvStore \<Rightarrow> string \<Rightarrow> UnresolvedBlock \<Rightarrow> UnresolvedBlock result" where
  "restore_lists u kv block_id ur =
     rbind (from_cbor u (loadBackupUserLedgers kv block_id)) (\<lambda>ul.
     rbind (from_cbor u (loadBackupContractLedgers kv block_id)) (\<lambda>cl.
     rbind (from_cbor u (loadBackupUserAttributes kv block_id)) (\<lambda>ua.
     rbind (from_cbor u (loadBackupUserCerts kv block_id)) (\<lambda>uc.
     rbind (from_cbor u (loadBackupContracts kv block_id)) (\<lambda>ct.
       (case seq [restoreUserLedgerList ul, restoreContractLedgerList cl, restoreUserAttributeList ua,
                  restoreUserCertList uc, restoreContractList ct] ur of
          (t, Inl e) \<Rightarrow> Inl e | (t, Inr _) \<Rightarrow> Inr t))))))"

definition restore_block :: "utils \<Rightarrow> (string \<Rightarrow> timestamp_t) \<Rightarrow> json \<Rightarrow> (Chain, unit) prog" where
  "restore_block u clock idj = sbind (slift (json_to_str idj)) (\<lambda>block_id ch.
     sbind (slift (from_cbor u (loadBackupBlock (ch_kv ch) block_id))) (\<lambda>msg.
       case block_initialize u msg Block_default of
         (b, Inl e) \<Rightarrow> slift (Inl e)
       | (b, Inr _) \<Rightarrow> sbind (on_pool (pushBlock (clock block_id) b)) (\<lambda>ret ch.
           (ch, rbind (restore_lists u (ch_kv ch) block_id
                  (getUnresolvedBlock_id (ch_pool ch) (m_block_id b) (pr_block_height ret)))
                (\<lambda>_. Inr ())))) ch)"

definition restorePool :: "utils \<Rightarrow> (string \<Rightarrow> timestamp_t) \<Rightarrow> (Chain, unit) prog" where
  "restorePool u clock ch = (let ids = loadBlockIds (ch_kv ch) in
     if ids = [] then (ch, Inr ())
     else sbind (slift (from_cbor u ids)) (\<lambda>js. seq (map (restore_block u clock) (json_items js))) ch)"

subsection \<open>Pushing and resolving\<close>

text \<open>
  A push result without indices (the block was refused or is a duplicate) leaves uninitialised
  values, the argument \<open>junk\<close>, in the description of the longest chain.
\<close>

definition or_junk :: "int \<Rightarrow> int option \<Rightarrow> int" where
  "or_junk junk i = (case i of Some k \<Rightarrow> k | None \<Rightarrow> junk)"

definition chain_pushBlock :: "int \<Rightarrow> timestamp_t \<Rightarrow> Block \<Rightarrow> (Chain, BlockPushResult) prog" where
  "chain_pushBlock junk now b = sbind (on_pool (pushBlock now b)) (\<lambda>ret ch.
     (if bp_block_height (ch_longest ch) < pr_block_height ret
      then ch\<lparr>ch_longest := \<lparr>bp_block_id = pr_block_id ret, bp_block_height = pr_block_height ret,
             bp_deq_idx = or_junk junk (pr_deq_idx ret), bp_vec_idx = or_junk junk (pr_vec_idx ret)\<rparr>\<rparr>
      else ch, Inr ret))"

definition chain_resolveBlock :: "Block \<Rightarrow> Chain \<Rightarrow> Chain \<times> UnresolvedBlock option" where
  "chain_resolveBlock b ch = (case resolveBlock b (ch_pool ch) of
       (p, None) \<Rightarrow> (ch\<lparr>ch_pool := p\<rparr>, None)
     | (p, Some (r, dropped)) \<Rightarrow> (ch\<lparr>ch_pool := p, ch_kv := fold delBackup dropped (ch_kv ch)\<rparr>, Some r))"

fun blocks_on_path :: "UnresolvedBlockPool \<Rightarrow> nat \<Rightarrow> int list \<Rightarrow> Block list result" where
  "blocks_on_path p i [] = Inr []"
| "blocks_on_path p i (v # vs) = rbind (getUnresolvedBlock p (int i) v) (\<lambda>u.
     rbind (blocks_on_path p (Suc i) vs) (\<lambda>r. Inr (ub_block u # r)))"

definition getBlocksFromUnresolvedLongestChain :: "Chain \<Rightarrow> Block list result" where
  "getBlocksFromUnresolvedLongestChain ch =
     rbind (getPath (ch_pool ch) (bp_block_id (ch_longest ch)) (bp_block_height (ch_longest ch)))
       (blocks_on_path (ch_pool ch) 0)"

definition chain_getLowestUnprocessedBlock :: "Chain \<Rightarrow> Block result" where
  "chain_getLowestUnprocessedBlock ch = getLowestUnprocessedBlock (ch_pool ch) (ch_longest ch)"

subsection \<open>State trees and head\<close>

definition setupStateTree :: "utils \<Rightarrow> rdb \<Rightarrow> (Chain, unit) prog" where
  "setupStateTree u r = sbind (on_us_tree (updateUserState u (r_all_user_ledger r)))
     (\<lambda>_. on_cs_tree (updateContractState u (r_all_contract_ledger r)))"

definition updateStateTree :: "utils \<Rightarrow> UnresolvedBlock \<Rightarrow> (Chain, unit) prog" where
  "updateStateTree u ur = sbind (on_us_tree (updateUserState u (map snd (user_ledger_list ur))))
     (\<lambda>_. on_cs_tree (updateContractState u (map snd (contract_ledger_list ur))))"

definition env_of :: "env \<Rightarrow> Chain \<Rightarrow> env" where
  "env_of e ch = e\<lparr>e_pool := ch_pool ch\<rparr>"

text \<open>Both kinds of entries are inserted into the tree of the users.\<close>

definition revertStateTree :: "env \<Rightarrow> UnresolvedBlock \<Rightarrow> (Chain, unit) prog" where
  "revertStateTree e ur = (let h = m_block_height (ub_block ur); v = cur_vec_idx ur in seq
     (map (\<lambda>(pid, _). sbind (\<lambda>ch. (ch, findUserLedgerFromPoint (env_of e ch) pid h v))
             (\<lambda>r. on_us_tree (insertNode (e_utils e) (User (sr_user_ledger r))))) (user_ledger_list ur)
      @ map (\<lambda>(pid, _). sbind (\<lambda>ch. (ch, findContractLedgerFromPoint (env_of e ch) pid h v))
             (\<lambda>r. on_us_tree (insertNode (e_utils e) (Contract (sr_contract_ledger r))))) (contract_ledger_list ur)))"

text \<open>
  The first loop of \<open>moveHead\<close> goes down while the height is above the target (compared as unsigned
  numbers), the second until the path to the target is met; \<open>None\<close> is the early return of the
  second. Each round reads the pool at the current position, so both end.
\<close>

function back_to :: "UnresolvedBlockPool \<Rightarrow> block_height_type \<Rightarrow> int \<Rightarrow> int \<Rightarrow> int \<Rightarrow> (int \<times> int \<times> int) result" where
  "back_to p target h deq vec =
     (if (word_of_int h :: 64 word) > target
      then (case getUnresolvedBlock p deq vec of Inl e \<Rightarrow> Inl e
            | Inr w \<Rightarrow> (case chk_int (h - 1) of Inl e \<Rightarrow> Inl e
              | Inr h' \<Rightarrow> back_to p target h' (deq - 1) (prev_vec_idx w)))
      else Inr (h, deq, vec))"
  by pat_completeness auto
termination
  by (relation "measure (\<lambda>(p, t, h, deq, vec). nat (deq + 1))")
    (auto simp: getUnresolvedBlock_def rbind_eq_Inr at_index_Inr)

declare back_to.simps [simp del]

function meet_path :: "UnresolvedBlockPool \<Rightarrow> int list \<Rightarrow> int \<Rightarrow> int \<Rightarrow> int \<Rightarrow> (int \<times> int \<times> int) option result" where
  "meet_path p path h deq vec =
     (case at_index path deq of Inl e \<Rightarrow> Inl e
      | Inr t \<Rightarrow> if vec = t then Inr (Some (h, deq, vec))
          else (case getUnresolvedBlock p deq vec of Inl e \<Rightarrow> Inl e
            | Inr w \<Rightarrow> (case chk_int (h - 1) of Inl e \<Rightarrow> Inl e
              | Inr h' \<Rightarrow> if deq - 1 < 0 \<and> prev_vec_idx w < 0 then Inr None
                  else meet_path p path h' (deq - 1) (prev_vec_idx w))))"
  by pat_completeness auto
termination
  by (relation "measure (\<lambda>(p, path, h, deq, vec). nat (deq + 1))")
    (auto simp: at_index_Inr)

declare meet_path.simps [simp del]

fun revert_down :: "env \<Rightarrow> nat \<Rightarrow> int \<Rightarrow> int \<Rightarrow> (Chain, int \<times> int) prog" where
  "revert_down e 0 deq vec = sret (deq, vec)"
| "revert_down e (Suc n) deq vec =
     sbind (\<lambda>ch. (ch, getUnresolvedBlock (ch_pool ch) deq vec)) (\<lambda>w.
     sbind (revertStateTree e w) (\<lambda>_. revert_down e n (deq - 1) (prev_vec_idx w)))"

text \<open>Going up, the block at the current position is applied before the step is made.\<close>

fun apply_up :: "utils \<Rightarrow> int list \<Rightarrow> nat \<Rightarrow> int \<Rightarrow> int \<Rightarrow> (Chain, int \<times> int) prog" where
  "apply_up u path 0 deq vec = sret (deq, vec)"
| "apply_up u path (Suc n) deq vec =
     sbind (\<lambda>ch. (ch, getUnresolvedBlock (ch_pool ch) deq vec)) (\<lambda>w.
     sbind (updateStateTree u w) (\<lambda>_.
     sbind (slift (at_index path (deq + 1))) (\<lambda>v. apply_up u path n (deq + 1) v)))"

definition common_block :: "Chain \<Rightarrow> string \<Rightarrow> block_height_type
    \<Rightarrow> ((int \<times> int \<times> int) option \<times> int list) result" where
  "common_block ch target target_height = (let hd = ch_head ch; p = ch_pool ch in
     rbind (back_to p target_height (u64_to_int (bp_block_height hd)) (bp_deq_idx hd) (bp_vec_idx hd)) (\<lambda>(h, deq, vec).
     rbind (getPath p target target_height) (\<lambda>path.
       if path = [] then Inr (Some (h, deq, vec), path)
       else rbind (meet_path p path h deq vec) (\<lambda>m. Inr (m, path)))))"

definition set_head :: "int \<Rightarrow> int \<Rightarrow> int \<Rightarrow> (Chain, unit) prog" where
  "set_head deq vec h ch =
     (let ch1 = ch\<lparr>ch_head := (ch_head ch)\<lparr>bp_deq_idx := deq, bp_vec_idx := vec,
            bp_block_height := word_of_int h\<rparr>\<rparr>
      in case getUnresolvedBlock (ch_pool ch1) deq vec of
           Inl e \<Rightarrow> (ch1, Inl e)
         | Inr w \<Rightarrow> (ch1\<lparr>ch_head := (ch_head ch1)\<lparr>bp_block_id := ub_id w\<rparr>\<rparr>, Inr ()))"

definition moveHead :: "env \<Rightarrow> string \<Rightarrow> block_height_type \<Rightarrow> (Chain, unit) prog" where
  "moveHead e target target_height ch =
     (if target = [] then (ch, Inr ())
      else case common_block ch target target_height of
          Inl err \<Rightarrow> (ch, Inl err)
        | Inr (None, path) \<Rightarrow> (ch, Inr ())
        | Inr (Some (common_height, _, _), path) \<Rightarrow>
            (let head_height = u64_to_int (bp_block_height (ch_head ch)) in
             sbind (slift (chk_int (u64_to_int target_height - common_height))) (\<lambda>front.
             sbind (slift (chk_int (head_height - common_height))) (\<lambda>back.
             sbind (revert_down e (nat back) (bp_deq_idx (ch_head ch)) (bp_vec_idx (ch_head ch))) (\<lambda>(deq, vec).
             sbind (apply_up (e_utils e) path (nat front) deq vec) (\<lambda>(deq, vec).
               set_head deq vec (head_height - int (nat back) + int (nat front)))))) ch))"

end
