(* ===== verification/Block_Pool_Inv.thy ===== *)
theory Block_Pool_Inv
  imports Block_Pool
begin

text \<open>
  The invariant of the pool of unresolved blocks and its preservation: every block sits at the
  level its height asks for and knows its own index; its parent index is exactly the first block
  of the level below with the identifier it names (\<open>-1\<close> when there is none); the blocks of the
  lowest level are linked (index 0) exactly when they extend the latest confirmed block; no two
  blocks of a level have the same hash.
\<close>

named_theorems pool_simps \<open>projections of the pool's blocks under the updates of the pool\<close>

subsection \<open>Invariant\<close>

definition links_ok :: "UnresolvedBlock list \<Rightarrow> UnresolvedBlock list \<Rightarrow> bool" where
  "links_ok lower upper \<longleftrightarrow> (\<forall>u\<in>set upper. prev_vec_idx u = parent_idx lower (ub_prev_id u))"

definition root_ok :: "string \<Rightarrow> UnresolvedBlock list \<Rightarrow> bool" where
  "root_ok latest_id level \<longleftrightarrow>
     (\<forall>u\<in>set level. prev_vec_idx u = (if ub_prev_id u = latest_id then 0 else -1))"

definition level_ok :: "nat \<Rightarrow> UnresolvedBlock list \<Rightarrow> bool" where
  "level_ok height level \<longleftrightarrow>
     (\<forall>v<length level. cur_vec_idx (level ! v) = int v
        \<and> unat (m_block_height (ub_block (level ! v))) = height)
     \<and> distinct (map (\<lambda>u. m_block_hash (ub_block u)) level)"

definition levels_inv :: "string \<Rightarrow> nat \<Rightarrow> UnresolvedBlock list list \<Rightarrow> bool" where
  "levels_inv latest_id latest_height pool \<longleftrightarrow>
     latest_height + length pool < 2 ^ 31
     \<and> (\<forall>d<length pool. level_ok (latest_height + Suc d) (pool ! d))
     \<and> (pool \<noteq> [] \<longrightarrow> root_ok latest_id (pool ! 0))
     \<and> (\<forall>d. Suc d < length pool \<longrightarrow> links_ok (pool ! d) (pool ! Suc d))"

definition pool_inv :: "UnresolvedBlockPool \<Rightarrow> bool" where
  "pool_inv p = levels_inv (m_latest_confirmed_id p) (unat (m_latest_confirmed_height p)) (m_block_pool p)"

lemma levels_invI:
  assumes "lh + length pool < 2 ^ 31"
    and "\<And>d. d < length pool \<Longrightarrow> level_ok (lh + Suc d) (pool ! d)"
    and "pool \<noteq> [] \<Longrightarrow> root_ok lid (pool ! 0)"
    and "\<And>d. Suc d < length pool \<Longrightarrow> links_ok (pool ! d) (pool ! Suc d)"
  shows "levels_inv lid lh pool"
  using assms by (simp add: levels_inv_def)

lemma levels_invD:
  assumes "levels_inv lid lh pool"
  shows "lh + length pool < 2 ^ 31"
    and "d < length pool \<Longrightarrow> level_ok (lh + Suc d) (pool ! d)"
    and "pool \<noteq> [] \<Longrightarrow> root_ok lid (pool ! 0)"
    and "Suc d < length pool \<Longrightarrow> links_ok (pool ! d) (pool ! Suc d)"
  using assms by (simp_all add: levels_inv_def)

subsection \<open>Parents\<close>

lemma parent_idx_append:
  "parent_idx (lower @ [w]) x =
     (if parent_idx lower x < 0 then if ub_id w = x then int (length lower) else -1
      else parent_idx lower x)"
  by (auto simp: parent_idx_def first_index_append split: option.split)

lemma parent_idx_range:
  "parent_idx lower x = -1 \<and> (\<forall>u\<in>set lower. ub_id u \<noteq> x)
   \<or> (\<exists>i<length lower. parent_idx lower x = int i \<and> ub_id (lower ! i) = x)"
  using first_index_Some [of "\<lambda>u. ub_id u = x" lower]
  by (auto simp: parent_idx_def first_index_None split: option.split)

lemma parent_idx_ids:
  "map ub_id xs = map ub_id ys \<Longrightarrow> parent_idx xs x = parent_idx ys x"
  unfolding parent_idx_def by (drule first_index_cong [where P = "\<lambda>i. i = x"]) simp

lemma adopt_simps [simp, pool_simps]:
  "ub_block (adopt i v u) = ub_block u" "cur_vec_idx (adopt i v u) = cur_vec_idx u"
  by (simp_all add: adopt_def)

lemma mk_UnresolvedBlock_simps [simp, pool_simps]:
  "ub_block (mk_UnresolvedBlock b c v) = b" "cur_vec_idx (mk_UnresolvedBlock b c v) = c"
  "prev_vec_idx (mk_UnresolvedBlock b c v) = v"
  by (simp_all add: mk_UnresolvedBlock_def)

lemma links_ok_adopt:
  assumes "links_ok lower upper"
  shows "links_ok (lower @ [w]) (map (adopt (ub_id w) (int (length lower))) upper)"
  using assms parent_idx_range [of lower]
  by (fastforce simp: links_ok_def parent_idx_append adopt_def)

lemma links_ok_append:
  "links_ok lower upper \<Longrightarrow> prev_vec_idx w = parent_idx lower (ub_prev_id w) \<Longrightarrow> links_ok lower (upper @ [w])"
  by (auto simp: links_ok_def)

lemma links_ok_map:
  "(\<And>u. ub_block (f u) = ub_block u) \<Longrightarrow> links_ok (map f lower) upper = links_ok lower upper"
  by (simp add: links_ok_def parent_idx_ids [of "map f lower" lower])

lemma links_ok_Nil [simp]: "links_ok lower []"
  by (simp add: links_ok_def)

lemma level_ok_Nil [simp]: "level_ok h []"
  by (simp add: level_ok_def)

lemma root_ok_Nil [simp]: "root_ok i []"
  by (simp add: root_ok_def)

lemma level_ok_append:
  assumes "level_ok h level" "unat (m_block_height b) = h"
    and "\<And>u. u \<in> set level \<Longrightarrow> \<not> block_eq (ub_block u) b"
  shows "level_ok h (level @ [mk_UnresolvedBlock b (int (length level)) v])"
proof -
  have "m_block_height (ub_block u) = m_block_height b" if "u \<in> set level" for u
    using assms(1,2) that by (auto simp: level_ok_def in_set_conv_nth intro: word_unat_eq_iff [THEN iffD2])
  then show ?thesis
    using assms by (fastforce simp: level_ok_def nth_append less_Suc_eq block_eq_def)
qed

lemma level_ok_map:
  "(\<And>u. ub_block (f u) = ub_block u) \<Longrightarrow> (\<And>u. cur_vec_idx (f u) = cur_vec_idx u)
   \<Longrightarrow> level_ok h (map f level) = level_ok h level"
  by (simp add: level_ok_def comp_def)

subsection \<open>Pushing\<close>

lemma add_block_nth:
  assumes "deq < length pool"
  defines "vec \<equiv> int (length (pool ! deq))"
  shows "length (add_block b deq v pool) = length pool"
    and "d < length pool \<Longrightarrow> add_block b deq v pool ! d =
           (if d = deq then pool ! d @ [mk_UnresolvedBlock b vec v]
            else if d = Suc deq then map (adopt (m_block_id b) vec) (pool ! d)
            else pool ! d)"
  using assms by (simp_all add: add_block_def Let_def nth_list_update)

lemma add_block_inv:
  assumes inv: "levels_inv lid lh pool" and deq: "deq < length pool"
    and height: "unat (m_block_height b) = lh + Suc deq"
    and fresh: "\<And>u. u \<in> set (pool ! deq) \<Longrightarrow> \<not> block_eq (ub_block u) b"
    and root: "deq = 0 \<Longrightarrow> v = 0 \<and> m_block_prev_id b = lid"
    and link: "\<And>d. deq = Suc d \<Longrightarrow> v = parent_idx (pool ! d) (m_block_prev_id b)"
  shows "levels_inv lid lh (add_block b deq v pool)"
proof (rule levels_invI)
  let ?pool = "add_block b deq v pool" and ?u = "mk_UnresolvedBlock b (int (length (pool ! deq))) v"
  note nth = add_block_nth [OF deq]
  show "lh + length ?pool < 2 ^ 31" using levels_invD(1) [OF inv] nth(1) by simp
  show "level_ok (lh + Suc d) (?pool ! d)" if "d < length ?pool" for d
  proof -
    have "level_ok (lh + Suc d) (pool ! d)" using levels_invD(2) [OF inv, of d] that nth(1) by simp
    then show ?thesis
      using that level_ok_append [OF _ height fresh, of "pool ! deq" v] nth
      by (cases "d = deq"; cases "d = Suc deq") (simp_all add: level_ok_map)
  qed
  show "root_ok lid (?pool ! 0)" if "?pool \<noteq> []"
    using levels_invD(3) [OF inv] root deq that by (cases "pool = []") (auto simp: nth root_ok_def)
  show "links_ok (?pool ! d) (?pool ! Suc d)" if d: "Suc d < length ?pool" for d
  proof -
    have old: "links_ok (pool ! d) (pool ! Suc d)"
      using levels_invD(4) [OF inv, of d] d nth(1) by simp
    consider "d = deq" | "Suc d = deq" | "d = Suc deq" | "d \<noteq> deq \<and> Suc d \<noteq> deq \<and> d \<noteq> Suc deq" by blast
    then show ?thesis
    proof cases
      case 1
      then show ?thesis using d old links_ok_adopt [of "pool ! d" "pool ! Suc d" ?u] by (simp add: nth)
    next
      case 2
      then show ?thesis using d old link [of d] by (auto simp: nth intro: links_ok_append)
    next
      case 3
      then show ?thesis using d old by (simp add: nth links_ok_map)
    qed (use d old in \<open>simp add: nth\<close>)
  qed
qed

lemma resize_inv:
  assumes "levels_inv lid lh pool" "lh + n < 2 ^ 31" "length pool \<le> n"
  shows "levels_inv lid lh (resize n [] pool)"
proof (rule levels_invI)
  let ?pool = "resize n [] pool"
  show "lh + length ?pool < 2 ^ 31" using assms by simp
  show "level_ok (lh + Suc d) (?pool ! d)" if "d < length ?pool" for d
    using that levels_invD(2) [OF assms(1), of d] by (simp add: nth_resize)
  show "root_ok lid (?pool ! 0)" if "?pool \<noteq> []"
  proof -
    have "0 < n" using that length_resize [of n "[]" pool] by (metis length_greater_0_conv)
    then show ?thesis using levels_invD(3) [OF assms(1)] by (cases "pool = []") (simp_all add: nth_resize)
  qed
  show "links_ok (?pool ! d) (?pool ! Suc d)" if "Suc d < length ?pool" for d
    using that levels_invD(4) [OF assms(1), of d] by (simp add: nth_resize)
qed

text \<open>A height the pool accepts at the given time.\<close>

definition timely :: "timestamp_t \<Rightarrow> block_height_type \<Rightarrow> UnresolvedBlockPool \<Rightarrow> bool" where
  "timely now h p \<longleftrightarrow> m_latest_confirmed_height p < h
     \<and> (h - m_latest_confirmed_height p - 1) * BP_INTERVAL \<le> now - m_latest_confirmed_time p"

definition level_of :: "block_height_type \<Rightarrow> UnresolvedBlockPool \<Rightarrow> nat" where
  "level_of h p = unat h - unat (m_latest_confirmed_height p) - 1"

definition grown :: "nat \<Rightarrow> UnresolvedBlockPool \<Rightarrow> UnresolvedBlockPool" where
  "grown d p = p\<lparr>m_block_pool := resize (max (Suc d) (length (m_block_pool p))) [] (m_block_pool p)\<rparr>"

text \<open>What a push does, without the arithmetic of the code and without errors.\<close>

definition push_spec :: "timestamp_t \<Rightarrow> Block \<Rightarrow> UnresolvedBlockPool \<Rightarrow> UnresolvedBlockPool \<times> BlockPushResult" where
  "push_spec now b p =
     (let h = m_block_height b; d = level_of h p; p1 = grown d p; level = m_block_pool p1 ! d in
      if \<not> timely now h p then (p, push_result_start)
      else if \<exists>u\<in>set level. block_eq (ub_block u) b
      then (p1, push_result_start\<lparr>pr_block_height := h, pr_duplicated := True\<rparr>)
      else if d = 0 \<and> m_block_prev_id b \<noteq> m_latest_confirmed_id p then (p1, push_result_start)
      else (p1\<lparr>m_block_pool := add_block b d
                 (if d = 0 then 0 else parent_idx (m_block_pool p1 ! (d - 1)) (m_block_prev_id b)) (m_block_pool p1)\<rparr>,
            push_result_start\<lparr>pr_block_id := m_block_id b, pr_block_height := h,
              pr_deq_idx := Some (int d), pr_vec_idx := Some (int (length level))\<rparr>))"

lemma resize_same [simp]: "resize (length xs) d xs = xs"
  by (simp add: resize_def)

lemma deq_index_eq:
  assumes "unat (m_latest_confirmed_height p) < 2 ^ 31" "unat h < 2 ^ 31"
  shows "deq_index p h = Inr (int (unat h) - int (unat (m_latest_confirmed_height p)) - 1)"
proof -
  have "int (unat (m_latest_confirmed_height p)) < 2 ^ 31" "int (unat h) < 2 ^ 31"
    using assms by (simp_all only: nat_less_of_nat_pow)
  then have "int_min \<le> int (unat h) - int (unat (m_latest_confirmed_height p)) - 1"
    "int (unat h) - int (unat (m_latest_confirmed_height p)) - 1 \<le> int_max" by linarith+
  then show ?thesis
    by (simp only: deq_index_def u64_to_int_diff [OF assms(2,1)] chk_int_def) simp
qed

lemma deq_index_small:
  assumes "m_latest_confirmed_height p < h" "unat h < 2 ^ 31"
  shows "deq_index p h = Inr (int (level_of h p))"
proof -
  have *: "unat (m_latest_confirmed_height p) < unat h" using assms(1) by (simp add: word_less_nat_alt)
  then have "int (unat h) - int (unat (m_latest_confirmed_height p)) - 1 = int (level_of h p)"
    unfolding level_of_def by linarith
  then show ?thesis using deq_index_eq [of p h] * assms(2) by simp
qed

lemma level_of_height:
  "m_latest_confirmed_height p < h \<Longrightarrow> unat h = unat (m_latest_confirmed_height p) + Suc (level_of h p)"
  by (simp add: level_of_def word_less_nat_alt)

lemma prepareDeque_eq:
  assumes "unat h < 2 ^ 31"
  shows "prepareDeque now h p = (if timely now h p then (grown (level_of h p) p, Inr True) else (p, Inr False))"
proof (cases "timely now h p")
  case True
  then have "m_latest_confirmed_height p < h" by (simp add: timely_def)
  then show ?thesis
    using True deq_index_small [OF _ assms, of p]
    by (auto simp: prepareDeque_def timely_def grown_def max_def nat_add_distrib not_le not_less)
next
  case False
  then show ?thesis by (auto simp: prepareDeque_def timely_def not_le not_less)
qed

lemma grown_simps [simp, pool_simps]:
  "m_latest_confirmed_id (grown d p) = m_latest_confirmed_id p"
  "m_latest_confirmed_height (grown d p) = m_latest_confirmed_height p"
  "d < length (m_block_pool (grown d p))"
  by (simp_all add: grown_def)

lemma grown_not_Nil [simp]: "m_block_pool (grown d p) \<noteq> []"
  using grown_simps(3) [of d p] by (cases "m_block_pool (grown d p)") simp_all

lemma grown_inv:
  assumes "pool_inv p" "m_latest_confirmed_height p < h" "unat h < 2 ^ 31"
  shows "pool_inv (grown (level_of h p) p)"
proof -
  let ?lh = "unat (m_latest_confirmed_height p)" and ?pool = "m_block_pool p"
  have "?lh + max (Suc (level_of h p)) (length ?pool) < 2 ^ 31"
    using levels_invD(1) assms level_of_height [OF assms(2)] unfolding pool_inv_def max_def by fastforce
  then show ?thesis
    using assms(1) by (simp add: pool_inv_def grown_def resize_inv)
qed

lemma pushBlock_eq:
  assumes inv: "pool_inv p" and h: "unat (m_block_height b) < 2 ^ 31"
  shows "pushBlock now b p = (fst (push_spec now b p), Inr (snd (push_spec now b p)))"
proof -
  let ?h = "m_block_height b" and ?d = "level_of (m_block_height b) p"
  have lh: "unat (m_latest_confirmed_height p) < 2 ^ 31"
    using levels_invD(1) inv unfolding pool_inv_def by fastforce
  show ?thesis
  proof (cases "timely now ?h p")
    case False
    then show ?thesis
      using prepareDeque_eq [OF h, of now p] deq_index_eq [OF lh h]
      by (simp add: pushBlock_def push_spec_def sbind_def Let_def)
  next
    case True
    then have "deq_index p ?h = Inr (int ?d)" using deq_index_small h by (simp add: timely_def)
    moreover have "at_index (m_block_pool (grown ?d p)) (int ?d) = Inr (m_block_pool (grown ?d p) ! ?d)" by simp
    moreover have "nat (int ?d - 1) = ?d - 1" by simp
    ultimately show ?thesis
      using True prepareDeque_eq [OF h, of now p]
      by (simp add: pushBlock_def push_spec_def sbind_def Let_def split del: if_split)
        (simp split: if_split)
  qed
qed

lemma push_spec_inv:
  assumes inv: "pool_inv p" and h: "unat (m_block_height b) < 2 ^ 31"
  shows "pool_inv (fst (push_spec now b p))"
proof (cases "timely now (m_block_height b) p")
  case True
  then have lt: "m_latest_confirmed_height p < m_block_height b" by (simp add: timely_def)
  let ?d = "level_of (m_block_height b) p"
  note g = grown_inv [OF inv lt h]
  have "pool_inv ((grown ?d p)\<lparr>m_block_pool := add_block b ?d
      (if ?d = 0 then 0 else parent_idx (m_block_pool (grown ?d p) ! (?d - 1)) (m_block_prev_id b))
      (m_block_pool (grown ?d p))\<rparr>)"
    if "\<not> (\<exists>u\<in>set (m_block_pool (grown ?d p) ! ?d). block_eq (ub_block u) b)"
      "\<not> (?d = 0 \<and> m_block_prev_id b \<noteq> m_latest_confirmed_id p)"
    using g that level_of_height [OF lt] unfolding pool_inv_def
    by (auto intro!: add_block_inv)
  then show ?thesis
    using True g by (auto simp: push_spec_def Let_def)
qed (simp add: push_spec_def Let_def inv)

end
