(* ===== verification/Block_Pool_Resolve.thy ===== *)
theory Block_Pool_Resolve
  imports Block_Pool_Inv
begin

text \<open>
  Signature counts and resolution. \<open>tree_ssig\<close> is the reference: the signers of a block and of
  all blocks above it in the pool. \<open>updateTotalNumSSig\<close> computes it for every block, and
  \<open>resolveBlock\<close> confirms, among the blocks that extend the latest confirmed one, the first whose
  tree carries the most signatures.
\<close>

subsection \<open>Signatures of a subtree\<close>

fun tree_ssig :: "UnresolvedBlock list list \<Rightarrow> nat \<Rightarrow> int" where
  "tree_ssig [] v = 0"
| "tree_ssig (l # ls) v = getNumSigners (ub_block (l ! v)) +
     (case ls of [] \<Rightarrow> 0
      | l1 # _ \<Rightarrow> sum_list (map (\<lambda>j. if prev_vec_idx (l1 ! j) = int v then tree_ssig ls j else 0)
                     [0..<length l1]))"

text \<open>What the invariant reads of a block: its content and its two indices.\<close>

definition same_links :: "UnresolvedBlock \<Rightarrow> UnresolvedBlock" where
  "same_links u = mk_UnresolvedBlock (ub_block u) (cur_vec_idx u) (prev_vec_idx u)"

lemma same_links_simps [simp, pool_simps]:
  "ub_block (same_links u) = ub_block u" "cur_vec_idx (same_links u) = cur_vec_idx u"
  "prev_vec_idx (same_links u) = prev_vec_idx u"
  "same_links (u\<lparr>ssig_sum := s\<rparr>) = same_links u" "same_links (own_ssig u) = same_links u"
  by (simp_all add: same_links_def own_ssig_def)

lemma own_ssig_sum [simp, pool_simps]: "ssig_sum (own_ssig u) = getNumSigners (ub_block u)"
  by (simp add: own_ssig_def)

lemma same_links_eq:
  "same_links u = same_links w \<longleftrightarrow>
     ub_block u = ub_block w \<and> cur_vec_idx u = cur_vec_idx w \<and> prev_vec_idx u = prev_vec_idx w"
  by (metis same_links_def same_links_simps(1-3))

lemma levels_inv_same_links:
  assumes "map (map same_links) xs = map (map same_links) ys" "levels_inv lid lh ys"
  shows "levels_inv lid lh xs"
proof -
  have "levels_inv lid lh (map (map same_links) zs) = levels_inv lid lh zs" for zs
    by (simp add: levels_inv_def level_ok_map links_ok_map links_ok_def root_ok_def
        level_ok_def comp_def cong: conj_cong)
      (auto simp: links_ok_def parent_idx_ids [of "map same_links l" l for l])
  then show ?thesis using assms by metis
qed

lemma add_ssig_length [simp]: "length (add_ssig l u) = length l"
  by (simp add: add_ssig_def)

lemma foldl_add_ssig_length [simp]: "length (foldl add_ssig l us) = length l"
  by (induction us arbitrary: l) simp_all

lemma add_ssig_same_links [simp]: "map same_links (add_ssig l u) = map same_links l"
  by (rule nth_equalityI) (auto simp: add_ssig_def nth_list_update)

lemma foldl_add_ssig_same_links [simp]: "map same_links (foldl add_ssig l us) = map same_links l"
  by (induction us arbitrary: l) simp_all

lemma foldl_add_ssig_sum:
  "v < length l \<Longrightarrow> ssig_sum (foldl add_ssig l us ! v) =
     ssig_sum (l ! v) + sum_list (map (\<lambda>u. if prev_vec_idx u = int v then ssig_sum u else 0) us)"
  by (induction us arbitrary: l) (auto simp: add_ssig_def nth_list_update)

lemma add_levels_Cons: "add_levels (l # ls) =
  (case add_levels ls of [] \<Rightarrow> [l] | l1 # _ \<Rightarrow> foldl add_ssig l l1 # add_levels ls)"
  by (cases ls) (auto split: list.split)

lemma add_levels_length [simp]: "length (add_levels ls) = length ls"
  by (induction ls) (auto simp: add_levels_Cons split: list.split)

lemma add_levels_same_links [simp]: "map (map same_links) (add_levels ls) = map (map same_links) ls"
proof (induction ls)
  case (Cons l ls)
  then show ?case by (cases "add_levels ls") (simp_all add: add_levels_Cons)
qed simp

lemma add_levels_drop: "drop d (add_levels ls) = add_levels (drop d ls)"
proof (induction ls arbitrary: d)
  case (Cons l ls)
  then show ?case
    by (cases d) (auto simp: add_levels_Cons split: list.split)
qed simp

lemma own_ssig_levels [simp]: "map (map same_links) (map (map own_ssig) ls) = map (map same_links) ls"
  by (simp add: comp_def)

lemma add_levels_tree_ssig:
  "v < length l \<Longrightarrow> ssig_sum (hd (add_levels (map (map own_ssig) (l # ls))) ! v) = tree_ssig (l # ls) v"
proof (induction ls arbitrary: l v)
  case Nil
  then show ?case by (simp add: own_ssig_def)
next
  case (Cons l1 ls)
  let ?up = "add_levels (map (map own_ssig) (l1 # ls))"
  obtain l1' ls' where up: "?up = l1' # ls'"
    using add_levels_length [of "map (map own_ssig) (l1 # ls)"] by (cases ?up) (simp_all del: add_levels_length)
  have same: "map same_links l1' = map same_links l1"
    using add_levels_same_links [of "map (map own_ssig) (l1 # ls)"] unfolding up by (simp add: comp_def)
  then have len: "length l1' = length l1" using map_eq_imp_length_eq by blast
  have each: "prev_vec_idx (l1' ! j) = prev_vec_idx (l1 ! j)" "ssig_sum (l1' ! j) = tree_ssig (l1 # ls) j"
    if "j < length l1" for j
  proof -
    show "ssig_sum (l1' ! j) = tree_ssig (l1 # ls) j" using Cons.IH [OF that] up by simp
    have "same_links (l1' ! j) = same_links (l1 ! j)" using same that len by (metis nth_map)
    then show "prev_vec_idx (l1' ! j) = prev_vec_idx (l1 ! j)" by (simp add: same_links_eq)
  qed
  have "sum_list (map (\<lambda>u. if prev_vec_idx u = int v then ssig_sum u else 0) l1') =
      sum_list (map (\<lambda>j. if prev_vec_idx (l1 ! j) = int v then tree_ssig (l1 # ls) j else 0) [0..<length l1])"
    by (rule arg_cong [of _ _ sum_list], rule nth_equalityI) (simp_all add: len each del: tree_ssig.simps)
  then show ?case
    using Cons.prems up by (simp add: foldl_add_ssig_sum)
qed

lemma updateTotalNumSSig_sum:
  assumes "d < length (m_block_pool p)" "v < length (m_block_pool p ! d)"
  shows "ssig_sum (m_block_pool (updateTotalNumSSig p) ! d ! v) = tree_ssig (drop d (m_block_pool p)) v"
proof -
  let ?ls = "map (map own_ssig) (m_block_pool p)"
  have "add_levels ?ls ! d = hd (drop d (add_levels ?ls))" using assms(1) by (simp add: hd_drop_conv_nth)
  also have "\<dots> = hd (add_levels (map (map own_ssig) (drop d (m_block_pool p))))"
    by (simp only: add_levels_drop drop_map)
  finally show ?thesis
    using assms add_levels_tree_ssig [of v "m_block_pool p ! d" "drop (Suc d) (m_block_pool p)"]
    by (simp add: updateTotalNumSSig_def Cons_nth_drop_Suc)
qed

lemma updateTotalNumSSig_same_links [simp]:
  "map (map same_links) (m_block_pool (updateTotalNumSSig p)) = map (map same_links) (m_block_pool p)"
  by (simp add: updateTotalNumSSig_def comp_def)

lemma updateTotalNumSSig_simps [simp, pool_simps]:
  "m_latest_confirmed_id (updateTotalNumSSig p) = m_latest_confirmed_id p"
  "m_latest_confirmed_height (updateTotalNumSSig p) = m_latest_confirmed_height p"
  "m_latest_confirmed_time (updateTotalNumSSig p) = m_latest_confirmed_time p"
  by (simp_all add: updateTotalNumSSig_def)

lemma updateTotalNumSSig_inv: "pool_inv p \<Longrightarrow> pool_inv (updateTotalNumSSig p)"
  unfolding pool_inv_def updateTotalNumSSig_simps
  by (rule levels_inv_same_links [OF updateTotalNumSSig_same_links])

subsection \<open>Choice of the block to confirm\<close>

definition best_so_far :: "UnresolvedBlock list \<Rightarrow> int \<times> int \<Rightarrow> bool" where
  "best_so_far us hi \<longleftrightarrow>
     (\<forall>u\<in>set us. prev_vec_idx u = 0 \<longrightarrow> ssig_sum u \<le> fst hi)
     \<and> (snd hi = -1 \<and> fst hi = 0
        \<or> (\<exists>i<length us. snd hi = int i \<and> prev_vec_idx (us ! i) = 0 \<and> ssig_sum (us ! i) = fst hi \<and> 0 < fst hi
             \<and> (\<forall>j<i. prev_vec_idx (us ! j) = 0 \<longrightarrow> ssig_sum (us ! j) < fst hi)))"

lemma best_so_far_step:
  assumes "best_so_far us (highest, idx)"
  shows "best_so_far (us @ [u])
    (if prev_vec_idx u = 0 \<and> highest < ssig_sum u then (ssig_sum u, int (length us)) else (highest, idx))"
proof (cases "prev_vec_idx u = 0 \<and> highest < ssig_sum u")
  case True
  have "0 \<le> highest" using assms by (auto simp: best_so_far_def)
  moreover have "prev_vec_idx (us ! j) = 0 \<longrightarrow> ssig_sum (us ! j) < ssig_sum u" if "j < length us" for j
    using assms True that by (force simp: best_so_far_def dest: nth_mem)
  ultimately show ?thesis
    using True assms by (force simp: best_so_far_def nth_append)
next
  case False
  then show ?thesis using assms by (auto simp: best_so_far_def nth_append)
qed

lemma pick_highest_best:
  "best_so_far pre acc \<Longrightarrow> best_so_far (pre @ us) (pick_highest us (length pre) acc)"
proof (induction us arbitrary: pre acc)
  case (Cons u us)
  obtain highest idx where "acc = (highest, idx)" by (cases acc)
  then show ?case
    using Cons.IH [OF best_so_far_step] Cons.prems by fastforce
qed simp

lemma pick_highest_spec: "best_so_far us (pick_highest us 0 (0, -1))"
  using pick_highest_best [of "[]" "(0, -1)" us] by (simp add: best_so_far_def)

subsection \<open>Resolution\<close>

text \<open>The pool after the block at index \<open>i\<close> of the lowest level was confirmed.\<close>

definition confirm :: "nat \<Rightarrow> UnresolvedBlockPool \<Rightarrow> UnresolvedBlockPool" where
  "confirm i p = (let b = ub_block (m_block_pool p ! 0 ! i) in
     p\<lparr>m_latest_confirmed_prev_id := m_latest_confirmed_id p,
       m_latest_confirmed_id := m_block_id b,
       m_latest_confirmed_hash := m_block_hash b,
       m_latest_confirmed_height := m_block_height b,
       m_block_pool := relink_front (m_block_id b) (tl (m_block_pool p))\<rparr>)"

lemma resolveBlock_None:
  assumes "resolveBlock nb p = (p', None)"
  shows "p' = p \<or> p' = updateTotalNumSSig p"
  using assms by (auto simp: resolveBlock_def Let_def split: if_splits list.splits prod.splits)

lemma resolveBlock_Some:
  assumes "resolveBlock nb p = (p', Some (r, dropped))"
  shows "\<exists>l0 l1 rest i. m_block_pool (updateTotalNumSSig p) = l0 # l1 # rest
     \<and> i < length l0 \<and> r = l0 ! i \<and> prev_vec_idx r = 0 \<and> 1 \<le> ssig_sum r
     \<and> (\<forall>u\<in>set l0. prev_vec_idx u = 0 \<longrightarrow> ssig_sum u \<le> ssig_sum r)
     \<and> (\<forall>j<i. prev_vec_idx (l0 ! j) = 0 \<longrightarrow> ssig_sum (l0 ! j) < ssig_sum r)
     \<and> (\<exists>u\<in>set l1. prev_vec_idx u = int i)
     \<and> p' = confirm i (updateTotalNumSSig p) \<and> dropped = map ub_id l0
     \<and> 3 < m_block_height nb - m_latest_confirmed_height p"
proof -
  obtain l0 l1 rest where pool: "m_block_pool (updateTotalNumSSig p) = l0 # l1 # rest"
    and late: "3 < m_block_height nb - m_latest_confirmed_height p"
    using assms by (auto simp: resolveBlock_def Let_def split: if_splits list.splits)
  obtain highest idx where pick: "pick_highest l0 0 (0, -1) = (highest, idx)" by (cases "pick_highest l0 0 (0, -1)")
  have ok: "\<not> (idx < 0 \<or> highest < 1)" "\<exists>u\<in>set l1. prev_vec_idx u = idx"
    and r: "r = l0 ! nat idx" "dropped = map ub_id l0" "p' = confirm (nat idx) (updateTotalNumSSig p)"
    using assms pool pick late
    by (auto simp: resolveBlock_def Let_def confirm_def split: if_splits)
  have "best_so_far l0 (highest, idx)" using pick_highest_spec [of l0] pick by simp
  with ok(1) obtain i where "i < length l0" "idx = int i" "prev_vec_idx (l0 ! i) = 0"
    "ssig_sum (l0 ! i) = highest" "\<forall>u\<in>set l0. prev_vec_idx u = 0 \<longrightarrow> ssig_sum u \<le> highest"
    "\<forall>j<i. prev_vec_idx (l0 ! j) = 0 \<longrightarrow> ssig_sum (l0 ! j) < highest"
    by (auto simp: best_so_far_def)
  then show ?thesis
    using pool ok r late by (intro exI [of _ l0] exI [of _ l1] exI [of _ rest] exI [of _ i]) simp
qed

lemma relink_simps [simp, pool_simps]:
  "ub_block (relink i u) = ub_block u" "cur_vec_idx (relink i u) = cur_vec_idx u"
  by (simp_all add: relink_def)

lemma relink_front_length [simp]: "length (relink_front i ls) = length ls"
  by (cases ls) simp_all

lemma relink_front_nth:
  "d < length ls \<Longrightarrow> relink_front i ls ! d = (if d = 0 then map (relink i) (ls ! d) else ls ! d)"
  by (cases ls; cases d) simp_all

lemma links_ok_relink_front:
  "Suc d < length ls \<Longrightarrow> links_ok (ls ! d) (ls ! Suc d) \<Longrightarrow>
   links_ok (relink_front i ls ! d) (relink_front i ls ! Suc d)"
  by (cases ls; cases d) (simp_all add: links_ok_map)

lemma confirm_inv:
  assumes inv: "pool_inv p" and i: "m_block_pool p \<noteq> []" "i < length (m_block_pool p ! 0)"
  shows "pool_inv (confirm i p)"
    and "unat (m_latest_confirmed_height (confirm i p)) = Suc (unat (m_latest_confirmed_height p))"
proof -
  let ?lh = "unat (m_latest_confirmed_height p)" and ?b = "ub_block (m_block_pool p ! 0 ! i)"
  let ?ls = "tl (m_block_pool p)"
  note inv' = inv [unfolded pool_inv_def]
  have h: "unat (m_block_height ?b) = Suc ?lh"
    using levels_invD(2) [OF inv', of 0] i by (simp add: level_ok_def)
  then show "unat (m_latest_confirmed_height (confirm i p)) = Suc ?lh" by (simp add: confirm_def Let_def)
  have len: "Suc (length ?ls) = length (m_block_pool p)" using i(1) by (cases "m_block_pool p") simp_all
  have "levels_inv (m_block_id ?b) (Suc ?lh) (relink_front (m_block_id ?b) ?ls)"
  proof (rule levels_invI)
    show "Suc ?lh + length (relink_front (m_block_id ?b) ?ls) < 2 ^ 31"
      using levels_invD(1) [OF inv'] len by simp
    show "level_ok (Suc ?lh + Suc d) (relink_front (m_block_id ?b) ?ls ! d)"
      if "d < length (relink_front (m_block_id ?b) ?ls)" for d
      using that len levels_invD(2) [OF inv', of "Suc d"]
      by (cases d) (simp_all add: relink_front_nth nth_tl level_ok_map)
    show "root_ok (m_block_id ?b) (relink_front (m_block_id ?b) ?ls ! 0)"
      if "relink_front (m_block_id ?b) ?ls \<noteq> []"
      using that by (cases ?ls) (auto simp: root_ok_def relink_def)
    show "links_ok (relink_front (m_block_id ?b) ?ls ! d) (relink_front (m_block_id ?b) ?ls ! Suc d)"
      if "Suc d < length (relink_front (m_block_id ?b) ?ls)" for d
      using that len levels_invD(4) [OF inv', of "Suc d"] by (intro links_ok_relink_front) (simp_all add: nth_tl)
  qed
  then show "pool_inv (confirm i p)" using h by (simp add: pool_inv_def confirm_def Let_def)
qed

lemma resolveBlock_inv:
  assumes "pool_inv p"
  shows "pool_inv (fst (resolveBlock nb p))"
proof (cases "resolveBlock nb p")
  case (Pair p' res)
  note u = updateTotalNumSSig_inv [OF assms]
  show ?thesis
  proof (cases res)
    case None
    then show ?thesis using Pair resolveBlock_None [of nb p p'] assms u by auto
  next
    case (Some rd)
    then obtain r dropped where "rd = (r, dropped)" by (cases rd)
    then obtain l0 l1 rest i where "m_block_pool (updateTotalNumSSig p) = l0 # l1 # rest" "i < length l0"
      "p' = confirm i (updateTotalNumSSig p)"
      using resolveBlock_Some [of nb p p' r dropped] Pair Some by blast
    then show ?thesis using Pair confirm_inv(1) [OF u] by simp
  qed
qed

subsection \<open>The pool as a state machine\<close>

text \<open>
  One call on the pool: a block is pushed, a block is offered for resolution, or the state
  computed for a block of the pool is stored with it. Heights of pushed blocks come from
  \<open>Block::initialize\<close>, which reads them with \<open>stoi\<close>; the non-negative ones are below \<open>2 ^ 31\<close>.
\<close>

inductive pool_step :: "UnresolvedBlockPool \<Rightarrow> UnresolvedBlockPool \<Rightarrow> bool" where
  push: "unat (m_block_height b) < 2 ^ 31 \<Longrightarrow> pushBlock now b p = (p', Inr ret) \<Longrightarrow> pool_step p p'"
| resolve: "resolveBlock nb p = (p', ret) \<Longrightarrow> pool_step p p'"
| store: "getUnresolvedBlock p deq vec = Inr w \<Longrightarrow> same_links u = same_links w
     \<Longrightarrow> setUnresolvedBlock u p = (p', Inr ()) \<Longrightarrow> pool_step p p'"

inductive_cases pool_stepE: "pool_step p p'"

definition pool_start :: "UnresolvedBlockPool \<Rightarrow> bool" where
  "pool_start p \<longleftrightarrow> m_block_pool p = [] \<and> unat (m_latest_confirmed_height p) < 2 ^ 31"

lemma getUnresolvedBlock_Inr:
  "getUnresolvedBlock p deq vec = Inr w \<longleftrightarrow> 0 \<le> deq \<and> 0 \<le> vec \<and> nat deq < length (m_block_pool p)
     \<and> nat vec < length (m_block_pool p ! nat deq) \<and> w = m_block_pool p ! nat deq ! nat vec"
  by (auto simp: getUnresolvedBlock_def rbind_eq_Inr at_index_Inr)

lemma setUnresolvedBlock_at:
  assumes inv: "pool_inv p" and w: "getUnresolvedBlock p deq vec = Inr w" "same_links u = same_links w"
  shows "setUnresolvedBlock u p = (p\<lparr>m_block_pool := (m_block_pool p)[nat deq :=
           (m_block_pool p ! nat deq)[nat vec := u\<lparr>is_processed := True\<rparr>]]\<rparr>, Inr ())"
proof -
  let ?lh = "unat (m_latest_confirmed_height p)" and ?h = "m_block_height (ub_block u)"
  note w' = w(1) [unfolded getUnresolvedBlock_Inr]
  have lv: "level_ok (?lh + Suc (nat deq)) (m_block_pool p ! nat deq)"
    and bound: "?lh + length (m_block_pool p) < 2 ^ 31"
    using inv w' levels_invD(1,2) unfolding pool_inv_def by blast+
  then have h: "unat ?h = ?lh + Suc (nat deq)" and cur: "cur_vec_idx u = vec"
    using w' w(2) by (auto simp: level_ok_def same_links_eq)
  have "deq_index p ?h = Inr deq"
    using deq_index_eq [of p ?h] h bound w' by simp
  then show ?thesis
    using w(1) cur by (simp add: setUnresolvedBlock_def)
qed

lemma setUnresolvedBlock_inv:
  assumes inv: "pool_inv p" and w: "getUnresolvedBlock p deq vec = Inr w" "same_links u = same_links w"
  shows "pool_inv (fst (setUnresolvedBlock u p))"
proof -
  let ?pool = "m_block_pool p"
  note w' = w(1) [unfolded getUnresolvedBlock_Inr]
  have eq: "same_links (u\<lparr>is_processed := True\<rparr>) = same_links w"
    using w(2) by (simp add: same_links_eq)
  then have "map same_links ((?pool ! nat deq)[nat vec := u\<lparr>is_processed := True\<rparr>]) = map same_links (?pool ! nat deq)"
    using w' by (intro map_update_same) simp
  then have "map (map same_links) (?pool[nat deq := (?pool ! nat deq)[nat vec := u\<lparr>is_processed := True\<rparr>]])
      = map (map same_links) ?pool"
    by (rule map_update_same)
  from levels_inv_same_links [OF this inv [unfolded pool_inv_def]] show ?thesis
    by (simp add: setUnresolvedBlock_at [OF assms] pool_inv_def)
qed

lemma pool_start_inv: "pool_start p \<Longrightarrow> pool_inv p"
  by (simp add: pool_start_def pool_inv_def levels_inv_def)

lemma pool_step_inv: "pool_step p p' \<Longrightarrow> pool_inv p \<Longrightarrow> pool_inv p'"
proof (induction rule: pool_step.induct)
  case (push b now p p' ret)
  then show ?case using pushBlock_eq [of p b now] push_spec_inv [of p b now] by simp
next
  case (resolve nb p p' ret)
  then show ?case using resolveBlock_inv [of p nb] by simp
next
  case (store p deq vec w u p')
  then show ?case using setUnresolvedBlock_inv [of p deq vec w u] by simp
qed

interpretation block_pool: state_machine pool_start pool_step pool_inv
  by unfold_locales (simp_all add: pool_start_inv pool_step_inv)

end
