(* ===== verification/Block_Pool_Props.thy ===== *)
theory Block_Pool_Props
  imports Block_Pool_Resolve
begin

text \<open>
  What the pool of unresolved blocks promises: the properties of pushing, finding, resolving and
  of the paths the chain walks, proved from the invariant.
\<close>

subsection \<open>A concrete pool\<close>

text \<open>Blocks with a height, an identifier, a parent and a number of signers, for the witnesses.\<close>

definition demo_block :: "nat \<Rightarrow> string \<Rightarrow> string \<Rightarrow> nat \<Rightarrow> Block" where
  "demo_block h bid prev signers = Block_default\<lparr>m_block_height := of_nat h, m_block_id := bid, m_block_hash := bid,
     m_block_prev_id := prev, m_signers := replicate signers \<lparr>signer_id = ''s'', signer_sig = ''x''\<rparr>\<rparr>"

definition demo_start :: UnresolvedBlockPool where
  "demo_start = \<lparr>m_block_pool = [], m_latest_confirmed_id = ''g'', m_latest_confirmed_height = 10,
     m_latest_confirmed_time = 0, m_latest_confirmed_hash = ''g'', m_latest_confirmed_prev_id = ''f''\<rparr>"

text \<open>Two rival blocks above the confirmed one, and a child of the second.\<close>

definition demo_pool :: UnresolvedBlockPool where
  "demo_pool = fold (\<lambda>b p. fst (push_spec 1000 b p))
     [demo_block 11 ''a'' ''g'' 1, demo_block 11 ''b'' ''g'' 1, demo_block 12 ''c'' ''b'' 2] demo_start"

lemma demo_start_inv: "pool_inv demo_start"
  by (simp add: demo_start_def pool_inv_def levels_inv_def)

lemma demo_pool_inv: "pool_inv demo_pool"
  by (simp add: demo_pool_def push_spec_inv demo_start_inv demo_block_def Block_default_def)

lemma demo_pool_eval: "map (map (\<lambda>u. (ub_id u, cur_vec_idx u, prev_vec_idx u))) (m_block_pool demo_pool)
   = [[(''a'', 0, 0), (''b'', 1, 0)], [(''c'', 0, 1)]]"
  by code_simp

lemma demo_resolve_eval: 
   "map_option (\<lambda>(r, d). (ub_id r, ssig_sum r, d)) (snd (resolveBlock (demo_block 14 ''z'' ''y'' 0) demo_pool))
   = Some (''b'', 3, [''a'', ''b''])"
  by code_simp

subsection \<open>Reachable pools\<close>

text \<open>C3: Whatever sequence of pushes, resolutions and stores a pool that was just set up goes through,
  its invariant holds: heights match levels, blocks know their own index, parent indices are the
  first matching identifier of the level below, the lowest level is linked exactly to the latest
  confirmed block, and no level holds two blocks with the same hash.\<close>

theorem pool_reachable_inv:
  assumes "pool_start p" "pool_step\<^sup>*\<^sup>* p q"
  shows "pool_inv q"
  using assms by (rule block_pool.reachable_inv)

lemma pool_step_push_spec:
  assumes "pool_inv p" "unat (m_block_height b) < 2 ^ 31"
  shows "pool_step p (fst (push_spec now b p))"
  using pool_step.push [OF assms(2) pushBlock_eq [OF assms]] .

lemma demo_heights [simp]:
  "unat (m_block_height (demo_block h bid prev n)) = h mod 2 ^ 64"
  by (simp add: demo_block_def Block_default_def unat_of_nat)

lemma demo_pool_steps: "pool_step\<^sup>*\<^sup>* demo_start demo_pool"
proof -
  let ?p1 = "fst (push_spec 1000 (demo_block 11 ''a'' ''g'' 1) demo_start)"
  let ?p2 = "fst (push_spec 1000 (demo_block 11 ''b'' ''g'' 1) ?p1)"
  have "pool_inv ?p1" by (simp add: push_spec_inv demo_start_inv)
  moreover from this have "pool_inv ?p2" by (simp add: push_spec_inv)
  ultimately have "pool_step demo_start ?p1" "pool_step ?p1 ?p2" "pool_step ?p2 demo_pool"
    by (simp_all add: demo_pool_def pool_step_push_spec demo_start_inv)
  then show ?thesis by (meson converse_rtranclp_into_rtranclp rtranclp.rtrancl_refl)
qed

lemma pool_reachable_inv_witness: "pool_inv demo_pool"
  by (rule pool_reachable_inv [OF _ demo_pool_steps]) (simp add: pool_start_def demo_start_def)

subsection \<open>Pushing\<close>



lemma push_spec_stored:
  assumes "pr_deq_idx (snd (push_spec now b p)) = Some d" "pr_vec_idx (snd (push_spec now b p)) = Some v"
  shows "\<exists>k prev. d = int k \<and> k < length (m_block_pool (grown k p)) \<and> k = level_of (m_block_height b) p
    \<and> v = int (length (m_block_pool (grown k p) ! k)) \<and> timely now (m_block_height b) p
    \<and> \<not> (\<exists>u\<in>set (m_block_pool (grown k p) ! k). block_eq (ub_block u) b)
    \<and> m_block_pool (fst (push_spec now b p)) = add_block b k prev (m_block_pool (grown k p))
    \<and> m_latest_confirmed_height (fst (push_spec now b p)) = m_latest_confirmed_height p
    \<and> m_latest_confirmed_time (fst (push_spec now b p)) = m_latest_confirmed_time p"
  using assms by (auto simp: push_spec_def Let_def push_result_start_def grown_def split: if_splits)

lemma grown_get:
  "getUnresolvedBlock p d v = Inr w \<Longrightarrow> getUnresolvedBlock (grown k p) d v = Inr w"
  by (auto simp: getUnresolvedBlock_Inr grown_def nth_resize)

lemma add_block_get:
  assumes "getUnresolvedBlock p d v = Inr w" "k < length (m_block_pool p)"
    "m_block_pool q = add_block b k prev (m_block_pool p)"
  shows "\<exists>w'. getUnresolvedBlock q d v = Inr w' \<and> ub_block w' = ub_block w
    \<and> (prev_vec_idx w' = prev_vec_idx w \<or> prev_vec_idx w < 0 \<and> ub_prev_id w = m_block_id b)"
  using assms by (auto simp: getUnresolvedBlock_Inr add_block_nth nth_append adopt_def split: if_splits)

text \<open>C5: A block the pool accepted is found again at the position the push reported, with its own index
  recorded, and every block that was in the pool before is still at its position with the same
  content; the only change to it can be that it takes the new block as its missing parent.\<close>

theorem pushBlock_then_get:
  assumes "pool_inv p" "unat (m_block_height b) < 2 ^ 31"
    and push: "pushBlock now b p = (q, Inr ret)" "pr_deq_idx ret = Some d" "pr_vec_idx ret = Some v"
  shows "(\<exists>u. getUnresolvedBlock q d v = Inr u \<and> ub_block u = b \<and> cur_vec_idx u = v)
    \<and> (\<forall>d' v' w. getUnresolvedBlock p d' v' = Inr w \<longrightarrow>
         (\<exists>w'. getUnresolvedBlock q d' v' = Inr w' \<and> ub_block w' = ub_block w
           \<and> (prev_vec_idx w' = prev_vec_idx w \<or> prev_vec_idx w < 0 \<and> ub_prev_id w = m_block_id b)))"
proof -
  have q: "q = fst (push_spec now b p)" "ret = snd (push_spec now b p)"
    using pushBlock_eq [OF assms(1,2), of now] push(1) by simp_all
  obtain k prev where k: "d = int k" "k < length (m_block_pool (grown k p))"
    "v = int (length (m_block_pool (grown k p) ! k))"
    "m_block_pool q = add_block b k prev (m_block_pool (grown k p))"
    using push_spec_stored push(2,3) q by blast
  then have "\<exists>u. getUnresolvedBlock q d v = Inr u \<and> ub_block u = b \<and> cur_vec_idx u = v"
    by (simp add: getUnresolvedBlock_Inr add_block_nth)
  then show ?thesis using add_block_get [OF grown_get k(2,4)] by blast
qed

lemma demo_push_d:
  defines "b \<equiv> demo_block 12 ''d'' ''a'' 1"
  shows "pushBlock 1000 b demo_pool = (fst (push_spec 1000 b demo_pool), Inr (snd (push_spec 1000 b demo_pool)))"
    "pr_deq_idx (snd (push_spec 1000 b demo_pool)) = Some 1"
    "pr_vec_idx (snd (push_spec 1000 b demo_pool)) = Some 1"
proof -
  show "pushBlock 1000 b demo_pool = (fst (push_spec 1000 b demo_pool), Inr (snd (push_spec 1000 b demo_pool)))"
    by (rule pushBlock_eq [OF demo_pool_inv]) (simp add: b_def)
qed (unfold b_def, code_simp, code_simp)

lemma pushBlock_then_get_witness:
  "\<exists>u. getUnresolvedBlock (fst (push_spec 1000 (demo_block 12 ''d'' ''a'' 1) demo_pool)) 1 1 = Inr u
     \<and> ub_block u = demo_block 12 ''d'' ''a'' 1 \<and> cur_vec_idx u = 1"
  by (rule pushBlock_then_get [OF demo_pool_inv _ demo_push_d, THEN conjunct1]) simp

text \<open>Pushing a block that the pool has just accepted changes nothing and is reported as a duplicate.\<close>

theorem pushBlock_twice:
  assumes "pool_inv p" "unat (m_block_height b) < 2 ^ 31"
    and push: "pushBlock now b p = (q, Inr ret)" "pr_deq_idx ret = Some d" "pr_vec_idx ret = Some v"
  shows "\<exists>ret'. pushBlock now b q = (q, Inr ret') \<and> pr_duplicated ret' \<and> pr_deq_idx ret' = None"
proof -
  have q: "q = fst (push_spec now b p)" "ret = snd (push_spec now b p)"
    using pushBlock_eq [OF assms(1,2), of now] push(1) by simp_all
  obtain k prev where k: "k < length (m_block_pool (grown k p))" "k = level_of (m_block_height b) p"
    "m_block_pool q = add_block b k prev (m_block_pool (grown k p))" "timely now (m_block_height b) p"
    "m_latest_confirmed_height q = m_latest_confirmed_height p" "m_latest_confirmed_time q = m_latest_confirmed_time p"
    using push_spec_stored push(2,3) q by blast
  have here: "timely now (m_block_height b) q" "level_of (m_block_height b) q = k" "k < length (m_block_pool q)"
    using k by (simp_all add: timely_def level_of_def add_block_nth)
  have "grown k q = q" using here(3) by (simp add: grown_def max_absorb2)
  moreover have "\<exists>u\<in>set (m_block_pool q ! k). block_eq (ub_block u) b"
    using k(1,3) by (simp add: add_block_nth block_eq_def)
  ultimately have "push_spec now b q =
      (q, push_result_start\<lparr>pr_block_height := m_block_height b, pr_duplicated := True\<rparr>)"
    using here by (simp add: push_spec_def Let_def)
  moreover have "pool_inv q" using push_spec_inv [OF assms(1,2)] q by simp
  ultimately show ?thesis using pushBlock_eq [OF _ assms(2), of q now] by (simp add: push_result_start_def)
qed

lemma pushBlock_twice_witness:
  "\<exists>ret'. pushBlock 1000 (demo_block 12 ''d'' ''a'' 1) (fst (push_spec 1000 (demo_block 12 ''d'' ''a'' 1) demo_pool))
     = (fst (push_spec 1000 (demo_block 12 ''d'' ''a'' 1) demo_pool), Inr ret')
     \<and> pr_duplicated ret' \<and> pr_deq_idx ret' = None"
  by (rule pushBlock_twice [OF demo_pool_inv _ demo_push_d]) simp

subsection \<open>Negative heights\<close>

lemma prepareDeque_negative:
  assumes "k < 0" "int_min \<le> k" "unat (m_latest_confirmed_height p) < 2 ^ 31"
    and "unat (now - m_latest_confirmed_time p) < 2 ^ 63"
  shows "prepareDeque now (word_of_int k) p = (p, Inr False)"
proof -
  let ?l = "m_latest_confirmed_height p"
  obtain u where u: "word_of_int u = ?l" "0 \<le> u" "u < 2147483648"
    using assms(3) nat_less_of_nat_pow [of "unat ?l" 31] by (intro that [of "int (unat ?l)"]) simp_all
  let ?n = "k - u - 1"
  have eq: "(word_of_int k - ?l - 1) * BP_INTERVAL = (word_of_int (?n * 10) :: 64 word)"
    unfolding u(1) [symmetric] by (simp add: algebra_simps)
  have "uint (word_of_int (?n * 10) :: 64 word) = (?n * 10) mod 2 ^ 64"
    by (simp only: uint_word_of_int) simp
  also have "\<dots> = ?n * 10 + 2 ^ 64"
  proof -
    have "0 \<le> ?n * 10 + 18446744073709551616" "?n * 10 < 0" using assms(1,2) u by simp_all
    then have "0 \<le> ?n * 10 + 2 ^ 64" "?n * 10 + 2 ^ 64 < 2 ^ 64" by simp_all
    then show ?thesis by (metis mod_add_self2 mod_pos_pos_trivial)
  qed
  finally have "uint (word_of_int (?n * 10) :: 64 word) = ?n * 10 + 2 ^ 64" .
  moreover have "2 ^ 63 \<le> ?n * 10 + 2 ^ 64" using assms(1,2) u by simp
  ultimately have "2 ^ 63 \<le> uint (word_of_int (?n * 10) :: 64 word)" by (simp only:)
  moreover have "uint (now - m_latest_confirmed_time p) < 2 ^ 63"
    using assms(4) nat_less_of_nat_pow [of "unat (now - m_latest_confirmed_time p)" 63] by (simp only: uint_nat)
  ultimately have "now - m_latest_confirmed_time p < (word_of_int k - ?l - 1) * BP_INTERVAL"
    unfolding eq word_less_alt by linarith
  then show ?thesis by (simp add: prepareDeque_def)
qed



subsection \<open>Signature counts and resolution\<close>

text \<open>C4: After \<open>updateTotalNumSSig\<close> the count kept with every block is the number of signers of the
  block and of all blocks above it that are linked to it, directly or through others.\<close>

theorem updateTotalNumSSig_correct:
  assumes "d < length (m_block_pool p)" "v < length (m_block_pool p ! d)"
  shows "ssig_sum (m_block_pool (updateTotalNumSSig p) ! d ! v) = tree_ssig (drop d (m_block_pool p)) v"
  using assms by (rule updateTotalNumSSig_sum)

lemma updateTotalNumSSig_correct_witness:
  "ssig_sum (m_block_pool (updateTotalNumSSig demo_pool) ! 0 ! 1) = 3"
proof -
  have "length (m_block_pool demo_pool) = 2 \<and> length (m_block_pool demo_pool ! 0) = 2" by code_simp
  moreover have "tree_ssig (drop 0 (m_block_pool demo_pool)) 1 = 3" by code_simp
  ultimately show ?thesis using updateTotalNumSSig_correct [of 0 demo_pool 1] by simp
qed

lemma updateTotalNumSSig_pool:
  "length (m_block_pool (updateTotalNumSSig p)) = length (m_block_pool p)"
  "d < length (m_block_pool p) \<Longrightarrow>
     map same_links (m_block_pool (updateTotalNumSSig p) ! d) = map same_links (m_block_pool p ! d)"
  by (metis length_map nth_map updateTotalNumSSig_same_links)+

text \<open>C1: A block is resolved only when the offered block is more than three levels above the confirmed
  one. The resolved block extends the confirmed block, is one level higher, has a child in the next
  level and at least one signature in its tree; no other block that extends the confirmed one has a
  tree with more signatures, and the first of several best ones is taken. It becomes the confirmed
  block, its whole level leaves the pool and is reported as dropped, and the pool stays well formed.
  The recorded time of the confirmed block is not moved forward.\<close>

theorem resolveBlock_correct:
  assumes inv: "pool_inv p" and res: "resolveBlock nb p = (q, Some (r, dropped))"
  shows "\<exists>i<length (m_block_pool p ! 0). ub_block r = ub_block (m_block_pool p ! 0 ! i)
    \<and> ub_prev_id r = m_latest_confirmed_id p
    \<and> unat (m_block_height (ub_block r)) = Suc (unat (m_latest_confirmed_height p))
    \<and> 1 \<le> tree_ssig (m_block_pool p) i
    \<and> (\<forall>j<length (m_block_pool p ! 0). ub_prev_id (m_block_pool p ! 0 ! j) = m_latest_confirmed_id p \<longrightarrow>
         tree_ssig (m_block_pool p) j \<le> tree_ssig (m_block_pool p) i
         \<and> (j < i \<longrightarrow> tree_ssig (m_block_pool p) j < tree_ssig (m_block_pool p) i))
    \<and> (\<exists>u\<in>set (m_block_pool p ! 1). ub_prev_id u = ub_id r)
    \<and> dropped = map ub_id (m_block_pool p ! 0)
    \<and> length (m_block_pool q) = length (m_block_pool p) - 1
    \<and> m_latest_confirmed_id q = ub_id r \<and> m_latest_confirmed_height q = m_block_height (ub_block r)
    \<and> m_latest_confirmed_prev_id q = m_latest_confirmed_id p
    \<and> m_latest_confirmed_time q = m_latest_confirmed_time p
    \<and> pool_inv q"
proof -
  let ?pool = "m_block_pool p" and ?p1 = "updateTotalNumSSig p"
  obtain l0 l1 rest i where pool: "m_block_pool ?p1 = l0 # l1 # rest"
    and i: "i < length l0" "r = l0 ! i" "prev_vec_idx r = 0" "1 \<le> ssig_sum r"
    and best: "\<forall>u\<in>set l0. prev_vec_idx u = 0 \<longrightarrow> ssig_sum u \<le> ssig_sum r"
      "\<forall>j<i. prev_vec_idx (l0 ! j) = 0 \<longrightarrow> ssig_sum (l0 ! j) < ssig_sum r"
    and child: "\<exists>u\<in>set l1. prev_vec_idx u = int i"
    and q: "q = confirm i ?p1" "dropped = map ub_id l0"
    using resolveBlock_Some [OF res] by blast
  note inv1 = updateTotalNumSSig_inv [OF inv]
  note lv = levels_invD [OF inv1 [unfolded pool_inv_def]]
  have len: "length ?pool = Suc (Suc (length rest))" using updateTotalNumSSig_pool(1) [of p] pool by simp
  have same: "map same_links l0 = map same_links (?pool ! 0)" "map same_links l1 = map same_links (?pool ! 1)"
    using updateTotalNumSSig_pool(2) [of 0 p] updateTotalNumSSig_pool(2) [of 1 p] pool len by simp_all
  have blk: "length l0 = length (?pool ! 0)" "map ub_block l0 = map ub_block (?pool ! 0)"
      "map ub_block l1 = map ub_block (?pool ! 1)"
    using arg_cong [OF same(1), of "map ub_block"] arg_cong [OF same(1), of length]
      arg_cong [OF same(2), of "map ub_block"] by (simp_all add: comp_def)
  have sum: "ssig_sum (l0 ! j) = tree_ssig ?pool j" if "j < length l0" for j
    using updateTotalNumSSig_sum [of 0 p j] that pool len blk(1) by simp
  have root: "prev_vec_idx (l0 ! j) = 0 \<longleftrightarrow> ub_prev_id (l0 ! j) = m_latest_confirmed_id p"
    and blk0: "ub_block (l0 ! j) = ub_block (?pool ! 0 ! j)" if "j < length l0" for j
    using lv(3) pool that blk(1,2) by (auto simp: root_ok_def dest: nth_mem) (metis nth_map)
  have height: "unat (m_block_height (ub_block r)) = Suc (unat (m_latest_confirmed_height p))"
    using lv(2) [of 0] pool i by (simp add: level_ok_def)
  have links: "links_ok l0 l1" using lv(4) [of 0] pool by simp
  obtain u where u: "u \<in> set l1" "prev_vec_idx u = int i" using child by blast
  then have "parent_idx l0 (ub_prev_id u) = int i" using links by (simp add: links_ok_def)
  then have "ub_prev_id u = ub_id r" using parent_idx_range [of l0 "ub_prev_id u"] i(2) by auto
  then have "\<exists>u\<in>set l1. ub_prev_id u = ub_id r" using u(1) by blast
  then have "\<exists>b\<in>set (map ub_block l1). m_block_prev_id b = ub_id r" by auto
  then have child': "\<exists>u\<in>set (?pool ! 1). ub_prev_id u = ub_id r" unfolding blk(3) by auto
  have drop: "dropped = map ub_id (?pool ! 0)"
    using q(2) arg_cong [OF blk(2), of "map m_block_id"] by (simp add: comp_def)
  have best': "tree_ssig ?pool j \<le> tree_ssig ?pool i \<and> (j < i \<longrightarrow> tree_ssig ?pool j < tree_ssig ?pool i)"
    if "j < length (?pool ! 0)" "ub_prev_id (?pool ! 0 ! j) = m_latest_confirmed_id p" for j
    using that best sum [of j] sum [of i] root [of j] blk0 [of j] blk(1) i by (auto dest: nth_mem)
  have "pool_inv q" "length (m_block_pool q) = length ?pool - 1"
    "m_latest_confirmed_id q = ub_id r" "m_latest_confirmed_height q = m_block_height (ub_block r)"
    "m_latest_confirmed_prev_id q = m_latest_confirmed_id p" "m_latest_confirmed_time q = m_latest_confirmed_time p"
    using confirm_inv(1) [OF inv1, of i] pool i len by (simp_all add: q(1) confirm_def Let_def)
  moreover have "ub_prev_id r = m_latest_confirmed_id p" "ub_block r = ub_block (?pool ! 0 ! i)"
    "1 \<le> tree_ssig ?pool i" using i root [of i] blk0 [of i] sum [of i] by simp_all
  moreover have "i < length (?pool ! 0)" using i(1) blk(1) by simp
  moreover have "\<forall>j<length (?pool ! 0). ub_prev_id (?pool ! 0 ! j) = m_latest_confirmed_id p \<longrightarrow>
      tree_ssig ?pool j \<le> tree_ssig ?pool i \<and> (j < i \<longrightarrow> tree_ssig ?pool j < tree_ssig ?pool i)"
    using best' by blast
  ultimately show ?thesis
    using height child' drop by - (intro exI [of _ i] conjI; assumption)
qed

lemma demo_resolve: "\<exists>r. resolveBlock (demo_block 14 ''z'' ''y'' 0) demo_pool
    = (fst (resolveBlock (demo_block 14 ''z'' ''y'' 0) demo_pool), Some (r, [''a'', ''b'']))"
  using demo_resolve_eval
  by (cases "resolveBlock (demo_block 14 ''z'' ''y'' 0) demo_pool") auto

lemma resolveBlock_correct_witness:
  "m_latest_confirmed_height (fst (resolveBlock (demo_block 14 ''z'' ''y'' 0) demo_pool)) = 11
   \<and> pool_inv (fst (resolveBlock (demo_block 14 ''z'' ''y'' 0) demo_pool))"
proof -
  obtain r where "resolveBlock (demo_block 14 ''z'' ''y'' 0) demo_pool
    = (fst (resolveBlock (demo_block 14 ''z'' ''y'' 0) demo_pool), Some (r, [''a'', ''b'']))"
    using demo_resolve by blast
  from resolveBlock_correct [OF demo_pool_inv this]
  have "pool_inv (fst (resolveBlock (demo_block 14 ''z'' ''y'' 0) demo_pool))" by blast
  moreover have "m_latest_confirmed_height (fst (resolveBlock (demo_block 14 ''z'' ''y'' 0) demo_pool)) = 11"
    by code_simp
  ultimately show ?thesis by simp
qed

subsection \<open>Paths\<close>

text \<open>A block whose chain of parents reaches a block that extends the confirmed one.\<close>

fun anchored :: "UnresolvedBlock list list \<Rightarrow> nat \<Rightarrow> nat \<Rightarrow> bool" where
  "anchored pool 0 v \<longleftrightarrow> v < length (pool ! 0) \<and> prev_vec_idx (pool ! 0 ! v) = 0"
| "anchored pool (Suc d) v \<longleftrightarrow> v < length (pool ! Suc d) \<and> 0 \<le> prev_vec_idx (pool ! Suc d ! v)
     \<and> anchored pool d (nat (prev_vec_idx (pool ! Suc d ! v)))"

text \<open>A list of positions, one per level, each the parent of the next.\<close>

definition is_path :: "UnresolvedBlock list list \<Rightarrow> int list \<Rightarrow> bool" where
  "is_path pool path \<longleftrightarrow>
     (\<forall>d<length path. 0 \<le> path ! d \<and> nat (path ! d) < length (pool ! d))
     \<and> (\<forall>d. Suc d < length path \<longrightarrow> prev_vec_idx (pool ! Suc d ! nat (path ! Suc d)) = path ! d)"

lemma walk_path_anchored:
  "anchored pool d v \<Longrightarrow> \<exists>path. walk_path pool d (int v) = Inr path \<and> length path = Suc d
     \<and> path ! d = int v \<and> is_path pool path \<and> prev_vec_idx (pool ! 0 ! nat (hd path)) = 0"
proof (induction d arbitrary: v)
  case 0
  then show ?case by (simp add: is_path_def)
next
  case (Suc d)
  let ?u = "pool ! Suc d ! v"
  obtain w where w: "prev_vec_idx ?u = int w" using Suc.prems by (auto intro: nonneg_int_cases)
  then have "anchored pool d w" using Suc.prems by simp
  with Suc.IH obtain path where path: "walk_path pool d (int w) = Inr path" "length path = Suc d"
    "path ! d = int w" "is_path pool path" "prev_vec_idx (pool ! 0 ! nat (hd path)) = 0" by blast
  have "path \<noteq> []" using path(2) by auto
  have "is_path pool (path @ [int v])"
    using path Suc.prems w by (auto simp: is_path_def nth_append less_Suc_eq)
  then show ?case
    using path w Suc.prems \<open>path \<noteq> []\<close> by (simp add: nth_append)
qed

lemma walk_path_dead: "0 < d \<Longrightarrow> walk_path pool d (-1) = Inl Undefined_Behaviour"
  by (cases d) (simp_all add: at_index_def)

lemma getPath_step:
  assumes "pool_inv p" and d: "d < length (m_block_pool p)"
    and h: "unat h = unat (m_latest_confirmed_height p) + Suc d" and "block_id \<noteq> []"
  shows "getPath p block_id h =
    rbind (walk_path (m_block_pool p) d (parent_idx (m_block_pool p ! d) block_id)) (\<lambda>path.
    rbind (at_index (m_block_pool p ! 0) (hd path)) (\<lambda>u.
      if prev_vec_idx u \<noteq> 0 then Inr (resize 1 (-1) path) else Inr path))"
proof -
  let ?lh = "unat (m_latest_confirmed_height p)"
  have bound: "?lh + length (m_block_pool p) < 2 ^ 31" using assms(1) levels_invD(1) unfolding pool_inv_def by blast
  then have "unat h < 2 ^ 31" "?lh < 2 ^ 31" using d h by simp_all
  then have "deq_index p h = Inr (int d)" "u64_to_int (h - m_latest_confirmed_height p) = int (Suc d)"
    using deq_index_eq [of p h] u64_to_int_diff [of h "m_latest_confirmed_height p"] h by simp_all
  then show ?thesis using d assms(4) by (simp add: getPath_def)
qed

text \<open>C6: For a block that is in the pool and whose parents lead to a block extending the confirmed one,
  \<open>getPath\<close> returns one position for every level from the lowest up to the block's own: each is
  valid, each is the parent of the next, the first extends the confirmed block and the last is a
  block with the identifier asked for.\<close>

theorem getPath_linked:
  assumes inv: "pool_inv p" and d: "d < length (m_block_pool p)"
    and h: "unat h = unat (m_latest_confirmed_height p) + Suc d" and id: "block_id \<noteq> []"
    and v: "parent_idx (m_block_pool p ! d) block_id = int v" "anchored (m_block_pool p) d v"
  shows "\<exists>path. getPath p block_id h = Inr path \<and> length path = Suc d \<and> is_path (m_block_pool p) path
    \<and> ub_prev_id (m_block_pool p ! 0 ! nat (hd path)) = m_latest_confirmed_id p
    \<and> ub_id (m_block_pool p ! d ! nat (last path)) = block_id"
proof -
  obtain path where path: "walk_path (m_block_pool p) d (int v) = Inr path" "length path = Suc d"
    "path ! d = int v" "is_path (m_block_pool p) path" "prev_vec_idx (m_block_pool p ! 0 ! nat (hd path)) = 0"
    using walk_path_anchored [OF v(2)] by blast
  have ne: "path \<noteq> []" using path(2) by auto
  then have last: "last path = int v" using path(2,3) by (simp add: last_conv_nth)
  have hd: "0 \<le> hd path" "nat (hd path) < length (m_block_pool p ! 0)"
    using path(2,4) ne by (auto simp: is_path_def hd_conv_nth)
  have "root_ok (m_latest_confirmed_id p) (m_block_pool p ! 0)"
    using inv levels_invD(3) d unfolding pool_inv_def by fastforce
  then have "ub_prev_id (m_block_pool p ! 0 ! nat (hd path)) = m_latest_confirmed_id p"
    using path(5) hd by (auto simp: root_ok_def dest!: nth_mem split: if_splits)
  moreover have "ub_id (m_block_pool p ! d ! v) = block_id"
    using parent_idx_range [of "m_block_pool p ! d" block_id] v(1) by auto
  moreover have "getPath p block_id h = Inr path"
    using getPath_step [OF inv d h id] path(1,5) v(1) hd by (simp add: at_index_def)
  ultimately show ?thesis using path(2,4) last by simp
qed

lemma getPath_linked_witness:
  "\<exists>path. getPath demo_pool ''c'' 12 = Inr path \<and> length path = Suc 1 \<and> is_path (m_block_pool demo_pool) path
    \<and> ub_prev_id (m_block_pool demo_pool ! 0 ! nat (hd path)) = m_latest_confirmed_id demo_pool
    \<and> ub_id (m_block_pool demo_pool ! 1 ! nat (last path)) = ''c''"
proof (rule getPath_linked [OF demo_pool_inv, where v = 0])
  have "length (m_block_pool demo_pool) = 2 \<and> m_latest_confirmed_height demo_pool = 10
    \<and> parent_idx (m_block_pool demo_pool ! 1) ''c'' = 0" by code_simp
  then show "1 < length (m_block_pool demo_pool)" "unat (12 :: 64 word) = unat (m_latest_confirmed_height demo_pool) + Suc 1"
    "parent_idx (m_block_pool demo_pool ! 1) ''c'' = int 0" by simp_all
  show "anchored (m_block_pool demo_pool) 1 0" by code_simp
qed simp

text \<open>For a block above the lowest level whose parent is not in the pool, \<open>getPath\<close> goes on with the
  parent index \<open>-1\<close> and reads outside a vector; and for an empty identifier it ends without a
  \<open>return\<close>. Both are undefined.\<close>

theorem getPath_orphan:
  assumes inv: "pool_inv p" and d: "0 < d" "d < length (m_block_pool p)"
    and h: "unat h = unat (m_latest_confirmed_height p) + Suc d"
    and v: "parent_idx (m_block_pool p ! d) block_id = int v" "prev_vec_idx (m_block_pool p ! d ! v) = -1"
  shows "getPath p block_id h = Inl Undefined_Behaviour"
proof (cases "block_id = []")
  case False
  obtain e where e: "d = Suc e" using d(1) by (cases d) auto
  have vl: "v < length (m_block_pool p ! d)" using parent_idx_range [of "m_block_pool p ! d" block_id] v(1) by auto
  show ?thesis
  proof (cases "e = 0")
    case True
    then show ?thesis
      using getPath_step [OF inv d(2) h False] v vl e by (simp add: at_index_def)
  next
    case False
    then show ?thesis
      using getPath_step [OF inv d(2) h \<open>block_id \<noteq> []\<close>] v vl e walk_path_dead [of e] by simp
  qed
qed (simp add: getPath_def)

lemma getPath_orphan_witness:
  "getPath (fst (push_spec 1000 (demo_block 12 ''o'' ''missing'' 1) demo_pool)) ''o'' 12 = Inl Undefined_Behaviour"
proof (rule getPath_orphan [where d = 1 and v = 1])
  let ?p = "fst (push_spec 1000 (demo_block 12 ''o'' ''missing'' 1) demo_pool)"
  show "pool_inv ?p" by (simp add: push_spec_inv demo_pool_inv)
  have "length (m_block_pool ?p) = 2 \<and> m_latest_confirmed_height ?p = 10
    \<and> parent_idx (m_block_pool ?p ! 1) ''o'' = 1 \<and> prev_vec_idx (m_block_pool ?p ! 1 ! 1) = -1" by code_simp
  then show "1 < length (m_block_pool ?p)" "unat (12 :: 64 word) = unat (m_latest_confirmed_height ?p) + Suc 1"
    "parent_idx (m_block_pool ?p ! 1) ''o'' = int 1" "prev_vec_idx (m_block_pool ?p ! 1 ! 1) = -1" by simp_all
qed simp

end
