(* ===== verification/Chain_Props.thy ===== *)
theory Chain_Props
  imports Chain_Ops Block_Pool_Props
begin

text \<open>
  What the backup of a block gives back, what the head does when it first moves, and what the
  description of the world becomes when it is stored.
\<close>

subsection \<open>Rebuilding a map from its values\<close>

lemma om_put_last: "\<forall>k'\<in>fst ` set m. k' < k \<Longrightarrow> om_put k v m = m @ [(k, v)]"
  by (induction m) (auto dest: less_not_sym)

lemma om_rebuild_from: "om_ok (m @ m') \<Longrightarrow> fold (\<lambda>(k, v). om_put k v) m' m = m @ m'"
proof (induction m' arbitrary: m)
  case (Cons kv m')
  obtain k v where kv: "kv = (k, v)" by (cases kv)
  have "\<forall>k'\<in>fst ` set m. k' < k" using Cons.prems by (auto simp: om_ok_def sorted_wrt_append kv)
  then show ?case using Cons.IH[of "m @ [kv]"] Cons.prems by (simp add: kv om_put_last)
qed simp

lemma om_rebuild: "om_ok m \<Longrightarrow> fold (\<lambda>(k, v). om_put k v) m [] = m"
  using om_rebuild_from[of "[]" m] by simp

text \<open>The values of a map, filed under the keys they carry, give the map back.\<close>

definition keyed :: "('v \<Rightarrow> string) \<Rightarrow> (string, 'v) omap \<Rightarrow> bool" where
  "keyed key m \<longleftrightarrow> om_ok m \<and> (\<forall>(k, v)\<in>set m. k = key v)"

lemma keyed_rebuild:
  assumes "keyed key m"
  shows "fold (\<lambda>v. om_put (key v) v) (map snd m) [] = m"
proof -
  have "\<forall>(k, v)\<in>set m. k = key v \<Longrightarrow>
      fold (\<lambda>v. om_put (key v) v) (map snd m) m' = fold (\<lambda>(k, v). om_put k v) m m'" for m'
    by (induction m arbitrary: m') auto
  moreover have "om_ok m" "\<forall>(k, v)\<in>set m. k = key v" using assms by (simp_all add: keyed_def)
  ultimately show ?thesis using om_rebuild[of m] by (simp only:)
qed

lemma seq_assign_fold:
  assumes "\<And>x. x \<in> set xs \<Longrightarrow> p (enc x) = Inr x"
  shows "seq (map (\<lambda>j. assign (p j) upd) (map enc xs)) s = (fold upd xs s, Inr ())"
  using assms by (induction xs arbitrary: s) simp_all

subsection \<open>Reading back what was serialised\<close>

definition int_ok :: "int \<Rightarrow> bool" where
  "int_ok x \<longleftrightarrow> int_min \<le> x \<and> x \<le> int_max"

definition time_ok :: "64 word \<Rightarrow> bool" where
  "time_ok w \<longleftrightarrow> unat w < 2 ^ 63"

lemma number_text [simp]:
  "int_ok x \<Longrightarrow> stoi (dec_int x) = Inr x"
  "time_ok w \<Longrightarrow> stou64 (dec_u64 w) = Inr w"
  by (simp_all add: int_ok_def time_ok_def stoi_dec_int stou64_dec_u64)

lemma parse_user_attribute_json:
  "int_ok (ua_gender a) \<Longrightarrow> int_ok (ua_age_limit a) \<Longrightarrow> time_ok (ua_register_day a) \<Longrightarrow>
   parse_user_attribute (user_attribute_json a) = Inr a"
  by (simp add: parse_user_attribute_def user_attribute_json_def json_obj_def)

lemma parse_user_cert_json:
  "time_ok (uc_nvbefore c) \<Longrightarrow> time_ok (uc_nvafter c) \<Longrightarrow> parse_user_cert (user_cert_json c) = Inr c"
  by (simp add: parse_user_cert_def user_cert_json_def json_obj_def)

lemma parse_contract_json:
  "time_ok (ct_after c) \<Longrightarrow> time_ok (ct_before c) \<Longrightarrow>
   parse_contract (contract_json c) = Inr (c\<lparr>ct_query_type := Q_INSERT\<rparr>)"
  by (simp add: parse_contract_def contract_json_def json_obj_def)

lemma parse_user_ledger_json: "\<exists>e. parse_user_ledger (user_ledger_json l) = Inl e"
  by (cases "stoi (dec_int (ul_var_type l))"; cases "stou64 (dec_u64 (ul_up_time l))";
      cases "stoi (dec_u64 (ul_up_block l))")
    (simp_all add: parse_user_ledger_def user_ledger_json_def json_obj_def json_to_str_def)

lemma parse_contract_ledger_json: "\<exists>e. parse_contract_ledger (contract_ledger_json l) = Inl e"
  by (cases "stoi (dec_int (cl_var_type l))"; cases "stou64 (dec_u64 (cl_up_time l))";
      cases "stoi (dec_u64 (cl_up_block l))")
    (simp_all add: parse_contract_ledger_def contract_ledger_json_def json_obj_def json_to_str_def)

lemma json_items_JArr [simp]: "json_items (JArr xs) = xs"
  by (simp add: json_items_def)

lemma fold_update_attributes:
  "fold (\<lambda>a u. u\<lparr>user_attribute_list := om_put (ua_uid a) a (user_attribute_list u)\<rparr>) xs u =
   u\<lparr>user_attribute_list := fold (\<lambda>a. om_put (ua_uid a) a) xs (user_attribute_list u)\<rparr>"
  by (induction xs arbitrary: u) simp_all

lemma fold_update_certs:
  "fold (\<lambda>c u. u\<lparr>user_cert_list := om_put (uc_sn c) c (user_cert_list u)\<rparr>) xs u =
   u\<lparr>user_cert_list := fold (\<lambda>c. om_put (uc_sn c) c) xs (user_cert_list u)\<rparr>"
  by (induction xs arbitrary: u) simp_all

lemma fold_update_contracts:
  "fold (\<lambda>c u. u\<lparr>contract_list := om_put (ct_cid c) c (contract_list u)\<rparr>) xs u =
   u\<lparr>contract_list := fold (\<lambda>c. om_put (ct_cid c) c) xs (contract_list u)\<rparr>"
  by (induction xs arbitrary: u) simp_all

subsection \<open>Properties of the backup\<close>


definition demo_saved :: UnresolvedBlock where
  "demo_saved = UnresolvedBlock_default
     \<lparr>user_attribute_list := [(''u'', \<lparr>ua_uid = ''u'', ua_register_day = 5, ua_register_code = ''c'', ua_gender = 1,
        ua_isc_type = ''t'', ua_isc_code = ''i'', ua_location = ''l'', ua_age_limit = 19, ua_sigma = ''s''\<rparr>)],
      user_cert_list := [(''n'', \<lparr>uc_uid = ''u'', uc_sn = ''n'', uc_nvbefore = 1, uc_nvafter = 9, uc_x509 = ''x''\<rparr>)]\<rparr>"

definition demo_cbor :: utils where
  "demo_cbor = demo_utils
     \<lparr>u_to_cbor := (\<lambda>j. if j = JArr (map (user_cert_json \<circ> snd) (user_cert_list demo_saved)) then ''C'' else ''A''),
      u_from_cbor := (\<lambda>s. if s = ''C'' then Some (JArr (map (user_cert_json \<circ> snd) (user_cert_list demo_saved)))
        else Some (JArr (map (user_attribute_json \<circ> snd) (user_attribute_list demo_saved))))\<rparr>"

lemma demo_cbor_docs: "\<forall>j\<in>{JArr (map (user_attribute_json \<circ> snd) (user_attribute_list demo_saved)),
      JArr (map (user_cert_json \<circ> snd) (user_cert_list demo_saved))}.
    u_from_cbor demo_cbor (u_to_cbor demo_cbor j) = Some j"
  by code_simp


text \<open>A block that was processed with ledger entries cannot be restored: for every entry, of a
  user or of a contract, what \<open>serialize...LedgerList\<close> wrote makes \<open>restore...LedgerList\<close> throw,
  because the query type is written as a number and read as a text.\<close>

theorem restored_ledgers_throw:
  "(\<exists>e. snd (restoreUserLedgerList (JArr (map user_ledger_json (l # ls))) w) = Inl e)
   \<and> (\<exists>e. snd (restoreContractLedgerList (JArr (map contract_ledger_json (c # cs))) w) = Inl e)"
proof -
  obtain e f where "parse_user_ledger (user_ledger_json l) = Inl e"
    and "parse_contract_ledger (contract_ledger_json c) = Inl f"
    using parse_user_ledger_json parse_contract_ledger_json by blast
  then show ?thesis
    by (simp add: restoreUserLedgerList_def restoreContractLedgerList_def sbind_def)
qed

subsection \<open>The head and the longest chain\<close>

lemma first_move:
  assumes "bp_deq_idx (ch_head ch) = -1" "bp_block_height (ch_head ch) = 0"
    and "getPath (ch_pool ch) target h = Inr path" "path \<noteq> []"
  shows "common_block ch target h = Inl Undefined_Behaviour"
proof -
  have "back_to (ch_pool ch) h 0 (-1) v = Inr (0, -1, v)" for v
    by (subst back_to.simps) simp
  moreover have "meet_path (ch_pool ch) path 0 (-1) v = Inl Undefined_Behaviour" for v
    by (subst meet_path.simps) (simp add: at_index_def)
  ultimately show ?thesis using assms by (simp add: common_block_def Let_def u64_to_int_def)
qed

text \<open>The head starts before the first block of the pool. Moving it from there to a block that is
  linked in the pool, as the program does with the first block it processes, reads the path to that
  block at index -1: undefined behaviour, whatever the block.\<close>

theorem moveHead_from_start:
  assumes "bp_deq_idx (ch_head ch) = -1" "bp_block_height (ch_head ch) = 0" "target \<noteq> []"
    and "getPath (ch_pool ch) target h = Inr path" "path \<noteq> []"
  shows "moveHead e target h ch = (ch, Inl Undefined_Behaviour)"
  using assms first_move by (simp add: moveHead_def)

text \<open>A chain over the demonstration pool, with its head and longest chain as they start.\<close>

definition demo_chain_on :: "UnresolvedBlockPool \<Rightarrow> Chain" where
  "demo_chain_on p = \<lparr>ch_kv = demo_kv, ch_pool = p, ch_us_tree = StateTree_new, ch_cs_tree = StateTree_new,
     ch_head = BlockPoolInfo_default, ch_longest = BlockPoolInfo_default,
     ch_app = \<lparr>ap_world_id = [], ap_chain_id = [], ap_auth_cert = []\<rparr>, ch_rdb = []\<rparr>"

theorem moveHead_from_start_witness:
  "snd (moveHead undefined ''a'' 11 (demo_chain_on demo_pool)) = Inl Undefined_Behaviour"
proof -
  have "getPath demo_pool ''a'' 11 = Inr [0]" by code_simp
  then show ?thesis
    using moveHead_from_start[of "demo_chain_on demo_pool" "''a''" 11 "[0]"]
    by (simp add: demo_chain_on_def BlockPoolInfo_default_def)
qed

lemma prog_result_cases:
  "(case snd r of Inl e \<Rightarrow> False | Inr x \<Rightarrow> P x) \<Longrightarrow> \<exists>x. r = (fst r, Inr x) \<and> P x"
  by (cases r; cases "snd r") auto

lemma pushBlock_duplicated:
  assumes "pushBlock now b p = (p', Inr ret)" "pr_duplicated ret"
  shows "pr_block_id ret = [] \<and> pr_block_height ret = m_block_height b \<and> pr_deq_idx ret = None"
  using assms by (auto simp: pushBlock_def Let_def sbind_def push_result_start_def split: sum.splits prod.splits if_splits)

text \<open>Pushing a block the pool already has (\<open>restorePool\<close> fills the pool but leaves the longest
  chain at height 0) overwrites the longest chain with an empty identifier and uninitialised
  indices; the next request for its blocks is undefined.\<close>

theorem duplicate_spoils_longest:
  assumes "chain_pushBlock junk now b ch = (ch', Inr ret)" "pr_duplicated ret"
    and "bp_block_height (ch_longest ch) < m_block_height b"
  shows "bp_block_id (ch_longest ch') = [] \<and> bp_deq_idx (ch_longest ch') = junk
    \<and> getBlocksFromUnresolvedLongestChain ch' = Inl Undefined_Behaviour"
proof -
  obtain p' where push: "pushBlock now b (ch_pool ch) = (p', Inr ret)"
    using assms(1) by (auto simp: chain_pushBlock_def on_pool_def sbind_def split: sum.splits prod.splits)
  then show ?thesis
    using assms(1,3) pushBlock_duplicated[OF push assms(2)]
    by (auto simp: chain_pushBlock_def on_pool_def sbind_def or_junk_def getPath_def
        getBlocksFromUnresolvedLongestChain_def)
qed

theorem duplicate_spoils_longest_witness:
  "getBlocksFromUnresolvedLongestChain
     (fst (chain_pushBlock 7 1000 (demo_block 11 ''a'' ''g'' 1) (demo_chain_on demo_pool))) = Inl Undefined_Behaviour"
proof -
  let ?r = "chain_pushBlock 7 1000 (demo_block 11 ''a'' ''g'' 1) (demo_chain_on demo_pool)"
  have "(case snd ?r of Inl e \<Rightarrow> False | Inr ret \<Rightarrow> pr_duplicated ret)" by code_simp
  then obtain ret where "?r = (fst ?r, Inr ret)" "pr_duplicated ret"
    using prog_result_cases by blast
  then show ?thesis
    using duplicate_spoils_longest[of 7 1000 "demo_block 11 ''a'' ''g'' 1" "demo_chain_on demo_pool" "fst ?r" ret]
    by (simp add: demo_chain_on_def BlockPoolInfo_default_def demo_block_def)
qed

subsection \<open>The description of the world\<close>

lemma length_join_lines: "length (join_lines s) = 2 * length s - 1"
  by (induction s rule: join_lines.induct) auto

lemma join_lines_neq: "2 \<le> length s \<Longrightarrow> join_lines s \<noteq> s"
proof
  assume "2 \<le> length s" "join_lines s = s"
  moreover have "length (join_lines s) = 2 * length s - 1" by (rule length_join_lines)
  ultimately show False by simp
qed

lemma apk_not_latest: "wid @ ''_apk'' \<noteq> ''latest_world_id''"
proof
  assume "wid @ ''_apk'' = ''latest_world_id''"
  then have "last (wid @ ''_apk'') = last ''latest_world_id''" by (rule arg_cong)
  then show False by simp
qed

text \<open>\<open>initWorld\<close> joins the characters of the authority's certificate, not its lines: it gives the
  application a certificate with a line feed between every two characters, which differs from the
  certificate it stores (and that the program uses after a restart) as soon as that has two
  characters.\<close>

theorem initWorld_scatters_cert:
  assumes "unmarshalWorldState st = Inr w" "idle (ch_kv ch)" "kv_ok (ch_kv ch) ''world''"
  shows "\<exists>ch'. initWorld st ch = (ch', Inr ())
    \<and> getValueByKey (ch_kv ch') ''world'' (ws_world_id w @ ''_apk'') = ws_authority_pk w
    \<and> ap_auth_cert (ch_app ch') = join_lines (ws_authority_pk w)
    \<and> (2 \<le> length (ws_authority_pk w) \<longrightarrow> ap_auth_cert (ch_app ch') \<noteq> ws_authority_pk w)"
proof -
  let ?kv = "save_all ''world'' (world_entries w) (ch_kv ch)"
  have "distinct (map fst (world_entries w))" by (simp add: world_entries_def)
  note getValueByKey_saved[OF assms(2) _ assms(3) this, of "ws_world_id w @ ''_apk''" "ws_authority_pk w"]
  then have "getValueByKey ?kv ''world'' (ws_world_id w @ ''_apk'') = ws_authority_pk w"
    by (simp add: world_entries_def)
  then have "getValueByKey (save_all ''world'' [(''latest_world_id'', ws_world_id w)] ?kv) ''world''
      (ws_world_id w @ ''_apk'') = ws_authority_pk w"
    using getValueByKey_kept[OF save_all_db(2)[OF assms(2)]] apk_not_latest by simp
  moreover have "2 \<le> length (ws_authority_pk w) \<Longrightarrow> join_lines (ws_authority_pk w) \<noteq> ws_authority_pk w"
    by (rule join_lines_neq)
  ultimately show ?thesis
    using assms(1) by (simp add: initWorld_def on_kv_def sbind_def saveWorld_def saveLatestWorldId_def)
qed

definition demo_world_json :: json where
  "demo_world_json = json_obj
     [(''world'', json_obj [(''id'', JStr ''TETHYS19''), (''after'', JStr ''1'')]),
      (''key_currency'', json_obj [(''name'', JStr ''KEYC''), (''initial_amount'', JStr ''100'')]),
      (''mining_policy'', json_obj [(''allow_mining'', JBool True)]),
      (''user_policy'', json_obj [(''allow_anonymous_user'', JBool False), (''join_fee'', JStr ''2'')]),
      (''eden_sig'', JStr ''e''),
      (''authority'', json_obj [(''id'', JStr ''a''), (''cert'', JArr [JStr ''k1'', JStr ''k2''])]),
      (''creator'', json_obj [(''id'', JStr ''c''), (''cert'', JArr [JStr ''p'']), (''sig'', JStr ''s'')])]"

theorem initWorld_scatters_cert_witness:
  "\<exists>ch'. initWorld demo_world_json (demo_chain_on demo_start) = (ch', Inr ())
     \<and> ap_auth_cert (ch_app ch') = [CHR ''k'', LF, CHR ''1'', LF, LF, LF, CHR ''k'', LF, CHR ''2'', LF, LF]"
proof -
  have "unmarshalWorldState demo_world_json = Inr (demo_world
      \<lparr>ws_mining_rule := [], ws_authority_pk := ''k1'' @ [LF] @ ''k2'' @ [LF], ws_creator_pk := ''p'' @ [LF]\<rparr>)"
    by code_simp
  from initWorld_scatters_cert[OF this, of "demo_chain_on demo_start"] show ?thesis
    by (auto simp: demo_chain_on_def)
qed

end
