(* ===== verification/Merkle_Tree.thy ===== *)
theory Merkle_Tree
  imports Storage_Types
begin

text \<open>
  The static Merkle tree of \<open>static_merkle_tree.hpp\<close>: a vector of \<open>2 * n - 1\<close> nodes, the \<open>n\<close> leaves
  first (padded with 32 zero bytes), then the parents level by level, the root last. The code has
  \<open>n = 4096\<close>; the definitions take \<open>n\<close> as an argument so that the theorems hold for every power of
  two and small trees can be evaluated. The reference is the recursive tree hash \<open>mroot\<close>.
\<close>

subsection \<open>Hashing two children\<close>

definition HASH_LOOKUP_B64 :: "(string \<times> string) list" where
  "HASH_LOOKUP_B64 =
    [(''AAAAAAAAAAAAAAAAAAAAAAAAAAAAAAAAAAAAAAAAAAAAAAAAAAAAAAAAAAAAAAAAAAAAAAAAAAAAAAAAAAAAAA=='',
      ''9aX9QtFqIDAnmO9u0wmXm0MAPSMg2fDo6pgxqSdZ+0s=''),
     (''9aX9QtFqIDAnmO9u0wmXm0MAPSMg2fDo6pgxqSdZ+0v1pf1C0WogMCeY727TCZebQwA9IyDZ8OjqmDGpJ1n7Sw=='',
      ''21YRTgD91MH4XIkr81rJqJKJquyx69CpbN5ganSLXXE=''),
     (''21YRTgD91MH4XIkr81rJqJKJquyx69CpbN5ganSLXXHbVhFOAP3UwfhciSvzWsmokomq7LHr0Kls3mBqdItdcQ=='',
      ''x4AJ/fB/xWoR8SI3BlijU6qlQu1j5ExLwV/0zRBaszw=''),
     (''x4AJ/fB/xWoR8SI3BlijU6qlQu1j5ExLwV/0zRBaszzHgAn98H/FahHxIjcGWKNTqqVC7WPkTEvBX/TNEFqzPA=='',
      ''U22Yg38t0WWlXV7q6RSFlURy1W8kbfJWvzyuGTUqEjw=''),
     (''U22Yg38t0WWlXV7q6RSFlURy1W8kbfJWvzyuGTUqEjxTbZiDfy3RZaVdXurpFIWVRHLVbyRt8la/PK4ZNSoSPA=='',
      ''nv3gUqoVQp+uBbrU0LHXxk2mTQPXoYVKWIwsuEMMDTA=''),
     (''nv3gUqoVQp+uBbrU0LHXxk2mTQPXoYVKWIwsuEMMDTCe/eBSqhVCn64FutTQsdfGTaZNA9ehhUpYjCy4QwwNMA=='',
      ''2I3f7tQAqHVVlrIZQsFJfhFMMC5hGCkPkeZ3KXYEH6E=''),
     (''2I3f7tQAqHVVlrIZQsFJfhFMMC5hGCkPkeZ3KXYEH6HYjd/u1ACodVWWshlCwUl+EUwwLmEYKQ+R5ncpdgQfoQ=='',
      ''h+sN26V+NfbShmc4AqSvWXXiJQbHz0xku2vl7hFSfyw=''),
     (''h+sN26V+NfbShmc4AqSvWXXiJQbHz0xku2vl7hFSfyyH6w3bpX419tKGZzgCpK9ZdeIlBsfPTGS7a+XuEVJ/LA=='',
      ''JoRkdv1fxUpdQzhRZ8lRRPJkP1M8yFu50Wt4L419sZM=''),
     (''JoRkdv1fxUpdQzhRZ8lRRPJkP1M8yFu50Wt4L419sZMmhGR2/V/FSl1DOFFnyVFE8mQ/UzzIW7nRa3gvjX2xkw=='',
      ''UG2GWC0lJAW4QAGHksrSvxJZ8e9apfiH4Tyy8AlPUeE=''),
     (''UG2GWC0lJAW4QAGHksrSvxJZ8e9apfiH4Tyy8AlPUeFQbYZYLSUkBbhAAYeSytK/Elnx71ql+IfhPLLwCU9R4Q=='',
      ''//8K1+ZZdy+VNMGVyBXvxAFO8eHa7UQEwGOF0RGS6Ss=''),
     (''//8K1+ZZdy+VNMGVyBXvxAFO8eHa7UQEwGOF0RGS6Sv//wrX5ll3L5U0wZXIFe/EAU7x4drtRATAY4XREZLpKw=='',
      ''bPBBJ9sFRBzYMxB6Ur6FKGiJDkMX5qAqtHaDqnWWQiA='')]"

text \<open>The table of \<open>prepareLookUpTable\<close>: both maps keep the first entry of a key.\<close>

definition HASH_LOOKUP :: "utils \<Rightarrow> (string, string) omap" where
  "HASH_LOOKUP u = fold (\<lambda>(k, v). om_try (u_from64 u k) (u_from64 u v))
     (fold (\<lambda>(k, v). om_try k v) HASH_LOOKUP_B64 []) []"

definition makeParent :: "utils \<Rightarrow> string \<Rightarrow> string \<Rightarrow> string" where
  "makeParent u left right =
     (case map_of (HASH_LOOKUP u) (left @ right) of Some h \<Rightarrow> h | None \<Rightarrow> u_sha256 u (left @ right))"

subsection \<open>The tree\<close>

abbreviation MAX_MERKLE_LEAVES :: nat where "MAX_MERKLE_LEAVES \<equiv> 4096"

definition dummy_leaf :: string where
  "dummy_leaf = replicate 32 (CHR 0x00)"

text \<open>The three loops of \<open>generate\<close>; a constructed tree has \<open>2 * n - 1\<close> nodes.\<close>

definition new_tree :: "nat \<Rightarrow> string list" where
  "new_tree n = replicate (n * 2 - 1) []"

definition put_leaves :: "nat \<Rightarrow> string list \<Rightarrow> string list \<Rightarrow> string list" where
  "put_leaves n contents tree =
     (let m = min n (length contents) in
      fold (\<lambda>i t. t[i := dummy_leaf]) [m..<n] (fold (\<lambda>i t. t[i := contents ! i]) [0..<m] tree))"

text \<open>The loop over \<open>i = 0, 2, 4, \<dots>\<close> with \<open>parent_pos = n + i / 2\<close>.\<close>

definition put_parents :: "utils \<Rightarrow> nat \<Rightarrow> nat \<Rightarrow> string list \<Rightarrow> string list" where
  "put_parents u n m tree =
     fold (\<lambda>j t. t[n + j := makeParent u (t ! (2 * j)) (t ! (2 * j + 1))]) [0..<m] tree"

definition generate_n :: "utils \<Rightarrow> nat \<Rightarrow> string list \<Rightarrow> string list \<Rightarrow> string list" where
  "generate_n u n contents tree = put_parents u n (n - 1) (put_leaves n contents tree)"

definition generate :: "utils \<Rightarrow> string list \<Rightarrow> string list" where
  "generate u contents = generate_n u MAX_MERKLE_LEAVES contents (new_tree MAX_MERKLE_LEAVES)"

subsection \<open>Checking a proof\<close>

fun climb :: "utils \<Rightarrow> string \<Rightarrow> (bool \<times> string) list \<Rightarrow> string" where
  "climb u acc [] = acc"
| "climb u acc ((right, s) # rest) = climb u (u_sha256 u (if right then acc @ s else s @ acc)) rest"

definition isValidSiblings :: "utils \<Rightarrow> (bool \<times> string) list \<Rightarrow> string \<Rightarrow> string \<Rightarrow> bool" where
  "isValidSiblings u siblings my_val root_val =
     (if siblings = [] \<or> my_val = [] \<or> root_val = [] then False
      else if snd (hd siblings) \<noteq> my_val then False
      else root_val = climb u (snd (hd siblings)) (tl siblings))"

definition isValidSiblings_b64 :: "utils \<Rightarrow> (bool \<times> string) list \<Rightarrow> string \<Rightarrow> string \<Rightarrow> bool" where
  "isValidSiblings_b64 u siblings_b64 my_val_b64 root_val_b64 =
     (if siblings_b64 = [] \<or> my_val_b64 = [] \<or> root_val_b64 = [] then False
      else if snd (hd siblings_b64) \<noteq> my_val_b64 then False
      else isValidSiblings u (map (\<lambda>(r, s). (r, u_from64 u s)) siblings_b64)
             (u_from64 u my_val_b64) (u_from64 u root_val_b64))"

definition isValidSiblings_proof :: "utils \<Rightarrow> ProofType \<Rightarrow> string \<Rightarrow> bool result" where
  "isValidSiblings_proof u pf root_val_b64 =
     rbind (at_index (pf_siblings pf) 0) (\<lambda>s.
       Inr (isValidSiblings_b64 u (pf_siblings pf) (snd s) root_val_b64))"

subsection \<open>Reference\<close>

text \<open>The leaves of a tree over the given contents, and the hash of a complete binary tree.\<close>

definition padded :: "nat \<Rightarrow> string list \<Rightarrow> string list" where
  "padded n contents = take n contents @ replicate (n - length contents) dummy_leaf"

fun mroot :: "(string \<Rightarrow> string \<Rightarrow> string) \<Rightarrow> nat \<Rightarrow> string list \<Rightarrow> string" where
  "mroot mk 0 xs = hd xs"
| "mroot mk (Suc k) xs = mk (mroot mk k (take (2 ^ k) xs)) (mroot mk k (drop (2 ^ k) xs))"

text \<open>The nodes that lead from leaf \<open>p\<close> of a tree of height \<open>k\<close> to its root: sibling hashes, lowest
  first, with the side they stand on (true: right).\<close>

fun auth_path :: "(string \<Rightarrow> string \<Rightarrow> string) \<Rightarrow> nat \<Rightarrow> string list \<Rightarrow> nat \<Rightarrow> (bool \<times> string) list" where
  "auth_path mk 0 xs p = []"
| "auth_path mk (Suc k) xs p =
     (if p < 2 ^ k
      then auth_path mk k (take (2 ^ k) xs) p @ [(True, mroot mk k (drop (2 ^ k) xs))]
      else auth_path mk k (drop (2 ^ k) xs) (p - 2 ^ k) @ [(False, mroot mk k (take (2 ^ k) xs))])"

subsection \<open>The loops\<close>

lemma fold_update_length [simp]: "length (fold (\<lambda>i t. t[f i := g i t]) is t) = length t"
  by (induction "is" arbitrary: t) simp_all

lemma fold_update_const:
  "i < length t \<Longrightarrow> fold (\<lambda>i t. t[i := g i]) [a..<b] t ! i = (if a \<le> i \<and> i < b then g i else t ! i)"
  by (induction b) (auto simp: nth_list_update less_Suc_eq)

lemma put_leaves_nth:
  assumes "n \<le> length tree" "i < length tree"
  shows "put_leaves n contents tree ! i = (if i < n then padded n contents ! i else tree ! i)"
  using assms by (auto simp: put_leaves_def Let_def fold_update_const padded_def nth_append)

lemma put_leaves_length [simp]: "length (put_leaves n contents tree) = length tree"
  by (simp add: put_leaves_def Let_def)

text \<open>Every node behind the leaves is the hash of its two children.\<close>

lemma put_parents_length [simp]: "length (put_parents u n m tree) = length tree"
  by (simp add: put_parents_def)

lemma put_parents_Suc:
  "put_parents u n (Suc m) tree = (put_parents u n m tree)
     [n + m := makeParent u (put_parents u n m tree ! (2 * m)) (put_parents u n m tree ! (2 * m + 1))]"
  by (simp add: put_parents_def)

lemma put_parents_nth:
  assumes "length tree = n * 2 - 1" "m \<le> n - 1"
  shows "(\<forall>i<n. put_parents u n m tree ! i = tree ! i)
    \<and> (\<forall>j<m. put_parents u n m tree ! (n + j)
         = makeParent u (put_parents u n m tree ! (2 * j)) (put_parents u n m tree ! (2 * j + 1)))"
  using assms(2)
proof (induction m)
  case 0
  then show ?case by (simp add: put_parents_def)
next
  case (Suc m)
  let ?T = "put_parents u n m tree" and ?T' = "put_parents u n (Suc m) tree"
  have same: "?T' ! i = ?T ! i" if "i < n + m" for i
    using that by (simp add: put_parents_Suc)
  have "?T' ! (n + m) = makeParent u (?T ! (2 * m)) (?T ! (2 * m + 1))"
    using assms(1) Suc.prems by (simp add: put_parents_Suc)
  moreover have "2 * m < n + m" "2 * m + 1 < n + m" using Suc.prems by simp_all
  ultimately have "?T' ! (n + m) = makeParent u (?T' ! (2 * m)) (?T' ! (2 * m + 1))"
    by (simp only: same)
  moreover have "?T' ! (n + j) = makeParent u (?T' ! (2 * j)) (?T' ! (2 * j + 1))" if "j < m" for j
  proof -
    have "n + j < n + m" "2 * j < n + m" "2 * j + 1 < n + m" using that Suc.prems by simp_all
    then show ?thesis using Suc that by (simp add: same)
  qed
  ultimately show ?case using Suc same by (auto simp: less_Suc_eq)
qed

lemma generate_n_nodes:
  assumes "length tree = n * 2 - 1" "0 < n"
  shows "i < n \<Longrightarrow> generate_n u n contents tree ! i = padded n contents ! i"
    and "j < n - 1 \<Longrightarrow> generate_n u n contents tree ! (n + j) = makeParent u
           (generate_n u n contents tree ! (2 * j)) (generate_n u n contents tree ! (2 * j + 1))"
    and "length (generate_n u n contents tree) = n * 2 - 1"
  using put_parents_nth [of "put_leaves n contents tree" n "n - 1" u] assms
  by (simp_all add: generate_n_def put_leaves_nth)

subsection \<open>The root\<close>

lemma length_padded [simp]: "length (padded n contents) = n"
  by (simp add: padded_def)

lemma mroot_split:
  "mroot mk (Suc l) (take (2 ^ Suc l) (drop (j * 2 ^ Suc l) xs)) =
     mk (mroot mk l (take (2 ^ l) (drop ((2 * j) * 2 ^ l) xs)))
        (mroot mk l (take (2 ^ l) (drop ((2 * j + 1) * 2 ^ l) xs)))"
proof -
  have "(2 * j) * 2 ^ l = j * 2 ^ Suc l" "(2 * j + 1) * 2 ^ l = 2 ^ l + j * 2 ^ Suc l" by simp_all
  then show ?thesis by (simp only: mroot.simps) (simp add: drop_take)
qed

lemma generate_n_level:
  assumes "length tree = 2 ^ k * 2 - 1" "l + m = k" "j < 2 ^ m"
  shows "generate_n u (2 ^ k) contents tree ! (2 * 2 ^ k - 2 * 2 ^ m + j)
    = mroot (makeParent u) l (take (2 ^ l) (drop (j * 2 ^ l) (padded (2 ^ k) contents)))"
  using assms(2,3)
proof (induction l arbitrary: m j)
  case 0
  then have "drop j (padded (2 ^ k) contents) \<noteq> []" by simp
  then show ?case
    using 0 generate_n_nodes(1) [OF assms(1), of j] by (simp add: hd_drop_conv_nth take_Suc)
next
  case (Suc l)
  let ?T = "generate_n u (2 ^ k) contents tree" and ?n = "2 ^ k :: nat" and ?i = "2 ^ k - 2 * 2 ^ m + j"
  have k: "?n = 2 ^ l * (2 * 2 ^ m)" using Suc.prems(1) by (simp add: power_add [symmetric] flip: power_Suc)
  then have le: "2 * 2 ^ m \<le> ?n" by simp
  then have "?i < ?n - 1" using Suc.prems(2) by simp
  then have "?T ! (?n + ?i) = makeParent u (?T ! (2 * ?i)) (?T ! (2 * ?i + 1))"
    using generate_n_nodes(2) [OF assms(1)] by simp
  moreover have "?n + ?i = 2 * ?n - 2 * 2 ^ m + j" "2 * ?i = 2 * ?n - 2 * 2 ^ Suc m + 2 * j"
    "2 * ?i + 1 = 2 * ?n - 2 * 2 ^ Suc m + (2 * j + 1)" using le by simp_all
  moreover have "l + Suc m = k" "2 * j < 2 ^ Suc m" "2 * j + 1 < 2 ^ Suc m" using Suc.prems by simp_all
  ultimately show ?case
    using Suc.IH [of "Suc m" "2 * j"] Suc.IH [of "Suc m" "2 * j + 1"]
      mroot_split [of "makeParent u" l j "padded ?n contents"]
    by (simp only:)
qed

lemma generate_n_root:
  assumes "length tree = 2 ^ k * 2 - 1"
  shows "last (generate_n u (2 ^ k) contents tree) = mroot (makeParent u) k (padded (2 ^ k) contents)"
proof -
  obtain c where c: "(2::nat) ^ k = Suc c" by (cases "(2::nat) ^ k") simp_all
  then have len: "length (generate_n u (2 ^ k) contents tree) = Suc (2 * c)"
    using generate_n_nodes(3) [OF assms] by simp
  then have "generate_n u (2 ^ k) contents tree \<noteq> []" by auto
  then have "last (generate_n u (2 ^ k) contents tree)
      = generate_n u (2 ^ k) contents tree ! (2 * 2 ^ k - 2 * 2 ^ 0 + 0)"
    using len c by (simp add: last_conv_nth)
  then show ?thesis using generate_n_level [OF assms, of k 0 0] by simp
qed

subsection \<open>Proofs\<close>

lemma climb_append: "climb u acc (xs @ ys) = climb u (climb u acc xs) ys"
  by (induction u acc xs rule: climb.induct) simp_all

lemma climb_auth_path:
  "length xs = 2 ^ k \<Longrightarrow> p < 2 ^ k \<Longrightarrow>
     climb u (xs ! p) (auth_path (\<lambda>l r. u_sha256 u (l @ r)) k xs p) = mroot (\<lambda>l r. u_sha256 u (l @ r)) k xs"
proof (induction k arbitrary: xs p)
  case 0
  then show ?case by (cases xs) simp_all
next
  case (Suc k)
  show ?case
  proof (cases "p < 2 ^ k")
    case True
    then show ?thesis using Suc.IH [of "take (2 ^ k) xs" p] Suc.prems by (simp add: climb_append)
  next
    case False
    then show ?thesis using Suc.IH [of "drop (2 ^ k) xs" "p - 2 ^ k"] Suc.prems by (simp add: climb_append)
  qed
qed

definition collision :: "utils \<Rightarrow> bool" where
  "collision u \<longleftrightarrow> (\<exists>x y. x \<noteq> y \<and> u_sha256 u x = u_sha256 u y)"

lemma climb_binding:
  assumes "\<And>x. length (u_sha256 u x) = 32"
  shows "length a = 32 \<Longrightarrow> length b = 32 \<Longrightarrow> map fst ss = map fst ts \<Longrightarrow> climb u a ss = climb u b ts
    \<Longrightarrow> (a = b \<and> ss = ts) \<or> collision u"
proof (induction ss arbitrary: a b ts)
  case (Cons rs ss)
  obtain r s where rs: "rs = (r, s)" by (cases rs)
  then obtain t ts' where ts: "ts = (r, t) # ts'" "map fst ss = map fst ts'"
    using Cons.prems(3) by (cases ts) auto
  let ?x = "if r then a @ s else s @ a" and ?y = "if r then b @ t else t @ b"
  have "(u_sha256 u ?x = u_sha256 u ?y \<and> ss = ts') \<or> collision u"
    by (rule Cons.IH) (use assms Cons.prems(4) rs ts in simp_all)
  moreover have "?x = ?y \<longleftrightarrow> a = b \<and> s = t" using Cons.prems(1,2) by auto
  ultimately show ?case using rs ts unfolding collision_def by blast
qed simp

lemma makeParent_sha:
  assumes "\<And>k v. map_of (HASH_LOOKUP u) k = Some v \<Longrightarrow> v = u_sha256 u k"
  shows "makeParent u = (\<lambda>l r. u_sha256 u (l @ r))"
  using assms by (fastforce simp: makeParent_def fun_eq_iff split: option.split)

lemma generate_root_sha:
  assumes "\<And>k v. map_of (HASH_LOOKUP u) k = Some v \<Longrightarrow> v = u_sha256 u k"
  shows "last (generate u contents) = mroot (\<lambda>l r. u_sha256 u (l @ r)) 12 (padded 4096 contents)"
  using generate_n_root [of "new_tree 4096" 12 u contents] makeParent_sha [OF assms]
  by (simp add: generate_def new_tree_def)

lemma generate_leaf: "i < 4096 \<Longrightarrow> generate u contents ! i = padded 4096 contents ! i"
  by (simp add: generate_def new_tree_def generate_n_nodes(1))

lemma generate_last: "last (generate u contents) = mroot (makeParent u) 12 (padded 4096 contents)"
  using generate_n_root [of "new_tree 4096" 12 u contents] by (simp add: generate_def new_tree_def)

subsection \<open>Properties\<close>

text \<open>C11: The last node of the vector \<open>generate\<close> builds is the hash of the complete binary tree of height
  twelve over the given leaves, padded with zero leaves to 4096 (further leaves are ignored), and the
  first nodes are the leaves themselves.\<close>

theorem generate_root:
  "last (generate u contents) = mroot (makeParent u) 12 (padded 4096 contents)
   \<and> length (generate u contents) = 8191 \<and> take 4096 (generate u contents) = padded 4096 contents"
proof -
  have len: "length (new_tree 4096) = 2 ^ 12 * 2 - 1" by (simp add: new_tree_def)
  have "length (generate u contents) = 8191"
    using generate_n_nodes(3) [of "new_tree 4096" 4096 u contents] by (simp add: generate_def new_tree_def)
  moreover have "take 4096 (generate u contents) = padded 4096 contents"
    using calculation generate_n_nodes(1) [of "new_tree 4096" 4096 _ u contents]
    by (intro nth_equalityI) (simp_all add: generate_def new_tree_def)
  ultimately show ?thesis using generate_n_root [OF len, of u contents] by (simp add: generate_def)
qed

text \<open>C15: When the table of precomputed hashes agrees with the hash function, the authentication path of
  every leaf is accepted against the root that \<open>generate\<close> computes.\<close>

theorem siblings_complete:
  assumes table: "\<And>k v. map_of (HASH_LOOKUP u) k = Some v \<Longrightarrow> v = u_sha256 u k"
    and p: "p < 4096"
    and nonempty: "padded 4096 contents ! p \<noteq> []" "last (generate u contents) \<noteq> []"
  shows "isValidSiblings u
     ((side, padded 4096 contents ! p) # auth_path (\<lambda>l r. u_sha256 u (l @ r)) 12 (padded 4096 contents) p)
     (padded 4096 contents ! p) (last (generate u contents))"
  using generate_root_sha [OF table] nonempty p climb_auth_path [of "padded 4096 contents" 12 p u]
  by (simp add: isValidSiblings_def)

definition merkle_utils :: utils where
  "merkle_utils = demo_utils\<lparr>u_from64 := (\<lambda>_. replicate 32 (CHR 0x00))\<rparr>"

lemma merkle_utils_table: "map_of (HASH_LOOKUP merkle_utils) k = Some v \<Longrightarrow> v = u_sha256 merkle_utils k"
proof -
  have "HASH_LOOKUP merkle_utils = [(replicate 32 (CHR 0x00), replicate 32 (CHR 0x00))]" by code_simp
  then show "map_of (HASH_LOOKUP merkle_utils) k = Some v \<Longrightarrow> v = u_sha256 merkle_utils k"
    by (auto simp: merkle_utils_def demo_utils_def split: if_splits)
qed

lemma merkle_utils_sha: "length (u_sha256 merkle_utils x) = 32"
  by (simp add: merkle_utils_def demo_utils_def)

lemma siblings_complete_witness:
  "isValidSiblings merkle_utils
     ((True, padded 4096 [''leaf''] ! 0) # auth_path (\<lambda>l r. u_sha256 merkle_utils (l @ r)) 12 (padded 4096 [''leaf'']) 0)
     (padded 4096 [''leaf''] ! 0) (last (generate merkle_utils [''leaf'']))"
proof (rule siblings_complete [OF merkle_utils_table])
  have "(12::nat) = Suc 11" by simp
  then have "length (last (generate merkle_utils [''leaf''])) = 32"
    by (simp only: generate_root_sha [OF merkle_utils_table] mroot.simps merkle_utils_sha)
  then show "last (generate merkle_utils [''leaf'']) \<noteq> []" by auto
qed (simp_all add: padded_def)



end
