(* ===== verification/Chain_Plugin.thy ===== *)
theory Chain_Plugin
  imports Chain_Ops Merkle_Tree
begin

text \<open>
  The chain plugin (chain_plugin.cpp, transaction_pool.cpp): the checks on incoming transactions and
  blocks, the pool of transactions, and the handlers of the plugin's messages.  Signature checks are
  those of the utility library, the argument \<open>verifiers\<close>; the certificates the database holds are
  \<open>v_user_cert\<close>.
\<close>

subsection \<open>Checking transactions\<close>

record verifiers =
  v_bytes_u64 :: "64 word \<Rightarrow> string"
  v_ags_verify :: "string \<Rightarrow> string \<Rightarrow> string \<Rightarrow> bool"
  v_ags_verify_pem :: "string \<Rightarrow> string \<Rightarrow> string \<Rightarrow> bool"
  v_user_cert :: "string \<Rightarrow> string"

definition verifyID :: "verifiers \<Rightarrow> utils \<Rightarrow> Transaction \<Rightarrow> bool" where
  "verifyID v u t = (m_txid t = u_to58 u (u_sha256 u
     (u_from58 u (m_tx_user_id t) @ m_world t @ m_chain t @ v_bytes_u64 v (m_tx_time t)
      @ (if m_receiver_id t = [] then [] else u_from58 u (m_receiver_id t))
      @ u_bytes_dec u (m_fee t) @ m_contract_id t @ m_tx_input_cbor t)))"

definition verifyEndorserSig :: "verifiers \<Rightarrow> Transaction \<Rightarrow> bool" where
  "verifyEndorserSig v t =
     list_all (\<lambda>n. v_ags_verify v (endorser_pk n) (m_txid t) (endorser_sig n)) (m_tx_endorsers t)"

definition verifyUserSig :: "verifiers \<Rightarrow> Transaction \<Rightarrow> bool" where
  "verifyUserSig v t = v_ags_verify v (m_tx_user_pk t)
     (fold (\<lambda>n msg. msg @ endorser_id n @ endorser_pk n @ endorser_sig n) (m_tx_endorsers t) (m_txid t))
     (m_tx_user_sig t)"

definition verify_tx :: "verifiers \<Rightarrow> utils \<Rightarrow> Transaction \<Rightarrow> bool" where
  "verify_tx v u t = (if \<not> verifyID v u t then False
     else if \<not> verifyEndorserSig v t then False
     else if \<not> verifyUserSig v t then False else True)"

text \<open>The overload for the transactions of a block, which do not carry world and chain.\<close>

definition verify_tx_in :: "verifiers \<Rightarrow> utils \<Rightarrow> string \<Rightarrow> string \<Rightarrow> Transaction \<Rightarrow> bool" where
  "verify_tx_in v u world chain t = verify_tx v u (t\<lparr>m_world := world, m_chain := chain\<rparr>)"

subsection \<open>The pool of transactions\<close>

type_synonym tx_pool = "(string, Transaction) omap"

definition tx_add :: "Transaction \<Rightarrow> tx_pool \<Rightarrow> tx_pool" where
  "tx_add t p = om_try (m_txid t) t p"

definition fetchAll :: "tx_pool \<Rightarrow> Transaction list" where
  "fetchAll p = map snd p"

text \<open>\<open>TransactionMsgParser\<close>.\<close>

definition parse_tx_msg :: "utils \<Rightarrow> json \<Rightarrow> Transaction option result" where
  "parse_tx_msg u j = (case inputMsgTx u j Transaction_default of
       (t, Inl e) \<Rightarrow> Inl e | (t, Inr ok) \<Rightarrow> Inr (if ok then Some t else None))"

definition pushTransaction :: "verifiers \<Rightarrow> utils \<Rightarrow> json \<Rightarrow> (tx_pool, unit) prog" where
  "pushTransaction v u j p = (case parse_tx_msg u j of
       Inl e \<Rightarrow> (p, Inl e)
     | Inr None \<Rightarrow> (p, Inr ())
     | Inr (Some t) \<Rightarrow> (if verify_tx v u t then tx_add t p else p, Inr ()))"

subsection \<open>Checking blocks\<close>

definition makeStaticMerkleTree :: "utils \<Rightarrow> string list \<Rightarrow> string list" where
  "makeStaticMerkleTree u material = generate u (map (u_sha256 u) material)"

definition verifyBlockID :: "verifiers \<Rightarrow> utils \<Rightarrow> Block \<Rightarrow> bool" where
  "verifyBlockID v u b = (m_block_id b = u_to58 u (u_sha256 u
     (u_from58 u (signer_id (m_block_prod_info b)) @ v_bytes_u64 v (m_block_time b) @ m_world_id b
      @ m_chain_id b @ v_bytes_u64 v (m_block_height b) @ u_from58 u (m_block_prev_id b))))"

definition verifyBlockHash :: "utils \<Rightarrow> Block \<Rightarrow> bool" where
  "verifyBlockHash u b = (m_block_hash b = u_to64 u (u_sha256 u
     (u_from58 u (m_block_id b) @ u_from64 u (m_tx_root b) @ u_from64 u (m_us_state_root b)
      @ u_from64 u (m_cs_state_root b))))"

definition verifyProducerSig :: "verifiers \<Rightarrow> utils \<Rightarrow> Block \<Rightarrow> bool" where
  "verifyProducerSig v u b =
     (let message = v_bytes_u64 v (m_block_pub_time b) @ u_from64 u (m_block_hash b)
            @ u_bytes_dec u (i32 (int (length (m_transactions b)))) @ u_bytes_dec u (i32 (getNumSigners b))
            @ u_from64 u (m_sg_root b)
      in v_ags_verify_pem v (v_user_cert v (signer_id (m_block_prod_info b))) message
           (signer_sig (m_block_prod_info b)))"

definition verifySSigs :: "verifiers \<Rightarrow> utils \<Rightarrow> Block \<Rightarrow> bool" where
  "verifySSigs v u b =
     (let message = u_sha256 u (u_from58 u (m_block_id b) @ u_from64 u (m_tx_root b)
            @ u_from64 u (m_us_state_root b) @ u_from64 u (m_cs_state_root b))
      in list_all (\<lambda>s. v_ags_verify_pem v (v_user_cert v (signer_id s)) message (signer_sig s)) (m_signers b))"

text \<open>The last step calls \<open>verifyProducerSig\<close> and drops its result.\<close>

definition verifyBlock :: "verifiers \<Rightarrow> utils \<Rightarrow> Block \<Rightarrow> bool" where
  "verifyBlock v u b =
     (if \<not> verifyBlockID v u b then False
      else if m_tx_root b \<noteq> u_to64 u (last (makeStaticMerkleTree u (m_txaggs b))) then False
      else if \<not> verifyBlockHash u b then False
      else if m_sg_root b \<noteq> u_to64 u (last (makeStaticMerkleTree u
                (map (\<lambda>s. signer_id s @ signer_sig s) (m_signers b)))) then False
      else let dropped = verifyProducerSig v u b in True)"

definition earlyStage :: "verifiers \<Rightarrow> utils \<Rightarrow> Block \<Rightarrow> bool" where
  "earlyStage v u b = (if \<not> verifyBlock v u b then False
     else list_all (verify_tx_in v u (m_world_id b) (m_chain_id b)) (m_transactions b))"

definition lateStage :: "verifiers \<Rightarrow> utils \<Rightarrow> Block \<Rightarrow> bool" where
  "lateStage v u b = (if \<not> verifyBlockID v u b then False else if \<not> verifySSigs v u b then False else True)"

subsection \<open>An incoming block\<close>

definition apply_to_rdb :: "UnresolvedBlock \<Rightarrow> Chain \<Rightarrow> Chain" where
  "apply_to_rdb r ch = ch\<lparr>ch_rdb := ch_rdb ch @
     [W_Block (ub_block r), W_Transactions (ub_block r), W_User_Ledgers (user_ledger_list r),
      W_Contract_Ledgers (contract_ledger_list r), W_User_Attributes (user_attribute_list r),
      W_User_Certs (user_cert_list r), W_Contracts (contract_list r)]\<rparr>"

definition plugin_pushBlock :: "verifiers \<Rightarrow> utils \<Rightarrow> int \<Rightarrow> timestamp_t \<Rightarrow> json \<Rightarrow> (Chain, unit) prog" where
  "plugin_pushBlock v u junk now block_json ch = (case block_initialize u block_json Block_default of
       (b, Inl e) \<Rightarrow> (ch, Inl e)
     | (b, Inr _) \<Rightarrow>
         if \<not> earlyStage v u b then (ch, Inr ())
         else sbind (chain_pushBlock junk now b) (\<lambda>res.
           if pr_block_height res = 0 then sret ()
           else if pr_duplicated res then sret ()
           else sbind (chain_saveBackupBlock u block_json) (\<lambda>_.
                sbind (chain_saveBlockIds u) (\<lambda>_ ch.
                  case chain_resolveBlock b ch of
                    (ch1, None) \<Rightarrow> (ch1, Inr ())
                  | (ch1, Some r) \<Rightarrow> chain_saveBlockIds u (apply_to_rdb r ch1)))) ch)"

subsection \<open>The result of processing a block\<close>

definition dispatch_query :: "env \<Rightarrow> string \<Rightarrow> json \<Rightarrow> ResultQueryInfo \<Rightarrow> (QueryState, bool) prog" where
  "dispatch_query e type option info =
     (if type = ''user.join'' then queryUserJoin option info
      else if type = ''user.cert'' then queryUserCert option info
      else if type = ''contract.new'' then queryContractNew option info
      else if type = ''contract.disable'' then queryContractDisable e option info
      else if type = ''v.incinerate'' then queryIncinerate option info
      else if type = ''v.create'' then queryCreate e option info
      else if type = ''v.transfer'' then queryTransfer e option info
      else if type = ''scope.user'' then queryUserScope e option info
      else if type = ''scope.contract'' then queryContractScope e option info
      else if type = ''trade.item'' then queryTradeItem option info
      else if type = ''trade.v'' then queryTradeVal option info
      else if type = ''run.query'' then queryRunQuery option info
      else if type = ''run.contract'' then queryRunContract option info
      else sret False)"

abbreviation mut_str :: "json \<Rightarrow> string \<Rightarrow> string \<Rightarrow> string result" where
  "mut_str j k1 k2 \<equiv> rbind (json_sub_mut j [k1]) (\<lambda>v. json_str v k2)"

definition read_result_info :: "string \<Rightarrow> block_height_type \<Rightarrow> json \<Rightarrow> ResultQueryInfo result" where
  "read_result_info block_id height r =
     rbind (json_str r ''txid'') (\<lambda>txid. rbind (json_bool r ''status'') (\<lambda>status.
     rbind (json_str r ''info'') (\<lambda>info. rbind (mut_str r ''authority'' ''author'') (\<lambda>author.
     rbind (mut_str r ''authority'' ''user'') (\<lambda>user. rbind (mut_str r ''authority'' ''receiver'') (\<lambda>receiver.
     rbind (mut_str r ''authority'' ''self'') (\<lambda>self.
     rbind (rbind (json_sub_mut r [''friend'']) (\<lambda>f. str_list (json_items f))) (\<lambda>friends.
     rbind (rbind (mut_str r ''fee'' ''author'') stoi) (\<lambda>fa. rbind (rbind (mut_str r ''fee'' ''user'') stoi) (\<lambda>fu.
       Inr \<lparr>rq_block_id = block_id, rq_block_height = height, rq_tx_id = txid, rq_status = status,
            rq_info = info, rq_author = author, rq_user = user, rq_receiver = receiver, rq_self = self,
            rq_friends = friends, rq_fee_author = fa, rq_fee_user = fu\<rparr>))))))))))"

definition run_one_query :: "env \<Rightarrow> ResultQueryInfo \<Rightarrow> json \<Rightarrow> (QueryState, unit) prog" where
  "run_one_query e info q = sbind (slift (json_str q ''type'')) (\<lambda>type.
     sbind (slift (json_sub_mut q [''option''])) (\<lambda>option.
     sbind (dispatch_query e type option info) (\<lambda>_. sret ())))"

definition run_result :: "env \<Rightarrow> string \<Rightarrow> block_height_type \<Rightarrow> json \<Rightarrow> (QueryState, unit) prog" where
  "run_result e block_id height r = sbind (slift (read_result_info block_id height r)) (\<lambda>info.
     sbind (slift (json_sub_mut r [''queries''])) (\<lambda>qs. seq (map (run_one_query e info) (json_items qs))))"

text \<open>The queries work on a copy of the block and on the state trees of the chain.\<close>

definition with_block :: "UnresolvedBlock \<Rightarrow> (QueryState, unit) prog \<Rightarrow> (Chain, UnresolvedBlock) prog" where
  "with_block ur m ch = (case m \<lparr>q_ur = ur, q_us_tree = ch_us_tree ch, q_cs_tree = ch_cs_tree ch\<rparr> of
     (s, r) \<Rightarrow> (ch\<lparr>ch_us_tree := q_us_tree s, ch_cs_tree := q_cs_tree s\<rparr>, rbind r (\<lambda>_. Inr (q_ur s))))"

definition processTxResult :: "env \<Rightarrow> json \<Rightarrow> (Chain, unit) prog" where
  "processTxResult e res =
     sbind (slift (sub_str res ''block'' ''id'')) (\<lambda>block_id.
     sbind (slift (rbind (sub_str res ''block'' ''height'') stoi)) (\<lambda>hi ch.
       (let height = (word_of_int hi :: 64 word);
            ur = getUnresolvedBlock_id (ch_pool ch) block_id height
        in sbind (if block_id \<noteq> bp_block_id (ch_head ch) \<and> bp_block_id (ch_head ch) \<noteq> []
                  then moveHead e (ub_prev_id ur) (m_block_height (ub_block ur) - 1) else sret ()) (\<lambda>_.
           sbind (slift (json_idx res ''results'')) (\<lambda>results.
           sbind (\<lambda>ch. with_block ur (seq (map (run_result (env_of e ch) block_id height) (json_items results))) ch) (\<lambda>ur'.
           sbind (on_pool (setUnresolvedBlock ur')) (\<lambda>_.
           sbind (updateStateTree (e_utils e) ur') (\<lambda>_.
           sbind (saveBackupResult (e_utils e) ur') (\<lambda>_.
             moveHead e (ub_id ur') (m_block_height (ub_block ur')))))))) ch)))"

subsection \<open>Read queries\<close>

definition need_where :: "json \<Rightarrow> json result" where
  "need_where request = (if json_contains request ''where'' then json_idx request ''where''
     else Inl Bad_Optional_Access)"

definition answer_query :: "utils \<Rightarrow> rdb \<Rightarrow> Chain \<Rightarrow> json \<Rightarrow> json result" where
  "answer_query u r ch request = rbind (json_str request ''type'') (\<lambda>type.
     (let with_where = (\<lambda>f. rbind (need_where request) (\<lambda>wh. Inr (f wh))) in
      if type = ''world.get'' then Inr (queryWorldGet ch)
      else if type = ''chain.get'' then Inr (queryChainGet ch)
      else if type = ''contract.scan'' then rbind (need_where request) (queryContractScan r)
      else if type = ''contract.get'' then with_where (queryContractGet r)
      else if type = ''user.cert.get'' then with_where (queryCertGet r)
      else if type = ''user.info.get'' then with_where (queryUserInfoGet r)
      else if type = ''user.scope.get'' then with_where (queryUserScopeGet r)
      else if type = ''contract.scope.get'' then with_where (queryContractScopeGet r)
      else if type = ''block.get'' then rbind (need_where request) (\<lambda>wh. queryBlockGet u wh ch)
      else if type = ''tx.get'' then rbind (need_where request) (queryTxGet u r)
      else if type = ''block.scan'' then with_where (queryBlockScan r)
      else if type = ''tx.scan'' then with_where (queryTxScan r)
      else Inr request))"

text \<open>Every exception is caught and logged; the function then ends without a \<open>return\<close>.\<close>

definition processRequestQuery :: "utils \<Rightarrow> rdb \<Rightarrow> Chain \<Rightarrow> json \<Rightarrow> json result" where
  "processRequestQuery u r ch request = (case answer_query u r ch request of
       Inl e \<Rightarrow> Inl Undefined_Behaviour | Inr j \<Rightarrow> Inr j)"

subsection \<open>Start\<close>

text \<open>What \<open>initialize\<close> reads back from the store: identifiers, certificate, and which parts of the
  set-up it reports as complete (world, chain, user).\<close>

definition load_identities :: "KvStore \<Rightarrow> app_ids \<Rightarrow> app_ids \<times> string \<times> bool \<times> bool \<times> bool" where
  "load_identities kv app =
     (let world_id = getValueByKey kv ''world'' ''latest_world_id'';
          app1 = (if world_id \<noteq> [] then app\<lparr>ap_world_id := world_id,
                    ap_auth_cert := getValueByKey kv ''world'' (world_id @ ''_apk'')\<rparr> else app);
          chain_id = getValueByKey kv ''chain'' ''latest_chain_id'';
          app2 = (if chain_id \<noteq> [] then app1\<lparr>ap_chain_id := chain_id\<rparr> else app1);
          self_id = getValueByKey kv ''self_info'' ''self_id''
      in (app2, self_id, world_id \<noteq> [], chain_id \<noteq> [], self_id \<noteq> []))"

subsection \<open>Properties\<close>

text \<open>C24: whether a block is accepted does not depend on any signature made for a block: the check of
  the producer's signature is dropped and those of the signers are never asked for, so an incoming
  block has the same effect whatever the certificate-based verification says.\<close>

theorem block_signatures_ignored:
  "plugin_pushBlock (v\<lparr>v_ags_verify_pem := f\<rparr>) u junk now j ch = plugin_pushBlock v u junk now j ch"
proof -
  have tx: "verify_tx (v\<lparr>v_ags_verify_pem := f\<rparr>) u = verify_tx v u"
    by (simp add: fun_eq_iff verify_tx_def verifyID_def verifyEndorserSig_def verifyUserSig_def)
  have stage: "earlyStage (v\<lparr>v_ags_verify_pem := f\<rparr>) u = earlyStage v u"
    by (simp add: fun_eq_iff earlyStage_def verifyBlock_def verifyBlockID_def verify_tx_in_def[abs_def] tx Let_def)
  show ?thesis unfolding plugin_pushBlock_def stage ..
qed

lemma map_of_tx_add:
  "map_of (tx_add t p) i = (if i = m_txid t \<and> map_of p (m_txid t) = None then Some t else map_of p i)"
  by (simp add: tx_add_def)

interpretation tx_pool: first_wins "\<lambda>(k :: string) t p. om_try k t p" "map_of :: tx_pool \<Rightarrow> string \<Rightarrow> Transaction option"
  by unfold_locales auto

definition tx_pool_ok :: "verifiers \<Rightarrow> utils \<Rightarrow> tx_pool \<Rightarrow> bool" where
  "tx_pool_ok v u p \<longleftrightarrow> om_ok p \<and> (\<forall>(k, t)\<in>set p. k = m_txid t \<and> verify_tx v u t)"

lemma set_om_put: "set (om_put k x m) \<subseteq> insert (k, x) (set m)"
  by (induction k x m rule: om_put.induct) auto

lemma pushTransaction_ok: "tx_pool_ok v u p \<Longrightarrow> tx_pool_ok v u (fst (pushTransaction v u j p))"
  using set_om_put
  by (fastforce simp: pushTransaction_def tx_pool_ok_def tx_add_def om_try_def split: sum.split option.split)

lemma pushTransaction_stays: "map_of p k = Some t \<Longrightarrow> map_of (fst (pushTransaction v u j p)) k = Some t"
  by (auto simp: pushTransaction_def tx_add_def split: sum.split option.split)

lemma pushTransactions:
  assumes "tx_pool_ok v u p"
  shows "tx_pool_ok v u (fold (\<lambda>j p. fst (pushTransaction v u j p)) js p)
    \<and> (\<forall>k t. map_of p k = Some t \<longrightarrow> map_of (fold (\<lambda>j p. fst (pushTransaction v u j p)) js p) k = Some t)"
  using assms by (induction js arbitrary: p) (simp_all add: pushTransaction_ok pushTransaction_stays)

text \<open>C18: whatever messages arrive, the pool holds only transactions that pass the checks, at most one
  for every identifier, and one that is in the pool is never replaced by a later message.\<close>

theorem tx_pool_safe:
  assumes "p = fold (\<lambda>j p. fst (pushTransaction v u j p)) js []"
    and "p' = fold (\<lambda>j p. fst (pushTransaction v u j p)) js' p"
  shows "list_all (verify_tx v u) (fetchAll p') \<and> distinct (map m_txid (fetchAll p'))
    \<and> set (fetchAll p) \<subseteq> set (fetchAll p')"
proof -
  have p: "tx_pool_ok v u p" using assms(1) pushTransactions[of v u "[]"] by (simp add: tx_pool_ok_def)
  note p' = pushTransactions[OF this, of js', folded assms(2)]
  then have ok: "tx_pool_ok v u p'" by simp
  then have "map m_txid (fetchAll p') = map fst p'"
    by (auto simp: fetchAll_def tx_pool_ok_def)
  then have "distinct (map m_txid (fetchAll p'))" using ok om_ok_distinct[of p'] by (simp only: tx_pool_ok_def)
  moreover have "list_all (verify_tx v u) (fetchAll p')" using ok
    by (auto simp: fetchAll_def tx_pool_ok_def list_all_iff)
  moreover have "set p \<subseteq> set p'"
  proof
    fix kt assume kt: "kt \<in> set p"
    have "map_of p (fst kt) = Some (snd kt)"
      using om_ok_distinct[of p] p kt by (simp add: tx_pool_ok_def)
    then have "map_of p' (fst kt) = Some (snd kt)" using p' by blast
    then show "kt \<in> set p'" by (metis map_of_SomeD prod.collapse)
  qed
  then have "set (fetchAll p) \<subseteq> set (fetchAll p')" by (auto simp: fetchAll_def)
  ultimately show ?thesis by simp
qed

definition demo_verifiers :: verifiers where
  "demo_verifiers = \<lparr>v_bytes_u64 = dec_u64, v_ags_verify = (\<lambda>pk msg sig. sig = ''ok''),
     v_ags_verify_pem = (\<lambda>cert msg sig. sig = ''ok''), v_user_cert = (\<lambda>_. ''cert'')\<rparr>"

definition demo_tx_json :: "string \<Rightarrow> json" where
  "demo_tx_json sig = json_obj
     [(''txid'', JStr (take 32 (''uWC7r5c'' @ replicate 32 (CHR 0x00)))), (''world'', JStr ''W''), (''chain'', JStr ''C''),
      (''time'', JStr ''7''),
      (''body'', json_obj [(''cid'', JStr ''c''), (''receiver'', JStr ''r''), (''fee'', JStr ''5''), (''input'', JNull)]),
      (''user'', json_obj [(''id'', JStr ''u''), (''pk'', JStr ''k''), (''sig'', JStr sig), (''a'', JStr ''x''), (''z'', JStr ''y'')]),
      (''endorser'', JArr [])]"

theorem tx_pool_safe_witness:
  "length (fetchAll (fst (pushTransaction demo_verifiers demo_utils (demo_tx_json ''ok'') []))) = 1
   \<and> list_all (verify_tx demo_verifiers demo_utils) (fetchAll (fst (pushTransaction demo_verifiers demo_utils
       (demo_tx_json ''forged'') (fst (pushTransaction demo_verifiers demo_utils (demo_tx_json ''ok'') [])))))"
proof -
  have "length (fetchAll (fst (pushTransaction demo_verifiers demo_utils (demo_tx_json ''ok'') []))) = 1"
    by code_simp
  then show ?thesis
    using tx_pool_safe[of "fst (pushTransaction demo_verifiers demo_utils (demo_tx_json ''ok'') [])" demo_verifiers
      demo_utils "[demo_tx_json ''ok'']" _ "[demo_tx_json ''forged'']", OF _ refl]
    by simp
qed

end
