(* ===== verification/Ledger_Props.thy ===== *)
theory Ledger_Props
  imports Ledger_Queries
begin

text \<open>
  What the queries do to the ledger: how a transfer moves a value, what happens when the receiver has
  no value yet, what incineration leaves behind, why a second query on an entry is undefined, and
  what \<open>getVarType\<close> answers.
\<close>

subsection \<open>Lookups\<close>

lemma find_user_frame:
  assumes "findUserLedgerFromHead pid s = (s1, r)"
  shows "map_of (users s1) = (if map_of (users s) pid = None then (map_of (users s))(pid \<mapsto> UserLedger_default)
           else map_of (users s)) \<and> contracts s1 = contracts s"
  using assms
  by (auto simp: findUserLedgerFromHead_def Let_def split: option.splits prod.splits sum.splits if_splits)

lemma find_user_ok:
  assumes "findUserLedgerFromHead pid s = (s1, Inr l)"
  shows "case map_of (users s) pid of None \<Rightarrow> True | Some x \<Rightarrow> ul_is_empty x"
  using assms by (auto simp: findUserLedgerFromHead_def Let_def split: option.splits if_splits)

lemma put_user_eq [simp]:
  "put_user pid l s = (s\<lparr>q_ur := (q_ur s)\<lparr>user_ledger_list := om_put pid l (users s)\<rparr>\<rparr>, Inr ())"
  by (simp add: put_user_def)

lemma slift_Inr: "slift r s = (t, Inr x) \<longleftrightarrow> t = s \<and> r = Inr x"
  by auto

lemma payer_pid_state: "payer_pid e given owner name s = (s1, r) \<Longrightarrow> s1 = s"
  by (auto simp: payer_pid_def sbind_def var_type_here_def split: option.splits sum.splits if_splits)

lemma int_diff_Inr: "int_diff a b = Inr v \<longleftrightarrow> (\<exists>x y. stoi a = Inr x \<and> stoi b = Inr y \<and> v = x - y
    \<and> int_min \<le> x - y \<and> x - y \<le> int_max)"
  by (auto simp: int_diff_def rbind_eq_Inr chk_int_eq_Inr)

lemma int_sum_Inr: "int_sum a b = Inr v \<longleftrightarrow> (\<exists>x y. stoi a = Inr x \<and> stoi b = Inr y \<and> v = x + y
    \<and> int_min \<le> x + y \<and> x + y \<le> int_max)"
  by (auto simp: int_sum_def rbind_eq_Inr chk_int_eq_Inr)

lemma pay_from_user_ok:
  assumes "pay_from_user e given from_id name amount h s = (s1, Inr (Some vt))"
  shows "\<exists>pid s0 f v. findUserLedgerFromHead pid s = (s0, Inr f) \<and> \<not> ul_is_empty f
    \<and> int_diff (ul_var_value f) amount = Inr v \<and> 0 \<le> v \<and> vt = ul_var_type f
    \<and> s1 = fst (put_user pid (paid_user e h f v) s0)
    \<and> payer_pid e given from_id name s = (s, Inr (Some pid))"
proof -
  obtain s0 p where p: "payer_pid e given from_id name s = (s0, Inr p)"
    using assms by (auto simp: pay_from_user_def sbind_Inr)
  then have "s0 = s" by (rule payer_pid_state)
  with p assms show ?thesis
    by (auto simp: pay_from_user_def sbind_Inr slift_Inr not_less split: option.splits if_splits)
qed

lemma pay_to_user_ok:
  assumes "pay_to_user e pid amount h s = (s1, Inr u)"
  shows "\<exists>s0 t v. findUserLedgerFromHead pid s = (s0, Inr t) \<and> int_sum (ul_var_value t) amount = Inr v
    \<and> s1 = fst (put_user pid (received_user e h t v) s0)"
  using assms by (auto simp: pay_to_user_def sbind_Inr slift_Inr)

lemma transfer_user_steps:
  assumes ok: "queryTransfer e option info s = (s', Inr True)"
    and opts: "json_str option ''from'' = Inr from" "from \<noteq> ''contract''" "json_str option ''to'' = Inr to_id"
      "json_str option ''amount'' = Inr amount"
    and to_user: "isUserId to_id"
  shows "\<exists>from_pid vn from_id s2 vt tp. pay_from_user e from_pid from_id vn amount (rq_block_height info) s = (s2, Inr (Some vt))
    \<and> pay_to_user e tp amount (rq_block_height info) s2 = (s', Inr ())"
proof -
  have nc: "\<not> isContractId to_id" using to_user by (simp add: isUserId_def isContractId_def)
  obtain from_pid vn from_id s2 tag paid where
    "pay_from_user e from_pid from_id vn amount (rq_block_height info) s = (s2, Inr paid)"
    and rest: "(case paid of None \<Rightarrow> sret False
       | Some var_type \<Rightarrow> sbind (pay_to_user e (receiver_pid (e_utils e) vn var_type to_id tag) amount (rq_block_height info))
                  (\<lambda>_. sret True)) s2 = (s', Inr True)"
    using ok opts nc to_user by (auto simp: queryTransfer_def sbind_Inr slift_Inr Let_def simp del: sret_slift_simps)
  then show ?thesis by (cases paid) (auto simp: sbind_Inr, blast)
qed

subsection \<open>A concrete ledger\<close>

text \<open>Two entries in the two halves of a state tree, for the witnesses.\<close>

definition demo_leaf :: "UserLedger \<Rightarrow> StateNode" where
  "demo_leaf l = StateNode_default\<lparr>n_bin_path := 1, n_user_ledger := Some l\<rparr>"

definition demo_tree :: "UserLedger \<Rightarrow> UserLedger \<Rightarrow> StateTree" where
  "demo_tree l r = \<lparr>t_heap = [StateNode_default\<lparr>n_left := Some 1, n_right := Some 2\<rparr>, demo_leaf l, demo_leaf r],
     t_root = Some 0, t_size = 2, t_stk = []\<rparr>"

definition demo_entry :: "string \<Rightarrow> string \<Rightarrow> UserLedger" where
  "demo_entry uid val = UserLedger_default\<lparr>ul_var_name := ''KEYC'', ul_var_value := val, ul_uid := uid, ul_is_empty := False\<rparr>"

definition demo_env :: env where
  "demo_env = \<lparr>e_utils = demo_utils, e_now = 77, e_pool = \<lparr>m_block_pool = [], m_latest_confirmed_id = ''g'', m_latest_confirmed_height = 10,
     m_latest_confirmed_time = 0, m_latest_confirmed_hash = ''g'', m_latest_confirmed_prev_id = ''f''\<rparr>,
     e_rdb_var_type = (\<lambda>_ _. -1), e_rdb_user = (\<lambda>_. UserLedger_default), e_rdb_contract = (\<lambda>_. ContractLedger_default), e_junk = 0\<rparr>"

definition demo_info :: ResultQueryInfo where
  "demo_info = \<lparr>rq_block_id = ''b'', rq_block_height = 11, rq_tx_id = ''t'', rq_status = True, rq_info = [], rq_author = ''au'',
     rq_user = ''us'', rq_receiver = ''re'', rq_self = ''se'', rq_friends = [], rq_fee_author = 0, rq_fee_user = 0\<rparr>"

definition demo_state :: "string \<Rightarrow> string \<Rightarrow> QueryState" where
  "demo_state to_val from_val = \<lparr>q_ur = UnresolvedBlock_default, q_us_tree = demo_tree (demo_entry ''re'' to_val) (demo_entry ''us'' from_val),
     q_cs_tree = StateTree_new\<rparr>"

definition demo_transfer :: "string \<Rightarrow> json" where
  "demo_transfer amount = JObj [(''amount'', JStr amount), (''from'', JStr ''user''), (''pid'', JStr [CHR 0x80, CHR ''A'']),
     (''to'', JStr (replicate 44 (CHR ''A''))), (''unit'', JStr ''KEYC'')]"

lemma demo_transfer_run:
  "queryTransfer demo_env (demo_transfer ''30'') demo_info (demo_state ''5'' ''100'') =
     (fst (queryTransfer demo_env (demo_transfer ''30'') demo_info (demo_state ''5'' ''100'')), Inr True)"
proof -
  have "snd (queryTransfer demo_env (demo_transfer ''30'') demo_info (demo_state ''5'' ''100'')) = Inr True" by code_simp
  then show ?thesis by (metis prod.collapse)
qed

subsection \<open>Transfer\<close>



text \<open>When the receiving entry has no value yet, the transfer throws \<open>std::invalid_argument\<close> on the
  empty text, after the amount has already been taken from the payer: the value is lost.\<close>

theorem transfer_to_empty_entry:
  assumes opts: "json_str option ''from'' = Inr ''user''" "json_str option ''to'' = Inr to_id"
      "json_str option ''amount'' = Inr amount" "json_str option ''unit'' = Inr var_name"
      "json_get option ''pid'' = Inr from_pid" "json_get option ''tag'' = Inr tag"
    and to_user: "isUserId to_id"
    and paid: "pay_from_user e from_pid (rq_user info) var_name amount (rq_block_height info) s = (s1, Inr (Some vt))"
    and receiver: "findUserLedgerFromHead (receiver_pid (e_utils e) var_name vt to_id tag) s1 = (s2, Inr t)"
      "ul_var_value t = []"
  shows "queryTransfer e option info s = (s2, Inl Invalid_Argument)
    \<and> (\<exists>fp f v s0. findUserLedgerFromHead fp s = (s0, Inr f) \<and> int_diff (ul_var_value f) amount = Inr v
         \<and> map_of (users s2) fp = Some (paid_user e (rq_block_height info) f v))"
proof
  have nc: "\<not> isContractId to_id" using to_user by (simp add: isUserId_def isContractId_def)
  have empty: "int_sum [] amount = Inl Invalid_Argument" by (simp add: int_sum_def stoi_def strto_def)
  show "queryTransfer e option info s = (s2, Inl Invalid_Argument)"
    using opts nc to_user paid receiver empty
    by (simp add: queryTransfer_def sbind_def pay_to_user_def Let_def)
  obtain fp s0 f v where f: "findUserLedgerFromHead fp s = (s0, Inr f)" "int_diff (ul_var_value f) amount = Inr v"
      "s1 = fst (put_user fp (paid_user e (rq_block_height info) f v) s0)"
    using pay_from_user_ok [OF paid] by blast
  then have "map_of (users s1) fp = Some (paid_user e (rq_block_height info) f v)" by simp
  then have "map_of (users s2) fp = Some (paid_user e (rq_block_height info) f v)"
    using find_user_frame [OF receiver(1)] by (auto split: if_splits)
  then show "\<exists>fp f v s0. findUserLedgerFromHead fp s = (s0, Inr f) \<and> int_diff (ul_var_value f) amount = Inr v
         \<and> map_of (users s2) fp = Some (paid_user e (rq_block_height info) f v)"
    using f by blast
qed

lemma transfer_to_empty_entry_witness:
  "\<exists>s2. queryTransfer demo_env (demo_transfer ''30'') demo_info (demo_state [] ''100'') = (s2, Inl Invalid_Argument)"
proof -
  let ?o = "demo_transfer ''30''" and ?to = "replicate 44 (CHR ''A'')" and ?s = "demo_state [] ''100''"
  let ?pay = "pay_from_user demo_env (Some [CHR 0x80, CHR ''A'']) (rq_user demo_info) ''KEYC'' ''30'' (rq_block_height demo_info) ?s"
  let ?find = "findUserLedgerFromHead (receiver_pid (e_utils demo_env) ''KEYC'' 0 ?to None) (fst ?pay)"
  have "snd ?pay = Inr (Some 0)" by code_simp
  then have pay: "?pay = (fst ?pay, Inr (Some 0))" by (metis prod.collapse)
  have find_ok: "map_sum (\<lambda>_. ()) ul_var_value (snd ?find) = Inr []" by code_simp
  then obtain t where "snd ?find = Inr t" and t: "ul_var_value t = []" by (cases "snd ?find") auto
  then have find_eq: "?find = (fst ?find, Inr t)" by (metis prod.collapse)
  have user: "isUserId ?to" by code_simp
  show ?thesis
    using transfer_to_empty_entry [OF _ _ _ _ _ _ user pay find_eq t]
    by (force simp: demo_transfer_def json_get_def json_contains_def json_idx_def)
qed

subsection \<open>Entries already touched\<close>

text \<open>Once a block holds a value for an entry, every further query that looks this entry up from the
  head is undefined, because \<open>findUserLedgerFromHead\<close> then ends without a \<open>return\<close>; for example a
  second incineration in the same block.\<close>

theorem touched_entry_undefined:
  assumes "map_of (users s) pid = Some l" "\<not> ul_is_empty l"
    and "json_str option ''pid'' = Inr pid" "json_str option ''amount'' = Inr amount"
  shows "snd (findUserLedgerFromHead pid s) = Inl Undefined_Behaviour
    \<and> snd (queryIncinerate option info s) = Inl Undefined_Behaviour"
  using assms by (simp add: queryIncinerate_def findUserLedgerFromHead_def sbind_def)

definition demo_incinerate :: json where
  "demo_incinerate = JObj [(''amount'', JStr ''130''), (''pid'', JStr [CHR 0x80, CHR ''A''])]"

lemma touched_entry_undefined_witness:
  "snd (queryIncinerate demo_incinerate demo_info
     (fst (put_user [CHR 0x80, CHR ''A''] (demo_entry ''us'' ''70'') (demo_state ''5'' ''100''))))
   = Inl Undefined_Behaviour"
  using touched_entry_undefined [of "fst (put_user [CHR 0x80, CHR ''A''] (demo_entry ''us'' ''70'') (demo_state ''5'' ''100''))"
    "[CHR 0x80, CHR ''A'']" "demo_entry ''us'' ''70''" demo_incinerate "''130''" demo_info]
  by (simp add: demo_entry_def demo_incinerate_def)

text \<open>Incinerating more than an entry holds is logged as an error, but the query still succeeds and
  records the negative difference as the new value of the entry.\<close>

theorem incinerate_overdraw:
  assumes "json_str option ''amount'' = Inr amount" "json_str option ''pid'' = Inr pid"
    and found: "findUserLedgerFromHead pid s = (s1, Inr f)" "\<not> ul_is_empty f" "ul_uid f = rq_user info"
    and amounts: "stoi (ul_var_value f) = Inr x" "stoi amount = Inr a" "x < a" "int_min \<le> x - a"
  shows "\<exists>s2 f'. queryIncinerate option info s = (s2, Inr True) \<and> map_of (users s2) pid = Some f'
    \<and> ul_var_value f' = dec_int (x - a) \<and> x - a < 0 \<and> ul_query_type f' = ul_query_type f"
proof -
  have "x \<le> int_max" using amounts(1) by (auto simp: stoi_def split: option.splits if_splits)
  then have "int_diff (ul_var_value f) amount = Inr (x - a)"
    using amounts by (auto simp: int_diff_Inr)
  then show ?thesis
    using assms by (simp add: queryIncinerate_def sbind_def)
qed

lemma incinerate_overdraw_witness:
  "\<exists>s2 f'. queryIncinerate demo_incinerate demo_info (demo_state ''5'' ''100'') = (s2, Inr True)
    \<and> map_of (users s2) [CHR 0x80, CHR ''A''] = Some f'
    \<and> ul_var_value f' = dec_int (100 - 130) \<and> (100::int) - 130 < 0 \<and> ul_query_type f' = ul_query_type (demo_entry ''us'' ''100'')"
proof -
  let ?find = "findUserLedgerFromHead [CHR 0x80, CHR ''A''] (demo_state ''5'' ''100'')"
  have "snd ?find = Inr (demo_entry ''us'' ''100'')" by code_simp
  then have "?find = (fst ?find, Inr (demo_entry ''us'' ''100''))" by (metis prod.collapse)
  moreover have "stoi ''100'' = Inr 100" "stoi ''130'' = Inr 130" by code_simp+
  ultimately show ?thesis
    by (intro incinerate_overdraw) (simp_all add: demo_incinerate_def demo_entry_def demo_info_def)
qed

subsection \<open>The type of a variable\<close>

text \<open>The types recorded along the linked blocks, highest block first.\<close>

fun chain_types :: "UnresolvedBlockPool \<Rightarrow> (UnresolvedBlock \<Rightarrow> int list) \<Rightarrow> nat \<Rightarrow> int \<Rightarrow> int list result" where
  "chain_types p types 0 vec = Inr []"
| "chain_types p types (Suc d) vec = rbind (getUnresolvedBlock p (int d) vec) (\<lambda>u.
     rbind (chain_types p types d (prev_vec_idx u)) (\<lambda>ts. Inr (types u @ ts)))"

lemma scan_types_append:
  "scan_types vt (xs @ ys) = (case scan_types vt xs of None \<Rightarrow> None | Some v \<Rightarrow> scan_types v ys)"
  by (induction vt xs rule: scan_types.induct) auto

lemma pool_types_scan:
  "chain_types p types n vec = Inr ts \<Longrightarrow> pool_types p types n vec vt = Inr (scan_types vt ts)"
proof (induction n arbitrary: vec vt ts)
  case (Suc n)
  then obtain u ts' where u: "getUnresolvedBlock p (int n) vec = Inr u"
    "chain_types p types n (prev_vec_idx u) = Inr ts'" "ts = types u @ ts'"
    by (auto simp: rbind_eq_Inr)
  then show ?case using Suc.IH [OF u(2)] by (auto simp: scan_types_append split: option.split)
qed simp

lemma scan_types_known: "vt \<noteq> NO_VALUE \<Longrightarrow> scan_types vt ts = (if \<forall>t\<in>set ts. t = vt then Some vt else None)"
  by (induction vt ts rule: scan_types.induct) auto

lemma scan_types_unique:
  "\<forall>t\<in>set ts. 0 \<le> t \<Longrightarrow> scan_types NO_VALUE ts =
     (if ts = [] then Some NO_VALUE else if \<forall>t\<in>set ts. t = hd ts then Some (hd ts) else None)"
  by (cases ts) (auto simp: scan_types_known)

text \<open>For a user whose variable has non-negative types in the linked blocks, \<open>getVarType\<close> answers the
  one type that the blocks and the database agree on, \<open>NO_VALUE\<close> when there is none anywhere, and
  \<open>NOT_UNIQUE\<close> when there are two different ones or the database itself says so.\<close>

theorem getVarType_unique:
  assumes "isUserId owner"
    and chain: "chain_types (e_pool e) (user_types owner name)
        (nat (u64_to_int (height - m_latest_confirmed_height (e_pool e) - 1) + 1)) vec = Inr ts"
    and types: "\<forall>t\<in>set ts. 0 \<le> t" and rdb: "e_rdb_var_type e owner name = r" "NOT_UNIQUE \<le> r"
  defines "vs \<equiv> ts @ (if 0 \<le> r then [r] else [])"
  shows "getVarType e owner name height vec = Inr
    (if r = NOT_UNIQUE \<or> (\<exists>t\<in>set vs. t \<noteq> hd vs) then NOT_UNIQUE else if vs = [] then NO_VALUE else hd vs)"
proof -
  have r: "r = NOT_UNIQUE \<or> r = NO_VALUE \<or> 0 \<le> r" using rdb(2) by linarith
  have "getVarType e owner name height vec =
    (case scan_types NO_VALUE ts of None \<Rightarrow> Inr NOT_UNIQUE | Some vt \<Rightarrow> merge_types vt r)"
    using assms(1) rdb(1) pool_types_scan [OF chain, of NO_VALUE] by (simp add: getVarType_def Let_def)
  also have "\<dots> = Inr (if r = NOT_UNIQUE \<or> (\<exists>t\<in>set vs. t \<noteq> hd vs) then NOT_UNIQUE
      else if vs = [] then NO_VALUE else hd vs)"
  proof (cases ts)
    case Nil
    then show ?thesis using r by (auto simp: merge_types_def vs_def)
  next
    case (Cons t us)
    moreover have "0 \<le> t" using types Cons by simp
    ultimately show ?thesis
      using r types by (auto simp: scan_types_known merge_types_def vs_def)
  qed
  finally show ?thesis .
qed

definition demo_typed_env :: env where
  "demo_typed_env = demo_env\<lparr>e_pool := (e_pool demo_env)\<lparr>m_block_pool := [[UnresolvedBlock_default
     \<lparr>user_ledger_list := [(''p'', (demo_entry (replicate 44 (CHR ''A'')) ''5'')\<lparr>ul_var_type := 3\<rparr>)]\<rparr>]]\<rparr>\<rparr>"

lemma getVarType_unique_witness:
  "getVarType demo_typed_env (replicate 44 (CHR ''A'')) ''KEYC'' 11 0 = Inr 3"
proof -
  have "isUserId (replicate 44 (CHR ''A''))" by code_simp
  moreover have "chain_types (e_pool demo_typed_env) (user_types (replicate 44 (CHR ''A'')) ''KEYC'')
      (nat (u64_to_int (11 - m_latest_confirmed_height (e_pool demo_typed_env) - 1) + 1)) 0 = Inr [3]" by code_simp
  moreover have "e_rdb_var_type demo_typed_env (replicate 44 (CHR ''A'')) ''KEYC'' = -1"
    by (simp add: demo_typed_env_def demo_env_def)
  ultimately show ?thesis
    using getVarType_unique [of "replicate 44 (CHR ''A'')" demo_typed_env "''KEYC''" 11 0 "[3]" "-1"] by simp
qed

end
