(* ===== verification/State_Tree_Props.thy ===== *)
theory State_Tree_Props
  imports State_Tree
begin

text \<open>
  What the state tree does: nothing is defined on the tree the constructor makes; on a tree with a
  root node a first entry is stored, hashed up to the root and found again; storing an entry whose
  path is already in the tree always runs into a negative shift.
\<close>

subsection \<open>Errors of tree programs\<close>

text \<open>The only way a tree operation fails is undefined behaviour.\<close>

definition ub_only :: "('s, 'a) prog \<Rightarrow> bool" where
  "ub_only m \<longleftrightarrow> (\<forall>s t e. m s = (t, Inl e) \<longrightarrow> e = Undefined_Behaviour)"

named_theorems ub_intros \<open>programs whose only error is undefined behaviour\<close>

lemma ub_onlyI: "(\<And>s t e. m s = (t, Inl e) \<Longrightarrow> e = Undefined_Behaviour) \<Longrightarrow> ub_only m"
  by (simp add: ub_only_def)

lemma ub_only_sbind [ub_intros]: "ub_only m \<Longrightarrow> (\<And>x. ub_only (f x)) \<Longrightarrow> ub_only (sbind m f)"
  by (fastforce simp: ub_only_def sbind_def split: prod.splits sum.splits)

lemma ub_only_sret [ub_intros]: "ub_only (sret x)"
  by (simp add: ub_only_def)

lemma ub_only_pure [simp, ub_intros]: "ub_only (\<lambda>s. (f s, Inr (g s)))"
  by (simp add: ub_only_def)

lemma ub_only_direction [ub_intros]: "ub_only (slift (getDirectionOf p i))"
  by (auto simp: ub_only_def getDirectionOf_def split: if_splits)

lemma node_at_UB: "node_at t p = Inl e \<Longrightarrow> e = Undefined_Behaviour"
  by (auto simp: node_at_def split: option.splits if_splits)

lemma ub_only_prims [ub_intros]:
  "ub_only (deref p)" "ub_only (alloc n)" "ub_only (push_stk a)" "ub_only clear_stk"
  by (auto simp: ub_only_def deref_def alloc_def push_stk_def clear_stk_def dest: node_at_UB)

lemma ub_only_update [ub_intros]: "ub_only (update_node p f)"
  unfolding update_node_def by (intro ub_intros)

lemma ub_only_set_child [ub_intros]: "ub_only (set_child d p a)"
  unfolding set_child_def by (rule ub_intros)

lemma child_text_UB: "child_text u t p = Inl e \<Longrightarrow> e = Undefined_Behaviour"
  by (auto simp: child_text_def rbind_eq_Inl split: option.splits dest: node_at_UB)

lemma ub_only_reHash [ub_intros]: "ub_only (reHash u p)"
proof -
  have "ub_only (\<lambda>t. sbind (slift (rbind (child_text u t (n_left n)) (\<lambda>l. rbind (child_text u t (n_right n)) (\<lambda>r.
      Inr (u_sha256 u (combine_text l r)))))) (\<lambda>h. update_node p (\<lambda>n. n\<lparr>n_hash_value := h\<rparr>)) t)" for n
    using ub_only_update [of p]
    by (fastforce simp: ub_only_def sbind_def rbind_eq_Inl split: prod.splits sum.splits dest: child_text_UB)
  then show ?thesis unfolding reHash_def by (intro ub_intros)
qed

lemma ub_only_rehash_list [ub_intros]: "ub_only (rehash_list u as)"
  by (induction "as") (auto intro: ub_intros)

lemma ub_only_rehash_stk [ub_intros]: "ub_only (rehash_stk u)"
  using ub_only_rehash_list [of u] by (simp add: ub_only_def rehash_stk_def)

lemma ub_only_modifyNode [ub_intros]: "ub_only (modifyNode u a b)"
  unfolding modifyNode_def by (intro ub_intros)

lemma ub_only_split_down [ub_intros]: "ub_only (split_down p q m a)"
  by (induction m arbitrary: a) (auto intro!: ub_intros)

text \<open>Two equal paths are never told apart: the loop ends below the last level.\<close>

lemma split_down_same: "split_down p p m a t = (t', Inr (pos, b)) \<Longrightarrow> pos = -1"
proof (induction m arbitrary: a t)
  case (Suc m)
  then show ?case
    by (auto simp: sbind_def getDirectionOf_def split: prod.splits sum.splits if_splits)
qed simp

lemma sbind_fails: "(\<And>t s x. m s = (t, Inr x) \<Longrightarrow> \<exists>r e. f x t = (r, Inl e)) \<Longrightarrow> \<exists>r e. sbind m f s = (r, Inl e)"
  by (auto simp: sbind_def split: prod.splits sum.splits)

lemma sbind_fails_last: "(\<And>x t. \<exists>r e. f x t = (r, Inl e)) \<Longrightarrow> \<exists>r e. sbind m f s = (r, Inl e)"
  by (auto simp: sbind_def split: prod.splits sum.splits)

lemma ub_fails: "ub_only m \<Longrightarrow> \<exists>r e. m s = (r, Inl e) \<Longrightarrow> snd (m s) = Inl Undefined_Behaviour"
  by (auto simp: ub_only_def)

lemma ub_only_collide: "ub_only (collide u path new pos old prev)"
  unfolding collide_def Let_def by (auto intro!: ub_intros split: prod.splits)

lemma collide_same_path:
  assumes "node_at t old = Inr n" "n_bin_path n = path"
  shows "snd (collide u path new pos old prev t) = Inl Undefined_Behaviour"
proof (rule ub_fails [OF ub_only_collide])
  have neg: "getDirectionOf path (-1) = Inl Undefined_Behaviour" by (simp add: getDirectionOf_def)
  have last: "\<exists>r e. sbind (split_down path path m d) (\<lambda>(pos, parent).
      sbind (slift (getDirectionOf path pos)) (k pos parent)) s = (r, Inl e)" for m d k s
    by (rule sbind_fails) (auto dest!: split_down_same simp: neg)
  show "\<exists>r e. collide u path new pos old prev t = (r, Inl e)"
    unfolding collide_def Let_def using assms
    by (simp add: sbind_def [of "deref old"] deref_def [of old])
      (rule last | rule sbind_fails_last)+
qed

subsection \<open>The way down\<close>

lemma node_at_heap: "t_heap t = t_heap s \<Longrightarrow> node_at t = node_at s"
  by (simp add: node_at_def fun_eq_iff split: option.split)

lemma node_at_grown: "t_heap t = t_heap s @ xs \<Longrightarrow> node_at s p = Inr n \<Longrightarrow> node_at t p = Inr n"
  by (auto simp: node_at_def nth_append split: option.splits if_splits)

text \<open>Where the lookup ends, the insertion collides.\<close>

lemma find_node_descend:
  assumes "find_node path n node t = (t1, Inr (Some a))" "t_heap t' = t_heap t @ xs"
  shows "\<exists>t2 pos prev'. descend path new n node prev t' = (t2, Inr (Collided pos (Some a) prev')) \<and> t_heap t2 = t_heap t'"
  using assms
proof (induction path n node arbitrary: t t' t1 prev rule: find_node.induct)
  case (1 path n node)
  obtain nd where nd: "node_at t node = Inr nd"
    using 1(2) by (auto simp: sbind_def deref_def split: sum.splits)
  note nd' = node_at_grown [OF 1(3) nd]
  show ?case
  proof (cases "isDummy nd")
    case False
    then show ?thesis using 1(2) nd nd' by (simp add: sbind_def deref_def)
  next
    case True
    then obtain m where m: "n = Suc m" using 1(2) nd by (cases n) (auto simp: sbind_def deref_def)
    obtain dir where dir: "getDirectionOf path (int m) = Inr dir"
      using 1(2) nd True m by (cases "getDirectionOf path (int m)") (auto simp: sbind_def deref_def push_stk_def)
    let ?s = "t\<lparr>t_stk := the node # t_stk t\<rparr>" and ?s' = "t'\<lparr>t_stk := the node # t_stk t'\<rparr>"
    have go: "find_node path m (get_child dir nd) ?s = (t1, Inr (Some a))"
      using 1(2) nd True m dir by (simp add: sbind_def deref_def push_stk_def)
    then obtain c where c: "get_child dir nd = Some c"
      by (cases "get_child dir nd") (auto simp: find_node.simps [of path m None] sbind_def deref_def node_at_def)
    have "\<exists>t2 pos prev'. descend path new m (get_child dir nd) node ?s' = (t2, Inr (Collided pos (Some a) prev'))
        \<and> t_heap t2 = t_heap ?s'"
      by (rule 1(1) [OF _ m go]) (use True 1(3) in simp_all)
    then show ?thesis
      using nd' True m dir c by (simp add: sbind_def deref_def push_stk_def)
  qed
qed

declare find_node.simps [simp del] descend.simps [simp del]

lemma insert_over_existing:
  assumes find: "getMerkleNode (ledger_pid l) t = (t1, Inr (Some a))"
    and path: "calPathFromPid (ledger_pid l) = Inr path"
    and old: "node_at t (Some a) = Inr n" "n_bin_path n = path"
  shows "snd (insertNode u l t) = Inl Undefined_Behaviour"
proof -
  let ?new = "(mk_StateNode u l)\<lparr>n_bin_path := path\<rparr>"
  let ?t' = "t\<lparr>t_heap := t_heap t @ [?new], t_stk := []\<rparr>"
  have "find_node path TREE_DEPTH (t_root t) (t\<lparr>t_stk := []\<rparr>) = (t1, Inr (Some a))"
    using find path by (simp add: getMerkleNode_def sbind_def clear_stk_def)
  then obtain t2 pos prev' where d: "descend path (length (t_heap t)) TREE_DEPTH (t_root t) None ?t'
      = (t2, Inr (Collided pos (Some a) prev'))" "t_heap t2 = t_heap ?t'"
    using find_node_descend [where t' = ?t' and xs = "[?new]" and new = "length (t_heap t)" and prev = None] by force
  have "node_at t2 (Some a) = Inr n"
    using node_at_grown [of t2 t "[?new]" "Some a" n] d(2) old(1) by simp
  then have "snd (collide u path (length (t_heap t)) pos (Some a) prev' t2) = Inl Undefined_Behaviour"
    using collide_same_path old(2) by blast
  then show ?thesis
    using path d(1) by (cases "collide u path (length (t_heap t)) pos (Some a) prev' t2")
      (simp add: insertNode_def sbind_def alloc_def clear_stk_def)
qed

text \<open>A tree as the code assumes it: a root node without data and without children.\<close>

definition rooted_tree :: StateTree where
  "rooted_tree = \<lparr>t_heap = [StateNode_default], t_root = Some 0, t_size = 0, t_stk = []\<rparr>"

text \<open>The tree after a first entry was stored in it.\<close>

definition single_tree :: "utils \<Rightarrow> ledger \<Rightarrow> 256 word \<Rightarrow> StateTree" where
  "single_tree u l path = \<lparr>t_heap =
     [if bit path 15 then StateNode_default\<lparr>n_right := Some 1, n_hash_value := u_sha256 u (u_to64 u (makeValue u l))\<rparr>
      else StateNode_default\<lparr>n_left := Some 1, n_hash_value := u_sha256 u (u_to64 u (makeValue u l))\<rparr>,
      setSuffix path 15 ((mk_StateNode u l)\<lparr>n_bin_path := path\<rparr>)],
     t_root = Some 0, t_size = 1, t_stk = []\<rparr>"

lemma direction_15: "getDirectionOf path 15 = Inr (bit path 15)"
  by (simp add: getDirectionOf_def)

lemma mk_StateNode_hash [simp]: "n_hash_value (mk_StateNode u l) = makeValue u l"
  by (cases l) simp_all

lemmas tree_exec = sbind_def deref_def alloc_def clear_stk_def push_stk_def update_node_def set_child_def
  get_child_def node_at_def rehash_stk_def reHash_def child_text_def combine_text_def

lemma insert_first:
  assumes "calPathFromPid (ledger_pid l) = Inr path"
  shows "insertNode u l rooted_tree = (single_tree u l path, Inr ())"
proof -
  have dummy: "isDummy StateNode_default" "n_left StateNode_default = None" "n_right StateNode_default = None"
    by (simp_all add: isDummy_def StateNode_default_def)
  show ?thesis
    using assms dummy
    by (cases "bit path 15")
      (simp_all add: insertNode_def rooted_tree_def single_tree_def descend.simps [of path _ 16] direction_15
        tree_exec setSuffix_def)
qed

lemma find_in_single:
  assumes "path \<noteq> 0" "bit q 15 = bit path 15"
  shows "find_node q TREE_DEPTH (Some 0) (single_tree u l path)
    = ((single_tree u l path)\<lparr>t_stk := [0]\<rparr>, Inr (Some 1))"
  using assms direction_15 [of q]
  by (cases "bit path 15")
    (simp_all add: find_node.simps [of q 16] find_node.simps [of q 15 "Some _"] single_tree_def
      tree_exec isDummy_def setSuffix_def StateNode_default_def)

subsection \<open>Properties\<close>

text \<open>On the tree the constructor makes, whose root is a null pointer, inserting an entry, looking one up
  and reading the root hash are all undefined.\<close>

theorem fresh_tree_undefined:
  "snd (insertNode u l StateTree_new) = Inl Undefined_Behaviour
   \<and> snd (getMerkleNode pid StateTree_new) = Inl Undefined_Behaviour
   \<and> getRootValue StateTree_new = Inl Undefined_Behaviour"
proof -
  have path: "calPathFromPid p = Inl e \<Longrightarrow> e = Undefined_Behaviour" for p e
    by (auto simp: calPathFromPid_def Let_def split: if_splits)
  have "snd (insertNode u l StateTree_new) = Inl Undefined_Behaviour"
    by (cases "calPathFromPid (ledger_pid l)")
      (auto simp: insertNode_def StateTree_new_def descend.simps [of _ _ 16] tree_exec dest: path)
  moreover have "snd (getMerkleNode pid StateTree_new) = Inl Undefined_Behaviour"
    by (cases "calPathFromPid pid")
      (auto simp: getMerkleNode_def StateTree_new_def find_node.simps [of _ 16] tree_exec dest: path)
  ultimately show ?thesis by (simp add: getRootValue_def StateTree_new_def node_at_def)
qed

text \<open>On a tree with an empty root node, the first entry is stored under the root on the side its path
  says, the root hash becomes the hash of the entry's encoded hash, and looking the entry up finds it.
  But the lookup compares nothing: every identifier whose path agrees in bit 15 finds this entry too.\<close>

theorem first_entry_found:
  assumes "calPathFromPid (ledger_pid l) = Inr path" "path \<noteq> 0"
    and "calPathFromPid pid = Inr q" "bit q 15 = bit path 15"
  shows "\<exists>t. insertNode u l rooted_tree = (t, Inr ()) \<and> t_size t = 1
    \<and> getRootValue t = Inr (u_sha256 u (u_to64 u (makeValue u l)))
    \<and> (\<exists>t' a n. getMerkleNode pid t = (t', Inr (Some a)) \<and> node_at t (Some a) = Inr n
         \<and> n_user_ledger n = (case l of User x \<Rightarrow> Some x | Contract _ \<Rightarrow> None)
         \<and> n_contract_ledger n = (case l of Contract x \<Rightarrow> Some x | User _ \<Rightarrow> None))"
proof -
  let ?t = "single_tree u l path"
  have "t_size ?t = 1" "getRootValue ?t = Inr (u_sha256 u (u_to64 u (makeValue u l)))"
    by (simp_all add: single_tree_def getRootValue_def node_at_def)
  moreover have "getMerkleNode pid ?t = (?t\<lparr>t_stk := [0]\<rparr>, Inr (Some 1))"
  proof -
    have "?t\<lparr>t_stk := []\<rparr> = ?t" "t_root ?t = Some 0" by (simp_all add: single_tree_def)
    then show ?thesis
      using find_in_single [OF assms(2,4), of u l] assms(3)
      by (simp add: getMerkleNode_def sbind_def clear_stk_def)
  qed
  moreover have "node_at ?t (Some 1) = Inr (setSuffix path 15 ((mk_StateNode u l)\<lparr>n_bin_path := path\<rparr>))"
    by (simp add: single_tree_def node_at_def)
  ultimately show ?thesis
    using insert_first [OF assms(1), of u]
    by (intro exI [of _ ?t] conjI exI [of _ "?t\<lparr>t_stk := [0]\<rparr>"] exI [of _ 1] exI) 
      (auto simp: setSuffix_def StateNode_default_def split: ledger.split)
qed

definition demo_ledger :: UserLedger where
  "demo_ledger = UserLedger_default\<lparr>ul_pid := ''ab'', ul_var_value := ''7''\<rparr>"

lemma first_entry_found_witness:
  "\<exists>t. insertNode demo_utils (User demo_ledger) rooted_tree = (t, Inr ()) \<and> t_size t = 1
    \<and> getRootValue t = Inr (u_sha256 demo_utils (u_to64 demo_utils (makeValue demo_utils (User demo_ledger))))
    \<and> (\<exists>t' a n. getMerkleNode ''zz'' t = (t', Inr (Some a)) \<and> node_at t (Some a) = Inr n
         \<and> n_user_ledger n = (case User demo_ledger of User x \<Rightarrow> Some x | Contract _ \<Rightarrow> None)
         \<and> n_contract_ledger n = (case User demo_ledger of Contract x \<Rightarrow> Some x | User _ \<Rightarrow> None))"
proof (rule first_entry_found)
  show "calPathFromPid (ledger_pid (User demo_ledger)) = Inr 0x6162"
    by (simp add: calPathFromPid_def demo_ledger_def)
  show "calPathFromPid ''zz'' = Inr 0x7a7a" by (simp add: calPathFromPid_def)
  show "bit (0x7a7a :: 256 word) 15 = bit (0x6162 :: 256 word) 15" by simp
qed simp

text \<open>Storing an entry whose path a node of the tree already has, which is what every update of a value
  does, ends in a shift by a negative distance: the new node and the old one are never told apart,
  and the code goes on after it has modified the old node.\<close>

theorem update_entry_undefined:
  assumes "getMerkleNode (ledger_pid l) t = (t1, Inr (Some a))"
    and "calPathFromPid (ledger_pid l) = Inr path"
    and "node_at t (Some a) = Inr n" "n_bin_path n = path"
  shows "snd (insertNode u l t) = Inl Undefined_Behaviour"
  using assms by (rule insert_over_existing)

lemma update_entry_undefined_witness:
  "snd (insertNode demo_utils (User (demo_ledger\<lparr>ul_var_value := ''8''\<rparr>))
     (single_tree demo_utils (User demo_ledger) 0x6162)) = Inl Undefined_Behaviour"
proof (rule update_entry_undefined)
  let ?t = "single_tree demo_utils (User demo_ledger) 0x6162"
  have pid: "ledger_pid (User (demo_ledger\<lparr>ul_var_value := ''8''\<rparr>)) = ''ab''" by (simp add: demo_ledger_def)
  show path: "calPathFromPid (ledger_pid (User (demo_ledger\<lparr>ul_var_value := ''8''\<rparr>))) = Inr 0x6162"
    unfolding pid by (simp add: calPathFromPid_def)
  show "getMerkleNode (ledger_pid (User (demo_ledger\<lparr>ul_var_value := ''8''\<rparr>))) ?t = (?t\<lparr>t_stk := [0]\<rparr>, Inr (Some 1))"
    using find_in_single [of "0x6162" "0x6162" demo_utils "User demo_ledger"] path
    by (simp add: getMerkleNode_def sbind_def clear_stk_def) (simp add: single_tree_def)
  show "node_at ?t (Some 1) = Inr (setSuffix 0x6162 15 ((mk_StateNode demo_utils (User demo_ledger))\<lparr>n_bin_path := 0x6162\<rparr>))"
    by (simp add: single_tree_def node_at_def)
qed (simp add: setSuffix_def)

end
