(* ===== verification/Kademlia.thy ===== *)
theory Kademlia
  imports Containers
begin

unbundle bit_operations_syntax

text \<open>
  The routing table of the peer-to-peer network (src/src/plugins/net_plugin/kademlia): 160-bit
  hashed identifiers, network nodes, k-buckets and the table of buckets.  The clock
  (\<open>m_last_updated\<close>, \<open>m_last_seen_time\<close>) is left out: no operation of the table reads it.  A
  gRPC channel is represented by the target it was created for, and the state
  \<open>channel->GetState(true)\<close> reports is the argument \<open>gs\<close> of the operations that ask for it.
\<close>

subsection \<open>Hashed identifiers\<close>

text \<open>\<open>Hash<160>\<close> is an array of twenty bytes.\<close>

type_synonym hash160 = "8 word list"

fun hash_less_from :: "8 word list \<Rightarrow> 8 word list \<Rightarrow> bool" where
  "hash_less_from (l # ls) (r # rs) =
     (if l < r then True else if l > l then False else hash_less_from ls rs)"
| "hash_less_from _ _ = False"

definition hash_less :: "hash160 \<Rightarrow> hash160 \<Rightarrow> bool" where
  "hash_less lhs rhs = hash_less_from lhs rhs"

definition hash_xor :: "hash160 \<Rightarrow> hash160 \<Rightarrow> hash160" where
  "hash_xor lhs rhs = map2 (\<lambda>a b. a XOR b) lhs rhs"

fun toBitSet_from :: "8 word list \<Rightarrow> nat \<Rightarrow> 160 word \<Rightarrow> 160 word" where
  "toBitSet_from [] shift_left bs = bs"
| "toBitSet_from (num_part # ps) shift_left bs =
     (let s = shift_left - 8 in toBitSet_from ps s (bs OR push_bit s (ucast num_part)))"

definition toBitSet :: "hash160 \<Rightarrow> 160 word" where
  "toBitSet h = toBitSet_from h 160 0"

definition isAllZero :: "hash160 \<Rightarrow> bool" where
  "isAllZero h = list_all (\<lambda>v. v = 0) h"

subsection \<open>Nodes\<close>

datatype grpc_state = Idle | Connecting | Ready | Transient_Failure | Shutdown

record node =
  nd_id :: string
  nd_id_hash :: hash160
  nd_address :: string
  nd_port :: string
  nd_channel :: "string option"
  nd_failed_requests :: int
  nd_failed_try_conn :: int

abbreviation MAX_TRY_CONN_COUNT :: int where "MAX_TRY_CONN_COUNT \<equiv> 3"
abbreviation NODE_FAILED_COMMS_BEFORE_STALE :: int where "NODE_FAILED_COMMS_BEFORE_STALE \<equiv> 2"

definition new_node :: "hash160 \<Rightarrow> string \<Rightarrow> string \<Rightarrow> string \<Rightarrow> node" where
  "new_node id_hash net_id ip_address port_number =
     \<lparr>nd_id = net_id, nd_id_hash = id_hash, nd_address = ip_address, nd_port = port_number,
      nd_channel = None, nd_failed_requests = 0, nd_failed_try_conn = 0\<rparr>"

definition node_eq :: "node \<Rightarrow> node \<Rightarrow> bool" where
  "node_eq lhs rhs = (nd_id_hash lhs = nd_id_hash rhs
     \<and> (nd_address lhs = nd_address rhs \<and> nd_port lhs = nd_port rhs))"

definition isStale :: "node \<Rightarrow> bool" where
  "isStale n = (nd_failed_requests n = NODE_FAILED_COMMS_BEFORE_STALE)"

definition isAlive :: "(string \<Rightarrow> grpc_state) \<Rightarrow> node \<Rightarrow> node \<times> bool" where
  "isAlive gs n = (case nd_channel n of
       None \<Rightarrow> (n, False)
     | Some c \<Rightarrow>
         if nd_failed_try_conn n > MAX_TRY_CONN_COUNT then (n, False)
         else if gs c = Ready then (n\<lparr>nd_failed_try_conn := 0\<rparr>, True)
         else if gs c = Connecting then (n\<lparr>nd_failed_try_conn := nd_failed_try_conn n + 1\<rparr>, False)
         else (n, False))"

definition distanceTo :: "node \<Rightarrow> hash160 \<Rightarrow> hash160" where
  "distanceTo n h = hash_xor (nd_id_hash n) h"

definition openChannel :: "node \<Rightarrow> node" where
  "openChannel n = (case nd_channel n of
       Some c \<Rightarrow> n
     | None \<Rightarrow> n\<lparr>nd_channel := Some (nd_address n @ '':'' @ nd_port n)\<rparr>)"

definition initReqFailuresCount :: "node \<Rightarrow> node" where
  "initReqFailuresCount n = n\<lparr>nd_failed_requests := 0\<rparr>"

definition incReqFailuresCount :: "node \<Rightarrow> node" where
  "incReqFailuresCount n = n\<lparr>nd_failed_requests := nd_failed_requests n + 1\<rparr>"

subsection \<open>Buckets\<close>

record kbucket =
  kb_my_node :: node
  kb_nodes :: "node list"
  kb_replacement_nodes :: "node list"
  kb_depth :: nat
  kb_ksize :: nat
  kb_prefix :: "160 word"
  kb_prefix_size :: nat

definition new_kbucket :: "node \<Rightarrow> nat \<Rightarrow> nat \<Rightarrow> kbucket" where
  "new_kbucket n depth ksize =
     \<lparr>kb_my_node = n, kb_nodes = [], kb_replacement_nodes = [], kb_depth = depth,
      kb_ksize = ksize, kb_prefix = 0, kb_prefix_size = 0\<rparr>"

definition kb_empty :: "kbucket \<Rightarrow> bool" where
  "kb_empty kb = (kb_nodes kb = [])"

definition kb_full :: "kbucket \<Rightarrow> bool" where
  "kb_full kb = (length (kb_nodes kb) = kb_ksize kb)"

definition kb_size :: "kbucket \<Rightarrow> nat \<times> nat" where
  "kb_size kb = (length (kb_nodes kb), length (kb_replacement_nodes kb))"

definition hasReplacements :: "kbucket \<Rightarrow> bool" where
  "hasReplacements kb = (kb_replacement_nodes kb \<noteq> [])"

text \<open>\<open>erase\<close> of the element an iterator points to.\<close>

definition erase_at :: "nat \<Rightarrow> 'a list \<Rightarrow> 'a list" where
  "erase_at i xs = take i xs @ drop (Suc i) xs"

definition addNode :: "node \<Rightarrow> kbucket \<Rightarrow> kbucket \<times> bool" where
  "addNode n kb = (case first_index (\<lambda>bucket_node. node_eq bucket_node n) (kb_nodes kb) of
       Some found \<Rightarrow>
         (kb\<lparr>kb_nodes := erase_at found (kb_nodes kb) @ [openChannel n]\<rparr>, True)
     | None \<Rightarrow>
         if \<not> kb_full kb then (kb\<lparr>kb_nodes := kb_nodes kb @ [openChannel n]\<rparr>, True)
         else (kb\<lparr>kb_replacement_nodes := kb_replacement_nodes kb @ [n]\<rparr>, False))"

definition removeNode_at :: "nat \<Rightarrow> kbucket \<Rightarrow> kbucket" where
  "removeNode_at i kb =
     (let kept = erase_at i (kb_nodes kb) in
      if kb_replacement_nodes kb \<noteq> []
      then kb\<lparr>kb_nodes := kept @ [openChannel (last (kb_replacement_nodes kb))],
              kb_replacement_nodes := butlast (kb_replacement_nodes kb)\<rparr>
      else kb\<lparr>kb_nodes := kept\<rparr>)"

definition removeNode :: "node \<Rightarrow> kbucket \<Rightarrow> kbucket" where
  "removeNode n kb = (case first_index (\<lambda>m. nd_id_hash m = nd_id_hash n) (kb_nodes kb) of
       Some i \<Rightarrow> removeNode_at i kb
     | None \<Rightarrow>
         (case first_index (\<lambda>m. nd_id_hash m = nd_id_hash n) (kb_replacement_nodes kb) of
            Some i \<Rightarrow> kb\<lparr>kb_replacement_nodes := erase_at i (kb_replacement_nodes kb)\<rparr>
          | None \<Rightarrow> kb))"

text \<open>
  The loop counts \<open>bit\<close> down in unsigned arithmetic: below zero it wraps to \<open>2\<^sup>32 - 1\<close>, an index
  outside the bit set.
\<close>

fun canHold_loop :: "160 word \<Rightarrow> 160 word \<Rightarrow> nat \<Rightarrow> nat \<Rightarrow> bool result" where
  "canHold_loop prefix id_bits last_bit i =
     (if i < last_bit then Inr True
      else if bit prefix i \<noteq> bit id_bits i then Inr False
      else (case i of 0 \<Rightarrow> Inl Undefined_Behaviour
            | Suc j \<Rightarrow> canHold_loop prefix id_bits last_bit j))"

declare canHold_loop.simps [simp del]

definition canHoldNode :: "hash160 \<Rightarrow> kbucket \<Rightarrow> bool result" where
  "canHoldNode h kb =
     canHold_loop (kb_prefix kb) (toBitSet h)
       (nat ((160 - int (kb_prefix_size kb)) mod 2 ^ 64)) 159"

text \<open>The nodes of a split bucket are moved one by one to the half that can hold them.\<close>

fun share_nodes :: "(node \<Rightarrow> bool result) \<Rightarrow> node list \<Rightarrow> (node list \<times> node list) result" where
  "share_nodes f [] = Inr ([], [])"
| "share_nodes f (n # ns) =
     rbind (f n) (\<lambda>to_one. rbind (share_nodes f ns) (\<lambda>(l, r).
       Inr (if to_one then (n # l, r) else (l, n # r))))"

definition kb_split :: "kbucket \<Rightarrow> (kbucket \<times> kbucket) result" where
  "kb_split kb =
     (if 160 \<le> kb_prefix_size kb then Inl Out_Of_Range
      else let pos = 159 - kb_prefix_size kb;
               my_bit = bit (toBitSet (nd_id_hash (kb_my_node kb))) pos;
               half = (new_kbucket (kb_my_node kb) (kb_depth kb + 1) (kb_ksize kb))
                        \<lparr>kb_prefix_size := kb_prefix_size kb + 1\<rparr>;
               one = half\<lparr>kb_prefix := (if my_bit then unset_bit pos (kb_prefix kb)
                                          else set_bit pos (kb_prefix kb))\<rparr>;
               two = half\<lparr>kb_prefix := (if my_bit then set_bit pos (kb_prefix kb)
                                          else unset_bit pos (kb_prefix kb))\<rparr>
           in rbind (share_nodes (\<lambda>n. canHoldNode (nd_id_hash n) one) (kb_nodes kb)) (\<lambda>(l, r).
              rbind (share_nodes (\<lambda>n. canHoldNode (nd_id_hash n) one) (kb_replacement_nodes kb))
                (\<lambda>(rl, rr).
                  Inr (one\<lparr>kb_nodes := l, kb_replacement_nodes := rl\<rparr>,
                       two\<lparr>kb_nodes := r, kb_replacement_nodes := rr\<rparr>))))"

definition selectAliveNodes :: "(string \<Rightarrow> grpc_state) \<Rightarrow> bool \<Rightarrow> kbucket \<Rightarrow> kbucket \<times> node list" where
  "selectAliveNodes gs force_to_select_all kb =
     (if force_to_select_all then (kb, kb_nodes kb)
      else (kb\<lparr>kb_nodes := map (fst \<circ> isAlive gs) (kb_nodes kb)\<rparr>,
            map (fst \<circ> isAlive gs) (filter (snd \<circ> isAlive gs) (kb_nodes kb))))"

definition removeDeadNodes :: "(string \<Rightarrow> grpc_state) \<Rightarrow> kbucket \<Rightarrow> kbucket \<times> hash160 list option" where
  "removeDeadNodes gs kb =
     (let dead = map nd_id_hash (filter (\<lambda>n. \<not> snd (isAlive gs n)) (kb_nodes kb))
      in (kb\<lparr>kb_nodes := map (fst \<circ> isAlive gs) (filter (snd \<circ> isAlive gs) (kb_nodes kb))\<rparr>,
          if dead \<noteq> [] then Some dead else None))"

subsection \<open>The routing table\<close>

record routing_table =
  rt_my_node :: node
  rt_ksize :: nat
  rt_buckets :: "kbucket list"

abbreviation DEPTH_B :: nat where "DEPTH_B \<equiv> 5"

definition new_routing_table :: "node \<Rightarrow> nat \<Rightarrow> routing_table" where
  "new_routing_table n ksize =
     \<lparr>rt_my_node = n, rt_ksize = ksize, rt_buckets = [new_kbucket n 0 ksize]\<rparr>"

definition nodesCount :: "routing_table \<Rightarrow> nat" where
  "nodesCount rt = sum_list (map (fst \<circ> kb_size) (rt_buckets rt))"

definition bucketsCount :: "routing_table \<Rightarrow> nat" where
  "bucketsCount rt = length (rt_buckets rt)"

definition rt_empty :: "routing_table \<Rightarrow> bool result" where
  "rt_empty rt = rbind (at_index (rt_buckets rt) 0) (\<lambda>b. Inr (kb_empty b))"

fun holder_index :: "hash160 \<Rightarrow> kbucket list \<Rightarrow> nat option result" where
  "holder_index h [] = Inr None"
| "holder_index h (b # bs) =
     rbind (canHoldNode h b) (\<lambda>c.
       if c then Inr (Some 0) else rbind (holder_index h bs) (\<lambda>r. Inr (map_option Suc r)))"

definition getBucketIndexFor :: "hash160 \<Rightarrow> routing_table \<Rightarrow> nat result" where
  "getBucketIndexFor h rt =
     rbind (holder_index h (rt_buckets rt)) (\<lambda>r.
       Inr (case r of Some i \<Rightarrow> i | None \<Rightarrow> length (rt_buckets rt) - 1))"

definition can_split :: "nat \<Rightarrow> kbucket \<Rightarrow> nat \<Rightarrow> bool" where
  "can_split bucket_index bucket n_buckets =
     ((bucket_index = n_buckets - 1
       \<or> (kb_depth bucket < DEPTH_B \<and> kb_depth bucket mod DEPTH_B \<noteq> 0))
      \<and> n_buckets < 160
      \<and> \<not> (n_buckets > 1 \<and> bucket_index = 0))"

definition addPeer :: "node \<Rightarrow> routing_table \<Rightarrow> (bool \<times> routing_table) result" where
  "addPeer peer rt =
     (if node_eq (rt_my_node rt) peer then Inr (True, rt)
      else let p = initReqFailuresCount peer; bs = rt_buckets rt in
        rbind (getBucketIndexFor (nd_id_hash p) rt) (\<lambda>i.
        rbind (at_index bs (int i)) (\<lambda>bucket.
          case addNode p bucket of (bucket', added) \<Rightarrow>
            if added then Inr (True, rt\<lparr>rt_buckets := bs[i := bucket']\<rparr>)
            else if can_split i bucket' (length bs)
            then rbind (kb_split bucket') (\<lambda>(one, two).
                   Inr (True, rt\<lparr>rt_buckets := take i bs @ [one, two] @ drop (Suc i) bs\<rparr>))
            else Inr (False, rt\<lparr>rt_buckets := bs[i := bucket']\<rparr>))))"

definition removePeer :: "node \<Rightarrow> routing_table \<Rightarrow> routing_table result" where
  "removePeer peer rt =
     rbind (getBucketIndexFor (nd_id_hash peer) rt) (\<lambda>i.
     rbind (at_index (rt_buckets rt) (int i)) (\<lambda>bucket.
       Inr (rt\<lparr>rt_buckets := (rt_buckets rt)[i := removeNode peer bucket]\<rparr>)))"

text \<open>The last bucket with a live node of that identifier, and the position of the node in it.\<close>

fun last_holder :: "hash160 \<Rightarrow> kbucket list \<Rightarrow> (nat \<times> nat) option" where
  "last_holder h [] = None"
| "last_holder h (b # bs) = (case last_holder h bs of
       Some (i, k) \<Rightarrow> Some (Suc i, k)
     | None \<Rightarrow> map_option (\<lambda>k. (0, k)) (first_index (\<lambda>n. nd_id_hash n = h) (kb_nodes b)))"

definition peerTimedOut :: "node \<Rightarrow> routing_table \<Rightarrow> bool \<times> routing_table" where
  "peerTimedOut peer rt = (case last_holder (nd_id_hash peer) (rt_buckets rt) of
       None \<Rightarrow> (False, rt)
     | Some (i, k) \<Rightarrow>
         (let b = rt_buckets rt ! i; bn = kb_nodes b ! k in
          if isStale bn
          then (True, rt\<lparr>rt_buckets := (rt_buckets rt)[i := removeNode_at k b]\<rparr>)
          else (False, rt\<lparr>rt_buckets := (rt_buckets rt)
                 [i := b\<lparr>kb_nodes := (kb_nodes b)[k := incReqFailuresCount bn]\<rparr>]\<rparr>)))"

definition findNode :: "hash160 \<Rightarrow> routing_table \<Rightarrow> node option result" where
  "findNode h rt =
     rbind (getBucketIndexFor h rt) (\<lambda>i.
     rbind (at_index (rt_buckets rt) (int i)) (\<lambda>bucket.
       Inr (List.find (\<lambda>n. h = nd_id_hash n) (kb_nodes bucket))))"

text \<open>
  The neighbours of one bucket, up to \<open>max_number\<close> in all; the flag says that the number is
  reached and the search returns.
\<close>

fun collect :: "hash160 \<Rightarrow> nat \<Rightarrow> node list \<Rightarrow> node list \<Rightarrow> node list \<times> bool" where
  "collect h max_number [] acc = (acc, False)"
| "collect h max_number (n # ns) acc =
     (if nd_id_hash n \<noteq> h
      then if length (acc @ [n]) = max_number then (acc @ [n], True)
           else collect h max_number ns (acc @ [n])
      else collect h max_number ns acc)"

text \<open>
  The walk outwards from the bucket of the identifier: \<open>left\<close> is the first bucket visited on the
  left, \<open>right\<close> the next one to visit on the right (\<open>length bs\<close> for \<open>m_buckets.end()\<close>).
\<close>

function walk :: "kbucket list \<Rightarrow> hash160 \<Rightarrow> nat \<Rightarrow> bool \<Rightarrow> nat \<Rightarrow> nat \<Rightarrow> nat \<Rightarrow> node list
    \<Rightarrow> node list result" where
  "walk bs h max_number use_left left right current acc =
     (case at_index bs (int current) of Inl e \<Rightarrow> Inl e | Inr b \<Rightarrow>
       (case collect h max_number (kb_nodes b) acc of (acc', reached) \<Rightarrow>
         if reached then Inr acc'
         else if left \<noteq> 0 \<and> (right = length bs \<or> use_left)
         then walk bs h max_number False (left - 1) right (left - 1) acc'
         else if right < length bs
         then walk bs h max_number True left (Suc right) right acc'
         else Inr acc'))"
  by pat_completeness auto
termination
  by (relation "measure (\<lambda>(bs, h, mx, ul, left, right, cur, acc). left + (length bs - right))")
    auto

declare walk.simps [simp del]

definition findNeighbors :: "hash160 \<Rightarrow> nat \<Rightarrow> routing_table \<Rightarrow> node list result" where
  "findNeighbors h max_number rt =
     rbind (getBucketIndexFor h rt) (\<lambda>i.
       walk (rt_buckets rt) h max_number True i (i + 1) i [])"

end
