(* ===== verification/Kademlia_Inv.thy ===== *)
theory Kademlia_Inv
  imports Kademlia
begin

text \<open>
  The invariant of the routing table: the buckets partition the identifiers, every node lies in
  the bucket that holds its identifier, the last bucket holds the own identifier, no bucket has
  more live nodes than allowed, and no prefix is long enough for the countdown of
  \<open>canHoldNode\<close> to wrap.  Every operation of the table keeps it.
\<close>

named_theorems kad_defs \<open>operations of the routing table\<close>

subsection \<open>What a bucket holds\<close>

definition holds :: "kbucket \<Rightarrow> hash160 \<Rightarrow> bool" where
  "holds kb h = (\<forall>j\<in>{160 - kb_prefix_size kb..<160}. bit (kb_prefix kb) j = bit (toBitSet h) j)"

lemma holds_cong:
  "kb_prefix kb = kb_prefix kc \<Longrightarrow> kb_prefix_size kb = kb_prefix_size kc \<Longrightarrow> holds kb = holds kc"
  by (simp add: holds_def fun_eq_iff)

lemma canHold_loop_correct:
  "0 < l \<Longrightarrow> canHold_loop p k l i = Inr (\<forall>j. l \<le> j \<and> j \<le> i \<longrightarrow> bit p j = bit k j)"
proof (induction i)
  case 0
  then show ?case by (subst canHold_loop.simps) simp
next
  case (Suc i)
  then show ?case
    by (subst canHold_loop.simps) (auto simp: le_Suc_eq not_less intro: exI[of _ "Suc i"])
qed

lemma canHoldNode_holds:
  assumes "kb_prefix_size kb < 160"
  shows "canHoldNode h kb = Inr (holds kb h)"
proof -
  have l: "nat ((160 - int (kb_prefix_size kb)) mod 2 ^ 64) = 160 - kb_prefix_size kb"
    using assms by (subst mod_pos_pos_trivial) auto
  show ?thesis
    unfolding canHoldNode_def l using assms
    by (subst canHold_loop_correct) (auto simp: holds_def Ball_def less_Suc_eq_le numeral_eq_Suc)
qed

lemma share_nodes_filter:
  assumes "\<And>n. f n = Inr (P n)"
  shows "share_nodes f ns = Inr (filter P ns, filter (\<lambda>n. \<not> P n) ns)"
  by (induction ns) (simp_all add: assms)

definition put_bit :: "bool \<Rightarrow> nat \<Rightarrow> 160 word \<Rightarrow> 160 word" where
  "put_bit c pos p = (if c then set_bit pos p else unset_bit pos p)"

lemma bit_put_bit: "j < 160 \<Longrightarrow> bit (put_bit c pos p) j = (if j = pos then c else bit p j)"
  by (auto simp: put_bit_def bit_set_bit_iff bit_unset_bit_iff possible_bit_def)

text \<open>The two halves of a bucket: they partition what the bucket holds.\<close>

lemma kb_split_halves:
  assumes ps: "kb_prefix_size kb < 159"
  obtains one two where
    "kb_split kb = Inr (one, two)"
    "\<And>h. holds kb h = (holds one h \<or> holds two h)"
    "\<And>h. \<not> (holds one h \<and> holds two h)"
    "kb_nodes one = filter (\<lambda>n. holds one (nd_id_hash n)) (kb_nodes kb)"
    "kb_nodes two = filter (\<lambda>n. \<not> holds one (nd_id_hash n)) (kb_nodes kb)"
    "kb_replacement_nodes one = filter (\<lambda>n. holds one (nd_id_hash n)) (kb_replacement_nodes kb)"
    "kb_replacement_nodes two = filter (\<lambda>n. \<not> holds one (nd_id_hash n)) (kb_replacement_nodes kb)"
    "kb_prefix_size one = kb_prefix_size kb + 1" "kb_prefix_size two = kb_prefix_size kb + 1"
    "kb_depth one = kb_depth kb + 1" "kb_depth two = kb_depth kb + 1"
    "kb_ksize one = kb_ksize kb" "kb_ksize two = kb_ksize kb"
    "kb_my_node one = kb_my_node kb" "kb_my_node two = kb_my_node kb"
    "holds kb (nd_id_hash (kb_my_node kb)) \<Longrightarrow> holds two (nd_id_hash (kb_my_node kb))"
proof -
  define pos where "pos = 159 - kb_prefix_size kb"
  define my where "my = bit (toBitSet (nd_id_hash (kb_my_node kb))) pos"
  define half where "half = (new_kbucket (kb_my_node kb) (kb_depth kb + 1) (kb_ksize kb))
                        \<lparr>kb_prefix_size := kb_prefix_size kb + 1\<rparr>"
  define one0 where "one0 = half\<lparr>kb_prefix := (if my then unset_bit pos (kb_prefix kb)
                                          else set_bit pos (kb_prefix kb))\<rparr>"
  define two0 where "two0 = half\<lparr>kb_prefix := (if my then set_bit pos (kb_prefix kb)
                                          else unset_bit pos (kb_prefix kb))\<rparr>"
  have range: "{159 - kb_prefix_size kb..<160} = insert pos {160 - kb_prefix_size kb..<160}"
    using ps by (auto simp: pos_def)
  have diff_Suc_eq: "160 - Suc (kb_prefix_size kb) = 159 - kb_prefix_size kb" by simp
  have pos: "pos < 160" "pos \<notin> {160 - kb_prefix_size kb..<160}" using ps by (auto simp: pos_def)
  have flip: "(\<forall>j\<in>{160 - kb_prefix_size kb..<160}. bit (put_bit c pos p) j = q j)
    = (\<forall>j\<in>{160 - kb_prefix_size kb..<160}. bit p j = q j)" for c p q
    by (rule ball_cong[OF refl]) (use pos in \<open>auto simp: bit_put_bit\<close>)
  have one0: "kb_prefix one0 = put_bit (\<not> my) pos (kb_prefix kb)"
      "kb_prefix_size one0 = Suc (kb_prefix_size kb)"
    by (simp_all add: put_bit_def one0_def half_def new_kbucket_def)
  have two0: "kb_prefix two0 = put_bit my pos (kb_prefix kb)"
      "kb_prefix_size two0 = Suc (kb_prefix_size kb)"
    by (simp_all add: put_bit_def two0_def half_def new_kbucket_def)
  have one: "holds one0 h = ((\<not> my) = bit (toBitSet h) pos \<and> holds kb h)" for h
    unfolding holds_def one0 by (simp only: diff_Suc_eq range ball_simps flip bit_put_bit pos(1) if_True simp_thms)
  have two: "holds two0 h = (my = bit (toBitSet h) pos \<and> holds kb h)" for h
    unfolding holds_def two0 by (simp only: diff_Suc_eq range ball_simps flip bit_put_bit pos(1) if_True simp_thms)
  have can: "canHoldNode h one0 = Inr (holds one0 h)" for h
    by (rule canHoldNode_holds) (use ps in \<open>simp add: one0_def half_def new_kbucket_def\<close>)
  let ?f = "filter (\<lambda>n. holds one0 (nd_id_hash n))"
  let ?g = "filter (\<lambda>n. \<not> holds one0 (nd_id_hash n))"
  define one1 where "one1 = one0\<lparr>kb_nodes := ?f (kb_nodes kb),
      kb_replacement_nodes := ?f (kb_replacement_nodes kb)\<rparr>"
  define two1 where "two1 = two0\<lparr>kb_nodes := ?g (kb_nodes kb),
      kb_replacement_nodes := ?g (kb_replacement_nodes kb)\<rparr>"
  have split: "kb_split kb = Inr (one1, two1)"
    unfolding kb_split_def Let_def pos_def[symmetric] my_def[symmetric] half_def[symmetric]
      one0_def[symmetric] two0_def[symmetric] share_nodes_filter[OF can]
    using ps by (simp add: one1_def two1_def)
  have h1: "holds one1 = holds one0" and h2: "holds two1 = holds two0"
    by (simp_all add: one1_def two1_def holds_def fun_eq_iff)
  have sel: "kb_depth one0 = kb_depth kb + 1" "kb_depth two0 = kb_depth kb + 1"
      "kb_ksize one0 = kb_ksize kb" "kb_ksize two0 = kb_ksize kb"
      "kb_my_node one0 = kb_my_node kb" "kb_my_node two0 = kb_my_node kb"
    by (simp_all add: one0_def two0_def half_def new_kbucket_def)
  show thesis
    by (rule that[of one1 two1], unfold h1 h2, rule split)
      (simp_all add: one1_def two1_def sel one0 two0, auto simp: one two my_def)
qed

subsection \<open>The invariant\<close>

definition node_ok :: "kbucket \<Rightarrow> node \<Rightarrow> bool" where
  "node_ok kb n = (holds kb (nd_id_hash n) \<and> 0 \<le> nd_failed_requests n \<and> nd_failed_requests n \<le> 2)"

definition bucket_ok :: "node \<Rightarrow> nat \<Rightarrow> kbucket \<Rightarrow> bool" where
  "bucket_ok my k kb = (kb_my_node kb = my \<and> kb_ksize kb = k \<and> length (kb_nodes kb) \<le> k
     \<and> kb_prefix_size kb = kb_depth kb
     \<and> (\<forall>n\<in>set (kb_nodes kb) \<union> set (kb_replacement_nodes kb). node_ok kb n))"

definition rt_inv :: "routing_table \<Rightarrow> bool" where
  "rt_inv rt = (rt_buckets rt \<noteq> [] \<and> length (rt_buckets rt) \<le> 160
     \<and> (\<forall>b\<in>set (rt_buckets rt). bucket_ok (rt_my_node rt) (rt_ksize rt) b
          \<and> kb_depth b < length (rt_buckets rt))
     \<and> (\<forall>h. length (filter (\<lambda>p. p h) (map holds (rt_buckets rt))) = 1)
     \<and> last (map holds (rt_buckets rt)) (nd_id_hash (rt_my_node rt)))"

lemma rt_inv_bucket:
  assumes "rt_inv rt" "i < length (rt_buckets rt)"
  shows "bucket_ok (rt_my_node rt) (rt_ksize rt) (rt_buckets rt ! i)"
    and "kb_prefix_size (rt_buckets rt ! i) < 160"
    and "kb_prefix_size (rt_buckets rt ! i) < length (rt_buckets rt)"
proof -
  have "rt_buckets rt ! i \<in> set (rt_buckets rt)" using assms(2) by simp
  then show "bucket_ok (rt_my_node rt) (rt_ksize rt) (rt_buckets rt ! i)"
    and "kb_prefix_size (rt_buckets rt ! i) < length (rt_buckets rt)"
    using assms(1) unfolding rt_inv_def bucket_ok_def by metis+
  then show "kb_prefix_size (rt_buckets rt ! i) < 160" using assms(1) by (simp add: rt_inv_def)
qed

lemma holder_index_Some:
  assumes "\<forall>b\<in>set bs. kb_prefix_size b < 160" "length (filter (\<lambda>p. p h) (map holds bs)) = 1"
  shows "\<exists>i<length bs. holder_index h bs = Inr (Some i) \<and> holds (bs ! i) h"
  using assms
proof (induction bs)
  case (Cons b bs)
  then show ?case
    by (cases "holds b h") (fastforce simp: canHoldNode_holds split: if_splits)+
qed simp

text \<open>\<open>getBucketIndexFor\<close> returns, and the bucket it names is the one that holds the identifier.\<close>

lemma getBucketIndexFor_inv:
  assumes "rt_inv rt"
  obtains i where "getBucketIndexFor h rt = Inr i" "i < length (rt_buckets rt)"
    "holds (rt_buckets rt ! i) h"
proof -
  have "\<forall>b\<in>set (rt_buckets rt). kb_prefix_size b < 160"
    using assms by (auto simp: rt_inv_def bucket_ok_def)
  then obtain i where "i < length (rt_buckets rt)" "holder_index h (rt_buckets rt) = Inr (Some i)"
    "holds (rt_buckets rt ! i) h"
    using holder_index_Some[of "rt_buckets rt" h] assms by (auto simp: rt_inv_def)
  then show thesis by (intro that[of i]) (simp_all add: getBucketIndexFor_def)
qed

lemma only_holder:
  assumes "length (filter (\<lambda>p. p h) (map holds bs)) = 1" "i < length bs" "j < length bs"
    "holds (bs ! i) h" "holds (bs ! j) h"
  shows "i = j"
proof -
  have "card {k. k < length (map holds bs) \<and> (map holds bs ! k) h} = 1"
    using assms(1) by (simp only: length_filter_conv_card)
  then obtain k where k: "{k. k < length (map holds bs) \<and> (map holds bs ! k) h} = {k}"
    by (rule card_1_singletonE)
  have "i \<in> {k. k < length (map holds bs) \<and> (map holds bs ! k) h}"
    "j \<in> {k. k < length (map holds bs) \<and> (map holds bs ! k) h}"
    using assms(2-5) by simp_all
  then show ?thesis unfolding k by simp
qed

lemma rt_inv_update:
  assumes "rt_inv rt" "i < length (rt_buckets rt)"
    "bucket_ok (rt_my_node rt) (rt_ksize rt) b" "holds b = holds (rt_buckets rt ! i)"
    "kb_depth b = kb_depth (rt_buckets rt ! i)"
  shows "rt_inv (rt\<lparr>rt_buckets := (rt_buckets rt)[i := b]\<rparr>)"
proof -
  have "map holds ((rt_buckets rt)[i := b]) = map holds (rt_buckets rt)"
    using assms(4) by (rule map_update_same)
  moreover have "\<forall>c\<in>set ((rt_buckets rt)[i := b]). bucket_ok (rt_my_node rt) (rt_ksize rt) c
      \<and> kb_depth c < length (rt_buckets rt)"
    using assms set_update_subset_insert[of "rt_buckets rt" i b] nth_mem[OF assms(2)]
    by (fastforce simp: rt_inv_def)
  ultimately show ?thesis using assms(1) by (simp add: rt_inv_def)
qed

subsection \<open>The operations of a bucket keep it\<close>

lemma set_erase_at: "set (erase_at i xs) \<subseteq> set xs"
  using set_take_subset[of i xs] set_drop_subset[of "Suc i" xs] by (auto simp: erase_at_def)

lemma length_erase_at: "i < length xs \<Longrightarrow> length (erase_at i xs) = length xs - 1"
  by (simp add: erase_at_def)

lemma openChannel_sel [simp]:
  "nd_id_hash (openChannel n) = nd_id_hash n" "nd_failed_requests (openChannel n) = nd_failed_requests n"
  "nd_address (openChannel n) = nd_address n" "nd_port (openChannel n) = nd_port n"
  by (simp_all add: openChannel_def split: option.split)

lemma isAlive_sel [simp]:
  "nd_id_hash (fst (isAlive gs n)) = nd_id_hash n"
  "nd_failed_requests (fst (isAlive gs n)) = nd_failed_requests n"
  by (simp_all add: isAlive_def split: option.split)

lemma node_ok_simps [simp]:
  "node_ok b (openChannel n) = node_ok b n"
  "node_ok b (fst (isAlive gs n)) = node_ok b n"
  by (simp_all add: node_ok_def)

lemma bucket_ok_change:
  assumes "bucket_ok my k b" "kb_my_node c = kb_my_node b" "kb_ksize c = kb_ksize b"
    "kb_prefix c = kb_prefix b" "kb_prefix_size c = kb_prefix_size b" "kb_depth c = kb_depth b"
    "length (kb_nodes c) \<le> k"
    "\<forall>n\<in>set (kb_nodes c) \<union> set (kb_replacement_nodes c). node_ok b n"
  shows "bucket_ok my k c \<and> holds c = holds b \<and> kb_depth c = kb_depth b"
proof -
  have h: "holds c = holds b" using assms(4,5) by (rule holds_cong)
  then have "node_ok c = node_ok b" by (simp add: node_ok_def fun_eq_iff)
  then show ?thesis using assms h by (simp add: bucket_ok_def)
qed

lemma bucket_ok_nodes:
  "bucket_ok my k b \<Longrightarrow> n \<in> set (kb_nodes b) \<Longrightarrow> node_ok b n"
  "bucket_ok my k b \<Longrightarrow> n \<in> set (kb_replacement_nodes b) \<Longrightarrow> node_ok b n"
  "bucket_ok my k b \<Longrightarrow> length (kb_nodes b) \<le> k"
  "bucket_ok my k b \<Longrightarrow> kb_ksize b = k"
  by (simp_all add: bucket_ok_def)

lemma addNode_ok:
  assumes "bucket_ok my k b" "node_ok b n" "addNode n b = (c, ok)"
  shows "bucket_ok my k c \<and> holds c = holds b \<and> kb_depth c = kb_depth b"
proof (rule bucket_ok_change[OF assms(1)])
  note facts = bucket_ok_nodes[OF assms(1)]
  show "length (kb_nodes c) \<le> k"
    using assms(2,3) facts(3,4)
    by (auto simp: addNode_def kb_full_def length_erase_at split: option.splits if_splits
        dest!: first_index_Some)
  show "\<forall>m\<in>set (kb_nodes c) \<union> set (kb_replacement_nodes c). node_ok b m"
    using assms(2,3) facts(1)[OF subsetD[OF set_erase_at]] facts(1,2)
    by (auto simp: addNode_def split: option.splits if_splits dest: subsetD[OF set_erase_at])
qed (use assms(3) in \<open>auto simp: addNode_def split: option.splits if_splits\<close>)

lemma removeNode_at_ok:
  assumes "bucket_ok my k b" "i < length (kb_nodes b)"
  shows "bucket_ok my k (removeNode_at i b) \<and> holds (removeNode_at i b) = holds b
    \<and> kb_depth (removeNode_at i b) = kb_depth b"
  using assms(2) bucket_ok_nodes[OF assms(1)]
  by (intro bucket_ok_change[OF assms(1)])
    (auto simp: removeNode_at_def Let_def length_erase_at
      split: if_splits dest: set_erase_at[THEN subsetD] in_set_butlastD)

lemma removeNode_ok:
  assumes "bucket_ok my k b"
  shows "bucket_ok my k (removeNode n b) \<and> holds (removeNode n b) = holds b
    \<and> kb_depth (removeNode n b) = kb_depth b"
proof (cases "first_index (\<lambda>m. nd_id_hash m = nd_id_hash n) (kb_nodes b)")
  case None
  then show ?thesis using bucket_ok_nodes[OF assms]
    by (intro bucket_ok_change[OF assms])
      (auto simp: removeNode_def split: option.splits dest: set_erase_at[THEN subsetD])
next
  case (Some i)
  then show ?thesis using removeNode_at_ok[OF assms, of i] first_index_Some[OF Some]
    by (simp add: removeNode_def)
qed

lemma selectAliveNodes_ok:
  assumes "bucket_ok my k b"
  shows "bucket_ok my k (fst (selectAliveNodes gs force b))
    \<and> holds (fst (selectAliveNodes gs force b)) = holds b
    \<and> kb_depth (fst (selectAliveNodes gs force b)) = kb_depth b"
  using bucket_ok_nodes[OF assms]
  by (cases force; intro bucket_ok_change[OF assms]) (auto simp: selectAliveNodes_def)

lemma removeDeadNodes_ok:
  assumes "bucket_ok my k b"
  shows "bucket_ok my k (fst (removeDeadNodes gs b)) \<and> holds (fst (removeDeadNodes gs b)) = holds b
    \<and> kb_depth (fst (removeDeadNodes gs b)) = kb_depth b"
proof -
  have "length (filter (snd \<circ> isAlive gs) (kb_nodes b)) \<le> k"
    using bucket_ok_nodes(3)[OF assms] length_filter_le[of "snd \<circ> isAlive gs" "kb_nodes b"]
    by linarith
  then show ?thesis using bucket_ok_nodes[OF assms]
    by (intro bucket_ok_change[OF assms]) (auto simp: removeDeadNodes_def Let_def)
qed

end
