(* ===== verification/Kademlia_Props.thy ===== *)
theory Kademlia_Props
  imports Kademlia_Inv "HOL-Library.Multiset"
begin

text \<open>
  The operations of the routing table keep the invariant and return; the search for neighbours is
  bounded and complete; and what a peer just added can expect.
\<close>

subsection \<open>The operations keep the invariant\<close>

lemma split_bucket_inv:
  assumes inv: "rt_inv rt" and i: "i < length (rt_buckets rt)" and small: "length (rt_buckets rt) < 160"
  shows "\<exists>one two. kb_split (rt_buckets rt ! i) = Inr (one, two) \<and>
    rt_inv (rt\<lparr>rt_buckets := take i (rt_buckets rt) @ [one, two] @ drop (Suc i) (rt_buckets rt)\<rparr>)"
proof -
  define b where "b = rt_buckets rt ! i"
  obtain xs ys where bs: "rt_buckets rt = xs @ b # ys" and xs: "take i (rt_buckets rt) = xs"
      and ys: "drop (Suc i) (rt_buckets rt) = ys"
    using id_take_nth_drop[OF i] unfolding b_def by blast
  note b = rt_inv_bucket[OF inv i, folded b_def]
  have ps: "kb_prefix_size b < 159" using b(3) small by linarith
  have depth: "kb_depth b = kb_prefix_size b" and my: "kb_my_node b = rt_my_node rt"
    using b(1) by (simp_all add: bucket_ok_def)
  obtain one two where split: "kb_split b = Inr (one, two)"
    and h: "\<And>h. holds b h = (holds one h \<or> holds two h)" "\<And>h. \<not> (holds one h \<and> holds two h)"
    and n: "kb_nodes one = filter (\<lambda>n. holds one (nd_id_hash n)) (kb_nodes b)"
      "kb_nodes two = filter (\<lambda>n. \<not> holds one (nd_id_hash n)) (kb_nodes b)"
      "kb_replacement_nodes one = filter (\<lambda>n. holds one (nd_id_hash n)) (kb_replacement_nodes b)"
      "kb_replacement_nodes two = filter (\<lambda>n. \<not> holds one (nd_id_hash n)) (kb_replacement_nodes b)"
    and s: "kb_prefix_size one = kb_prefix_size b + 1" "kb_prefix_size two = kb_prefix_size b + 1"
      "kb_depth one = kb_depth b + 1" "kb_depth two = kb_depth b + 1"
      "kb_ksize one = kb_ksize b" "kb_ksize two = kb_ksize b"
      "kb_my_node one = kb_my_node b" "kb_my_node two = kb_my_node b"
    and own: "holds b (nd_id_hash (kb_my_node b)) \<Longrightarrow> holds two (nd_id_hash (kb_my_node b))"
    using kb_split_halves[OF ps] by blast
  have len: "length (filter P (kb_nodes b)) \<le> rt_ksize rt" for P
    using bucket_ok_nodes(3)[OF b(1)] length_filter_le[of P "kb_nodes b"] by linarith
  have one: "bucket_ok (rt_my_node rt) (rt_ksize rt) one"
    and two: "bucket_ok (rt_my_node rt) (rt_ksize rt) two"
    using b(1) len h unfolding bucket_ok_def n s by (auto simp: node_ok_def)
  have count: "length (filter (\<lambda>p. p k) (map holds (xs @ [one, two] @ ys)))
      = length (filter (\<lambda>p. p k) (map holds (xs @ b # ys)))" for k
    using h[of k] by auto
  have last: "last (map holds (xs @ [one, two] @ ys)) (nd_id_hash (rt_my_node rt))"
    using inv own my by (auto simp: rt_inv_def bs split: if_splits)
  have old: "length (filter (\<lambda>p. p k) (map holds (xs @ b # ys))) = 1" for k
    using inv by (simp only: rt_inv_def bs)
  have "\<forall>c\<in>set xs \<union> set ys. bucket_ok (rt_my_node rt) (rt_ksize rt) c \<and> kb_depth c < length (xs @ b # ys)"
    using inv unfolding rt_inv_def bs by simp
  then have all: "\<forall>c\<in>set (xs @ [one, two] @ ys). bucket_ok (rt_my_node rt) (rt_ksize rt) c
      \<and> kb_depth c < length (xs @ [one, two] @ ys)"
    using one two s depth b(3) unfolding bs by (auto intro: less_SucI)
  have "rt_inv (rt\<lparr>rt_buckets := xs @ [one, two] @ ys\<rparr>)"
    unfolding rt_inv_def routing_table.simps using all small count old last by (simp add: bs)
  then show ?thesis using split unfolding xs ys b_def by blast
qed

lemma addPeer_inv:
  assumes inv: "rt_inv rt"
  obtains ok rt' where "addPeer peer rt = Inr (ok, rt')" "rt_inv rt'"
proof (cases "node_eq (rt_my_node rt) peer")
  case True
  then show thesis using inv by (intro that[of True rt]) (simp_all add: addPeer_def)
next
  case False
  define p where "p = initReqFailuresCount peer"
  obtain i where i: "getBucketIndexFor (nd_id_hash p) rt = Inr i" "i < length (rt_buckets rt)"
    "holds (rt_buckets rt ! i) (nd_id_hash p)" using getBucketIndexFor_inv[OF inv] .
  obtain c ok where c: "addNode p (rt_buckets rt ! i) = (c, ok)" by fastforce
  have "node_ok (rt_buckets rt ! i) p" using i(3) by (simp add: node_ok_def p_def initReqFailuresCount_def)
  then have "bucket_ok (rt_my_node rt) (rt_ksize rt) c \<and> holds c = holds (rt_buckets rt ! i)
      \<and> kb_depth c = kb_depth (rt_buckets rt ! i)"
    using addNode_ok[OF rt_inv_bucket(1)[OF inv i(2)] _ c] by simp
  then have upd: "rt_inv (rt\<lparr>rt_buckets := (rt_buckets rt)[i := c]\<rparr>)"
    using rt_inv_update[OF inv i(2)] by simp
  show thesis
  proof (cases "\<not> ok \<and> can_split i c (length (rt_buckets rt))")
    case True
    then have "length (rt_buckets rt) < 160" by (simp add: can_split_def)
    then obtain one two where "kb_split c = Inr (one, two)"
      "rt_inv (rt\<lparr>rt_buckets := take i (rt_buckets rt) @ [one, two] @ drop (Suc i) (rt_buckets rt)\<rparr>)"
      using split_bucket_inv[OF upd, of i] i(2) by auto
    then show thesis using \<open>\<not> node_eq _ _\<close> True i c
      by (intro that[of True]) (simp_all add: addPeer_def Let_def flip: p_def)
  next
    case False
    then show thesis using \<open>\<not> node_eq _ _\<close> upd i c
      by (intro that[of ok]) (auto simp: addPeer_def Let_def simp flip: p_def)
  qed
qed

lemma removePeer_inv:
  assumes inv: "rt_inv rt"
  obtains rt' where "removePeer peer rt = Inr rt'" "rt_inv rt'"
proof -
  obtain i where i: "getBucketIndexFor (nd_id_hash peer) rt = Inr i" "i < length (rt_buckets rt)"
    using getBucketIndexFor_inv[OF inv] by blast
  then show thesis
    using removeNode_ok[OF rt_inv_bucket(1)[OF inv i(2)], of peer]
    by (intro that[of "rt\<lparr>rt_buckets := (rt_buckets rt)[i := removeNode peer (rt_buckets rt ! i)]\<rparr>"])
      (simp_all add: removePeer_def rt_inv_update[OF inv i(2)])
qed

lemma last_holder_Some:
  "last_holder h bs = Some (i, k) \<Longrightarrow>
   i < length bs \<and> k < length (kb_nodes (bs ! i)) \<and> nd_id_hash (kb_nodes (bs ! i) ! k) = h"
  by (induction bs arbitrary: i) (auto split: option.splits dest: first_index_Some)

lemma peerTimedOut_inv:
  assumes inv: "rt_inv rt"
  shows "rt_inv (snd (peerTimedOut peer rt))"
proof (cases "last_holder (nd_id_hash peer) (rt_buckets rt)")
  case None
  then show ?thesis using inv by (simp add: peerTimedOut_def)
next
  case (Some ik)
  obtain i k where ik: "ik = (i, k)" by fastforce
  define b where "b = rt_buckets rt ! i"
  define n where "n = kb_nodes b ! k"
  have i: "i < length (rt_buckets rt)" and k: "k < length (kb_nodes b)"
    using last_holder_Some Some unfolding ik b_def by blast+
  note ok = rt_inv_bucket(1)[OF inv i, folded b_def]
  have n: "node_ok b n" using bucket_ok_nodes(1)[OF ok] k by (simp add: n_def)
  show ?thesis
  proof (cases "isStale n")
    case True
    then show ?thesis
      using removeNode_at_ok[OF ok k] rt_inv_update[OF inv i] Some
      by (simp add: peerTimedOut_def ik n_def b_def)
  next
    case False
    let ?c = "b\<lparr>kb_nodes := (kb_nodes b)[k := incReqFailuresCount n]\<rparr>"
    have "node_ok b (incReqFailuresCount n)"
      using n False by (simp add: node_ok_def incReqFailuresCount_def isStale_def)
    then have "bucket_ok (rt_my_node rt) (rt_ksize rt) ?c \<and> holds ?c = holds b \<and> kb_depth ?c = kb_depth b"
      using bucket_ok_nodes[OF ok] set_update_subset_insert[of "kb_nodes b" k]
      by (intro bucket_ok_change[OF ok]) fastforce+
    then show ?thesis using rt_inv_update[OF inv i, of ?c] False Some
      by (simp add: peerTimedOut_def ik n_def b_def Let_def)
  qed
qed

text \<open>What happens to a routing table: the calls of net_plugin.cpp and rpc_services.cpp.\<close>

inductive rt_step :: "routing_table \<Rightarrow> routing_table \<Rightarrow> bool" where
  add: "addPeer p rt = Inr (ok, rt') \<Longrightarrow> rt_step rt rt'"
| remove: "removePeer p rt = Inr rt' \<Longrightarrow> rt_step rt rt'"
| timed_out: "rt_step rt (snd (peerTimedOut p rt))"
| select: "i < length (rt_buckets rt) \<Longrightarrow> rt_step rt
    (rt\<lparr>rt_buckets := (rt_buckets rt)[i := fst (selectAliveNodes gs force (rt_buckets rt ! i))]\<rparr>)"
| dead: "i < length (rt_buckets rt) \<Longrightarrow> rt_step rt
    (rt\<lparr>rt_buckets := (rt_buckets rt)[i := fst (removeDeadNodes gs (rt_buckets rt ! i))]\<rparr>)"

definition rt_start :: "routing_table \<Rightarrow> bool" where
  "rt_start rt = (\<exists>n k. rt = new_routing_table n k)"

lemma rt_start_inv: "rt_start rt \<Longrightarrow> rt_inv rt"
  by (auto simp: rt_start_def rt_inv_def new_routing_table_def new_kbucket_def bucket_ok_def holds_def)

lemma rt_step_inv: "rt_step rt rt' \<Longrightarrow> rt_inv rt \<Longrightarrow> rt_inv rt'"
proof (induction rule: rt_step.induct)
  case (add p rt ok rt')
  then show ?case using addPeer_inv[of rt p] by fastforce
next
  case (remove p rt rt')
  then show ?case using removePeer_inv[of rt p] by fastforce
next
  case (timed_out rt p)
  then show ?case by (rule peerTimedOut_inv)
next
  case (select i rt gs force)
  then show ?case
    using selectAliveNodes_ok[OF rt_inv_bucket(1)] rt_inv_update by simp
next
  case (dead i rt gs)
  then show ?case
    using removeDeadNodes_ok[OF rt_inv_bucket(1)] rt_inv_update by simp
qed

interpretation routing: state_machine rt_start rt_step rt_inv
  by unfold_locales (simp_all add: rt_start_inv rt_step_inv)

subsection \<open>The search for neighbours\<close>

lemma collect_take:
  assumes "length acc < mx"
  shows "collect h mx ns acc =
    (take mx (acc @ filter (\<lambda>n. nd_id_hash n \<noteq> h) ns),
     mx \<le> length (acc @ filter (\<lambda>n. nd_id_hash n \<noteq> h) ns))"
  using assms by (induction ns arbitrary: acc) (auto simp: take_Cons')

text \<open>The neighbours a set of buckets has to offer.\<close>

definition offered :: "kbucket list \<Rightarrow> hash160 \<Rightarrow> nat set \<Rightarrow> node multiset" where
  "offered bs h S = (\<Sum>k\<in>S. mset (filter (\<lambda>n. nd_id_hash n \<noteq> h) (kb_nodes (bs ! k))))"

lemma offered_mono: "finite T \<Longrightarrow> S \<subseteq> T \<Longrightarrow> offered bs h S \<subseteq># offered bs h T"
  unfolding offered_def by (simp add: sum.subset_diff[of S T])

lemma offered_insert:
  "finite S \<Longrightarrow> k \<notin> S \<Longrightarrow> offered bs h (insert k S) =
     mset (filter (\<lambda>n. nd_id_hash n \<noteq> h) (kb_nodes (bs ! k))) + offered bs h S"
  by (simp add: offered_def)

lemma offered_all:
  "offered bs h {0..<length bs} = mset (filter (\<lambda>n. nd_id_hash n \<noteq> h) (concat (map kb_nodes bs)))"
proof (induction bs rule: rev_induct)
  case (snoc b bs)
  have "offered (bs @ [b]) h {0..<length bs} = offered bs h {0..<length bs}"
    unfolding offered_def by (rule sum.cong) (simp_all add: nth_append)
  then show ?case
    using snoc by (simp add: offered_def)
qed (simp add: offered_def)

lemma walk_offered:
  assumes "left \<le> current" "current < right" "right \<le> length bs" "length acc < mx"
    and "mset acc = offered bs h ({left..<right} - {current})"
  shows "\<exists>ns. walk bs h mx use_left left right current acc = Inr ns
    \<and> length ns \<le> mx \<and> mset ns \<subseteq># offered bs h {0..<length bs}
    \<and> (length ns = mx \<or> mset ns = offered bs h {0..<length bs})"
  using assms
proof (induction bs h mx use_left left right current acc rule: walk.induct)
  case (1 bs h mx use_left left right current acc)
  define acc' where "acc' = acc @ filter (\<lambda>n. nd_id_hash n \<noteq> h) (kb_nodes (bs ! current))"
  have cur: "at_index bs (int current) = Inr (bs ! current)" using 1 by simp
  have col: "collect h mx (kb_nodes (bs ! current)) acc = (take mx acc', mx \<le> length acc')"
    using 1 by (simp add: collect_take acc'_def)
  have "{left..<right} = insert current ({left..<right} - {current})" using 1 by auto
  then have acc': "mset acc' = offered bs h {left..<right}"
    using 1(7) offered_insert[of "{left..<right} - {current}" current bs h] by (simp add: acc'_def)
  then have sub: "mset acc' \<subseteq># offered bs h {0..<length bs}"
    using offered_mono[of "{0..<length bs}" "{left..<right}"] 1(5) by auto
  have take: "mset (take mx acc') \<subseteq># mset acc'"
    by (metis append_take_drop_id mset_append mset_subset_eq_add_left)
  note walk = walk.simps[of bs h mx use_left left right current acc]
  consider (reached) "mx \<le> length acc'"
    | (left) "length acc' < mx" "left \<noteq> 0 \<and> (right = length bs \<or> use_left)"
    | (right) "length acc' < mx" "\<not> (left \<noteq> 0 \<and> (right = length bs \<or> use_left))" "right < length bs"
    | (stop) "length acc' < mx" "\<not> (left \<noteq> 0 \<and> (right = length bs \<or> use_left))" "\<not> right < length bs"
    by linarith
  then show ?case
  proof cases
    case reached
    then show ?thesis using sub take by (auto simp: walk cur col min_def intro: subset_mset.order_trans)
  next
    case left
    have "{left - 1..<right} - {left - 1} = {left..<right}" using left(2) by auto
    then show ?thesis
      using 1(1)[OF cur col[symmetric] _ left(2)] left 1(3-6) acc' by (simp add: walk cur col)
  next
    case right
    have "{left..<Suc right} - {right} = {left..<right}" by auto
    then show ?thesis
      using 1(2)[OF cur col[symmetric] _ right(2,3)] right 1(3-6) acc' by (auto simp: walk cur col)
  next
    case stop
    then have "left = 0 \<and> right = length bs" using 1(5) by auto
    then have "mset acc' = offered bs h {0..<length bs}" using acc' by simp
    moreover have "walk bs h mx use_left left right current acc = Inr acc'"
      using stop by (subst walk) (auto simp: cur col)
    ultimately show ?thesis using stop(1) by simp
  qed
qed

subsection \<open>Adding a peer\<close>

lemma node_eq_init [simp]: "node_eq m (initReqFailuresCount p) = node_eq m p"
  by (simp add: node_eq_def initReqFailuresCount_def)

lemma getBucketIndexFor_unique:
  assumes "rt_inv rt" "j < length (rt_buckets rt)" "holds (rt_buckets rt ! j) h"
  shows "getBucketIndexFor h rt = Inr j"
proof -
  obtain i where "getBucketIndexFor h rt = Inr i" "i < length (rt_buckets rt)" "holds (rt_buckets rt ! i) h"
    using getBucketIndexFor_inv[OF assms(1)] .
  then show ?thesis using only_holder[of h "rt_buckets rt" i j] assms by (simp add: rt_inv_def)
qed

lemma find_live: "n \<in> set ns \<Longrightarrow> nd_id_hash n = h \<Longrightarrow> \<exists>m. List.find (\<lambda>n. h = nd_id_hash n) ns = Some m \<and> nd_id_hash m = h"
  by (induction ns) auto

text \<open>The live nodes of a table.\<close>

definition live_nodes :: "routing_table \<Rightarrow> node list" where
  "live_nodes rt = concat (map kb_nodes (rt_buckets rt))"

lemma split_live:
  assumes "kb_prefix_size b < 159" "kb_split b = Inr (one, two)"
  shows "mset (kb_nodes one) + mset (kb_nodes two) = mset (kb_nodes b)"
proof (rule kb_split_halves[OF assms(1)])
  fix one' two'
  assume "kb_split b = Inr (one', two')"
    and "kb_nodes one' = filter (\<lambda>n. holds one' (nd_id_hash n)) (kb_nodes b)"
    and "kb_nodes two' = filter (\<lambda>n. \<not> holds one' (nd_id_hash n)) (kb_nodes b)"
  then show ?thesis using assms(2) by (simp flip: multiset_partition)
qed

subsection \<open>Demonstration tables\<close>

definition demo_hash :: "8 word \<Rightarrow> hash160" where
  "demo_hash x = x # replicate 19 0"

definition demo_node :: "8 word \<Rightarrow> node" where
  "demo_node x = new_node (demo_hash x) ''n'' ''127.0.0.1'' ''8080''"

definition res_val :: "'a \<Rightarrow> 'a result \<Rightarrow> 'a" where
  "res_val d r = (case r of Inr x \<Rightarrow> x | Inl e \<Rightarrow> d)"

text \<open>The table after the calls of \<open>addPeer\<close> for the nodes of these first bytes, two nodes to a bucket.\<close>

definition demo_table :: "8 word list \<Rightarrow> routing_table" where
  "demo_table xs = fold (\<lambda>x rt. snd (res_val (False, rt) (addPeer (demo_node x) rt))) xs
     (new_routing_table (demo_node 0) 2)"

lemma demo_step: "rt_step\<^sup>*\<^sup>* rt (snd (res_val (False, rt) (addPeer p rt)))"
  by (cases "addPeer p rt") (auto simp: res_val_def intro!: r_into_rtranclp elim: rt_step.add)

lemma demo_table_steps: "rt_step\<^sup>*\<^sup>* (new_routing_table (demo_node 0) 2) (demo_table xs)"
proof -
  have "rt_step\<^sup>*\<^sup>* rt (fold (\<lambda>x rt. snd (res_val (False, rt) (addPeer (demo_node x) rt))) xs rt)" for rt
    by (induction xs arbitrary: rt) (auto intro: rtranclp_trans demo_step)
  then show ?thesis by (simp add: demo_table_def)
qed

lemma demo_table_inv: "rt_inv (demo_table xs)"
  by (rule routing.reachable_inv[OF _ demo_table_steps]) (auto simp: rt_start_def)

lemma canHold_start: "kb_prefix_size kb = 0 \<Longrightarrow> canHoldNode h kb = Inr True"
  by (simp add: canHoldNode_holds holds_def)

lemma top_bit: "bit (toBitSet (demo_hash x)) 159 = bit x 7"
proof -
  have "toBitSet (demo_hash x) = push_bit 152 (ucast x)"
    by (simp add: toBitSet_def demo_hash_def numeral_eq_Suc Let_def)
  then show ?thesis by (simp add: bit_push_bit_iff possible_bit_def bit_ucast_iff)
qed

lemma demo_run1: "demo_table [0x80, 0x90] = \<lparr>rt_my_node = demo_node 0, rt_ksize = 2,
    rt_buckets = [(new_kbucket (demo_node 0) 0 2)
      \<lparr>kb_nodes := [openChannel (demo_node 0x80), openChannel (demo_node 0x90)]\<rparr>]\<rparr>"
  by (simp add: demo_table_def addPeer_def new_routing_table_def new_kbucket_def getBucketIndexFor_def
    canHold_start addNode_def kb_full_def res_val_def at_index_def node_eq_def demo_node_def new_node_def
    demo_hash_def initReqFailuresCount_def openChannel_def)

lemma canHold_one: "kb_prefix_size kb = 1 \<Longrightarrow> canHoldNode h kb = Inr (bit (kb_prefix kb) 159 = bit (toBitSet h) 159)"
proof -
  have "{159..<160} = {159::nat}" by auto
  then show "kb_prefix_size kb = 1 \<Longrightarrow> ?thesis" by (simp add: canHoldNode_holds holds_def)
qed

lemma demo_node_sel [simp]:
  "nd_id_hash (demo_node x) = demo_hash x" "nd_address (demo_node x) = ''127.0.0.1''"
  "nd_port (demo_node x) = ''8080''" "demo_hash x = demo_hash y \<longleftrightarrow> x = y"
  "initReqFailuresCount (demo_node x) = demo_node x"
  by (simp_all add: demo_node_def new_node_def demo_hash_def initReqFailuresCount_def)

lemma demo_table_snoc: "demo_table (xs @ [x]) =
    snd (res_val (False, demo_table xs) (addPeer (demo_node x) (demo_table xs)))"
  by (simp add: demo_table_def)

lemma demo_run2: "demo_table [0x80, 0x90, 0xA0] = \<lparr>rt_my_node = demo_node 0, rt_ksize = 2,
    rt_buckets =
     [(new_kbucket (demo_node 0) 1 2)\<lparr>kb_nodes := [openChannel (demo_node 0x80), openChannel (demo_node 0x90)],
        kb_replacement_nodes := [demo_node 0xA0], kb_prefix := set_bit 159 0, kb_prefix_size := 1\<rparr>,
      (new_kbucket (demo_node 0) 1 2)\<lparr>kb_prefix := unset_bit 159 0, kb_prefix_size := 1\<rparr>]\<rparr>"
  using demo_table_snoc[of "[0x80, 0x90]" "0xA0"]
  by (simp add: demo_run1 addPeer_def new_kbucket_def getBucketIndexFor_def canHold_start canHold_one
    addNode_def kb_full_def res_val_def at_index_def node_eq_def can_split_def kb_split_def Let_def top_bit
    bit_set_bit_iff possible_bit_def)

lemma demo_run3: "demo_table [0x80, 0x90, 0xA0, 0xA0] = \<lparr>rt_my_node = demo_node 0, rt_ksize = 2,
    rt_buckets =
     [(new_kbucket (demo_node 0) 1 2)\<lparr>kb_nodes := [openChannel (demo_node 0x80), openChannel (demo_node 0x90)],
        kb_replacement_nodes := [demo_node 0xA0, demo_node 0xA0], kb_prefix := set_bit 159 0,
        kb_prefix_size := 1\<rparr>,
      (new_kbucket (demo_node 0) 1 2)\<lparr>kb_prefix := unset_bit 159 0, kb_prefix_size := 1\<rparr>]\<rparr>"
  using demo_table_snoc[of "[0x80, 0x90, 0xA0]" "0xA0"]
  by (simp add: demo_run2 addPeer_def new_kbucket_def getBucketIndexFor_def canHold_one
    addNode_def kb_full_def res_val_def at_index_def node_eq_def can_split_def Let_def top_bit
    bit_set_bit_iff possible_bit_def)

subsection \<open>Properties\<close>

text \<open>C8: in every table reached from a fresh one the lookup of a bucket returns for every
  identifier, \<open>addPeer\<close> and \<open>removePeer\<close> return for every peer (no index leaves a container, no
  unsigned loop wraps), no bucket has more live nodes than its size, and every node, live or
  waiting, lies in the one bucket its identifier is looked up in and has at most two failed
  requests.\<close>

theorem routing_reachable:
  assumes "rt_start rt0" "rt_step\<^sup>*\<^sup>* rt0 rt"
  shows "(\<forall>h. \<exists>i<length (rt_buckets rt). getBucketIndexFor h rt = Inr i)
    \<and> (\<forall>p. \<exists>ok rt'. addPeer p rt = Inr (ok, rt')) \<and> (\<forall>p. \<exists>rt'. removePeer p rt = Inr rt')
    \<and> (\<forall>i<length (rt_buckets rt). length (kb_nodes (rt_buckets rt ! i)) \<le> rt_ksize rt
        \<and> (\<forall>n\<in>set (kb_nodes (rt_buckets rt ! i)) \<union> set (kb_replacement_nodes (rt_buckets rt ! i)).
             getBucketIndexFor (nd_id_hash n) rt = Inr i \<and> nd_failed_requests n \<in> {0..2}))"
proof -
  have inv: "rt_inv rt" using assms by (rule routing.reachable_inv)
  have "length (kb_nodes (rt_buckets rt ! i)) \<le> rt_ksize rt
      \<and> (\<forall>n\<in>set (kb_nodes (rt_buckets rt ! i)) \<union> set (kb_replacement_nodes (rt_buckets rt ! i)).
           getBucketIndexFor (nd_id_hash n) rt = Inr i \<and> nd_failed_requests n \<in> {0..2})"
    if i: "i < length (rt_buckets rt)" for i
    using rt_inv_bucket(1)[OF inv i] getBucketIndexFor_unique[OF inv i]
    by (auto simp: bucket_ok_def node_ok_def)
  moreover have "\<exists>i<length (rt_buckets rt). getBucketIndexFor h rt = Inr i" for h
    using getBucketIndexFor_inv[OF inv, of h] by blast
  ultimately show ?thesis
    using addPeer_inv[OF inv] removePeer_inv[OF inv] by metis
qed

theorem routing_reachable_witness:
  "(\<exists>ok rt'. addPeer (demo_node 0xA0) (demo_table [0x80, 0x90]) = Inr (ok, rt'))"
  using routing_reachable[OF _ demo_table_steps[of "[0x80, 0x90]"]] by (auto simp: rt_start_def)



text \<open>C40: a peer whose bucket has room, or already has the peer, is live after \<open>addPeer\<close>: the call
  returns true and \<open>findNode\<close> finds a node with its identifier.\<close>

theorem addPeer_live:
  assumes "rt_inv rt" "\<not> node_eq (rt_my_node rt) peer"
    and "getBucketIndexFor (nd_id_hash peer) rt = Inr i"
    and "\<not> kb_full (rt_buckets rt ! i) \<or> (\<exists>n\<in>set (kb_nodes (rt_buckets rt ! i)). node_eq n peer)"
  shows "\<exists>rt' n. addPeer peer rt = Inr (True, rt') \<and> findNode (nd_id_hash peer) rt' = Inr (Some n)
    \<and> nd_id_hash n = nd_id_hash peer"
proof -
  define p where "p = initReqFailuresCount peer"
  have p: "nd_id_hash p = nd_id_hash peer" by (simp add: p_def initReqFailuresCount_def)
  have i: "i < length (rt_buckets rt)" "holds (rt_buckets rt ! i) (nd_id_hash p)"
    using getBucketIndexFor_inv[OF assms(1), of "nd_id_hash peer"] assms(3) p by auto
  obtain c ok where c: "addNode p (rt_buckets rt ! i) = (c, ok)" by fastforce
  have ok: ok and live: "openChannel p \<in> set (kb_nodes c)"
    using c assms(4) by (auto simp: addNode_def p_def split: option.splits if_splits dest: first_index_None[THEN iffD1])
  have add: "addPeer peer rt = Inr (True, rt\<lparr>rt_buckets := (rt_buckets rt)[i := c]\<rparr>)"
    using assms(2,3) i(1) c ok by (simp add: addPeer_def Let_def p flip: p_def)
  then have inv: "rt_inv (rt\<lparr>rt_buckets := (rt_buckets rt)[i := c]\<rparr>)"
    using addPeer_inv[OF assms(1), of peer] by fastforce
  have "node_ok (rt_buckets rt ! i) p" using i(2) by (simp add: node_ok_def p_def initReqFailuresCount_def)
  then have "holds c (nd_id_hash p)"
    using addNode_ok[OF rt_inv_bucket(1)[OF assms(1) i(1)] _ c] i(2) by simp
  then have "getBucketIndexFor (nd_id_hash peer) (rt\<lparr>rt_buckets := (rt_buckets rt)[i := c]\<rparr>) = Inr i"
    using getBucketIndexFor_unique[OF inv, of i] i(1) p by simp
  then show ?thesis
    using add i(1) find_live[OF live, of "nd_id_hash peer"] p by (auto simp: findNode_def)
qed

theorem addPeer_live_witness:
  "\<exists>rt' n. addPeer (demo_node 0x80) (demo_table [0x80, 0x90]) = Inr (True, rt')
     \<and> findNode (demo_hash 0x80) rt' = Inr (Some n) \<and> nd_id_hash n = demo_hash 0x80"
  using addPeer_live[OF demo_table_inv, of "[0x80, 0x90]" "demo_node 0x80" 0]
  by (simp add: demo_run1 getBucketIndexFor_def canHold_start new_kbucket_def node_eq_def demo_node_def
      new_node_def demo_hash_def)

text \<open>When the bucket of a new peer is full and can be split, \<open>addPeer\<close> splits it and returns
  true, but the peer stays on a replacement list: the live nodes of the table are the ones it had
  before, so \<open>findNode\<close> and \<open>findNeighbors\<close> do not see the peer, even if its half has room.\<close>

theorem addPeer_split_not_live:
  assumes "rt_inv rt" "\<not> node_eq (rt_my_node rt) peer"
    and "getBucketIndexFor (nd_id_hash peer) rt = Inr i"
    and "kb_full (rt_buckets rt ! i)" "\<forall>n\<in>set (kb_nodes (rt_buckets rt ! i)). \<not> node_eq n peer"
    and "can_split i (rt_buckets rt ! i) (length (rt_buckets rt))"
  shows "\<exists>rt'. addPeer peer rt = Inr (True, rt') \<and> bucketsCount rt' = bucketsCount rt + 1
    \<and> mset (live_nodes rt') = mset (live_nodes rt)"
proof -
  define p where "p = initReqFailuresCount peer"
  define b where "b = rt_buckets rt ! i"
  define c where "c = b\<lparr>kb_replacement_nodes := kb_replacement_nodes b @ [p]\<rparr>"
  have p: "nd_id_hash p = nd_id_hash peer" by (simp add: p_def initReqFailuresCount_def)
  have i: "i < length (rt_buckets rt)"
    using getBucketIndexFor_inv[OF assms(1), of "nd_id_hash peer"] assms(3) by auto
  have add: "addNode p b = (c, False)"
    using assms(4,5) first_index_None[of "\<lambda>m. node_eq m p" "kb_nodes b"]
    by (simp add: addNode_def c_def b_def p_def)
  have can: "can_split i c (length (rt_buckets rt))" using assms(6) by (simp add: can_split_def c_def b_def)
  then have "kb_prefix_size c < 159"
    using rt_inv_bucket(3)[OF assms(1) i] by (simp add: can_split_def c_def b_def)
  moreover obtain one two where split: "kb_split c = Inr (one, two)"
    by (rule kb_split_halves[OF calculation], rule that)
  ultimately have eq: "mset (kb_nodes b) = mset (kb_nodes one) + mset (kb_nodes two)"
    using split_live[of c one two] by (simp add: c_def)
  have "mset (concat (map kb_nodes (xs @ [one, two] @ ys))) = mset (concat (map kb_nodes (xs @ b # ys)))"
    for xs ys by (simp add: eq)
  then have "mset (concat (map kb_nodes (take i (rt_buckets rt) @ [one, two] @ drop (Suc i) (rt_buckets rt))))
      = mset (concat (map kb_nodes (rt_buckets rt)))"
    by (simp only: id_take_nth_drop[OF i, folded b_def, symmetric])
  then show ?thesis
    using assms(2,3) i add can split
    by (simp add: addPeer_def Let_def p live_nodes_def bucketsCount_def flip: p_def b_def)
qed

theorem addPeer_split_not_live_witness:
  "\<exists>rt'. addPeer (demo_node 0xA0) (demo_table [0x80, 0x90]) = Inr (True, rt')
     \<and> bucketsCount rt' = 2 \<and> length (live_nodes rt') = 2"
proof -
  have "\<exists>rt'. addPeer (demo_node 0xA0) (demo_table [0x80, 0x90]) = Inr (True, rt')
     \<and> bucketsCount rt' = bucketsCount (demo_table [0x80, 0x90]) + 1
     \<and> mset (live_nodes rt') = mset (live_nodes (demo_table [0x80, 0x90]))"
    by (rule addPeer_split_not_live[OF demo_table_inv, of _ _ 0])
      (simp_all add: demo_run1 getBucketIndexFor_def canHold_start new_kbucket_def node_eq_def
        demo_node_def new_node_def demo_hash_def kb_full_def can_split_def)
  moreover have "bucketsCount (demo_table [0x80, 0x90]) = 1" "length (live_nodes (demo_table [0x80, 0x90])) = 2"
    by (simp_all add: demo_run1 bucketsCount_def live_nodes_def)
  ultimately show ?thesis by (metis one_add_one size_mset)
qed

text \<open>The replacement list takes a peer each time it is offered, and both copies are promoted
  when live nodes leave: a reachable table lists the same node twice in one bucket.\<close>

theorem promoted_twice:
  "\<exists>rt. rt_step\<^sup>*\<^sup>* (new_routing_table (demo_node 0) 2) rt \<and> \<not> distinct (live_nodes rt)"
proof -
  let ?t = "demo_table [0x80, 0x90, 0xA0, 0xA0]"
  let ?r = "\<lambda>x rt. res_val rt (removePeer (demo_node x) rt)"
  have step: "rt_step\<^sup>*\<^sup>* rt (?r x rt)" for x rt
    by (cases "removePeer (demo_node x) rt") (auto simp: res_val_def intro: rt_step.remove)
  have "rt_step\<^sup>*\<^sup>* (new_routing_table (demo_node 0) 2) (?r 0x90 (?r 0x80 ?t))"
    using demo_table_steps step by (meson rtranclp_trans)
  moreover have "\<not> distinct (live_nodes (?r 0x90 (?r 0x80 ?t)))"
    unfolding demo_run3 by (simp add: removePeer_def new_kbucket_def getBucketIndexFor_def
      canHold_one removeNode_def removeNode_at_def res_val_def at_index_def top_bit erase_at_def
      bit_set_bit_iff possible_bit_def live_nodes_def Let_def)
  ultimately show ?thesis by blast
qed

end
