(* ===== verification/Json_Validator.thy ===== *)
theory Json_Validator
  imports Containers
begin

text \<open>
  The JSON schema validator (lib/json/json-validator.cpp, json-uri.cpp, include/json-schema.hpp):
  identifiers of schemas, the resolver that lists the sub-schemas of a schema under their
  identifiers, and validation.  A validator has neither a schema loader nor a format checker, as
  the program makes them.  The texts of exceptions are only logged and left out, so validation does
  not carry the name of the value.  Regular expressions are the standard library's and
  \<open>violates_multiple_of\<close> is floating-point arithmetic: both are members of \<open>json_env\<close>,
  which also says whether the program was compiled with assertions.
\<close>

unbundle bit_operations_syntax

subsection \<open>Identifiers of schemas\<close>

definition local_json_pointer :: "string \<Rightarrow> string result" where
  "local_json_pointer r = (case r of [] \<Rightarrow> Inr ''#''
     | c # cs \<Rightarrow> if c \<noteq> CHR ''#'' then Inl Invalid_Argument else Inr (''#'' @ cs))"

record json_uri =
  ju_urn :: string
  ju_proto :: string
  ju_hostname :: string
  ju_path :: string
  ju_pointer :: string

text \<open>\<open>std::string::find\<close>: the text before the first occurrence, and the rest from there on.\<close>

fun split_at :: "string \<Rightarrow> string \<Rightarrow> (string \<times> string) option" where
  "split_at pat [] = (if pat = [] then Some ([], []) else None)"
| "split_at pat (c # cs) = (if take (length pat) (c # cs) = pat then Some ([], c # cs)
     else map_option (\<lambda>(a, b). (c # a, b)) (split_at pat cs))"

text \<open>The part of a URI before its pointer: a host only when a path follows it.\<close>

definition uri_host :: "string \<Rightarrow> json_uri \<Rightarrow> json_uri \<times> string" where
  "uri_host url u = (case split_at ''://'' url of
       None \<Rightarrow> (u, url)
     | Some (proto, r) \<Rightarrow> (let u1 = u\<lparr>ju_proto := proto\<rparr>; r1 = drop 3 r
         in case split_at ''/'' r1 of
              None \<Rightarrow> (u1, r1)
            | Some (hostname, r2) \<Rightarrow> (u1\<lparr>ju_hostname := hostname\<rparr>, r2)))"

definition uri_url :: "string \<Rightarrow> json_uri \<Rightarrow> json_uri" where
  "uri_url url u = (if url = [] then u
     else case uri_host url u of (u1, path) \<Rightarrow>
       (if take 1 path = ''/'' then u1\<lparr>ju_path := path\<rparr> else u1\<lparr>ju_path := ju_path u1 @ path\<rparr>)\<lparr>ju_pointer := ''#''\<rparr>)"

definition uri_from_string :: "string \<Rightarrow> json_uri \<Rightarrow> json_uri result" where
  "uri_from_string uri u = (if take 4 uri = ''urn:'' then Inr (u\<lparr>ju_urn := uri\<rparr>)
     else (case split_at ''#'' uri of
         None \<Rightarrow> rbind (local_json_pointer ''#'') (\<lambda>p. Inr ((uri_url uri u)\<lparr>ju_pointer := p\<rparr>))
       | Some (url, pointer) \<Rightarrow> rbind (local_json_pointer pointer) (\<lambda>p. Inr ((uri_url url u)\<lparr>ju_pointer := p\<rparr>))))"

definition mk_json_uri :: "string \<Rightarrow> json_uri result" where
  "mk_json_uri uri = uri_from_string uri
     \<lparr>ju_urn = [], ju_proto = [], ju_hostname = [], ju_path = [], ju_pointer = ''#''\<rparr>"

definition uri_append :: "json_uri \<Rightarrow> string \<Rightarrow> json_uri" where
  "uri_append u field = u\<lparr>ju_pointer := ju_pointer u @ ''/'' @ field\<rparr>"

definition uri_location :: "json_uri \<Rightarrow> string" where
  "uri_location u = (if ju_proto u \<noteq> [] then ju_proto u @ ''://'' else []) @ ju_hostname u @ ju_path u"

definition uri_to_string :: "json_uri \<Rightarrow> string" where
  "uri_to_string u = ju_urn u @ uri_location u @ ju_pointer u"

definition replace_char :: "char \<Rightarrow> string \<Rightarrow> string \<Rightarrow> string" where
  "replace_char c r s = concat (map (\<lambda>d. if d = c then r else [d]) s)"

definition uri_escape :: "string \<Rightarrow> string" where
  "uri_escape s = replace_char (CHR ''%'') ''%25'' (replace_char (CHR ''/'') ''~1'' (replace_char (CHR ''~'') ''~0'' s))"

subsection \<open>The resolver\<close>

definition json_find :: "json \<Rightarrow> string \<Rightarrow> json option" where
  "json_find j k = (case j of JObj m \<Rightarrow> map_of m k | _ \<Rightarrow> None)"

text \<open>
  What the resolver has seen: the identifiers taken, the sub-schemas under their identifiers (as
  they are once their own references are written out), and the references.
\<close>

record resolved =
  rs_ids :: "json_uri list"
  rs_refs :: "json_uri list"
  rs_schemas :: "(json_uri \<times> json) list"

definition own_id :: "json \<Rightarrow> json_uri \<Rightarrow> json_uri result" where
  "own_id schema i = (case json_find schema ''id'' of Some (JStr s) \<Rightarrow> uri_from_string s i | _ \<Rightarrow> Inr i)"

definition claim_id :: "json_uri \<Rightarrow> (resolved, unit) prog" where
  "claim_id i st = (if i \<in> set (rs_ids st) then (st, Inl Invalid_Argument)
     else (st\<lparr>rs_ids := i # rs_ids st\<rparr>, Inr ()))"

text \<open>
  \<open>resolve\<close> of an object, of its members in order and of the elements of an array.  Members called
  \<open>default\<close> are passed over; a reference is replaced by its full text.
\<close>

fun resolve :: "json \<Rightarrow> json_uri \<Rightarrow> (resolved, json) prog"
and resolve_members :: "(string \<times> json) list \<Rightarrow> json_uri \<Rightarrow> (resolved, (string \<times> json) list) prog"
and resolve_elements :: "json list \<Rightarrow> nat \<Rightarrow> json_uri \<Rightarrow> (resolved, json list) prog" where
  "resolve (JObj m) i0 = sbind (slift (own_id (JObj m) i0)) (\<lambda>i.
     sbind (claim_id i) (\<lambda>_. sbind (resolve_members m i) (\<lambda>m'.
     sbind (assign (Inr (JObj m')) (\<lambda>s st. st\<lparr>rs_schemas := (i, s) # rs_schemas st\<rparr>)) (\<lambda>_. sret (JObj m')))))"
| "resolve JNull i = sbind (claim_id i) (\<lambda>_.
     sbind (assign (Inr JNull) (\<lambda>s st. st\<lparr>rs_schemas := (i, s) # rs_schemas st\<rparr>)) (\<lambda>_. sret JNull))"
| "resolve (JArr xs) i = sbind (claim_id i) (\<lambda>_. if xs \<noteq> [] then slift (Inl Json_Invalid_Iterator)
     else sbind (assign (Inr (JArr xs)) (\<lambda>s st. st\<lparr>rs_schemas := (i, s) # rs_schemas st\<rparr>)) (\<lambda>_. sret (JArr xs)))"
| "resolve s i = sbind (claim_id i) (\<lambda>_. slift (Inl Json_Invalid_Iterator))"
| "resolve_members [] i = sret []"
| "resolve_members ((k, v) # m) i =
     (if k = ''default'' then sbind (resolve_members m i) (\<lambda>m'. sret ((k, v) # m'))
      else sbind (case v of
          JObj _ \<Rightarrow> resolve v (uri_append i (uri_escape k))
        | JArr xs \<Rightarrow> sbind (resolve_elements xs 0 (uri_append i (uri_escape k))) (\<lambda>xs'. sret (JArr xs'))
        | JStr s \<Rightarrow> if k = ''$ref''
            then sbind (slift (uri_from_string s i)) (\<lambda>ref.
                 sbind (assign (Inr ref) (\<lambda>r st. st\<lparr>rs_refs := rs_refs st @ [r]\<rparr>)) (\<lambda>_. sret (JStr (uri_to_string ref))))
            else sret v
        | _ \<Rightarrow> sret v)
        (\<lambda>v'. sbind (resolve_members m i) (\<lambda>m'. sret ((k, v') # m'))))"
| "resolve_elements [] n i = sret []"
| "resolve_elements (v # vs) n i =
     sbind (case v of JObj _ \<Rightarrow> resolve v (uri_append i (dec_nat n)) | _ \<Rightarrow> sret v)
       (\<lambda>v'. sbind (resolve_elements vs (Suc n) i) (\<lambda>vs'. sret (v' # vs')))"

text \<open>The constructor of \<open>resolver\<close>: the schema with its references written out, and what was found.\<close>

definition resolver :: "json \<Rightarrow> json_uri \<Rightarrow> (json \<times> resolved \<times> string list) result" where
  "resolver schema i0 =
     rbind (case json_find schema ''id'' of None \<Rightarrow> Inr i0
            | Some v \<Rightarrow> rbind (json_to_str v) (\<lambda>s. uri_from_string s i0)) (\<lambda>i.
     (case resolve schema i \<lparr>rs_ids = [], rs_refs = [], rs_schemas = []\<rparr> of
        (st, Inl e) \<Rightarrow> Inl e
      | (st, Inr schema') \<Rightarrow>
          (let missing = filter (\<lambda>r. r \<notin> set (rs_ids st)) (rs_refs st)
           in if list_ex (\<lambda>r. uri_location r = uri_location i) missing then Inl Invalid_Argument
              else Inr (schema', st, map uri_location missing))))"

subsection \<open>Validators\<close>

record json_validator =
  jv_root_schema :: "json option"
  jv_schema_refs :: "(json_uri \<times> json) list"

definition json_validator_new :: json_validator where
  "json_validator_new = \<lparr>jv_root_schema = None, jv_schema_refs = []\<rparr>"

text \<open>Without a loader a reference to another document that is not there yet is refused.\<close>

definition undefined_refs :: "json_validator \<Rightarrow> string list \<Rightarrow> bool result" where
  "undefined_refs jv locations = foldl (\<lambda>acc l. rbind acc (\<lambda>b. rbind (mk_json_uri l) (\<lambda>u.
     Inr (b \<or> map_of (jv_schema_refs jv) u = None)))) (Inr False) locations"

definition insert_schema :: "json \<Rightarrow> json_uri \<Rightarrow> (json_validator, unit) prog" where
  "insert_schema input i jv =
     sbind (slift (resolver input i)) (\<lambda>(schema, found, locations).
     sbind (slift (undefined_refs jv locations)) (\<lambda>undef.
       if undef then slift (Inl Invalid_Argument)
       else if list_ex (\<lambda>(j, _). map_of (jv_schema_refs jv) j \<noteq> None) (rs_schemas found)
       then slift (Inl Invalid_Argument)
       else assign (mk_json_uri ''#'') (\<lambda>root jv. jv\<lparr>
           jv_schema_refs := jv_schema_refs jv @ rs_schemas found,
           jv_root_schema := (if i = root then Some schema else jv_root_schema jv)\<rparr>))) jv"

definition set_root_schema :: "json \<Rightarrow> (json_validator, unit) prog" where
  "set_root_schema schema = sbind (slift (mk_json_uri ''#'')) (insert_schema schema)"

subsection \<open>Validation of single values\<close>

record json_env =
  je_regex_search :: "string \<Rightarrow> string \<Rightarrow> bool result"
  je_violates_multiple_of :: "int \<Rightarrow> int \<Rightarrow> bool"
  je_assertions :: bool

text \<open>Conversions of JSON values: \<open>get<size_t>\<close> and \<open>get<int64_t>\<close>.\<close>

definition wrap_u64 :: "int \<Rightarrow> int" where "wrap_u64 n = take_bit 64 n"

definition wrap_i64 :: "int \<Rightarrow> int" where "wrap_i64 n = signed_take_bit 63 n"

definition json_to_int :: "(int \<Rightarrow> int) \<Rightarrow> json \<Rightarrow> int result" where
  "json_to_int wrap j = (case j of JInt n \<Rightarrow> Inr (wrap n) | _ \<Rightarrow> Inl Json_Type_Error)"

text \<open>A keyword that may be absent: then nothing is checked.\<close>

definition with_keyword :: "json \<Rightarrow> string \<Rightarrow> (json \<Rightarrow> unit result) \<Rightarrow> unit result" where
  "with_keyword schema k check = (case json_find schema k of None \<Rightarrow> Inr () | Some v \<Rightarrow> check v)"

definition throw_if :: "cpp_error \<Rightarrow> bool \<Rightarrow> unit result" where
  "throw_if e b = (if b then Inl e else Inr ())"

definition validate_type :: "json \<Rightarrow> string \<Rightarrow> unit result" where
  "validate_type schema expected_type = with_keyword schema ''type'' (\<lambda>type_instance.
     (case type_instance of
        JArr ts \<Rightarrow> throw_if Invalid_Argument (\<not> (JStr expected_type \<in> set ts
            \<or> expected_type = ''integer'' \<and> JStr ''number'' \<in> set ts))
      | _ \<Rightarrow> if type_instance = JStr expected_type \<or> type_instance = JStr ''number'' \<and> expected_type = ''integer''
             then Inr ()
             else rbind (json_to_str type_instance) (\<lambda>_. Inl Invalid_Argument)))"

definition validate_enum :: "json \<Rightarrow> json \<Rightarrow> unit result" where
  "validate_enum inst schema = with_keyword schema ''enum'' (\<lambda>values.
     throw_if Invalid_Argument (inst \<notin> set (json_items values)))"

definition exclusive :: "json \<Rightarrow> string \<Rightarrow> bool result" where
  "exclusive schema k = (case json_find schema k of None \<Rightarrow> Inr False | Some v \<Rightarrow> json_to_bool v)"

definition violates_numeric_maximum :: "int \<Rightarrow> int \<Rightarrow> bool \<Rightarrow> bool" where
  "violates_numeric_maximum max_val val excl = (if excl then val \<ge> max_val else val > max_val)"

definition violates_numeric_minimum :: "int \<Rightarrow> int \<Rightarrow> bool \<Rightarrow> bool" where
  "violates_numeric_minimum min_val val excl = (if excl then val \<le> min_val else val < min_val)"

definition validate_numeric :: "json_env \<Rightarrow> (int \<Rightarrow> int) \<Rightarrow> json \<Rightarrow> json \<Rightarrow> unit result" where
  "validate_numeric env wrap inst schema = rbind (json_to_int wrap inst) (\<lambda>val.
     rbind (if val = 0 then Inr () else with_keyword schema ''multipleOf'' (\<lambda>m.
        rbind (json_to_int id m) (\<lambda>multiple. throw_if Out_Of_Range (je_violates_multiple_of env val multiple)))) (\<lambda>_.
     rbind (with_keyword schema ''maximum'' (\<lambda>m. rbind (json_to_int wrap m) (\<lambda>maxi.
        rbind (exclusive schema ''exclusiveMaximum'') (\<lambda>excl.
          throw_if Out_Of_Range (violates_numeric_maximum maxi val excl))))) (\<lambda>_.
     with_keyword schema ''minimum'' (\<lambda>m. rbind (json_to_int wrap m) (\<lambda>mini.
        rbind (exclusive schema ''exclusiveMinimum'') (\<lambda>excl.
          throw_if Out_Of_Range (violates_numeric_minimum mini val excl)))))))"

text \<open>
  A number that was read without a sign is unsigned.  The minimum is compared with zero in the order
  of JSON values, in which null and booleans come before numbers and the others after them.
\<close>

definition is_unsigned :: "json \<Rightarrow> bool" where
  "is_unsigned schema = (case json_find schema ''minimum'' of None \<Rightarrow> False
     | Some v \<Rightarrow> (case v of JInt n \<Rightarrow> n \<ge> 0 | JNull \<Rightarrow> False | JBool _ \<Rightarrow> False | _ \<Rightarrow> True))"

definition validate_integer :: "json_env \<Rightarrow> json \<Rightarrow> json \<Rightarrow> unit result" where
  "validate_integer env inst schema = rbind (validate_type schema ''integer'') (\<lambda>_.
     validate_numeric env wrap_i64 inst schema)"

definition validate_unsigned :: "json_env \<Rightarrow> json \<Rightarrow> json \<Rightarrow> unit result" where
  "validate_unsigned env inst schema = rbind (validate_type schema ''integer'') (\<lambda>_.
     if is_unsigned schema then validate_numeric env wrap_u64 inst schema
     else validate_numeric env wrap_i64 inst schema)"

definition validate_boolean :: "json \<Rightarrow> unit result" where
  "validate_boolean schema = validate_type schema ''boolean''"

definition validate_null :: "json \<Rightarrow> unit result" where
  "validate_null schema = validate_type schema ''null''"

definition utf8_length :: "string \<Rightarrow> nat" where
  "utf8_length s = length (filter (\<lambda>c. (of_char c AND 0xC0 :: 8 word) \<noteq> 0x80) s)"

text \<open>Without a format checker a format keyword is an error.\<close>

definition validate_string :: "json_env \<Rightarrow> string \<Rightarrow> json \<Rightarrow> unit result" where
  "validate_string env s schema = rbind (validate_type schema ''string'') (\<lambda>_.
     rbind (with_keyword schema ''minLength'' (\<lambda>v. rbind (json_to_int wrap_u64 v) (\<lambda>n.
        throw_if Out_Of_Range (int (utf8_length s) < n)))) (\<lambda>_.
     rbind (with_keyword schema ''maxLength'' (\<lambda>v. rbind (json_to_int wrap_u64 v) (\<lambda>n.
        throw_if Out_Of_Range (int (utf8_length s) > n)))) (\<lambda>_.
     rbind (with_keyword schema ''pattern'' (\<lambda>v. rbind (json_to_str v) (\<lambda>re.
        rbind (je_regex_search env re s) (\<lambda>found. throw_if Invalid_Argument (\<not> found))))) (\<lambda>_.
     with_keyword schema ''format'' (\<lambda>v. rbind (json_to_str v) (\<lambda>_. Inl Logic_Error))))))"

subsection \<open>Validation\<close>

text \<open>
  Validation recurs on sub-schemas and follows references, which can be circular.  The recursion
  carries the depth of the stack that is left; to run out of it is \<open>Undefined_Behaviour\<close>.  The parts
  of \<open>validate\<close> take the validator for the values below as an argument \<open>rec\<close>.
\<close>

type_synonym sub_validator = "json \<Rightarrow> json \<Rightarrow> unit result"

fun follow_refs :: "(json_uri \<times> json) list \<Rightarrow> nat \<Rightarrow> json \<Rightarrow> json result" where
  "follow_refs refs 0 schema = Inl Undefined_Behaviour"
| "follow_refs refs (Suc n) schema = (case json_find schema ''$ref'' of
       None \<Rightarrow> Inr schema
     | Some r \<Rightarrow> rbind (json_to_str r) (\<lambda>s. rbind (mk_json_uri s) (\<lambda>u.
         case map_of refs u of None \<Rightarrow> Inl Invalid_Argument | Some target \<Rightarrow> follow_refs refs n target)))"

text \<open>What \<open>catch (std::exception &)\<close> makes of an outcome: undefined behaviour is not caught.\<close>

definition attempt :: "unit result \<Rightarrow> bool result" where
  "attempt r = (case r of Inr _ \<Rightarrow> Inr True
     | Inl e \<Rightarrow> if e = Undefined_Behaviour then Inl e else Inr False)"

definition validate_not :: "sub_validator \<Rightarrow> json \<Rightarrow> json \<Rightarrow> unit result" where
  "validate_not rec inst negated = rbind (attempt (rec inst negated)) (throw_if Invalid_Argument)"

datatype combine_logic = AllOf | AnyOf | OneOf

definition combined_schemas :: "json \<Rightarrow> (combine_logic \<times> json) option" where
  "combined_schemas schema = (case json_find schema ''oneOf'' of
       Some s \<Rightarrow> Some (OneOf, s)
     | None \<Rightarrow> (case json_find schema ''anyOf'' of
         Some s \<Rightarrow> Some (AnyOf, s)
       | None \<Rightarrow> map_option (Pair AllOf) (json_find schema ''allOf'')))"

fun combine_loop :: "sub_validator \<Rightarrow> json \<Rightarrow> combine_logic \<Rightarrow> nat \<Rightarrow> json list \<Rightarrow> nat result" where
  "combine_loop rec inst logic count [] = Inr count"
| "combine_loop rec inst logic count (s # ss) = rbind (attempt (rec inst s)) (\<lambda>ok.
     (let count' = (if ok then Suc count else count)
      in if \<not> ok \<and> logic = AllOf then Inl Out_Of_Range
         else if logic = OneOf \<and> count' > 1 then Inl Out_Of_Range
         else combine_loop rec inst logic count' ss))"

definition validate_combined :: "sub_validator \<Rightarrow> json \<Rightarrow> json \<Rightarrow> unit result" where
  "validate_combined rec inst schema = (case combined_schemas schema of
       None \<Rightarrow> Inr ()
     | Some (logic, ss) \<Rightarrow> rbind (combine_loop rec inst logic 0 (json_items ss)) (\<lambda>count.
         throw_if Out_Of_Range (logic \<noteq> AllOf \<and> count = 0)))"

fun validate_elements :: "sub_validator \<Rightarrow> json \<Rightarrow> json \<Rightarrow> nat \<Rightarrow> json list \<Rightarrow> unit result" where
  "validate_elements rec items additional i [] = Inr ()"
| "validate_elements rec items additional i (x # xs) =
     (let rest = validate_elements rec items additional (Suc i) xs in
      case items of
        JArr ss \<Rightarrow> if i < length ss then rbind (rec x (ss ! i)) (\<lambda>_. rest)
          else (case additional of
              JObj _ \<Rightarrow> rbind (rec x additional) (\<lambda>_. rest)
            | JBool b \<Rightarrow> throw_if Out_Of_Range (\<not> b)
            | _ \<Rightarrow> rest)
      | JObj _ \<Rightarrow> rbind (rec x items) (\<lambda>_. rest)
      | _ \<Rightarrow> rest)"

definition keyword_or_null :: "json \<Rightarrow> string \<Rightarrow> json" where
  "keyword_or_null schema k = (case json_find schema k of None \<Rightarrow> JNull | Some v \<Rightarrow> v)"

definition check_size :: "json \<Rightarrow> string \<Rightarrow> string \<Rightarrow> nat \<Rightarrow> unit result" where
  "check_size schema max_key min_key n =
     rbind (with_keyword schema max_key (\<lambda>v. rbind (json_to_int wrap_u64 v) (\<lambda>m. throw_if Out_Of_Range (int n > m)))) (\<lambda>_.
     with_keyword schema min_key (\<lambda>v. rbind (json_to_int wrap_u64 v) (\<lambda>m. throw_if Out_Of_Range (int n < m))))"

definition validate_array :: "sub_validator \<Rightarrow> json list \<Rightarrow> json \<Rightarrow> unit result" where
  "validate_array rec xs schema = rbind (validate_type schema ''array'') (\<lambda>_.
     rbind (check_size schema ''maxItems'' ''minItems'' (length xs)) (\<lambda>_.
     rbind (with_keyword schema ''uniqueItems'' (\<lambda>v. rbind (json_to_bool v) (\<lambda>b.
        throw_if Out_Of_Range (b \<and> \<not> distinct xs)))) (\<lambda>_.
     validate_elements rec (keyword_or_null schema ''items'') (keyword_or_null schema ''additionalItems'') 0 xs)))"

text \<open>The members an iteration with \<open>key()\<close> visits.\<close>

definition json_members :: "json \<Rightarrow> (string \<times> json) list result" where
  "json_members j = (case j of JObj m \<Rightarrow> Inr m | _ \<Rightarrow> if json_empty j then Inr [] else Inl Json_Invalid_Iterator)"

fun validate_patterns ::
    "json_env \<Rightarrow> sub_validator \<Rightarrow> string \<Rightarrow> json \<Rightarrow> (string \<times> json) list \<Rightarrow> bool \<Rightarrow> bool result" where
  "validate_patterns env rec k x [] validated = Inr validated"
| "validate_patterns env rec k x ((re, s) # ps) validated = rbind (je_regex_search env re k) (\<lambda>found.
     if found then rbind (rec x s) (\<lambda>_. validate_patterns env rec k x ps True)
     else validate_patterns env rec k x ps validated)"

definition validate_member :: "json_env \<Rightarrow> sub_validator \<Rightarrow> json \<Rightarrow> string \<Rightarrow> json \<Rightarrow> unit result" where
  "validate_member env rec schema k x =
     rbind (case json_find (keyword_or_null schema ''properties'') k of
         None \<Rightarrow> Inr False
       | Some s \<Rightarrow> rbind (rec x s) (\<lambda>_. Inr True)) (\<lambda>described.
     rbind (json_members (keyword_or_null schema ''patternProperties'')) (\<lambda>patterns.
     rbind (validate_patterns env rec k x patterns described) (\<lambda>validated.
       if validated then Inr ()
       else with_keyword schema ''additionalProperties'' (\<lambda>v. case v of
           JBool b \<Rightarrow> throw_if Invalid_Argument (\<not> b)
         | _ \<Rightarrow> rec x v))))"

fun validate_members :: "json_env \<Rightarrow> sub_validator \<Rightarrow> json \<Rightarrow> (string \<times> json) list \<Rightarrow> unit result" where
  "validate_members env rec schema [] = Inr ()"
| "validate_members env rec schema ((k, x) # m) = rbind (validate_member env rec schema k x) (\<lambda>_.
     validate_members env rec schema m)"

fun validate_required :: "json \<Rightarrow> json list \<Rightarrow> unit result" where
  "validate_required inst [] = Inr ()"
| "validate_required inst (e # es) = rbind (json_to_str e) (\<lambda>k.
     if json_find inst k = None then Inl Invalid_Argument else validate_required inst es)"

fun validate_dependencies :: "sub_validator \<Rightarrow> json \<Rightarrow> (string \<times> json) list \<Rightarrow> unit result" where
  "validate_dependencies rec inst [] = Inr ()"
| "validate_dependencies rec inst ((k, d) # ds) =
     rbind (if json_find inst k = None then Inr ()
       else (case d of JObj _ \<Rightarrow> rec inst d | JArr props \<Rightarrow> validate_required inst props | _ \<Rightarrow> Inr ()))
       (\<lambda>_. validate_dependencies rec inst ds)"

definition validate_object :: "json_env \<Rightarrow> sub_validator \<Rightarrow> (string \<times> json) list \<Rightarrow> json \<Rightarrow> unit result" where
  "validate_object env rec m schema = rbind (validate_type schema ''object'') (\<lambda>_.
     rbind (check_size schema ''maxProperties'' ''minProperties'' (length m)) (\<lambda>_.
     rbind (validate_members env rec schema m) (\<lambda>_.
     rbind (with_keyword schema ''required'' (\<lambda>r. validate_required (JObj m) (json_items r))) (\<lambda>_.
     with_keyword schema ''dependencies'' (\<lambda>d. rbind (json_members d) (validate_dependencies rec (JObj m)))))))"

definition validate_by_type :: "json_env \<Rightarrow> sub_validator \<Rightarrow> json \<Rightarrow> json \<Rightarrow> unit result" where
  "validate_by_type env rec inst schema = (case inst of
       JObj m \<Rightarrow> validate_object env rec m schema
     | JArr xs \<Rightarrow> validate_array rec xs schema
     | JStr s \<Rightarrow> validate_string env s schema
     | JInt n \<Rightarrow> if n \<ge> 0 then validate_unsigned env inst schema else validate_integer env inst schema
     | JBool b \<Rightarrow> validate_boolean schema
     | JNull \<Rightarrow> validate_null schema)"

definition validate_schema :: "json_env \<Rightarrow> sub_validator \<Rightarrow> json \<Rightarrow> json \<Rightarrow> unit result" where
  "validate_schema env rec inst schema = (case json_find schema ''not'' of
       Some negated \<Rightarrow> validate_not rec inst negated
     | None \<Rightarrow> rbind (validate_combined rec inst schema) (\<lambda>_.
         rbind (validate_enum inst schema) (\<lambda>_. validate_by_type env rec inst schema)))"

fun jv_validate :: "json_env \<Rightarrow> (json_uri \<times> json) list \<Rightarrow> nat \<Rightarrow> json \<Rightarrow> json \<Rightarrow> unit result" where
  "jv_validate env refs 0 inst schema = Inl Undefined_Behaviour"
| "jv_validate env refs (Suc n) inst schema = rbind (follow_refs refs n schema)
     (validate_schema env (jv_validate env refs n) inst)"

definition validate_root :: "json_env \<Rightarrow> nat \<Rightarrow> json_validator \<Rightarrow> json \<Rightarrow> unit result" where
  "validate_root env n jv inst = (case jv_root_schema jv of
       None \<Rightarrow> Inl Invalid_Argument
     | Some schema \<Rightarrow> jv_validate env (jv_schema_refs jv) n inst schema)"

end
