(* ===== verification/Json_Shapes.thy ===== *)
theory Json_Shapes
  imports Json_Validator
begin

text \<open>
  What validation computes.  On a schema without references it ends whatever the value is, and a
  deeper stack never changes an outcome.  On schemas with the keywords the program's messages use
  (\<open>type\<close>, \<open>properties\<close>, \<open>required\<close>, \<open>items\<close>) it decides membership in a type of JSON values, a
  \<open>shape\<close>.
\<close>

named_theorems not_stuck \<open>operations that do not exhaust the stack\<close>
named_theorems deeper \<open>operations whose outcome a deeper stack keeps\<close>

subsection \<open>Sizes of parts\<close>

lemma size_member: "(k, v) \<in> set m \<Longrightarrow> size v < size (JObj m)"
  by (induction m) auto

lemma size_element: "x \<in> set xs \<Longrightarrow> size x < size (JArr xs)"
  by (induction xs) auto

lemma json_find_mem: "json_find j k = Some v \<longleftrightarrow> (\<exists>m. j = JObj m \<and> map_of m k = Some v)"
  by (cases j) (simp_all add: json_find_def)

lemma size_find: "json_find j k = Some v \<Longrightarrow> size v < size j"
  by (auto simp: json_find_mem dest!: map_of_SomeD intro: size_member)

lemma size_items: "x \<in> set (json_items j) \<Longrightarrow> size x \<le> size j"
  by (cases j) (auto simp: json_items_def dest: size_member size_element)

subsection \<open>References\<close>

text \<open>A value in which no object has a member \<open>$ref\<close>.\<close>

fun ref_free :: "json \<Rightarrow> bool" where
  "ref_free (JObj m) \<longleftrightarrow> (\<forall>(k, v)\<in>set m. k \<noteq> ''$ref'' \<and> ref_free v)"
| "ref_free (JArr xs) \<longleftrightarrow> (\<forall>x\<in>set xs. ref_free x)"
| "ref_free _ \<longleftrightarrow> True"

lemma ref_free_find: "ref_free j \<Longrightarrow> json_find j k = Some v \<Longrightarrow> ref_free v"
  by (auto simp: json_find_mem dest!: map_of_SomeD)

lemma ref_free_no_ref: "ref_free j \<Longrightarrow> json_find j ''$ref'' = None"
  by (cases "json_find j ''$ref''") (auto simp: json_find_mem dest!: map_of_SomeD)

lemma ref_free_items: "ref_free j \<Longrightarrow> x \<in> set (json_items j) \<Longrightarrow> ref_free x"
  by (cases j) (auto simp: json_items_def)

subsection \<open>Validation ends\<close>

definition ends :: "'a result \<Rightarrow> bool" where
  "ends r \<longleftrightarrow> r \<noteq> Inl Undefined_Behaviour"

lemma ends_rbind [not_stuck]: "ends m \<Longrightarrow> (\<And>x. m = Inr x \<Longrightarrow> ends (f x)) \<Longrightarrow> ends (rbind m f)"
  by (auto simp: ends_def rbind_eq_Inl)

lemma ends_basic [not_stuck]:
  "ends (Inr x)" "e \<noteq> Undefined_Behaviour \<Longrightarrow> ends (Inl e)" "e \<noteq> Undefined_Behaviour \<Longrightarrow> ends (throw_if e b)"
  "ends (json_to_int w j)" "ends (json_to_bool j)" "ends (json_to_str j)" "ends (json_members j)"
  by (auto simp: ends_def throw_if_def json_to_int_def json_to_bool_def json_to_str_def json_members_def split: json.split)

lemma ends_keyword [not_stuck]: "(\<And>v. json_find s k = Some v \<Longrightarrow> ends (f v)) \<Longrightarrow> ends (with_keyword s k f)"
  by (auto simp: with_keyword_def not_stuck split: option.split)

lemma ends_attempt [not_stuck]: "ends r \<Longrightarrow> ends (attempt r)"
  by (auto simp: ends_def attempt_def split: sum.split)

lemma ends_exclusive [not_stuck]: "ends (exclusive s k)"
  by (auto simp: ends_def exclusive_def json_to_bool_def split: option.split json.split)

lemma ends_type [not_stuck]: "ends (validate_type s t)"
  unfolding validate_type_def by (auto simp: ends_def with_keyword_def throw_if_def json_to_str_def split: option.split json.split)

lemma ends_numeric [not_stuck]: "ends (validate_numeric env w inst s)"
  unfolding validate_numeric_def by (auto intro!: not_stuck)

lemma ends_scalars [not_stuck]:
  "ends (validate_integer env inst s)" "ends (validate_unsigned env inst s)" "ends (validate_enum inst s)"
  unfolding validate_integer_def validate_unsigned_def validate_enum_def by (auto intro!: not_stuck)

definition regex_ends :: "json_env \<Rightarrow> bool" where
  "regex_ends env \<longleftrightarrow> (\<forall>re t. ends (je_regex_search env re t))"

lemma ends_regex [not_stuck]: "regex_ends env \<Longrightarrow> ends (je_regex_search env re t)"
  by (simp add: regex_ends_def)

lemma ends_string [not_stuck]: "regex_ends env \<Longrightarrow> ends (validate_string env str s)"
  unfolding validate_string_def by (auto intro!: not_stuck)

lemma ends_size [not_stuck]: "ends (check_size s a b n)"
  unfolding check_size_def by (auto intro!: not_stuck)

lemma ends_required [not_stuck]: "ends (validate_required inst es)"
  by (induction es) (auto intro!: not_stuck)

lemma ends_combine [not_stuck]:
  "(\<And>s. s \<in> set ss \<Longrightarrow> ends (rec inst s)) \<Longrightarrow> ends (combine_loop rec inst logic n ss)"
  by (induction ss arbitrary: n) (auto simp: Let_def intro!: not_stuck)

lemma ends_elements [not_stuck]:
  assumes "\<And>x s. s = items \<and> items \<noteq> JNull \<or> s = additional \<and> additional \<noteq> JNull \<or> s \<in> set (json_items items) \<Longrightarrow> ends (rec x s)"
  shows "ends (validate_elements rec items additional i xs)"
  using assms
  by (induction xs arbitrary: i) (auto simp: Let_def json_items_def split: json.split intro!: not_stuck)

lemma ends_patterns [not_stuck]:
  "regex_ends env \<Longrightarrow> \<forall>p\<in>set ps. ends (rec x (snd p)) \<Longrightarrow> ends (validate_patterns env rec k x ps b)"
  by (induction env rec k x ps b rule: validate_patterns.induct) (auto intro!: not_stuck)

lemma ends_dependencies [not_stuck]:
  "\<forall>p\<in>set ds. ends (rec inst (snd p)) \<Longrightarrow> ends (validate_dependencies rec inst ds)"
  by (induction rec inst ds rule: validate_dependencies.induct) (auto split: json.split intro!: not_stuck)

text \<open>The parts call the validator below on parts of the schema only.\<close>

definition ends_below :: "sub_validator \<Rightarrow> json \<Rightarrow> bool" where
  "ends_below rec schema \<longleftrightarrow> ref_free schema \<and> (\<forall>x s. size s < size schema \<and> ref_free s \<longrightarrow> ends (rec x s))"

lemma ends_sub: "ends_below rec schema \<Longrightarrow> json_find schema k = Some v \<Longrightarrow> ends (rec x v)"
  by (auto simp: ends_below_def dest: size_find ref_free_find)

lemma ends_sub_item:
  "ends_below rec schema \<Longrightarrow> json_find schema k = Some v \<Longrightarrow> s \<in> set (json_items v) \<Longrightarrow> ends (rec x s)"
  unfolding ends_below_def by (metis le_less_trans ref_free_find ref_free_items size_find size_items)

lemma members_items: "json_members j = Inr m \<Longrightarrow> p \<in> set m \<Longrightarrow> snd p \<in> set (json_items j)"
  by (auto simp: json_members_def json_items_def split: json.splits if_splits)

lemma keyword_or_null: "keyword_or_null schema k = v \<Longrightarrow> v = JNull \<or> json_find schema k = Some v"
  by (auto simp: keyword_or_null_def split: option.splits)

lemma ends_sub_null:
  "ends_below rec schema \<Longrightarrow> keyword_or_null schema k \<noteq> JNull \<Longrightarrow> ends (rec x (keyword_or_null schema k))"
  using keyword_or_null [of schema k] by (auto intro: ends_sub)

lemma ends_sub_null_item:
  "ends_below rec schema \<Longrightarrow> s \<in> set (json_items (keyword_or_null schema k)) \<Longrightarrow> ends (rec x s)"
  using keyword_or_null [of schema k] by (auto intro: ends_sub_item simp: json_items_def)

lemma ends_array [not_stuck]:
  assumes "ends_below rec schema"
  shows "ends (validate_array rec xs schema)"
  unfolding validate_array_def
  by (auto intro!: not_stuck intro: ends_sub_null [OF assms] ends_sub_null_item [OF assms])

lemma ends_member [not_stuck]:
  assumes "regex_ends env" "ends_below rec schema"
  shows "ends (validate_member env rec schema k x)"
proof -
  have "ends (rec x s)" if "json_find (keyword_or_null schema ''properties'') k = Some s" for s
    using that ends_sub_null_item [OF assms(2), of s "''properties''"]
    by (force simp: json_find_mem json_items_def dest!: map_of_SomeD)
  moreover have "\<forall>p\<in>set ps. ends (rec x (snd p))"
    if "json_members (keyword_or_null schema ''patternProperties'') = Inr ps" for ps
    using that by (blast dest: members_items intro: ends_sub_null_item [OF assms(2)])
  moreover have "ends (rec x v)" if "json_find schema ''additionalProperties'' = Some v" for v
    using ends_sub [OF assms(2) that] .
  ultimately show ?thesis
    unfolding validate_member_def by (auto split: option.split json.split intro!: not_stuck assms(1))
qed

lemma ends_object [not_stuck]:
  assumes "regex_ends env" "ends_below rec schema"
  shows "ends (validate_object env rec m schema)"
proof -
  have "ends (validate_members env rec schema m)" by (induction m) (auto intro!: not_stuck assms)
  then show ?thesis
    unfolding validate_object_def using assms
    by (auto intro!: not_stuck dest!: members_items intro: ends_sub_item [OF assms(2)])
qed

lemma ends_by_type [not_stuck]:
  "regex_ends env \<Longrightarrow> ends_below rec schema \<Longrightarrow> ends (validate_by_type env rec inst schema)"
  unfolding validate_by_type_def validate_boolean_def validate_null_def
  by (auto split: json.split intro!: not_stuck)

lemma ends_combined [not_stuck]: "ends_below rec schema \<Longrightarrow> ends (validate_combined rec inst schema)"
  unfolding validate_combined_def combined_schemas_def
  by (auto split: option.split intro!: not_stuck intro: ends_sub_item [of rec schema])

lemma ends_not [not_stuck]: "ends (rec inst s) \<Longrightarrow> ends (validate_not rec inst s)"
  unfolding validate_not_def by (auto intro!: not_stuck)

lemma follow_ref_free: "ref_free s \<Longrightarrow> n > 0 \<Longrightarrow> follow_refs refs n s = Inr s"
  by (cases n) (simp_all add: ref_free_no_ref)

text \<open>Validation by a schema without references ends on a stack as deep as the schema is large.\<close>

lemma jv_validate_ends:
  "regex_ends env \<Longrightarrow> ref_free schema \<Longrightarrow> Suc (size schema) < n \<Longrightarrow> ends (jv_validate env refs n inst schema)"
proof (induction n arbitrary: inst schema)
  case (Suc n)
  have "ends_below (jv_validate env refs n) schema"
    using Suc by (auto simp: ends_below_def)
  moreover have "follow_refs refs n schema = Inr schema" using Suc.prems by (intro follow_ref_free) auto
  ultimately show ?case using Suc.prems
    by (auto simp: validate_schema_def split: option.split
        intro!: not_stuck ends_sub [of "jv_validate env refs n" schema])
qed simp

subsection \<open>A deeper stack\<close>

text \<open>An outcome that is the same, unless it was that the stack is exhausted.\<close>

definition agrees :: "'a result \<Rightarrow> 'a result \<Rightarrow> bool" where
  "agrees r r' \<longleftrightarrow> r = Inl Undefined_Behaviour \<or> r' = r"

definition agrees_all :: "sub_validator \<Rightarrow> sub_validator \<Rightarrow> bool" where
  "agrees_all rec rec' \<longleftrightarrow> (\<forall>x s. agrees (rec x s) (rec' x s))"

lemma agrees_refl [deeper]: "agrees r r"
  by (simp add: agrees_def)

lemma agrees_rec: "agrees_all rec rec' \<Longrightarrow> agrees (rec x s) (rec' x s)"
  by (simp add: agrees_all_def)

lemma agrees_rbind [deeper]: "agrees m m' \<Longrightarrow> (\<And>x. agrees (f x) (f' x)) \<Longrightarrow> agrees (rbind m f) (rbind m' f')"
  by (cases m) (auto simp: agrees_def)

lemma agrees_keyword [deeper]: "(\<And>v. agrees (f v) (f' v)) \<Longrightarrow> agrees (with_keyword s k f) (with_keyword s k f')"
  by (auto simp: with_keyword_def deeper split: option.split)

lemma agrees_attempt [deeper]: "agrees r r' \<Longrightarrow> agrees (attempt r) (attempt r')"
  by (auto simp: agrees_def attempt_def)

lemma agrees_combine [deeper]:
  "agrees_all rec rec' \<Longrightarrow> agrees (combine_loop rec inst logic n ss) (combine_loop rec' inst logic n ss)"
  by (induction ss arbitrary: n) (auto simp: Let_def intro!: deeper agrees_rec [where rec' = rec'])

lemma agrees_elements [deeper]:
  "agrees_all rec rec' \<Longrightarrow> agrees (validate_elements rec items additional i xs) (validate_elements rec' items additional i xs)"
  by (induction xs arbitrary: i) (auto simp: Let_def split: json.split intro!: deeper agrees_rec [where rec' = rec'])

lemma agrees_patterns [deeper]:
  "agrees_all rec rec' \<Longrightarrow> agrees (validate_patterns env rec k x ps b) (validate_patterns env rec' k x ps b)"
  by (induction env rec k x ps b rule: validate_patterns.induct) (auto intro!: deeper agrees_rec [where rec' = rec'])

lemma agrees_dependencies [deeper]:
  "agrees_all rec rec' \<Longrightarrow> agrees (validate_dependencies rec inst ds) (validate_dependencies rec' inst ds)"
  by (induction rec inst ds rule: validate_dependencies.induct) (auto split: json.split intro!: deeper agrees_rec [where rec' = rec'])

lemma agrees_member [deeper]:
  "agrees_all rec rec' \<Longrightarrow> agrees (validate_member env rec schema k x) (validate_member env rec' schema k x)"
  unfolding validate_member_def by (auto split: option.split json.split intro!: deeper agrees_rec [where rec' = rec'])

lemma agrees_members [deeper]:
  "agrees_all rec rec' \<Longrightarrow> agrees (validate_members env rec schema m) (validate_members env rec' schema m)"
  by (induction env rec schema m rule: validate_members.induct) (auto intro!: deeper agrees_rec [where rec' = rec'])

lemma agrees_by_type [deeper]:
  "agrees_all rec rec' \<Longrightarrow> agrees (validate_by_type env rec inst schema) (validate_by_type env rec' inst schema)"
  unfolding validate_by_type_def validate_object_def validate_array_def
  by (auto split: json.split intro!: deeper agrees_rec [where rec' = rec'])

lemma agrees_follow [deeper]: "agrees (follow_refs refs n s) (follow_refs refs (Suc n) s)"
proof (induction n arbitrary: s)
  case (Suc n)
  show ?case
    unfolding follow_refs.simps(2) [of refs "Suc n" s] follow_refs.simps(2) [of refs n s]
    by (auto simp del: follow_refs.simps split: option.split intro!: deeper Suc)
qed (simp add: agrees_def)

lemma agrees_schema [deeper]:
  "agrees_all rec rec' \<Longrightarrow> agrees (validate_schema env rec inst schema) (validate_schema env rec' inst schema)"
  unfolding validate_schema_def validate_not_def validate_combined_def
  by (auto split: option.split intro!: deeper agrees_rec [where rec' = rec'])

lemma jv_validate_step: "agrees_all (jv_validate env refs n) (jv_validate env refs (Suc n))"
proof (induction n)
  case (Suc n)
  then have "agrees (jv_validate env refs (Suc n) x s) (jv_validate env refs (Suc (Suc n)) x s)" for x s
    unfolding jv_validate.simps(2) [of env refs _ x s] by (intro deeper)
  then show ?case unfolding agrees_all_def by blast
qed (simp add: agrees_all_def agrees_def)

lemma jv_validate_deeper:
  assumes "n \<le> n'" "ends (jv_validate env refs n inst schema)"
  shows "jv_validate env refs n' inst schema = jv_validate env refs n inst schema"
  using assms(1)
proof (induction rule: dec_induct)
  case (step k)
  then show ?case using jv_validate_step [of env refs k] assms(2) by (metis ends_def agrees_all_def agrees_def)
qed simp

subsection \<open>Shapes\<close>

text \<open>
  A type of JSON values: anything, texts, truth values, lists, and objects, whose named members
  have types of their own and some of whose members have to be there.
\<close>

datatype shape = Any | Text | Truth | Seq shape | Fields "(string \<times> shape) list" "string list"

fun fits :: "shape \<Rightarrow> json \<Rightarrow> bool"
and fits_fields :: "(string \<times> shape) list \<Rightarrow> (string \<times> json) list \<Rightarrow> bool" where
  "fits Any j \<longleftrightarrow> True"
| "fits Text j \<longleftrightarrow> (case j of JStr _ \<Rightarrow> True | _ \<Rightarrow> False)"
| "fits Truth j \<longleftrightarrow> (case j of JBool _ \<Rightarrow> True | _ \<Rightarrow> False)"
| "fits (Seq sh) j \<longleftrightarrow> (case j of JArr xs \<Rightarrow> list_all (fits sh) xs | _ \<Rightarrow> False)"
| "fits (Fields fs required) j \<longleftrightarrow> (case j of
      JObj m \<Rightarrow> fits_fields fs m \<and> list_all (\<lambda>k. map_of m k \<noteq> None) required
    | _ \<Rightarrow> False)"
| "fits_fields [] m \<longleftrightarrow> True"
| "fits_fields ((k, sh) # fs) m \<longleftrightarrow> list_all (\<lambda>(k', x). k' = k \<longrightarrow> fits sh x) m \<and> fits_fields fs m"

text \<open>
  The keywords of the program's schemas: four that shapes are read from, and three the validator
  does not know.
\<close>

definition shape_keywords :: "string list" where
  "shape_keywords = [''type'', ''properties'', ''required'', ''items'', ''title'', ''user'', ''endorser'']"

definition plain_schema :: "(string \<times> json) list \<Rightarrow> bool" where
  "plain_schema m \<longleftrightarrow> list_all (\<lambda>(k, _). k \<in> set shape_keywords) m"

text \<open>Whether a schema describes a shape that is nested no deeper than \<open>n\<close>.\<close>

fun describes :: "nat \<Rightarrow> json \<Rightarrow> shape \<Rightarrow> bool"
and describes_fields :: "nat \<Rightarrow> (string \<times> json) list \<Rightarrow> (string \<times> shape) list \<Rightarrow> bool" where
  "describes n JNull Any = True"
| "describes n (JArr xs) Any = True"
| "describes n (JObj m) Text \<longleftrightarrow> plain_schema m \<and> map_of m ''type'' = Some (JStr ''string'')"
| "describes n (JObj m) Truth \<longleftrightarrow> plain_schema m \<and> map_of m ''type'' = Some (JStr ''boolean'')"
| "describes (Suc n) (JObj m) (Seq sh) \<longleftrightarrow> plain_schema m \<and> map_of m ''type'' = Some (JStr ''array'')
     \<and> (case map_of m ''items'' of Some (JObj s) \<Rightarrow> describes n (JObj s) sh | _ \<Rightarrow> False)"
| "describes (Suc n) (JObj m) (Fields fs rs) \<longleftrightarrow> plain_schema m \<and> map_of m ''type'' = Some (JStr ''object'')
     \<and> (case map_of m ''properties'' of
          None \<Rightarrow> fs = []
        | Some (JObj ps) \<Rightarrow> distinct (map fst ps) \<and> describes_fields n ps fs
        | _ \<Rightarrow> False)
     \<and> (case map_of m ''required'' of None \<Rightarrow> rs = [] | Some v \<Rightarrow> v = JArr (map JStr rs))"
| "describes n s sh = False"
| "describes_fields n [] [] = True"
| "describes_fields n ((k, s) # ps) ((k', sh) # fs) \<longleftrightarrow> k = k' \<and> describes n s sh \<and> describes_fields n ps fs"
| "describes_fields n ps fs = False"

lemma plain_keywords:
  assumes "plain_schema m"
  shows "map_of m ''$ref'' = None" "map_of m ''not'' = None" "map_of m ''allOf'' = None" "map_of m ''anyOf'' = None"
    "map_of m ''oneOf'' = None" "map_of m ''enum'' = None" "map_of m ''maxItems'' = None" "map_of m ''minItems'' = None"
    "map_of m ''uniqueItems'' = None" "map_of m ''additionalItems'' = None" "map_of m ''maxProperties'' = None"
    "map_of m ''minProperties'' = None" "map_of m ''additionalProperties'' = None"
    "map_of m ''patternProperties'' = None" "map_of m ''dependencies'' = None" "map_of m ''minLength'' = None"
    "map_of m ''maxLength'' = None" "map_of m ''pattern'' = None" "map_of m ''format'' = None"
  using assms by (auto simp: plain_schema_def shape_keywords_def list_all_iff map_of_eq_None_iff)

lemma json_find_simps [simp]:
  "json_find (JObj m) k = map_of m k" "json_find JNull k = None" "json_find (JArr xs) k = None"
  by (simp_all add: json_find_def)

lemma with_keyword_simps [simp]:
  "json_find s k = None \<Longrightarrow> with_keyword s k f = Inr ()"
  "json_find s k = Some v \<Longrightarrow> with_keyword s k f = f v"
  by (simp_all add: with_keyword_def)

lemma throw_if_simps [simp]:
  "throw_if e True = Inl e" "throw_if e False = Inr ()"
  "rbind (throw_if e b) f = (if b then Inl e else f ())"
  "(if b then Inl e else throw_if e c) = throw_if e (b \<or> c)"
  by (simp_all add: throw_if_def)

lemma validate_plain:
  assumes "plain_schema m"
  shows "jv_validate env refs (Suc (Suc n)) inst (JObj m)
    = validate_by_type env (jv_validate env refs (Suc n)) inst (JObj m)"
  by (simp add: validate_schema_def validate_combined_def combined_schemas_def validate_enum_def
      plain_keywords [OF assms])

lemma validate_any:
  assumes "\<And>k. json_find s k = None"
  shows "validate_by_type env rec inst s = Inr ()"
proof -
  have "validate_members env rec s m = Inr ()" for m
    by (induction m) (auto simp: validate_member_def keyword_or_null_def json_members_def json_empty_def
        json_items_def assms)
  moreover have "validate_elements rec JNull JNull i xs = Inr ()" for i xs by (induction xs arbitrary: i) simp_all
  ultimately show ?thesis
    by (auto simp: validate_by_type_def validate_object_def validate_array_def validate_string_def validate_type_def
        validate_integer_def validate_unsigned_def is_unsigned_def validate_numeric_def json_to_int_def check_size_def
        keyword_or_null_def validate_boolean_def validate_null_def assms split: json.split)
qed

lemma validate_scalar_type:
  assumes "map_of m ''type'' = Some (JStr t)" "plain_schema m" "t \<in> {''string'', ''boolean''}"
  shows "validate_by_type env rec inst (JObj m)
    = throw_if Invalid_Argument (\<not> (case inst of JStr _ \<Rightarrow> t = ''string'' | JBool _ \<Rightarrow> t = ''boolean'' | _ \<Rightarrow> False))"
  using assms(1,3) plain_keywords [OF assms(2)]
  by (auto simp: validate_by_type_def validate_object_def validate_array_def validate_string_def validate_type_def
      validate_integer_def validate_unsigned_def validate_boolean_def validate_null_def split: json.split)

lemma validate_array_type:
  assumes "map_of m ''type'' = Some (JStr ''array'')" "plain_schema m" "map_of m ''items'' = Some (JObj s)"
    and "\<And>x. rec x (JObj s) = throw_if Invalid_Argument (\<not> P x)"
  shows "validate_by_type env rec inst (JObj m)
    = throw_if Invalid_Argument (\<not> (case inst of JArr xs \<Rightarrow> list_all P xs | _ \<Rightarrow> False))"
proof -
  have "validate_elements rec (JObj s) JNull i xs = throw_if Invalid_Argument (\<not> list_all P xs)" for i xs
    by (induction xs arbitrary: i) (simp_all add: assms(4))
  then show ?thesis
    using assms(1,3) plain_keywords [OF assms(2)]
    by (auto simp: validate_by_type_def validate_object_def validate_array_def validate_string_def validate_type_def
        validate_integer_def validate_unsigned_def validate_boolean_def validate_null_def check_size_def
        keyword_or_null_def split: json.split)
qed

lemma validate_required_texts:
  "validate_required (JObj m) (map JStr rs) = throw_if Invalid_Argument (\<not> list_all (\<lambda>k. map_of m k \<noteq> None) rs)"
  by (induction rs) (auto simp: json_to_str_def)

lemma fits_fields_iff:
  "distinct (map fst fs)
     \<Longrightarrow> fits_fields fs m \<longleftrightarrow> list_all (\<lambda>(k, x). case map_of fs k of None \<Rightarrow> True | Some sh \<Rightarrow> fits sh x) m"
proof (induction fs)
  case Nil
  show ?case by (simp add: list_all_iff)
next
  case (Cons f fs)
  obtain k sh where f: "f = (k, sh)" by (cases f)
  have "map_of fs k = None" using Cons.prems f by (simp add: map_of_eq_None_iff)
  then have "list_all (\<lambda>(k', x). case map_of (f # fs) k' of None \<Rightarrow> True | Some sh \<Rightarrow> fits sh x) m
    \<longleftrightarrow> list_all (\<lambda>(k', x). k' = k \<longrightarrow> fits sh x) m
      \<and> list_all (\<lambda>(k', x). case map_of fs k' of None \<Rightarrow> True | Some sh \<Rightarrow> fits sh x) m"
    unfolding f by (induction m) (auto split: if_splits)
  then show ?case using Cons f by simp
qed

lemma describes_fields_keys: "describes_fields n ps fs \<Longrightarrow> map fst fs = map fst ps"
  by (induction n ps fs rule: describes_describes_fields.induct(2) [where P = "\<lambda>_ _ _. True"]) auto

lemma describes_fields_at:
  "describes_fields n ps fs \<Longrightarrow> rel_option (\<lambda>s sh. describes n s sh) (map_of ps k) (map_of fs k)"
  by (induction n ps fs rule: describes_describes_fields.induct(2) [where P = "\<lambda>_ _ _. True"]) auto

lemma validate_object_type:
  assumes ty: "map_of m ''type'' = Some (JStr ''object'')" and plain: "plain_schema m"
    and props: "\<And>k. rel_option (\<lambda>s sh. \<forall>x. rec x s = throw_if Invalid_Argument (\<not> fits sh x))
      (json_find (keyword_or_null (JObj m) ''properties'') k) (map_of fs k)"
    and req: "\<And>im. with_keyword (JObj m) ''required'' (\<lambda>r. validate_required (JObj im) (json_items r))
      = throw_if Invalid_Argument (\<not> list_all (\<lambda>k. map_of im k \<noteq> None) rs)"
    and dist: "distinct (map fst fs)"
  shows "validate_by_type env rec inst (JObj m) = throw_if Invalid_Argument (\<not> fits (Fields fs rs) inst)"
proof -
  have member: "validate_member env rec (JObj m) k x
      = throw_if Invalid_Argument (\<not> (case map_of fs k of None \<Rightarrow> True | Some sh \<Rightarrow> fits sh x))" for k x
    using props [of k] plain_keywords [OF plain]
    by (cases "map_of fs k") (auto simp: validate_member_def option_rel_Some2 keyword_or_null_def [of _ "''patternProperties''"]
        json_members_def json_empty_def json_items_def)
  have "validate_members env rec (JObj m) im = throw_if Invalid_Argument (\<not> fits_fields fs im)" for im
    unfolding fits_fields_iff [OF dist] by (induction im) (auto simp: member)
  then show ?thesis
    using ty plain_keywords [OF plain] req
    by (auto simp: validate_by_type_def validate_object_def validate_array_def validate_string_def validate_type_def
        validate_integer_def validate_unsigned_def validate_boolean_def validate_null_def check_size_def
        split: json.split)
qed

lemma deep:
  assumes "Suc n < k"
  obtains j where "k = Suc (Suc j)"
  using assms by (cases k; cases "k - 1") auto

lemma validate_leaf:
  assumes "describes n s sh" "sh \<in> {Any, Text, Truth}" "Suc n < k"
  shows "jv_validate env refs k inst s = throw_if Invalid_Argument (\<not> fits sh inst)"
proof -
  obtain j where j: "k = Suc (Suc j)" using assms(3) by (elim deep)
  show ?thesis
  proof (cases "sh = Any")
    case True
    then have none: "json_find s kw = None" for kw using assms(1) by (cases s) auto
    show ?thesis
      using validate_any [of s] none True unfolding j
      by (simp add: validate_schema_def validate_combined_def combined_schemas_def validate_enum_def)
  next
    case False
    then obtain m where m: "s = JObj m" using assms(1,2) by (cases s) auto
    then have "plain_schema m" using False assms(1,2) by auto
    then show ?thesis
      unfolding m j validate_plain [OF \<open>plain_schema m\<close>]
      using False assms(1,2) m by (auto simp: validate_scalar_type split: json.split)
  qed
qed

text \<open>The validator decides membership in the shape a schema describes; it refuses with one exception.\<close>

lemma describes_validate:
  "describes n s sh \<Longrightarrow> Suc n < k \<Longrightarrow> jv_validate env refs k inst s = throw_if Invalid_Argument (\<not> fits sh inst)"
proof (induction n arbitrary: s sh k inst)
  case 0
  then have "sh \<in> {Any, Text, Truth}" by (cases s; cases sh) auto
  with 0 show ?case by (blast intro: validate_leaf)
next
  case (Suc n)
  obtain j where j: "k = Suc (Suc j)" using Suc.prems(2) by (elim deep)
  let ?rec = "jv_validate env refs (Suc j)"
  have IH: "?rec x s' = throw_if Invalid_Argument (\<not> fits sh' x)" if "describes n s' sh'" for x s' sh'
    using Suc.IH [OF that, of "Suc j"] Suc.prems(2) j by simp
  show ?case
  proof (cases "sh \<in> {Any, Text, Truth}")
    case True
    then show ?thesis using Suc.prems by (blast intro: validate_leaf)
  next
    case False
    then obtain m where m: "s = JObj m" using Suc.prems(1) by (cases s; cases sh) auto
    then have plain: "plain_schema m" using Suc.prems(1) False by (cases sh) auto
    show ?thesis
    proof (cases sh)
      case (Seq sh')
      then obtain s' where "map_of m ''items'' = Some (JObj s')" "describes n (JObj s') sh'"
        "map_of m ''type'' = Some (JStr ''array'')"
        using Suc.prems(1) m by (auto split: option.splits json.splits)
      then show ?thesis
        unfolding m j validate_plain [OF plain] Seq fits.simps using plain by (intro validate_array_type IH)
    next
      case (Fields fs rs)
      have fields: "map_of m ''type'' = Some (JStr ''object'')"
        "(case map_of m ''properties'' of None \<Rightarrow> fs = []
          | Some (JObj ps) \<Rightarrow> distinct (map fst ps) \<and> describes_fields n ps fs | _ \<Rightarrow> False)"
        "(case map_of m ''required'' of None \<Rightarrow> rs = [] | Some v \<Rightarrow> v = JArr (map JStr rs))"
        using Suc.prems(1) m Fields by simp_all
      have props: "rel_option (\<lambda>s sh. \<forall>x. ?rec x s = throw_if Invalid_Argument (\<not> fits sh x))
          (json_find (keyword_or_null (JObj m) ''properties'') c) (map_of fs c)" for c
        using fields(2) IH
        by (auto simp: keyword_or_null_def split: option.splits json.splits
            dest!: describes_fields_at [of n _ fs c] elim!: option.rel_mono_strong)
      have "with_keyword (JObj m) ''required'' (\<lambda>r. validate_required (JObj im) (json_items r))
          = throw_if Invalid_Argument (\<not> list_all (\<lambda>c. map_of im c \<noteq> None) rs)" for im
        using fields(3) by (cases "map_of m ''required''") (simp_all add: json_items_def validate_required_texts)
      moreover have "distinct (map fst fs)"
        using fields(2) by (auto split: option.splits json.splits dest: describes_fields_keys)
      ultimately show ?thesis
        unfolding m j validate_plain [OF plain] Fields by (intro validate_object_type fields(1) plain props)
    qed (use False in auto)
  qed
qed

subsection \<open>Inserting a schema\<close>

text \<open>
  A schema without references, and without identifiers of its own, is inserted as it is: every
  sub-schema gets the identifier of its path, and escaping keeps the paths apart.
\<close>

fun simple_schema :: "json \<Rightarrow> bool" where
  "simple_schema (JObj m) \<longleftrightarrow> distinct (map fst m)
     \<and> (\<forall>(k, v)\<in>set m. k \<noteq> ''$ref'' \<and> (k = ''id'' \<longrightarrow> json_to_str v = Inl Json_Type_Error) \<and> simple_schema v)"
| "simple_schema (JArr xs) \<longleftrightarrow> (\<forall>x\<in>set xs. simple_schema x)"
| "simple_schema _ \<longleftrightarrow> True"

definition esc :: "char \<Rightarrow> string" where
  "esc c = (if c = CHR ''~'' then ''~0'' else if c = CHR ''/'' then ''~1'' else if c = CHR ''%'' then ''%25'' else [c])"

lemma uri_escape_simps [simp]: "uri_escape [] = []" "uri_escape (c # s) = esc c @ uri_escape s"
  by (simp_all add: uri_escape_def replace_char_def esc_def)

lemma esc_prefix: "esc c @ x = esc d @ y \<longleftrightarrow> c = d \<and> x = y"
  by (auto simp: esc_def split: if_splits)

lemma uri_escape_inj: "uri_escape s = uri_escape t \<longleftrightarrow> s = t"
proof (induction s arbitrary: t)
  case Nil
  show ?case by (cases t) (auto simp: esc_def)
next
  case (Cons c s)
  show ?case
  proof (cases t)
    case Nil
    then show ?thesis by (auto simp: esc_def)
  next
    case t: (Cons d t')
    show ?thesis unfolding t uri_escape_simps esc_prefix Cons.IH by simp
  qed
qed

lemma slash_uri_escape: "CHR ''/'' \<notin> set (uri_escape s)"
  by (induction s) (auto simp: esc_def)

text \<open>The identifiers a sub-schema and its parts can take.\<close>

definition below :: "json_uri \<Rightarrow> json_uri set" where
  "below i = {i\<lparr>ju_pointer := ju_pointer i @ r\<rparr> |r. r = [] \<or> hd r = CHR ''/''}"

lemma below_self: "i \<in> below i"
  by (auto simp: below_def intro!: exI [of _ "[]"])

lemma below_append: "below (uri_append i f) \<subseteq> below i - {i}"
proof
  fix u
  assume "u \<in> below (uri_append i f)"
  then obtain r where u: "u = i\<lparr>ju_pointer := ju_pointer i @ ''/'' @ f @ r\<rparr>"
    by (auto simp: below_def uri_append_def)
  moreover have "u \<noteq> i" unfolding u by (cases i) simp
  ultimately show "u \<in> below i - {i}" by (force simp: below_def)
qed

lemma takeWhile_stop: "c \<notin> set e \<Longrightarrow> r = [] \<or> hd r = c \<Longrightarrow> takeWhile (\<lambda>x. x \<noteq> c) (e @ r) = e"
  by (induction e; cases r) auto

lemma slash_split:
  "e1 @ r1 = e2 @ r2 \<Longrightarrow> c \<notin> set e1 \<Longrightarrow> c \<notin> set e2 \<Longrightarrow> r1 = [] \<or> hd r1 = c \<Longrightarrow> r2 = [] \<or> hd r2 = c
     \<Longrightarrow> e1 = e2"
  by (metis takeWhile_stop)

lemma below_disjoint:
  assumes "CHR ''/'' \<notin> set f" "CHR ''/'' \<notin> set g" "f \<noteq> g"
  shows "below (uri_append i f) \<inter> below (uri_append i g) = {}"
proof (rule ccontr)
  assume "below (uri_append i f) \<inter> below (uri_append i g) \<noteq> {}"
  then obtain r s where "i\<lparr>ju_pointer := ju_pointer i @ ''/'' @ f @ r\<rparr> = i\<lparr>ju_pointer := ju_pointer i @ ''/'' @ g @ s\<rparr>"
    and "r = [] \<or> hd r = CHR ''/''" "s = [] \<or> hd s = CHR ''/''"
    by (auto simp: below_def uri_append_def)
  then have "f @ r = g @ s" by (cases i) simp
  from slash_split [OF this assms(1,2)] show False
    using \<open>r = [] \<or> _\<close> \<open>s = [] \<or> _\<close> assms(3) by blast
qed

lemma own_id_simple: "simple_schema (JObj m) \<Longrightarrow> own_id (JObj m) i = Inr i"
  by (auto simp: own_id_def json_to_str_def dest!: map_of_SomeD split: option.split json.split)

text \<open>What the resolver leaves behind when a part took identifiers of the set \<open>B\<close> only.\<close>

definition resolves :: "(resolved, 'a) prog \<Rightarrow> 'a \<Rightarrow> json_uri set \<Rightarrow> bool" where
  "resolves m v B \<longleftrightarrow> (\<forall>st. set (rs_ids st) \<inter> B = {} \<longrightarrow>
     (\<exists>st'. m st = (st', Inr v) \<and> rs_refs st' = rs_refs st \<and> set (rs_ids st') \<subseteq> set (rs_ids st) \<union> B))"

lemma resolves_sret: "resolves (sret v) v B"
  by (simp add: resolves_def)

lemma resolves_sbind:
  assumes "resolves m v A" "resolves (k v) w B" "A \<inter> B = {}"
  shows "resolves (sbind m k) w (A \<union> B)"
  unfolding resolves_def
proof (intro allI impI)
  fix st :: resolved
  assume free: "set (rs_ids st) \<inter> (A \<union> B) = {}"
  then obtain st1 where 1: "m st = (st1, Inr v)" "rs_refs st1 = rs_refs st" "set (rs_ids st1) \<subseteq> set (rs_ids st) \<union> A"
    using assms(1) unfolding resolves_def by blast
  moreover have "set (rs_ids st1) \<inter> B = {}" using 1(3) free assms(3) by blast
  then obtain st2 where "k v st1 = (st2, Inr w)" "rs_refs st2 = rs_refs st1" "set (rs_ids st2) \<subseteq> set (rs_ids st1) \<union> B"
    using assms(2) unfolding resolves_def by blast
  ultimately show "\<exists>st'. sbind m k st = (st', Inr w) \<and> rs_refs st' = rs_refs st
      \<and> set (rs_ids st') \<subseteq> set (rs_ids st) \<union> (A \<union> B)"
    by (auto simp: sbind_def)
qed

lemma resolves_map: "resolves m v B \<Longrightarrow> resolves (sbind m (\<lambda>x. sret (f x))) (f v) B"
  using resolves_sbind [of m v B "\<lambda>x. sret (f x)" "f v" "{}"] by (simp add: resolves_sret)

lemma resolves_weaken: "resolves m v A \<Longrightarrow> A \<subseteq> B \<Longrightarrow> resolves m v B"
  unfolding resolves_def by blast

lemma slash_dec_nat: "CHR ''/'' \<notin> set (dec_nat n)"
  using dec_nat_digits [of n] by (auto simp: list_all_iff is_digit_def)

lemma dec_nat_inj: "dec_nat m = dec_nat n \<longleftrightarrow> m = n"
  by (metis digits_val_dec_nat)

abbreviation member_ids :: "string set \<Rightarrow> json_uri \<Rightarrow> json_uri set" where
  "member_ids K i \<equiv> (\<Union>k\<in>K. below (uri_append i (uri_escape k)))"

abbreviation element_ids :: "nat set \<Rightarrow> json_uri \<Rightarrow> json_uri set" where
  "element_ids N i \<equiv> (\<Union>n\<in>N. below (uri_append i (dec_nat n)))"

lemma member_ids_disjoint:
  assumes "k \<notin> K"
  shows "below (uri_append i (uri_escape k)) \<inter> member_ids K i = {}"
proof -
  have "below (uri_append i (uri_escape k)) \<inter> below (uri_append i (uri_escape k')) = {}" if "k' \<in> K" for k'
    using assms that by (intro below_disjoint slash_uri_escape) (auto simp: uri_escape_inj)
  then show ?thesis by blast
qed

lemma element_ids_disjoint:
  assumes "n \<notin> N"
  shows "below (uri_append i (dec_nat n)) \<inter> element_ids N i = {}"
proof -
  have "below (uri_append i (dec_nat n)) \<inter> below (uri_append i (dec_nat n')) = {}" if "n' \<in> N" for n'
    using assms that by (intro below_disjoint slash_dec_nat) (auto simp: dec_nat_inj)
  then show ?thesis by blast
qed

lemma resolves_claim: "resolves (claim_id i) () {i}"
  by (auto simp: resolves_def claim_id_def)

lemma resolve_simple:
  "simple_schema j \<Longrightarrow> \<exists>m. j = JObj m \<Longrightarrow> resolves (resolve j i) j (below i)"
  "simple_schema (JObj m) \<Longrightarrow> resolves (resolve_members m i) m (member_ids (fst ` set m) i)"
  "simple_schema (JArr xs) \<Longrightarrow> resolves (resolve_elements xs n i) xs (element_ids {n..} i)"
proof (induction j i and m i and xs n i rule: resolve_resolve_members_resolve_elements.induct)
  case (1 m i0)
  have tail: "resolves (sbind (assign (Inr (JObj m)) (\<lambda>s st. st\<lparr>rs_schemas := (i0, s) # rs_schemas st\<rparr>))
      (\<lambda>_. sret (JObj m))) (JObj m) {}"
    by (simp add: resolves_def)
  have members: "resolves (resolve_members m i0) m (below i0 - {i0})"
    using 1 own_id_simple [of m i0] by (auto intro: resolves_weaken dest: subsetD [OF below_append])
  have "resolves (sbind (claim_id i0) (\<lambda>_. sbind (resolve_members m i0) (\<lambda>m'.
      sbind (assign (Inr (JObj m')) (\<lambda>s st. st\<lparr>rs_schemas := (i0, s) # rs_schemas st\<rparr>)) (\<lambda>_. sret (JObj m')))))
      (JObj m) ({i0} \<union> ((below i0 - {i0}) \<union> {}))"
    by (rule resolves_sbind [OF resolves_claim], rule resolves_sbind [OF members], rule tail) auto
  moreover have "sbind (slift (Inr i0)) f = f i0" for f :: "json_uri \<Rightarrow> (resolved, json) prog" by (auto simp: sbind_def)
  ultimately have "resolves (resolve (JObj m) i0) (JObj m) ({i0} \<union> ((below i0 - {i0}) \<union> {}))"
    using own_id_simple [OF 1(2)] by simp
  then show ?case using below_self by (rule_tac resolves_weaken) auto
next
  case (6 k v m i)
  let ?here = "below (uri_append i (uri_escape k))" and ?rest = "member_ids (fst ` set m) i"
  have simple: "simple_schema v" "simple_schema (JObj m)" "k \<noteq> ''$ref''" using 6(5) by auto
  have "resolves (resolve_members m i) m ?rest" using 6(1,4) simple(2) by blast
  from resolves_map [OF this, of "Cons (k, v)"]
  have rest: "resolves (sbind (resolve_members m i) (\<lambda>m'. sret ((k, v) # m'))) ((k, v) # m) ?rest" .
  show ?case
  proof (cases "k = ''default''")
    case True
    then show ?thesis using resolves_weaken [OF rest] by auto
  next
    case False
    have "resolves (case v of
          JObj _ \<Rightarrow> resolve v (uri_append i (uri_escape k))
        | JArr xs \<Rightarrow> sbind (resolve_elements xs 0 (uri_append i (uri_escape k))) (\<lambda>xs'. sret (JArr xs'))
        | JStr s \<Rightarrow> if k = ''$ref''
            then sbind (slift (uri_from_string s i)) (\<lambda>ref.
                 sbind (assign (Inr ref) (\<lambda>r st. st\<lparr>rs_refs := rs_refs st @ [r]\<rparr>)) (\<lambda>_. sret (JStr (uri_to_string ref))))
            else sret v
        | _ \<Rightarrow> sret v) v ?here"
    proof (cases v)
      case (JArr xs)
      have "resolves (resolve_elements xs 0 (uri_append i (uri_escape k))) xs ?here"
        using 6(2) [OF False JArr] simple JArr below_append by (blast intro: resolves_weaken)
      from resolves_map [OF this, of JArr] show ?thesis using JArr by simp
    next
      case (JObj m')
      then show ?thesis using 6(3) [OF False] simple by simp
    qed (use simple in \<open>simp_all add: resolves_sret\<close>)
    from resolves_sbind [where k = "\<lambda>v'. sbind (resolve_members m i) (\<lambda>m'. sret ((k, v') # m'))", OF this rest]
      member_ids_disjoint [of k "fst ` set m" i] 6(5)
    show ?thesis using False by simp
  qed
next
  case (8 v vs n i)
  let ?here = "below (uri_append i (dec_nat n))" and ?rest = "element_ids {Suc n..} i"
  have simple: "simple_schema v" "simple_schema (JArr vs)" using 8(3) by auto
  have v: "resolves (case v of JObj _ \<Rightarrow> resolve v (uri_append i (dec_nat n)) | _ \<Rightarrow> sret v) v ?here"
    using 8(1) simple by (cases v) (simp_all add: resolves_sret)
  have "resolves (resolve_elements vs (Suc n) i) vs ?rest" using 8(2) simple by blast
  from resolves_sbind [where k = "\<lambda>v'. sbind (resolve_elements vs (Suc n) i) (\<lambda>vs'. sret (v' # vs'))",
      OF v resolves_map [OF this, of "Cons v"]]
    element_ids_disjoint [of n "{Suc n..}" i]
  have "resolves (resolve_elements (v # vs) n i) (v # vs) (?here \<union> ?rest)" by simp
  moreover have "?here \<union> ?rest \<subseteq> element_ids {n..} i" by force
  ultimately show ?case by (rule resolves_weaken)
qed (simp_all add: resolves_sret)

lemma resolver_simple:
  assumes "simple_schema (JObj m)" "map_of m ''id'' = None"
  shows "\<exists>found. resolver (JObj m) i = Inr (JObj m, found, [])"
proof -
  have "set (rs_ids \<lparr>rs_ids = [], rs_refs = [], rs_schemas = []\<rparr>) \<inter> below i = {}" by simp
  then obtain st where "resolve (JObj m) i \<lparr>rs_ids = [], rs_refs = [], rs_schemas = []\<rparr> = (st, Inr (JObj m))" "rs_refs st = []"
    using resolve_simple(1) [OF assms(1), of i] unfolding resolves_def by fastforce
  then show ?thesis using assms(2) by (simp add: resolver_def del: resolve.simps)
qed

lemma mk_json_uri_root:
  "mk_json_uri ''#'' = Inr \<lparr>ju_urn = [], ju_proto = [], ju_hostname = [], ju_path = [], ju_pointer = ''#''\<rparr>"
  by (simp add: mk_json_uri_def uri_from_string_def local_json_pointer_def uri_url_def)

lemma insert_root:
  assumes "\<And>i. \<exists>found. resolver s i = Inr (s, found, [])"
  shows "\<exists>refs. set_root_schema s json_validator_new = (\<lparr>jv_root_schema = Some s, jv_schema_refs = refs\<rparr>, Inr ())"
proof -
  let ?root = "\<lparr>ju_urn = [], ju_proto = [], ju_hostname = [], ju_path = [], ju_pointer = ''#''\<rparr>"
  obtain found where "resolver s ?root = Inr (s, found, [])" using assms by blast
  then show ?thesis
    by (auto simp: set_root_schema_def mk_json_uri_root insert_schema_def undefined_refs_def json_validator_new_def
        list_ex_iff)
qed

lemma resolver_null: "\<exists>found. resolver JNull i = Inr (JNull, found, [])"
  by (simp add: resolver_def sbind_def claim_id_def)

end
