(* ===== verification/Msg_Schema.thy ===== *)
theory Msg_Schema
  imports Json_Shapes
begin

text \<open>
  The types of messages (net_plugin/config/include/message.hpp) and the JSON schemas their bodies have
  to satisfy (net_plugin/include/msg_schema.hpp).  A schema is the JSON value its text stands for: the
  members of an object come in the order of their names.  \<open>message_shape\<close> states for each type of
  message what bodies its schema accepts.
\<close>

subsection \<open>Types of messages\<close>

type_synonym MessageType = "8 word"

abbreviation MSG_PING :: MessageType where "MSG_PING \<equiv> 0x31"
abbreviation MSG_REQ_BLOCK :: MessageType where "MSG_REQ_BLOCK \<equiv> 0x32"
abbreviation MSG_REQ_BONE :: MessageType where "MSG_REQ_BONE \<equiv> 0x36"
abbreviation MSG_JOIN :: MessageType where "MSG_JOIN \<equiv> 0x54"
abbreviation MSG_CHALLENGE :: MessageType where "MSG_CHALLENGE \<equiv> 0x55"
abbreviation MSG_RESPONSE_1 :: MessageType where "MSG_RESPONSE_1 \<equiv> 0x56"
abbreviation MSG_RESPONSE_2 :: MessageType where "MSG_RESPONSE_2 \<equiv> 0x57"
abbreviation MSG_SUCCESS :: MessageType where "MSG_SUCCESS \<equiv> 0x58"
abbreviation MSG_ACCEPT :: MessageType where "MSG_ACCEPT \<equiv> 0x59"
abbreviation MSG_LEAVE :: MessageType where "MSG_LEAVE \<equiv> 0x5B"
abbreviation MSG_TX :: MessageType where "MSG_TX \<equiv> 0xB1"
abbreviation MSG_REQ_SSIG :: MessageType where "MSG_REQ_SSIG \<equiv> 0xB2"
abbreviation MSG_SSIG :: MessageType where "MSG_SSIG \<equiv> 0xB3"
abbreviation MSG_BLOCK :: MessageType where "MSG_BLOCK \<equiv> 0xB4"
abbreviation MSG_BONE :: MessageType where "MSG_BONE \<equiv> 0xB8"
abbreviation MSG_REQ_TX_CHECK :: MessageType where "MSG_REQ_TX_CHECK \<equiv> 0xC0"
abbreviation MSG_RES_TX_CHECK :: MessageType where "MSG_RES_TX_CHECK \<equiv> 0xC1"
abbreviation MSG_QUERY :: MessageType where "MSG_QUERY \<equiv> 0xC3"
abbreviation MSG_RESULT :: MessageType where "MSG_RESULT \<equiv> 0xC4"
abbreviation MSG_SETUP_MERGER :: MessageType where "MSG_SETUP_MERGER \<equiv> 0xE1"

subsection \<open>Schemas\<close>

abbreviation string_schema :: json where
  "string_schema \<equiv> JObj [(''type'', JStr ''string'')]"

abbreviation boolean_schema :: json where
  "boolean_schema \<equiv> JObj [(''type'', JStr ''boolean'')]"

definition schema_ping :: json where
  "schema_ping =
    JObj [
      (''properties'', JObj [
        (''merger'', JObj [
          (''properties'', JObj [(''id'', string_schema), (''sig'', string_schema)]),
          (''required'', JArr [JStr ''id'', JStr ''sig'']), (''type'', JStr ''object'')]),
        (''status'', JObj [
          (''properties'', JObj [
            (''block'', JObj [
              (''properties'', JObj [
                (''hash'', string_schema), (''height'', string_schema), (''id'', string_schema),
                (''pid'', string_schema)]),
              (''required'', JArr [JStr ''id'', JStr ''pid'', JStr ''height'', JStr ''hash'']),
              (''type'', JStr ''object'')]),
            (''chain'', string_schema), (''time'', string_schema), (''world'', string_schema)]),
          (''required'', JArr [JStr ''time'', JStr ''world'', JStr ''chain'', JStr ''block'']),
          (''type'', JStr ''object'')])]),
      (''required'', JArr [JStr ''status'', JStr ''merger'']), (''title'', JStr ''Ping''),
      (''type'', JStr ''object'')]"

definition schema_req_block :: json where
  "schema_req_block =
    JObj [
      (''properties'', JObj [
        (''block'', JObj [
          (''properties'', JObj [(''height'', string_schema), (''id'', string_schema)]),
          (''required'', JArr [JStr ''id'', JStr ''height'']), (''type'', JStr ''object'')]),
        (''chain'', string_schema),
        (''merger'', JObj [
          (''properties'', JObj [(''id'', string_schema), (''sig'', string_schema)]),
          (''required'', JArr [JStr ''id'', JStr ''sig'']), (''type'', JStr ''object'')]),
        (''time'', string_schema), (''world'', string_schema)]),
      (''required'', JArr [JStr ''time'', JStr ''world'', JStr ''chain'', JStr ''block'', JStr ''merger'']),
      (''title'', JStr ''Request block''), (''type'', JStr ''object'')]"

definition schema_block :: json where
  "schema_block =
    JObj [
      (''properties'', JObj [
        (''block'', JObj [
          (''properties'', JObj [
            (''chain'', string_schema), (''hash'', string_schema), (''height'', string_schema),
            (''id'', string_schema), (''link'', string_schema), (''previd'', string_schema),
            (''time'', string_schema), (''world'', string_schema)]),
          (''required'', JArr [JStr ''id'', JStr ''time'', JStr ''world'', JStr ''chain'', JStr ''height'',
                           JStr ''previd'', JStr ''link'', JStr ''hash'']),
          (''type'', JStr ''object'')]),
        (''btime'', string_schema),
        (''certificate'', JObj [
          (''items'', JObj [
            (''properties'', JObj [
              (''cert'', JObj [(''items'', string_schema), (''type'', JStr ''array'')]),
              (''id'', string_schema)]),
            (''required'', JArr [JStr ''id'', JStr ''cert'']), (''type'', JStr ''object'')]),
          (''type'', JStr ''array'')]),
        (''producer'', JObj [
          (''properties'', JObj [(''id'', string_schema), (''sig'', string_schema)]),
          (''required'', JArr [JStr ''id'', JStr ''sig'']), (''type'', JStr ''object'')]),
        (''signer'', JObj [
          (''items'', JObj [
            (''properties'', JObj [(''id'', string_schema), (''sig'', string_schema)]),
            (''required'', JArr [JStr ''id'', JStr ''sig'']), (''type'', JStr ''object'')]),
          (''type'', JStr ''array'')]),
        (''state'', JObj [
          (''properties'', JObj [
            (''csroot'', string_schema), (''sgroot'', string_schema), (''txroot'', string_schema),
            (''usroot'', string_schema)]),
          (''required'', JArr [JStr ''txroot'', JStr ''usroot'', JStr ''csroot'', JStr ''sgroot'']),
          (''type'', JStr ''object'')]),
        (''tx'', JObj [(''items'', string_schema), (''type'', JStr ''array'')])]),
      (''required'', JArr [JStr ''btime'', JStr ''block'', JStr ''tx'', JStr ''state'', JStr ''signer'',
                       JStr ''certificate'', JStr ''producer'']),
      (''title'', JStr ''Block''), (''type'', JStr ''object'')]"

definition schema_req_bone :: json where
  "schema_req_bone =
    JObj [
      (''properties'', JObj [
        (''block'', JObj [
          (''properties'', JObj [(''height'', string_schema), (''id'', string_schema)]),
          (''required'', JArr [JStr ''id'', JStr ''height'']), (''type'', JStr ''object'')]),
        (''chain'', string_schema),
        (''merger'', JObj [
          (''properties'', JObj [(''id'', string_schema), (''sig'', string_schema)]),
          (''required'', JArr [JStr ''id'', JStr ''sig'']), (''type'', JStr ''object'')]),
        (''time'', string_schema), (''world'', string_schema)]),
      (''required'', JArr [JStr ''time'', JStr ''world'', JStr ''chain'', JStr ''block'', JStr ''merger'']),
      (''title'', JStr ''Request back bone''), (''type'', JStr ''object'')]"

definition schema_bone :: json where
  "schema_bone =
    JObj [
      (''properties'', JObj [
        (''block'', JObj [
          (''properties'', JObj [
            (''chain'', string_schema), (''hash'', string_schema), (''height'', string_schema),
            (''id'', string_schema), (''link'', string_schema), (''previd'', string_schema),
            (''time'', string_schema), (''world'', string_schema)]),
          (''required'', JArr [JStr ''id'', JStr ''time'', JStr ''world'', JStr ''chain'', JStr ''height'',
                           JStr ''previd'', JStr ''link'', JStr ''hash'']),
          (''type'', JStr ''object'')]),
        (''count'', JObj [
          (''properties'', JObj [(''signer'', string_schema), (''tx'', string_schema)]),
          (''required'', JArr [JStr ''tx'', JStr ''signer'']), (''type'', JStr ''object'')]),
        (''producer'', JObj [
          (''properties'', JObj [
            (''cert'', JObj [(''items'', string_schema), (''type'', JStr ''array'')]), (''id'', string_schema),
            (''sig'', string_schema)]),
          (''required'', JArr [JStr ''id'', JStr ''cert'', JStr ''sig'']), (''type'', JStr ''object'')]),
        (''state'', JObj [
          (''properties'', JObj [
            (''csroot'', string_schema), (''sgroot'', string_schema), (''txroot'', string_schema),
            (''usroot'', string_schema)]),
          (''required'', JArr [JStr ''txroot'', JStr ''usroot'', JStr ''csroot'', JStr ''sgroot'']),
          (''type'', JStr ''object'')]),
        (''time'', string_schema)]),
      (''required'', JArr [JStr ''time'', JStr ''block'', JStr ''state'', JStr ''count'', JStr ''producer'']),
      (''title'', JStr ''Request back bone''), (''type'', JStr ''object'')]"

definition schema_join :: json where
  "schema_join =
    JObj [
      (''properties'', JObj [
        (''chain'', string_schema), (''merger'', string_schema), (''time'', string_schema),
        (''user'', string_schema), (''world'', string_schema)]),
      (''required'', JArr [JStr ''time'', JStr ''world'', JStr ''chain'', JStr ''user'', JStr ''merger'']),
      (''title'', JStr ''Join''), (''type'', JStr ''object'')]"

definition schema_response_1 :: json where
  "schema_response_1 =
    JObj [
      (''properties'', JObj [
        (''dh'', JObj [
          (''properties'', JObj [(''x'', string_schema), (''y'', string_schema)]),
          (''required'', JArr [JStr ''x'', JStr ''y'']), (''type'', JStr ''object'')]),
        (''time'', string_schema), (''un'', string_schema),
        (''user'', JObj [
          (''properties'', JObj [(''id'', string_schema), (''pk'', string_schema), (''sig'', string_schema)]),
          (''required'', JArr [JStr ''id'', JStr ''pk'', JStr ''sig'']), (''type'', JStr ''object'')])]),
      (''required'', JArr [JStr ''time'', JStr ''un'', JStr ''dh'', JStr ''user'']),
      (''title'', JStr ''Response 1 to Challenge''), (''type'', JStr ''object'')]"

definition schema_success :: json where
  "schema_success =
    JObj [
      (''properties'', JObj [
        (''mode'', string_schema), (''time'', string_schema), (''user'', string_schema),
        (''val'', boolean_schema)]),
      (''required'', JArr [JStr ''time'', JStr ''user'', JStr ''mode'', JStr ''val'']),
      (''title'', JStr ''Success in Key Exchange''), (''type'', JStr ''object'')]"

definition schema_ssig :: json where
  "schema_ssig =
    JObj [
      (''properties'', JObj [
        (''block'', JObj [
          (''properties'', JObj [(''id'', string_schema)]), (''required'', JArr [JStr ''id'']),
          (''type'', JStr ''object'')]),
        (''signer'', JObj [
          (''properties'', JObj [(''id'', string_schema), (''sig'', string_schema)]),
          (''required'', JArr [JStr ''id'', JStr ''sig'']), (''type'', JStr ''object'')])]),
      (''required'', JArr [JStr ''block'', JStr ''signer'']), (''title'', JStr ''Signer's Signature''),
      (''type'', JStr ''object'')]"

text \<open>
  In the text of this schema a brace closes the properties after \<open>body\<close>: \<open>user\<close> and \<open>endorser\<close> end up
  beside the keywords, where the validator does not look, and the list of what a body has to contain
  becomes the schema of a property called \<open>required\<close>.
\<close>

definition schema_tx :: json where
  "schema_tx =
    JObj [
      (''endorser'', JObj [
        (''items'', JObj [
          (''properties'', JObj [(''id'', string_schema), (''pk'', string_schema), (''sig'', string_schema)]),
          (''required'', JArr [JStr ''id'', JStr ''pk'', JStr ''sig'']), (''type'', JStr ''object'')]),
        (''type'', JStr ''array'')]),
      (''properties'', JObj [
        (''body'', JObj [
          (''properties'', JObj [
            (''cid'', string_schema), (''fee'', string_schema),
            (''input'', JObj [
              (''items'', JObj [(''items'', JObj [(''type'', JStr ''object'')]), (''type'', JStr ''array'')]),
              (''type'', JStr ''array'')]),
            (''receiver'', string_schema)]),
          (''type'', JStr ''object'')]),
        (''chain'', string_schema),
        (''required'', JArr [JStr ''cid'', JStr ''receiver'', JStr ''fee'', JStr ''input'']),
        (''seed'', string_schema), (''time'', string_schema), (''txid'', string_schema),
        (''world'', string_schema)]),
      (''required'', JArr [JStr ''txid'', JStr ''world'', JStr ''chain'', JStr ''time'', JStr ''body'',
                       JStr ''user'', JStr ''endorser'']),
      (''title'', JStr ''Transaction''), (''type'', JStr ''object''),
      (''user'', JObj [
        (''properties'', JObj [(''id'', string_schema), (''pk'', string_schema), (''sig'', string_schema)]),
        (''required'', JArr [JStr ''id'', JStr ''pk'', JStr ''sig'']), (''type'', JStr ''object'')])]"

definition schema_setup_merger :: json where
  "schema_setup_merger =
    JObj [
      (''properties'', JObj [(''cert'', string_schema), (''enc_sk'', string_schema)]),
      (''required'', JArr [JStr ''enc_sk'', JStr ''cert'']), (''title'', JStr ''Setup merger''),
      (''type'', JStr ''object'')]"

definition schema_req_tx_check :: json where
  "schema_req_tx_check =
    JObj [
      (''properties'', JObj [
        (''chain'', string_schema), (''time'', string_schema), (''txid'', string_schema),
        (''user'', string_schema), (''world'', string_schema)]),
      (''required'', JArr [JStr ''time'', JStr ''user'', JStr ''world'', JStr ''chain'', JStr ''txid'']),
      (''title'', JStr ''Request transaction information''), (''type'', JStr ''object'')]"

definition schema_res_tx_check :: json where
  "schema_res_tx_check =
    JObj [
      (''properties'', JObj [
        (''block'', string_schema), (''confirm'', boolean_schema),
        (''merger'', JObj [
          (''properties'', JObj [(''id'', string_schema), (''sig'', string_schema)]),
          (''required'', JArr [JStr ''id'', JStr ''sig'']), (''type'', JStr ''object'')]),
        (''output'', string_schema), (''proof'', string_schema), (''time'', string_schema)]),
      (''required'', JArr [JStr ''time'', JStr ''block'', JStr ''confirm'', JStr ''proof'', JStr ''output'',
                       JStr ''merger'']),
      (''title'', JStr ''Result of REQ_TX_CHECK''), (''type'', JStr ''object'')]"

definition schema_query :: json where
  "schema_query =
    JObj [
      (''properties'', JObj [(''type'', string_schema), (''where'', JObj [(''type'', JStr ''object'')])]),
      (''required'', JArr [JStr ''type'', JStr ''where'']), (''title'', JStr ''Request Queries''),
      (''type'', JStr ''object'')]"

definition schema_result :: json where
  "schema_result =
    JObj [
      (''properties'', JObj [
        (''data'', JObj [
          (''items'', JObj [(''items'', string_schema), (''type'', JStr ''array'')]),
          (''type'', JStr ''array'')]),
        (''name'', JObj [(''items'', string_schema), (''type'', JStr ''array'')])]),
      (''required'', JArr [JStr ''name'', JStr ''data'']), (''title'', JStr ''Result Queries''),
      (''type'', JStr ''object'')]"

definition schema_map :: "(MessageType \<times> json) list" where
  "schema_map = [(MSG_PING, schema_ping),
    (MSG_REQ_BLOCK, schema_req_block),
    (MSG_BLOCK, schema_block),
    (MSG_REQ_BONE, schema_req_bone),
    (MSG_BONE, schema_bone),
    (MSG_JOIN, schema_join),
    (MSG_RESPONSE_1, schema_response_1),
    (MSG_SUCCESS, schema_success),
    (MSG_SSIG, schema_ssig),
    (MSG_TX, schema_tx),
    (MSG_SETUP_MERGER, schema_setup_merger),
    (MSG_REQ_TX_CHECK, schema_req_tx_check),
    (MSG_RES_TX_CHECK, schema_res_tx_check),
    (MSG_QUERY, schema_query),
    (MSG_RESULT, schema_result)]"

subsection \<open>The check of a message\<close>

text \<open>
  \<open>JsonValidator::validateSchema\<close>.  A type that is not listed has the schema null; \<open>stack_depth\<close> is more
  than twice what the schemas need.  A body that could not be parsed is a discarded value (\<open>None\<close>),
  at which \<open>validate\<close> asserts false: the process ends, unless assertions are off; then the value passes.
\<close>

definition stack_depth :: nat where
  "stack_depth = 16"

definition schema_of :: "MessageType \<Rightarrow> json" where
  "schema_of msg_type = (case map_of schema_map msg_type of Some s \<Rightarrow> s | None \<Rightarrow> JNull)"

definition validateSchema :: "json_env \<Rightarrow> json option \<Rightarrow> MessageType \<Rightarrow> bool result" where
  "validateSchema env body msg_type = (case set_root_schema (schema_of msg_type) json_validator_new of
       (_, Inl e) \<Rightarrow> attempt (Inl e)
     | (jv, Inr _) \<Rightarrow> (case body of
           None \<Rightarrow> if je_assertions env then Inl Undefined_Behaviour else Inr True
         | Some j \<Rightarrow> attempt (validate_root env stack_depth jv j)))"

subsection \<open>What the schemas accept\<close>

abbreviation Texts :: "string list \<Rightarrow> (string \<times> shape) list" where
  "Texts ks \<equiv> map (\<lambda>k. (k, Text)) ks"

abbreviation Signed :: shape where
  "Signed \<equiv> Fields (Texts [''id'', ''sig'']) [''id'', ''sig'']"

definition request_shape :: shape where
  "request_shape = Fields
     [(''block'', Fields (Texts [''height'', ''id'']) [''id'', ''height'']), (''chain'', Text), (''merger'', Signed),
      (''time'', Text), (''world'', Text)]
     [''time'', ''world'', ''chain'', ''block'', ''merger'']"

definition block_head_shape :: shape where
  "block_head_shape = Fields
     (Texts [''chain'', ''hash'', ''height'', ''id'', ''link'', ''previd'', ''time'', ''world''])
     [''id'', ''time'', ''world'', ''chain'', ''height'', ''previd'', ''link'', ''hash'']"

definition roots_shape :: shape where
  "roots_shape = Fields (Texts [''csroot'', ''sgroot'', ''txroot'', ''usroot''])
     [''txroot'', ''usroot'', ''csroot'', ''sgroot'']"

definition block_shape :: shape where
  "block_shape = Fields
     [(''block'', block_head_shape), (''btime'', Text),
      (''certificate'', Seq (Fields [(''cert'', Seq Text), (''id'', Text)] [''id'', ''cert''])), (''producer'', Signed),
      (''signer'', Seq Signed), (''state'', roots_shape), (''tx'', Seq Text)]
     [''btime'', ''block'', ''tx'', ''state'', ''signer'', ''certificate'', ''producer'']"

definition response1_shape :: shape where
  "response1_shape = Fields
     [(''dh'', Fields (Texts [''x'', ''y'']) [''x'', ''y'']), (''time'', Text), (''un'', Text),
      (''user'', Fields (Texts [''id'', ''pk'', ''sig'']) [''id'', ''pk'', ''sig''])]
     [''time'', ''un'', ''dh'', ''user'']"

definition tx_shape :: shape where
  "tx_shape = Fields
     [(''body'', Fields [(''cid'', Text), (''fee'', Text), (''input'', Seq (Seq (Fields [] []))), (''receiver'', Text)] []),
      (''chain'', Text), (''required'', Any), (''seed'', Text), (''time'', Text), (''txid'', Text), (''world'', Text)]
     [''txid'', ''world'', ''chain'', ''time'', ''body'', ''user'', ''endorser'']"

definition message_shapes :: "(MessageType \<times> shape) list" where
  "message_shapes =
    [(MSG_PING, Fields
       [(''merger'', Signed),
        (''status'', Fields
          [(''block'', Fields (Texts [''hash'', ''height'', ''id'', ''pid'']) [''id'', ''pid'', ''height'', ''hash'']),
           (''chain'', Text), (''time'', Text), (''world'', Text)]
          [''time'', ''world'', ''chain'', ''block''])]
       [''status'', ''merger'']),
     (MSG_REQ_BLOCK, request_shape), (MSG_BLOCK, block_shape), (MSG_REQ_BONE, request_shape),
     (MSG_BONE, Fields
       [(''block'', block_head_shape), (''count'', Fields (Texts [''signer'', ''tx'']) [''tx'', ''signer'']),
        (''producer'', Fields [(''cert'', Seq Text), (''id'', Text), (''sig'', Text)] [''id'', ''cert'', ''sig'']),
        (''state'', roots_shape), (''time'', Text)]
       [''time'', ''block'', ''state'', ''count'', ''producer'']),
     (MSG_JOIN, Fields (Texts [''chain'', ''merger'', ''time'', ''user'', ''world''])
       [''time'', ''world'', ''chain'', ''user'', ''merger'']),
     (MSG_RESPONSE_1, response1_shape),
     (MSG_SUCCESS, Fields [(''mode'', Text), (''time'', Text), (''user'', Text), (''val'', Truth)]
       [''time'', ''user'', ''mode'', ''val'']),
     (MSG_SSIG, Fields [(''block'', Fields (Texts [''id'']) [''id'']), (''signer'', Signed)] [''block'', ''signer'']),
     (MSG_TX, tx_shape),
     (MSG_SETUP_MERGER, Fields (Texts [''cert'', ''enc_sk'']) [''enc_sk'', ''cert'']),
     (MSG_REQ_TX_CHECK, Fields (Texts [''chain'', ''time'', ''txid'', ''user'', ''world''])
       [''time'', ''user'', ''world'', ''chain'', ''txid'']),
     (MSG_RES_TX_CHECK, Fields
       [(''block'', Text), (''confirm'', Truth), (''merger'', Signed), (''output'', Text), (''proof'', Text), (''time'', Text)]
       [''time'', ''block'', ''confirm'', ''proof'', ''output'', ''merger'']),
     (MSG_QUERY, Fields [(''type'', Text), (''where'', Fields [] [])] [''type'', ''where'']),
     (MSG_RESULT, Fields [(''data'', Seq (Seq Text)), (''name'', Seq Text)] [''name'', ''data''])]"

definition message_shape :: "MessageType \<Rightarrow> shape" where
  "message_shape t = (case map_of message_shapes t of Some sh \<Rightarrow> sh | None \<Rightarrow> Any)"

definition schema_depth :: nat where
  "schema_depth = 6"

text \<open>Each schema describes the shape of its type, and is inserted as it is.\<close>

definition schema_matches :: "json \<Rightarrow> shape \<Rightarrow> bool" where
  "schema_matches s sh \<longleftrightarrow> describes schema_depth s sh \<and> simple_schema s
     \<and> (case s of JObj m \<Rightarrow> map_of m ''id'' = None | _ \<Rightarrow> False)"

lemma schemas_match_1: "list_all2 (\<lambda>(t, s) (t', sh). t = t' \<and> schema_matches s sh) (take 5 schema_map) (take 5 message_shapes)"
  by code_simp

lemma schemas_match_2: "list_all2 (\<lambda>(t, s) (t', sh). t = t' \<and> schema_matches s sh)
    (take 5 (drop 5 schema_map)) (take 5 (drop 5 message_shapes))"
  by code_simp

lemma schemas_match_3: "list_all2 (\<lambda>(t, s) (t', sh). t = t' \<and> schema_matches s sh)
    (drop 10 schema_map) (drop 10 message_shapes)"
  by code_simp

lemma schemas_match:
  "list_all2 (\<lambda>(t, s) (t', sh). t = t' \<and> schema_matches s sh) schema_map message_shapes"
proof -
  have split: "take 5 xs @ take 5 (drop 5 xs) @ drop 10 xs = xs" for xs :: "'a list"
    using append_take_drop_id [of 5 "drop 5 xs"] by (simp add: drop_drop)
  show ?thesis
    using list_all2_appendI [OF schemas_match_1 list_all2_appendI [OF schemas_match_2 schemas_match_3]]
    unfolding split .
qed

lemma schema_of_matches:
  "schema_of t = JNull \<and> message_shape t = Any \<or> schema_matches (schema_of t) (message_shape t)"
proof -
  have "rel_option schema_matches (map_of ss t) (map_of shs t)"
    if "list_all2 (\<lambda>(t, s) (t', sh). t = t' \<and> schema_matches s sh) ss shs" for ss shs
    using that by (induction rule: list_all2_induct) auto
  from this [OF schemas_match] show ?thesis
    by (auto simp: schema_of_def message_shape_def rel_option_iff split: option.splits)
qed

lemma message_shape_described: "describes schema_depth (schema_of t) (message_shape t)"
  using schema_of_matches [of t] by (auto simp: schema_matches_def)

lemma schema_inserted:
  "\<exists>refs. set_root_schema (schema_of t) json_validator_new
     = (\<lparr>jv_root_schema = Some (schema_of t), jv_schema_refs = refs\<rparr>, Inr ())"
proof (rule insert_root)
  fix i
  show "\<exists>found. resolver (schema_of t) i = Inr (schema_of t, found, [])"
    using schema_of_matches [of t] resolver_null resolver_simple
    by (auto simp: schema_matches_def split: json.splits)
qed

text \<open>The check of a body is membership in the shape of its type.\<close>

lemma validateSchema_fits: "validateSchema env (Some j) t = Inr (fits (message_shape t) j)"
proof -
  obtain refs where "set_root_schema (schema_of t) json_validator_new
     = (\<lparr>jv_root_schema = Some (schema_of t), jv_schema_refs = refs\<rparr>, Inr ())"
    using schema_inserted by blast
  moreover have "jv_validate env refs stack_depth j (schema_of t) = throw_if Invalid_Argument (\<not> fits (message_shape t) j)"
    by (rule describes_validate [OF message_shape_described]) (simp add: stack_depth_def schema_depth_def)
  ultimately show ?thesis
    by (simp add: validateSchema_def validate_root_def attempt_def throw_if_def)
qed

lemma validateSchema_discarded:
  "validateSchema env None t = (if je_assertions env then Inl Undefined_Behaviour else Inr True)"
  using schema_inserted [of t] by (auto simp: validateSchema_def)

end
