(* ===== verification/Wire_Format.thy ===== *)
theory Wire_Format
  imports Storage_Types Msg_Schema
begin

text \<open>
  The messages of the network plugin: the header of 58 bytes (message.hpp), packing
  (message_packer.hpp), parsing (message_parser.hpp) and the replies of the key exchange
  (message_builder.hpp).  A byte string is a list of characters.  What the utility library does is the
  argument \<open>net_utils\<close>.
\<close>

subsection \<open>Constants and records\<close>

abbreviation MAC_HMAC :: "8 word" where "MAC_HMAC \<equiv> 0xF1"
abbreviation MAC_NONE :: "8 word" where "MAC_NONE \<equiv> 0xFF"
abbreviation SER_LZ4 :: "8 word" where "SER_LZ4 \<equiv> 0x04"
abbreviation SER_CBOR :: "8 word" where "SER_CBOR \<equiv> 0x06"
abbreviation SER_NONE :: "8 word" where "SER_NONE \<equiv> 0xFF"

definition HEADER_LENGTH :: nat where
  "HEADER_LENGTH = 1 + 1 + 1 + 1 + 1 + 1 + 4 + 8 + 8 + 32"

definition IDENTIFIER :: "8 word" where "IDENTIFIER = 0x50"
definition VERSION :: "8 word" where "VERSION = 0x01"
definition NOT_USED :: "8 word" where "NOT_USED = 0x00"

record InNetMsg =
  in_type :: MessageType
  in_body :: json
  in_sender_id :: string

record OutNetMsg =
  out_type :: MessageType
  out_body :: json
  out_receivers :: "string list"

record MessageHeader =
  h_identifier :: "8 word"
  h_version :: "8 word"
  h_message_type :: MessageType
  h_mac_algo_type :: "8 word"
  h_serialization_algo_type :: "8 word"
  h_dummy :: "8 word"
  h_total_length :: string
  h_world_id :: string
  h_local_chain_id :: string
  h_sender_id :: string

text \<open>\<open>None\<close> stands for the value nlohmann::json reports as discarded.\<close>

record net_utils =
  n_utils :: utils
  n_int_bytes :: "int \<Rightarrow> string"
  n_decompress :: "string \<Rightarrow> string"
  n_parse_json :: "string \<Rightarrow> json option"
  n_json :: json_env
  n_hmac :: "string \<Rightarrow> string \<Rightarrow> string"
  n_bytes_hex :: "string \<Rightarrow> string"
  n_bytes_dec_text :: "string \<Rightarrow> string"
  n_ecdsa_verify :: "string \<Rightarrow> string \<Rightarrow> string \<Rightarrow> bool"
  n_ecdsa_sign :: "string \<Rightarrow> string \<Rightarrow> string \<Rightarrow> string"
  n_verify_cert :: "string \<Rightarrow> string \<Rightarrow> bool"

text \<open>The identifiers the application object holds.\<close>

record node_ids =
  ni_world :: string
  ni_chain :: string
  ni_self :: string

definition byte_char :: "8 word \<Rightarrow> char" where
  "byte_char w = char_of (unat w)"

definition char_byte :: "char \<Rightarrow> 8 word" where
  "char_byte c = word_of_nat (of_char c)"

lemma char_byte_char [simp]: "char_byte (byte_char w) = w"
proof -
  have "unat w < 2 ^ LENGTH(8)" by (rule unsigned_less)
  then show ?thesis by (simp add: byte_char_def char_byte_def)
qed

subsection \<open>Packing\<close>

definition makeHeader :: "net_utils \<Rightarrow> node_ids \<Rightarrow> int \<Rightarrow> MessageType \<Rightarrow> 8 word \<Rightarrow> string" where
  "makeHeader n ids serialized_json_size msg_type serialization =
     map byte_char [IDENTIFIER, VERSION, msg_type,
       if msg_type = MSG_ACCEPT \<or> msg_type = MSG_REQ_SSIG then MAC_HMAC else MAC_NONE,
       serialization, NOT_USED]
     @ n_int_bytes n (int HEADER_LENGTH + serialized_json_size)
     @ ni_world ids @ ni_chain ids @ ni_self ids"

definition pack :: "net_utils \<Rightarrow> node_ids \<Rightarrow> OutNetMsg \<Rightarrow> string" where
  "pack n ids msg = (let serialized_body = u_to_cbor (n_utils n) (out_body msg) in
     makeHeader n ids (i32 (int (length serialized_body))) (out_type msg) SER_CBOR @ serialized_body)"

definition packMessage_hmac :: "net_utils \<Rightarrow> node_ids \<Rightarrow> OutNetMsg \<Rightarrow> string \<Rightarrow> string" where
  "packMessage_hmac n ids msg hmac_key = (let packed_msg = pack n ids msg in packed_msg @ n_hmac n packed_msg hmac_key)"

subsection \<open>Parsing\<close>

definition parseHeader :: "string \<Rightarrow> MessageHeader" where
  "parseHeader raw =
     \<lparr>h_identifier = char_byte (raw ! 0), h_version = char_byte (raw ! 1), h_message_type = char_byte (raw ! 2),
      h_mac_algo_type = char_byte (raw ! 3), h_serialization_algo_type = char_byte (raw ! 4),
      h_dummy = char_byte (raw ! 5), h_total_length = take 4 (drop 6 raw), h_world_id = take 8 (drop 10 raw),
      h_local_chain_id = take 8 (drop 18 raw), h_sender_id = take 32 (drop 26 raw)\<rparr>"

definition validateMsgHdrFormat :: "MessageHeader \<Rightarrow> bool" where
  "validateMsgHdrFormat h = (h_identifier h = IDENTIFIER
     \<and> (h_mac_algo_type h = MAC_HMAC \<longrightarrow>
         h_message_type h \<in> {MSG_SUCCESS, MSG_SSIG, MSG_REQ_TX_CHECK, MSG_QUERY, MSG_TX}))"

text \<open>The bytes are shifted into an \<open>int\<close>, so a first byte above 127 gives a negative number.\<close>

definition convertU8ToU32BE :: "string \<Rightarrow> int" where
  "convertU8ToU32BE b = i32 (of_char (b ! 0) * 2 ^ 24 + of_char (b ! 1) * 2 ^ 16 + of_char (b ! 2) * 2 ^ 8
     + of_char (b ! 3))"

definition getJson :: "net_utils \<Rightarrow> 8 word \<Rightarrow> string \<Rightarrow> json option" where
  "getJson n algo raw_body =
     (if raw_body = [] then Some JNull
      else if algo = SER_LZ4 then n_parse_json n (n_decompress n raw_body)
      else if algo = SER_NONE then n_parse_json n raw_body
      else if algo = SER_CBOR then u_from_cbor (n_utils n) raw_body
      else Some JNull)"

definition err_header :: string where "err_header = ''Bad request (Invalid message header format)''"
definition err_schema :: string where "err_schema = ''Bad request (Json schema error)''"

text \<open>
  The result, and the text left in \<open>return_err_info\<close>. The header is cut out of the message, and the
  body by the length the header names, without a look at the length of the message.
\<close>

definition parseMessage :: "net_utils \<Rightarrow> string \<Rightarrow> (InNetMsg option \<times> string) result" where
  "parseMessage n packed_msg =
     (if length packed_msg < HEADER_LENGTH then Inl Undefined_Behaviour
      else let h = parseHeader (take HEADER_LENGTH packed_msg) in
        if \<not> validateMsgHdrFormat h then Inr (None, err_header)
        else rbind (chk_int (convertU8ToU32BE (h_total_length h) - int HEADER_LENGTH)) (\<lambda>body_size.
          if body_size < 0 then Inl Length_Error
          else if int (length packed_msg) < int HEADER_LENGTH + body_size then Inl Undefined_Behaviour
          else let raw_body = take (nat body_size) (drop HEADER_LENGTH packed_msg);
                   json_body = getJson n (h_serialization_algo_type h) raw_body
               in rbind (validateSchema (n_json n) json_body (h_message_type h)) (\<lambda>accepted.
                  if \<not> accepted then Inr (None, err_schema)
                  else Inr (Some \<lparr>in_type = h_message_type h,
                         in_body = (case json_body of Some j \<Rightarrow> j | None \<Rightarrow> JNull),
                         in_sender_id = u_to58 (n_utils n) (h_sender_id h)\<rparr>, []))))"

subsection \<open>Replies of the key exchange\<close>

definition build_challenge :: "net_utils \<Rightarrow> node_ids \<Rightarrow> string \<Rightarrow> string \<Rightarrow> string \<Rightarrow> OutNetMsg" where
  "build_challenge n ids now recv merger_nonce =
     \<lparr>out_type = MSG_CHALLENGE,
      out_body = json_obj [(''time'', JStr now), (''user'', JStr recv),
        (''merger'', JStr (u_to58 (n_utils n) (ni_self ids))), (''mn'', JStr merger_nonce)],
      out_receivers = [recv]\<rparr>"

definition build_response2 ::
    "net_utils \<Rightarrow> node_ids \<Rightarrow> string \<Rightarrow> string \<Rightarrow> string \<Rightarrow> string \<Rightarrow> string \<Rightarrow> string \<Rightarrow> OutNetMsg" where
  "build_response2 n ids timestamp recv dhx dhy cert sig =
     \<lparr>out_type = MSG_RESPONSE_2,
      out_body = json_obj [(''time'', JStr timestamp),
        (''dh'', json_obj [(''x'', JStr dhx), (''y'', JStr dhy)]),
        (''merger'', json_obj [(''id'', JStr (u_to58 (n_utils n) (ni_self ids))), (''cert'', JStr cert),
           (''sig'', JStr sig)])],
      out_receivers = [recv]\<rparr>"

definition build_accept :: "net_utils \<Rightarrow> node_ids \<Rightarrow> string \<Rightarrow> string \<Rightarrow> OutNetMsg" where
  "build_accept n ids now recv =
     \<lparr>out_type = MSG_ACCEPT,
      out_body = json_obj [(''time'', JStr now), (''merger'', JStr (u_to58 (n_utils n) (ni_self ids))),
        (''val'', JBool True)],
      out_receivers = [recv]\<rparr>"

subsection \<open>Packing and parsing again\<close>

text \<open>The four bytes of a number, the most significant first.\<close>

definition be32 :: "int \<Rightarrow> string" where
  "be32 k = map (\<lambda>s. char_of (k div s mod 256)) [2 ^ 24, 2 ^ 16, 2 ^ 8, 1]"

lemma bytes_sum:
  fixes k :: int
  assumes "0 \<le> k" "k < 2 ^ 31"
  shows "k div 16777216 mod 256 * 16777216 + k div 65536 mod 256 * 65536 + k div 256 mod 256 * 256 + k mod 256 = k"
proof -
  define a b c where "a = k div 256" and "b = a div 256" and "c = b div 256"
  have eq: "k div 65536 = b" "k div 16777216 = c" "k div 256 = a"
    using zdiv_zmult2_eq[of 256 k 256] zdiv_zmult2_eq[of 256 k 65536] zdiv_zmult2_eq[of 256 a 256]
    by (simp_all add: a_def b_def c_def)
  have "c \<le> (2 ^ 31 - 1) div 16777216" "0 \<le> c"
    using zdiv_mono1[of k "2 ^ 31 - 1" 16777216] assms unfolding eq(2)[symmetric] by simp_all
  then have "c mod 256 = c" by simp
  moreover have "k mod 256 = k - a * 256" "a mod 256 = a - b * 256" "b mod 256 = b - c * 256"
    by (simp_all add: a_def b_def c_def minus_div_mult_eq_mod)
  ultimately show ?thesis unfolding eq by (simp only:) (simp add: algebra_simps)
qed

lemma be32_nth:
  "be32 k ! 0 = char_of (k div 16777216 mod 256)" "be32 k ! 1 = char_of (k div 65536 mod 256)"
  "be32 k ! 2 = char_of (k div 256 mod 256)" "be32 k ! 3 = char_of (k mod 256)"
  by (simp_all add: be32_def)

lemma of_char_byte: "(of_char (char_of (x mod 256 :: int)) :: int) = x mod 256"
  by simp

lemma power_numeral_simps: "(2 :: int) ^ 24 = 16777216" "(2 :: int) ^ 16 = 65536" "(2 :: int) ^ 8 = 256"
  by simp_all

lemma convert_be32: "0 \<le> k \<Longrightarrow> k < 2 ^ 31 \<Longrightarrow> convertU8ToU32BE (be32 k) = k"
proof -
  assume k: "0 \<le> k" "k < 2 ^ 31"
  have "convertU8ToU32BE (be32 k) = i32 (k div 16777216 mod 256 * 16777216 + k div 65536 mod 256 * 65536
      + k div 256 mod 256 * 256 + k mod 256)"
    unfolding convertU8ToU32BE_def be32_nth of_char_byte by (simp only: power_numeral_simps mult_1_right div_by_1)
  also have "\<dots> = i32 k" by (simp only: bytes_sum[OF k])
  also have "i32 k = k" using k by (intro i32_small) auto
  finally show ?thesis .
qed

lemma length_be32 [simp]: "length (be32 k) = 4"
  by (simp add: be32_def)

text \<open>The header of a packed message, read back.\<close>

lemma parseHeader_pack:
  assumes "length tlen = 4" "length w = 8" "length c = 8" "length i = 32"
  shows "parseHeader (map byte_char [a0, a1, a2, a3, a4, a5] @ tlen @ w @ c @ i) =
    \<lparr>h_identifier = a0, h_version = a1, h_message_type = a2, h_mac_algo_type = a3,
     h_serialization_algo_type = a4, h_dummy = a5, h_total_length = tlen, h_world_id = w,
     h_local_chain_id = c, h_sender_id = i\<rparr>"
  using assms by (simp add: parseHeader_def numeral_eq_Suc)

lemma parse_packed:
  assumes ids: "length (ni_world ids) = 8" "length (ni_chain ids) = 8" "length (ni_self ids) = 32"
    and bytes: "\<forall>k. 0 \<le> k \<and> k < 2 ^ 31 \<longrightarrow> n_int_bytes n k = be32 k"
    and body: "u_to_cbor (n_utils n) (out_body msg) = raw" "raw \<noteq> []" "length raw < 2 ^ 31 - 58"
    and cbor: "u_from_cbor (n_utils n) raw = Some (out_body msg)"
    and schema: "fits (message_shape (out_type msg)) (out_body msg)"
  shows "parseMessage n (pack n ids msg @ suffix) =
    (if out_type msg \<in> {MSG_ACCEPT, MSG_REQ_SSIG} then Inr (None, err_header)
     else Inr (Some \<lparr>in_type = out_type msg, in_body = out_body msg,
                  in_sender_id = u_to58 (n_utils n) (ni_self ids)\<rparr>, []))"
proof -
  define mac where "mac = (if out_type msg = MSG_ACCEPT \<or> out_type msg = MSG_REQ_SSIG then MAC_HMAC else MAC_NONE)"
  let ?t = "be32 (58 + int (length raw))"
  let ?hd = "map byte_char [IDENTIFIER, VERSION, out_type msg, mac, SER_CBOR, NOT_USED] @ ?t
      @ ni_world ids @ ni_chain ids @ ni_self ids"
  have "i32 (int (length raw)) = int (length raw)" using body(3) by (intro i32_small) auto
  moreover have "n_int_bytes n (58 + int (length raw)) = ?t" using bytes body(3) by simp
  ultimately have packed: "pack n ids msg = ?hd @ raw"
    by (simp add: pack_def makeHeader_def Let_def body(1) HEADER_LENGTH_def flip: mac_def)
  have hd: "length ?hd = 58" using ids by simp
  have tot: "convertU8ToU32BE ?t = 58 + int (length raw)" using body(3) by (intro convert_be32) auto
  have hdr: "parseHeader ?hd = \<lparr>h_identifier = IDENTIFIER, h_version = VERSION, h_message_type = out_type msg,
      h_mac_algo_type = mac, h_serialization_algo_type = SER_CBOR, h_dummy = NOT_USED, h_total_length = ?t,
      h_world_id = ni_world ids, h_local_chain_id = ni_chain ids, h_sender_id = ni_self ids\<rparr>"
    using ids by (intro parseHeader_pack) simp_all
  have cut: "take HEADER_LENGTH (pack n ids msg @ suffix) = ?hd" "drop HEADER_LENGTH (pack n ids msg @ suffix) = raw @ suffix"
    "length (pack n ids msg @ suffix) = 58 + length raw + length suffix"
    unfolding packed using hd by (simp_all add: HEADER_LENGTH_def)
  have len: "chk_int (58 + int (length raw) - int HEADER_LENGTH) = Inr (int (length raw))"
    using body(3) by (simp add: chk_int_def HEADER_LENGTH_def)
  have fmt: "validateMsgHdrFormat (parseHeader ?hd) = (out_type msg \<notin> {MSG_ACCEPT, MSG_REQ_SSIG})"
    unfolding hdr by (auto simp: validateMsgHdrFormat_def mac_def)
  show ?thesis
    unfolding parseMessage_def cut Let_def fmt unfolding hdr MessageHeader.simps tot len
    using body(2) cbor schema by (simp add: HEADER_LENGTH_def getJson_def validateSchema_fits)
qed

text \<open>C13: a message that was packed, with or without bytes behind it (an HMAC, say), is parsed back
  with its type, its body and the sender's identifier, provided the identifiers have the lengths of
  the header, the total length fits an int, and the body passes the schema. The two types whose
  messages are packed with the HMAC mark are refused by the parser instead.\<close>

theorem wire_roundtrip:
  assumes ids: "length (ni_world ids) = 8" "length (ni_chain ids) = 8" "length (ni_self ids) = 32"
    and bytes: "\<forall>k. 0 \<le> k \<and> k < 2 ^ 31 \<longrightarrow> n_int_bytes n k = be32 k"
    and body: "u_to_cbor (n_utils n) (out_body msg) = raw" "raw \<noteq> []" "length raw < 2 ^ 31 - 58"
    and cbor: "u_from_cbor (n_utils n) raw = Some (out_body msg)"
    and schema: "fits (message_shape (out_type msg)) (out_body msg)"
  shows "parseMessage n (pack n ids msg @ suffix) =
    (if out_type msg \<in> {MSG_ACCEPT, MSG_REQ_SSIG} then Inr (None, err_header)
     else Inr (Some \<lparr>in_type = out_type msg, in_body = out_body msg,
                  in_sender_id = u_to58 (n_utils n) (ni_self ids)\<rparr>, []))"
  by (rule parse_packed [OF assms])

definition demo_body :: json where
  "demo_body = json_obj (map (\<lambda>k. (k, JStr ''alice'')) [''time'', ''world'', ''chain'', ''user'', ''merger''])"

definition demo_json_env :: json_env where
  "demo_json_env = \<lparr>je_regex_search = (\<lambda>_ _. Inr False), je_violates_multiple_of = (\<lambda>_ _. False), je_assertions = True\<rparr>"

definition demo_net :: net_utils where
  "demo_net = \<lparr>n_utils = demo_utils\<lparr>u_to_cbor := (\<lambda>_. ''B''), u_from_cbor := (\<lambda>_. Some demo_body)\<rparr>,
     n_int_bytes = be32, n_decompress = (\<lambda>s. s), n_parse_json = (\<lambda>_. None), n_json = demo_json_env,
     n_hmac = (\<lambda>m k. ''mac''), n_bytes_hex = (\<lambda>s. s), n_bytes_dec_text = (\<lambda>s. s),
     n_ecdsa_verify = (\<lambda>pk m s. s = ''ok''), n_ecdsa_sign = (\<lambda>k m p. ''ok''), n_verify_cert = (\<lambda>c a. c = ''cert'')\<rparr>"

definition demo_ids :: node_ids where
  "demo_ids = \<lparr>ni_world = replicate 8 (CHR ''W''), ni_chain = replicate 8 (CHR ''C''), ni_self = replicate 32 (CHR ''I'')\<rparr>"

theorem wire_roundtrip_witness:
  "parseMessage demo_net (pack demo_net demo_ids \<lparr>out_type = MSG_JOIN, out_body = demo_body, out_receivers = []\<rparr> @ ''mac'')
    = Inr (Some \<lparr>in_type = MSG_JOIN, in_body = demo_body, in_sender_id = replicate 32 (CHR ''I'')\<rparr>, [])"
  using wire_roundtrip[of demo_ids demo_net "\<lparr>out_type = MSG_JOIN, out_body = demo_body, out_receivers = []\<rparr>" "''B''" "''mac''"]
  by (simp add: demo_ids_def demo_net_def demo_utils_def message_shape_def message_shapes_def)
     (simp add: demo_body_def json_obj_def)

end
