(* ===== verification/User_Pool.thy ===== *)
theory User_Pool
  imports Wire_Format
begin

unbundle bit_operations_syntax

text \<open>
  The users of a merger and the key exchange that admits them (user_pool_manager.hpp), the
  connections of the users (user_conn_table.hpp) and the table from user to network identifiers
  (id_mapping_table.cpp).  An unordered map is an ordered one here: its iteration order, which C++
  leaves open, is that of the keys.  The clock, the random nonce and the keys made for a session
  are the environment of a message.
\<close>

subsection \<open>Users\<close>

datatype UserMode = USER_ONLY | SIGNER_ONLY | ALL_MODES

record User =
  us_user_id :: string
  us_pk :: string
  us_mode :: UserMode
  us_hmac_key :: string

record JoinTempData =
  jt_merger_nonce :: string
  jt_user_pk :: string
  jt_shared_sk :: string
  jt_start_time :: "64 word"

definition JoinTempData_default :: JoinTempData where
  "JoinTempData_default = \<lparr>jt_merger_nonce = [], jt_user_pk = [], jt_shared_sk = [], jt_start_time = 0\<rparr>"

definition User_default :: User where
  "User_default = \<lparr>us_user_id = [], us_pk = [], us_mode = USER_ONLY, us_hmac_key = []\<rparr>"

record UserPool =
  up_num_of_signers :: int
  up_users :: "(string, User) omap"

abbreviation JOIN_TIMEOUT_SEC :: "64 word" where "JOIN_TIMEOUT_SEC \<equiv> 10"
abbreviation MAX_SIGNER :: int where "MAX_SIGNER \<equiv> 200"

definition pushUser :: "utils \<Rightarrow> string \<Rightarrow> string \<Rightarrow> string \<Rightarrow> UserMode \<Rightarrow> UserPool \<Rightarrow> UserPool" where
  "pushUser u b58_user_id hmac_key pk mode p =
     (let new_user = \<lparr>us_user_id = u_from58 u b58_user_id, us_pk = pk, us_mode = mode, us_hmac_key = hmac_key\<rparr>;
          p1 = (if mode \<noteq> USER_ONLY then p\<lparr>up_num_of_signers := up_num_of_signers p + 1\<rparr> else p)
      in p1\<lparr>up_users := om_put b58_user_id new_user (up_users p1)\<rparr>)"

definition eraseUser :: "string \<Rightarrow> UserPool \<Rightarrow> UserPool \<times> bool" where
  "eraseUser b58_user_id p = (case map_of (up_users p) b58_user_id of
       None \<Rightarrow> (p, False)
     | Some usr \<Rightarrow>
         (let p1 = (if us_mode usr \<noteq> USER_ONLY then p\<lparr>up_num_of_signers := up_num_of_signers p - 1\<rparr> else p)
          in (p1\<lparr>up_users := om_erase b58_user_id (up_users p1)\<rparr>, True)))"

definition getHmacKey :: "string \<Rightarrow> UserPool \<Rightarrow> string option" where
  "getHmacKey b58_user_id p = map_option us_hmac_key (map_of (up_users p) b58_user_id)"

text \<open>\<open>bitset<256>\<close> of the bits of the identifier's bytes, at most the first 256 of them.\<close>

definition idToBitSet :: "string \<Rightarrow> 256 word" where
  "idToBitSet i = fold (\<lambda>c acc. push_bit 8 acc OR word_of_nat (of_char c)) (take 32 i) 0"

definition bit_count :: "256 word \<Rightarrow> nat" where
  "bit_count w = length (filter (\<lambda>i. bit w i) [0..<256])"

text \<open>
  \<open>getCloseSigners\<close>: the signers sorted by the Hamming distance of their identifiers (ties are left
  open by \<open>std::sort\<close>; here they keep their order), then resized to the number asked for, not to
  \<open>signers_count\<close>: missing ones are empty users.
\<close>

definition getCloseSigners :: "utils \<Rightarrow> 256 word \<Rightarrow> int \<Rightarrow> UserPool \<Rightarrow> (User \<times> 256 word) list result" where
  "getCloseSigners u optimal want p =
     (let signers = map (\<lambda>(k, usr). (usr, idToBitSet (u_from58 u (us_user_id usr))))
            (filter (\<lambda>(k, usr). us_mode usr \<noteq> USER_ONLY) (up_users p))
      in if want < 0 then Inl Length_Error
         else Inr (resize (nat want) (User_default, 0)
                (sort_key (\<lambda>(usr, b). bit_count (optimal XOR b)) signers)))"

text \<open>The name says the contrary of what is returned; the only caller counts on the latter.\<close>

definition up_full :: "UserPool \<Rightarrow> bool" where
  "up_full p = (MAX_SIGNER \<ge> up_num_of_signers p)"

subsection \<open>The key exchange\<close>

datatype ErrorMsgType = E_UNKNOWN | E_MERGER_BOOTSTRAP | E_ECDH_ILLEGAL_ACCESS | E_ECDH_MAX_SIGNER_POOL
  | E_ECDH_TIMEOUT | E_ECDH_INVALID_SIG | E_ECDH_INVALID_PK | E_TIME_SYNC | E_BSYNC_NO_BLOCK | E_NO_SUCH_BLOCK

text \<open>A handler replies, throws one of the protocol's errors, or ends in an error of the language.\<close>

datatype handler_error = Thrown ErrorMsgType | Cpp cpp_error

record UserPoolManager =
  pm_user_pool :: UserPool
  pm_temp_user_pool :: "(string, JoinTempData) omap"
  pm_enc_sk :: string
  pm_cert :: string
  pm_pass :: string

definition UserPool_empty :: UserPool where
  "UserPool_empty = \<lparr>up_num_of_signers = 0, up_users = []\<rparr>"

definition UserPoolManager_new :: "string \<Rightarrow> string \<Rightarrow> string \<Rightarrow> UserPoolManager" where
  "UserPoolManager_new sk cert pass = \<lparr>pm_user_pool = UserPool_empty, pm_temp_user_pool = [],
     pm_enc_sk = sk, pm_cert = cert, pm_pass = pass\<rparr>"

record session_env =
  se_now :: "64 word"
  se_now_text :: string
  se_nonce :: string
  se_dhx :: string
  se_dhy :: string
  se_shared :: "string \<Rightarrow> string \<Rightarrow> string"
  se_auth_cert :: string

abbreviation temp_at :: "UserPoolManager \<Rightarrow> string \<Rightarrow> JoinTempData" where
  "temp_at m i \<equiv> (case map_of (pm_temp_user_pool m) i of Some d \<Rightarrow> d | None \<Rightarrow> JoinTempData_default)"

text \<open>\<open>temp_user_pool[id]\<close> creates the entry it does not find.\<close>

definition touch_temp :: "string \<Rightarrow> UserPoolManager \<Rightarrow> UserPoolManager" where
  "touch_temp i m = m\<lparr>pm_temp_user_pool := om_try i JoinTempData_default (pm_temp_user_pool m)\<rparr>"

definition update_temp :: "string \<Rightarrow> (JoinTempData \<Rightarrow> JoinTempData) \<Rightarrow> UserPoolManager \<Rightarrow> UserPoolManager" where
  "update_temp i f m = m\<lparr>pm_temp_user_pool := om_put i (f (temp_at m i)) (pm_temp_user_pool m)\<rparr>"

definition isJoinable :: "UserPoolManager \<Rightarrow> bool" where
  "isJoinable m = up_full (pm_user_pool m)"

definition isTimeout :: "64 word \<Rightarrow> string \<Rightarrow> UserPoolManager \<Rightarrow> bool" where
  "isTimeout now i m = (now - jt_start_time (temp_at m i) > JOIN_TIMEOUT_SEC)"

definition session_bytes :: "net_utils \<Rightarrow> string \<Rightarrow> string \<Rightarrow> string \<Rightarrow> string \<Rightarrow> string \<Rightarrow> string" where
  "session_bytes n mn sn dhx dhy timestamp =
     u_from64 (n_utils n) mn @ u_from64 (n_utils n) sn @ n_bytes_hex n dhx @ n_bytes_hex n dhy
     @ n_bytes_dec_text n timestamp"

definition verifySignature :: "net_utils \<Rightarrow> string \<Rightarrow> json \<Rightarrow> UserPoolManager \<Rightarrow> bool result" where
  "verifySignature n user_id_b58 body m =
     rbind (json_member_opt body ''dh'') (\<lambda>dh. rbind (json_get body ''un'') (\<lambda>sn.
     rbind (json_get body ''time'') (\<lambda>timestamp. rbind (json_member_opt body ''user'') (\<lambda>user_info.
       case (dh, sn, timestamp, user_info) of
         (Some d, Some s, Some ts, Some ui) \<Rightarrow>
           rbind (json_get d ''x'') (\<lambda>dhx. rbind (json_get d ''y'') (\<lambda>dhy.
           rbind (json_get ui ''pk'') (\<lambda>user_pk. rbind (json_get ui ''sig'') (\<lambda>sig.
             case (dhx, dhy, user_pk, sig) of
               (Some x, Some y, Some pk, Some sg) \<Rightarrow>
                 Inr (n_ecdsa_verify n pk
                   (session_bytes n (jt_merger_nonce (temp_at m user_id_b58)) s x y ts)
                   (u_from64 (n_utils n) sg))
             | _ \<Rightarrow> Inr False))))
       | _ \<Rightarrow> Inr False))))"

definition signMessage :: "net_utils \<Rightarrow> string \<Rightarrow> string \<Rightarrow> string \<Rightarrow> string \<Rightarrow> string \<Rightarrow> string \<Rightarrow> string \<Rightarrow> string" where
  "signMessage n timestamp mn sn dhx dhy sk_pem sk_pass =
     u_to64 (n_utils n) (n_ecdsa_sign n sk_pem (session_bytes n mn sn dhx dhy timestamp) sk_pass)"

type_synonym 'a handler = "UserPoolManager \<Rightarrow> UserPoolManager \<times> (handler_error + 'a)"

definition handle_join :: "net_utils \<Rightarrow> node_ids \<Rightarrow> session_env \<Rightarrow> InNetMsg \<Rightarrow> OutNetMsg handler" where
  "handle_join n ids s msg m = (let i = in_sender_id msg in
     if \<not> isJoinable m then (m, Inl (Thrown E_ECDH_MAX_SIGNER_POOL))
     else case json_str (in_body msg) ''user'' of
         Inl e \<Rightarrow> (m, Inl (Cpp e))
       | Inr user_id \<Rightarrow>
           if user_id \<noteq> i then (m, Inl (Thrown E_ECDH_ILLEGAL_ACCESS))
           else let merger_nonce = u_to64 (n_utils n) (se_nonce s);
                    m1 = update_temp i (\<lambda>d. d\<lparr>jt_start_time := se_now s\<rparr>) m;
                    m2 = update_temp i (\<lambda>d. d\<lparr>jt_merger_nonce := merger_nonce\<rparr>) m1
                in (m2, Inr (build_challenge n ids (se_now_text s) i merger_nonce)))"

text \<open>The part of the answer to \<open>MSG_RESPONSE_1\<close> after the certificate was accepted.\<close>

definition finish_response :: "net_utils \<Rightarrow> node_ids \<Rightarrow> session_env \<Rightarrow> string \<Rightarrow> json \<Rightarrow> string \<Rightarrow> OutNetMsg handler" where
  "finish_response n ids s i body user_cert m =
     (let m1 = update_temp i (\<lambda>d. d\<lparr>jt_user_pk := user_cert\<rparr>) m in
      case rbind (json_idx body ''dh'') (\<lambda>dh. rbind (json_str dh ''x'') (\<lambda>x.
             rbind (json_str dh ''y'') (\<lambda>y. Inr (se_shared s x y)))) of
        Inl e \<Rightarrow> (m1, Inl (Cpp e))
      | Inr shared \<Rightarrow>
          if shared = [] then (m1, Inl (Thrown E_ECDH_INVALID_PK))
          else let m2 = update_temp i (\<lambda>d. d\<lparr>jt_shared_sk := shared\<rparr>) m1 in
            (case json_str body ''un'' of
               Inl e \<Rightarrow> (m2, Inl (Cpp e))
             | Inr un \<Rightarrow>
                 (let sig = signMessage n (se_now_text s) (jt_merger_nonce (temp_at m2 i)) un (se_dhx s) (se_dhy s)
                              (pm_enc_sk m2) (pm_pass m2)
                  in (m2, Inr (build_response2 n ids (se_now_text s) i (se_dhx s) (se_dhy s) (pm_cert m2) sig)))))"

definition handle_response1 :: "net_utils \<Rightarrow> node_ids \<Rightarrow> session_env \<Rightarrow> InNetMsg \<Rightarrow> OutNetMsg handler" where
  "handle_response1 n ids s msg m = (let i = in_sender_id msg; body = in_body msg in
     if map_of (pm_temp_user_pool m) i = None then (m, Inl (Thrown E_ECDH_ILLEGAL_ACCESS))
     else if isTimeout (se_now s) i m then (m, Inl (Thrown E_ECDH_TIMEOUT))
     else case verifySignature n i body m of
         Inl e \<Rightarrow> (m, Inl (Cpp e))
       | Inr False \<Rightarrow> (m, Inl (Thrown E_ECDH_INVALID_SIG))
       | Inr True \<Rightarrow>
           (case rbind (json_idx body ''user'') (\<lambda>ui. json_str ui ''pk'') of
              Inl e \<Rightarrow> (m, Inl (Cpp e))
            | Inr user_cert \<Rightarrow>
                if \<not> n_verify_cert n user_cert (se_auth_cert s) then (m, Inl (Thrown E_ECDH_INVALID_PK))
                else finish_response n ids s i body user_cert m))"

definition read_mode :: "string \<Rightarrow> UserMode" where
  "read_mode mode = (if mode = ''user'' then USER_ONLY else if mode = ''signer'' then SIGNER_ONLY else ALL_MODES)"

definition handle_success :: "net_utils \<Rightarrow> node_ids \<Rightarrow> session_env \<Rightarrow> InNetMsg \<Rightarrow> OutNetMsg handler" where
  "handle_success n ids s msg m = (let i = in_sender_id msg; late = isTimeout (se_now s) i m; m1 = touch_temp i m in
     if late then (m1, Inl (Thrown E_ECDH_TIMEOUT))
     else case json_str (in_body msg) ''mode'' of
         Inl e \<Rightarrow> (m1, Inl (Cpp e))
       | Inr mode \<Rightarrow>
           (let d = temp_at m1 i;
                m2 = m1\<lparr>pm_user_pool := pushUser (n_utils n) i (jt_shared_sk d) (jt_user_pk d) (read_mode mode) (pm_user_pool m1)\<rparr>;
                m3 = m2\<lparr>pm_temp_user_pool := om_erase i (pm_temp_user_pool m2)\<rparr>
            in (m3, Inr (build_accept n ids (se_now_text s) i))))"

definition handleMsg :: "net_utils \<Rightarrow> node_ids \<Rightarrow> session_env \<Rightarrow> InNetMsg \<Rightarrow> OutNetMsg handler" where
  "handleMsg n ids s msg =
     (if in_type msg = MSG_JOIN then handle_join n ids s msg
      else if in_type msg = MSG_RESPONSE_1 then handle_response1 n ids s msg
      else if in_type msg = MSG_SUCCESS then handle_success n ids s msg
      else (\<lambda>m. (m, Inl (Thrown E_UNKNOWN))))"

definition removeUser :: "string \<Rightarrow> UserPoolManager \<Rightarrow> UserPoolManager" where
  "removeUser i m = m\<lparr>pm_user_pool := fst (eraseUser i (pm_user_pool m))\<rparr>"

definition removeTempUser :: "string \<Rightarrow> UserPoolManager \<Rightarrow> UserPoolManager" where
  "removeTempUser i m = m\<lparr>pm_temp_user_pool := om_erase i (pm_temp_user_pool m)\<rparr>"

definition getTempHmacKey :: "string \<Rightarrow> UserPoolManager \<Rightarrow> string option" where
  "getTempHmacKey i m = map_option jt_shared_sk (map_of (pm_temp_user_pool m) i)"

definition setSelfKeyInfo :: "json \<Rightarrow> UserPoolManager \<Rightarrow> UserPoolManager \<times> unit result" where
  "setSelfKeyInfo info = sbind (slift (rbind (json_get info ''enc_sk'') (\<lambda>a. rbind (json_get info ''cert'') (\<lambda>b.
       rbind (json_get info ''pass'') (\<lambda>c. Inr (a, b, c)))))) (\<lambda>(a, b, c). seq
     [assign (opt_value a) (\<lambda>x m. m\<lparr>pm_enc_sk := x\<rparr>), assign (opt_value b) (\<lambda>x m. m\<lparr>pm_cert := x\<rparr>),
      assign (opt_value c) (\<lambda>x m. m\<lparr>pm_pass := x\<rparr>)])"

subsection \<open>Connections and network identifiers\<close>

text \<open>A table from user identifiers to the writer and tag of their connection (opaque values).\<close>

type_synonym 'c conn_table = "(string, 'c option \<times> 'c option) omap"

definition setRpcInfo :: "string \<Rightarrow> 'c option \<Rightarrow> 'c option \<Rightarrow> 'c conn_table \<Rightarrow> 'c conn_table" where
  "setRpcInfo recv_id reply_rpc tag t = om_put recv_id (reply_rpc, tag) t"

definition eraseRpcInfo :: "string \<Rightarrow> 'c conn_table \<Rightarrow> 'c conn_table" where
  "eraseRpcInfo recv_id t = om_erase recv_id t"

text \<open>Looking up an unknown user stores null pointers for it.\<close>

definition getRpcInfo :: "string \<Rightarrow> 'c conn_table \<Rightarrow> 'c conn_table \<times> ('c option \<times> 'c option)" where
  "getRpcInfo recv_id t = (let t1 = om_try recv_id (None, None) t in
     (t1, case map_of t1 recv_id of Some c \<Rightarrow> c | None \<Rightarrow> (None, None)))"

type_synonym id_table = "(string, string) omap"

definition mapId :: "(string \<Rightarrow> string) \<Rightarrow> string \<Rightarrow> string \<Rightarrow> id_table \<Rightarrow> id_table" where
  "mapId sha1 b58_user_id net_id t = om_try b58_user_id (sha1 net_id) t"

definition unmapId :: "string \<Rightarrow> id_table \<Rightarrow> id_table" where
  "unmapId b58_user_id t = om_erase b58_user_id t"

definition unmapId_hash :: "string \<Rightarrow> id_table \<Rightarrow> id_table" where
  "unmapId_hash dead t = (case List.find (\<lambda>(k, h). h = dead) t of
     Some (k, _) \<Rightarrow> unmapId k t | None \<Rightarrow> t)"

definition get_net_id :: "string \<Rightarrow> id_table \<Rightarrow> string option" where
  "get_net_id i t = map_of t i"

end
