(* ===== verification/User_Props.thy ===== *)
theory User_Props
  imports User_Pool
begin

text \<open>
  Properties of the user pool and of the key exchange: what the counter of signers counts, which
  messages admit a user, and that two messages are enough to do so.
\<close>

subsection \<open>Counting signers\<close>

datatype pool_op = Push string string string UserMode | Erase string

fun pool_op_step :: "utils \<Rightarrow> pool_op \<Rightarrow> UserPool \<Rightarrow> UserPool" where
  "pool_op_step u (Push i k pk mode) p = pushUser u i k pk mode p"
| "pool_op_step u (Erase i) p = fst (eraseUser i p)"

definition pool_run :: "utils \<Rightarrow> pool_op list \<Rightarrow> UserPool \<Rightarrow> UserPool" where
  "pool_run u ops p = fold (pool_op_step u) ops p"

definition is_signer :: "UserPool \<Rightarrow> string \<Rightarrow> bool" where
  "is_signer p i \<longleftrightarrow> (case map_of (up_users p) i of Some usr \<Rightarrow> us_mode usr \<noteq> USER_ONLY | None \<Rightarrow> False)"

definition signers_in :: "UserPool \<Rightarrow> nat" where
  "signers_in p = length (filter (\<lambda>(k, usr). us_mode usr \<noteq> USER_ONLY) (up_users p))"

text \<open>How often a run registers a user that is a signer at that moment.\<close>

fun overwrites :: "pool_op \<Rightarrow> UserPool \<Rightarrow> nat" where
  "overwrites (Push i k pk mode) p = of_bool (is_signer p i)"
| "overwrites (Erase i) p = 0"

fun overwritten :: "utils \<Rightarrow> pool_op list \<Rightarrow> UserPool \<Rightarrow> nat" where
  "overwritten u [] p = 0"
| "overwritten u (x # ops) p = overwrites x p + overwritten u ops (pool_op_step u x p)"

lemma om_put_filter:
  "om_ok m \<Longrightarrow>
   length (filter (\<lambda>(k, v). P v) (om_put k v m)) + of_bool (\<exists>w. map_of m k = Some w \<and> P w)
   = length (filter (\<lambda>(k, v). P v) m) + of_bool (P v)"
proof (induction k v m rule: om_put.induct)
  case (2 k v k' v' m)
  have "map_of m k = None" if "k < k'"
    using 2(2) that by (auto simp: om_ok_def map_of_eq_None_iff dest: less_trans)
  with 2 show ?case by (auto simp: om_ok_def)
qed simp

lemma om_erase_absent: "k \<notin> fst ` set m \<Longrightarrow> om_erase k m = m"
  unfolding om_erase_def by (rule filter_True) (auto simp: rev_image_eqI)

lemma om_erase_filter:
  "distinct (map fst m) \<Longrightarrow>
   length (filter (\<lambda>(k, v). P v) (om_erase k m)) + of_bool (\<exists>w. map_of m k = Some w \<and> P w)
   = length (filter (\<lambda>(k, v). P v) m)"
proof (induction m)
  case (Cons a m)
  obtain k' v' where a: "a = (k', v')" by (cases a)
  show ?case
  proof (cases "k = k'")
    case True
    then have "om_erase k (a # m) = m"
      using Cons.prems a om_erase_absent [of k m] by (simp add: om_erase_def)
    then show ?thesis using True a by simp
  next
    case False
    then show ?thesis using Cons a by (simp add: om_erase_def)
  qed
qed (simp add: om_erase_def)

definition pool_balanced :: "nat \<Rightarrow> UserPool \<Rightarrow> bool" where
  "pool_balanced n p \<longleftrightarrow> om_ok (up_users p) \<and> up_num_of_signers p = int (signers_in p + n)"

lemma is_signer_alt: "is_signer p i \<longleftrightarrow> (\<exists>w. map_of (up_users p) i = Some w \<and> us_mode w \<noteq> USER_ONLY)"
  by (auto simp: is_signer_def split: option.split)

lemma pushUser_balanced:
  assumes "pool_balanced n p"
  shows "pool_balanced (n + of_bool (is_signer p i)) (pushUser u i k pk mode p)"
proof -
  let ?usr = "\<lparr>us_user_id = u_from58 u i, us_pk = pk, us_mode = mode, us_hmac_key = k\<rparr>"
  have ok: "om_ok (up_users p)" and n: "up_num_of_signers p = int (signers_in p + n)"
    using assms by (simp_all add: pool_balanced_def)
  define q where "q = pushUser u i k pk mode p"
  have users: "up_users q = om_put i ?usr (up_users p)"
    and count: "up_num_of_signers q = up_num_of_signers p + of_bool (mode \<noteq> USER_ONLY)"
    by (simp_all add: q_def pushUser_def Let_def)
  have "signers_in q + of_bool (is_signer p i) = signers_in p + of_bool (mode \<noteq> USER_ONLY)"
    using om_put_filter [OF ok, of "\<lambda>usr. us_mode usr \<noteq> USER_ONLY" i ?usr]
    by (simp add: signers_in_def users is_signer_alt)
  then have "pool_balanced (n + of_bool (is_signer p i)) q"
    using ok n by (cases "mode = USER_ONLY"; cases "is_signer p i") (simp_all add: pool_balanced_def users count)
  then show ?thesis by (simp add: q_def)
qed

lemma eraseUser_balanced:
  assumes "pool_balanced n p"
  shows "pool_balanced n (fst (eraseUser i p))"
proof (cases "map_of (up_users p) i")
  case None
  then show ?thesis using assms by (simp add: eraseUser_def)
next
  case (Some usr)
  have ok: "om_ok (up_users p)" and n: "up_num_of_signers p = int (signers_in p + n)"
    using assms by (simp_all add: pool_balanced_def)
  have users: "up_users (fst (eraseUser i p)) = om_erase i (up_users p)"
    and count: "up_num_of_signers (fst (eraseUser i p))
      = up_num_of_signers p - of_bool (us_mode usr \<noteq> USER_ONLY)"
    using Some by (simp_all add: eraseUser_def Let_def)
  have "signers_in (fst (eraseUser i p)) + of_bool (us_mode usr \<noteq> USER_ONLY) = signers_in p"
    using om_erase_filter [OF om_ok_distinct [OF ok], of "\<lambda>usr. us_mode usr \<noteq> USER_ONLY" i] Some
    by (simp add: signers_in_def users)
  then show ?thesis
    using ok n by (auto simp: pool_balanced_def users count)
qed

lemma pool_op_balanced: "pool_balanced n p \<Longrightarrow> pool_balanced (n + overwrites x p) (pool_op_step u x p)"
  by (cases x) (simp_all add: pushUser_balanced eraseUser_balanced)

lemma pool_run_balanced:
  "pool_balanced n p \<Longrightarrow> pool_balanced (n + overwritten u ops p) (pool_run u ops p)"
proof (induction ops arbitrary: n p)
  case (Cons x ops)
  from Cons.IH [OF pool_op_balanced [OF Cons.prems]] show ?case
    by (simp add: pool_run_def add.assoc)
qed (simp add: pool_run_def)

text \<open>After any sequence of registrations and removals the counter of signers exceeds the
  number of signers in the pool by exactly the number of times a present signer was registered
  again; no removal ever gives that excess back.\<close>

theorem signer_count_drift:
  "up_num_of_signers (pool_run u ops UserPool_empty)
   = int (signers_in (pool_run u ops UserPool_empty) + overwritten u ops UserPool_empty)"
proof -
  have "pool_balanced 0 UserPool_empty"
    by (simp add: pool_balanced_def UserPool_empty_def signers_in_def)
  from pool_run_balanced [OF this] show ?thesis by (simp add: pool_balanced_def)
qed

subsection \<open>Which messages admit a user\<close>

definition serve :: "net_utils \<Rightarrow> node_ids \<Rightarrow> (session_env \<times> InNetMsg) list \<Rightarrow> UserPoolManager \<Rightarrow> UserPoolManager" where
  "serve n ids evs m = fold (\<lambda>(s, msg) m. fst (handleMsg n ids s msg m)) evs m"

definition joined :: "(session_env \<times> InNetMsg) list \<Rightarrow> string set" where
  "joined evs = {in_sender_id msg |s msg. (s, msg) \<in> set evs \<and> in_type msg = MSG_JOIN}"

definition admitted :: "UserPoolManager \<Rightarrow> string set" where
  "admitted m = fst ` set (up_users (pm_user_pool m))"

text \<open>A started session and an admitted user both go back to a \<open>MSG_JOIN\<close> of their sender.\<close>

definition started_by :: "string set \<Rightarrow> UserPoolManager \<Rightarrow> bool" where
  "started_by J m \<longleftrightarrow> (\<forall>i. jt_start_time (temp_at m i) \<noteq> 0 \<longrightarrow> i \<in> J) \<and> admitted m \<subseteq> J"

lemma started_by_mono: "started_by J m \<Longrightarrow> J \<subseteq> K \<Longrightarrow> started_by K m"
  by (auto simp: started_by_def)

lemma temp_at_touch [simp]: "temp_at (touch_temp i m) j = temp_at m j"
  by (auto simp: touch_temp_def split: option.split)

lemma temp_at_update [simp]: "temp_at (update_temp i f m) j = (if j = i then f (temp_at m i) else temp_at m j)"
  by (simp add: update_temp_def)

lemma admitted_temp [simp]:
  "admitted (touch_temp i m) = admitted m" "admitted (update_temp i f m) = admitted m"
  by (simp_all add: admitted_def touch_temp_def update_temp_def)

lemma started_by_touch [simp]: "started_by J (touch_temp i m) = started_by J m"
  unfolding started_by_def temp_at_touch admitted_temp by (rule refl)

lemma started_by_update:
  "started_by J m \<Longrightarrow> (jt_start_time (f (temp_at m i)) = jt_start_time (temp_at m i) \<or> i \<in> J)
   \<Longrightarrow> started_by J (update_temp i f m)"
  unfolding started_by_def temp_at_update admitted_temp by auto


lemma handle_join_started:
  "started_by J m \<Longrightarrow> in_sender_id msg \<in> J \<Longrightarrow> started_by J (fst (handle_join n ids s msg m))"
  by (auto simp: handle_join_def Let_def intro!: started_by_update split: sum.split)

lemma finish_response_started:
  "started_by J m \<Longrightarrow> started_by J (fst (finish_response n ids s i body cert m))"
  by (auto simp: finish_response_def Let_def intro!: started_by_update split: sum.split)

lemma handle_response1_started:
  "started_by J m \<Longrightarrow> started_by J (fst (handle_response1 n ids s msg m))"
  by (auto simp: handle_response1_def Let_def intro!: finish_response_started split: sum.split bool.split)

lemma admitted_push: "admitted (m\<lparr>pm_user_pool := pushUser u i k pk mode p\<rparr>) = insert i (fst ` set (up_users p))"
  by (simp add: admitted_def pushUser_def Let_def fst_om_put)

lemma handle_success_started:
  assumes J: "started_by J m" and now: "10 < se_now s"
  shows "started_by J (fst (handle_success n ids s msg m))"
proof (cases "isTimeout (se_now s) (in_sender_id msg) m")
  case True
  then show ?thesis using J by (simp add: handle_success_def)
next
  case False
  let ?i = "in_sender_id msg"
  have i: "?i \<in> J"
  proof (rule ccontr)
    assume "?i \<notin> J"
    then have "jt_start_time (temp_at m ?i) = 0" using J by (auto simp: started_by_def)
    then show False using False now by (simp add: isTimeout_def)
  qed
  show ?thesis
  proof (cases "json_str (in_body msg) ''mode''")
    case (Inl e)
    then show ?thesis using J False by (simp add: handle_success_def)
  next
    case (Inr mode)
    have "jt_start_time (temp_at (m\<lparr>pm_temp_user_pool := om_erase ?i (pm_temp_user_pool (touch_temp ?i m))\<rparr>) j)
        = (if j = ?i then 0 else jt_start_time (temp_at m j))" for j
      by (simp add: touch_temp_def JoinTempData_default_def)
    then show ?thesis
      using J i False Inr
      by (auto simp: handle_success_def Let_def started_by_def admitted_push JoinTempData_default_def
          admitted_def touch_temp_def pushUser_def fst_om_put split: if_splits)
  qed
qed

lemma handleMsg_started:
  assumes "started_by J m" and "10 < se_now s" and "in_type msg = MSG_JOIN \<Longrightarrow> in_sender_id msg \<in> J"
  shows "started_by J (fst (handleMsg n ids s msg m))"
  using assms by (simp add: handleMsg_def handle_join_started handle_response1_started handle_success_started)

lemma serve_started:
  assumes "started_by J m" and "\<forall>(s, msg)\<in>set evs. 10 < se_now s" and "joined evs \<subseteq> J"
  shows "started_by J (serve n ids evs m)"
  using assms
proof (induction evs arbitrary: m)
  case (Cons e evs)
  obtain s msg where e: "e = (s, msg)" by (cases e)
  have "started_by J (fst (handleMsg n ids s msg m))"
    using Cons.prems e by (intro handleMsg_started) (auto simp: joined_def)
  moreover have "joined evs \<subseteq> J" using Cons.prems(3) by (auto simp: joined_def)
  ultimately show ?case
    using Cons.IH [of "fst (handleMsg n ids s msg m)"] Cons.prems(2) e by (simp add: serve_def)
qed (simp add: serve_def)

text \<open>C14: While the clock shows more than ten seconds, every user a new manager has admitted after
  any sequence of messages sent a \<open>MSG_JOIN\<close>; a \<open>MSG_RESPONSE_1\<close> or \<open>MSG_SUCCESS\<close> alone admits
  nobody.\<close>

theorem admission_needs_join:
  assumes "\<forall>(s, msg)\<in>set evs. 10 < se_now s"
  shows "admitted (serve n ids evs (UserPoolManager_new sk cert pass)) \<subseteq> joined evs"
proof -
  have "started_by (joined evs) (UserPoolManager_new sk cert pass)"
    by (simp add: started_by_def UserPoolManager_new_def admitted_def UserPool_empty_def
        JoinTempData_default_def)
  then have "started_by (joined evs) (serve n ids evs (UserPoolManager_new sk cert pass))"
    using assms by (rule serve_started) (rule order.refl)
  then show ?thesis by (simp add: started_by_def)
qed

text \<open>A sender without an open session that sends \<open>MSG_JOIN\<close> and, within ten seconds,
  \<open>MSG_SUCCESS\<close> is admitted in the mode it names, although it never answered the challenge: its
  key for message authentication is the empty one and no certificate was looked at.\<close>

theorem join_then_success:
  fixes n :: net_utils and ids :: node_ids and m :: UserPoolManager
  assumes "isJoinable m"
    and "map_of (pm_temp_user_pool m) i = None"
    and "json_str b1 ''user'' = Inr i" and "json_str b2 ''mode'' = Inr mode"
    and "se_now s2 - se_now s1 \<le> 10"
  defines "m2 \<equiv> serve n ids
      [(s1, \<lparr>in_type = MSG_JOIN, in_body = b1, in_sender_id = i\<rparr>),
       (s2, \<lparr>in_type = MSG_SUCCESS, in_body = b2, in_sender_id = i\<rparr>)] m"
  shows "map_of (up_users (pm_user_pool m2)) i = Some \<lparr>us_user_id = u_from58 (n_utils n) i, us_pk = [],
           us_mode = read_mode mode, us_hmac_key = []\<rparr>
         \<and> getHmacKey i (pm_user_pool m2) = Some [] \<and> map_of (pm_temp_user_pool m2) i = None"
proof -
  have late: "\<not> 10 < se_now s2 - se_now s1" using assms(5) by simp
  show ?thesis
    using assms(1-4) late
    by (simp add: m2_def serve_def handleMsg_def handle_join_def handle_success_def Let_def
        isTimeout_def touch_temp_def update_temp_def pushUser_def getHmacKey_def JoinTempData_default_def)
qed

definition demo_session :: "64 word \<Rightarrow> session_env" where
  "demo_session t = \<lparr>se_now = t, se_now_text = ''now'', se_nonce = ''nonce'', se_dhx = ''x'', se_dhy = ''y'',
     se_shared = (\<lambda>x y. ''key''), se_auth_cert = ''auth''\<rparr>"

definition demo_join :: InNetMsg where
  "demo_join = \<lparr>in_type = MSG_JOIN, in_body = json_obj [(''user'', JStr ''alice'')], in_sender_id = ''alice''\<rparr>"

definition demo_success :: InNetMsg where
  "demo_success = \<lparr>in_type = MSG_SUCCESS, in_body = json_obj [(''mode'', JStr ''signer'')], in_sender_id = ''alice''\<rparr>"

theorem admission_needs_join_witness:
  "admitted (serve demo_net demo_ids [(demo_session 100, demo_join), (demo_session 105, demo_success)]
      (UserPoolManager_new ''sk'' ''cert'' ''pass'')) \<subseteq> {''alice''}"
  using admission_needs_join [of "[(demo_session 100, demo_join), (demo_session 105, demo_success)]"
      demo_net demo_ids "''sk''" "''cert''" "''pass''"]
  by (auto simp: demo_session_def joined_def demo_join_def demo_success_def)

theorem join_then_success_witness:
  "getHmacKey ''alice'' (pm_user_pool (serve demo_net demo_ids
      [(demo_session 100, demo_join), (demo_session 105, demo_success)]
      (UserPoolManager_new ''sk'' ''cert'' ''pass''))) = Some []"
  using join_then_success [of "UserPoolManager_new ''sk'' ''cert'' ''pass''" "''alice''"
      "in_body demo_join" "in_body demo_success" "''signer''" "demo_session 105" "demo_session 100" demo_net demo_ids]
  by (simp add: demo_session_def demo_join_def demo_success_def UserPoolManager_new_def UserPool_empty_def
      isJoinable_def up_full_def json_str_def json_get_def json_contains_def json_idx_def json_obj_def
      json_to_str_def)

end
