(* ===== verification/Contract_Data.thy ===== *)
theory Contract_Data
  imports Storage_Types Text_Formats
begin

text \<open>
  The data a contract works on (\<open>src/contract\<close>): the helper functions of \<open>misc_tool.hpp\<close>, contract
  documents as trees of elements (what tinyxml2 hands out, reached through \<open>xml_tool.hpp\<close>), the
  enumerations of \<open>types.hpp\<close>, and the data manager, which keeps the values of the running
  transaction and caches what it reads from the chain. The reading interface of the chain is a
  parameter, as are the parts of libraries the handlers call.
\<close>

subsection \<open>Helpers\<close>

definition mt_trim :: "string \<Rightarrow> string" where
  "mt_trim s = dropWhile is_space (rev (dropWhile is_space (rev s)))"

definition lower_char :: "char \<Rightarrow> char" where
  "lower_char c = (let n = (of_char c :: nat) in if 65 \<le> n \<and> n \<le> 90 then char_of (n + 32) else c)"

definition upper_char :: "char \<Rightarrow> char" where
  "upper_char c = (let n = (of_char c :: nat) in if 97 \<le> n \<and> n \<le> 122 then char_of (n - 32) else c)"

definition mt_toLower :: "string \<Rightarrow> string" where "mt_toLower s = map lower_char s"

definition mt_toUpper :: "string \<Rightarrow> string" where "mt_toUpper s = map upper_char s"

text \<open>\<open>str2num\<close>: zero for everything \<open>stoll\<close> throws at; the result is converted to the type asked for.\<close>

definition str2num :: "string \<Rightarrow> int" where
  "str2num s = (case stoll s of Inl _ \<Rightarrow> 0 | Inr x \<Rightarrow> x)"

definition str2int :: "string \<Rightarrow> int" where "str2int s = i32 (str2num s)"

definition str2u64 :: "string \<Rightarrow> 64 word" where "str2u64 s = word_of_int (str2num s)"

definition mt_isDigit :: "string \<Rightarrow> bool" where "mt_isDigit s = list_all is_digit s"

fun rmap :: "('a \<Rightarrow> 'b result) \<Rightarrow> 'a list \<Rightarrow> 'b list result" where
  "rmap f [] = Inr []"
| "rmap f (x # xs) = rbind (f x) (\<lambda>y. rbind (rmap f xs) (\<lambda>ys. Inr (y # ys)))"

fun sfold :: "('a \<Rightarrow> 'b \<Rightarrow> ('s, 'b) prog) \<Rightarrow> 'a list \<Rightarrow> 'b \<Rightarrow> ('s, 'b) prog" where
  "sfold f [] acc = sret acc"
| "sfold f (x # xs) acc = sbind (f x acc) (sfold f xs)"

subsection \<open>Documents\<close>

text \<open>
  An element has a name, attributes, the text it starts with, if any, and its child elements. A null
  pointer to an element is \<open>None\<close>; a missing attribute or text reads as the empty string (\<open>mt::c2s\<close>).
\<close>

datatype xml = Elem (xml_name: string) (xml_attrs: "(string \<times> string) list")
                    (xml_text: "string option") (xml_children: "xml list")

definition xml_attr :: "xml \<Rightarrow> string \<Rightarrow> string" where
  "xml_attr e k = (case map_of (xml_attrs e) k of Some v \<Rightarrow> v | None \<Rightarrow> [])"

definition xml_get_text :: "xml \<Rightarrow> string" where
  "xml_get_text e = (case xml_text e of Some t \<Rightarrow> t | None \<Rightarrow> [])"

definition first_child :: "xml \<Rightarrow> string \<Rightarrow> xml option" where
  "first_child e n = List.find (\<lambda>c. xml_name c = n) (xml_children e)"

text \<open>The optional is empty when there is no parent; it holds a null pointer when there is no such child.\<close>

definition parseChildFrom :: "xml option \<Rightarrow> string \<Rightarrow> xml option option" where
  "parseChildFrom p n = (case p of None \<Rightarrow> None | Some e \<Rightarrow> Some (first_child e n))"

definition parseChildrenFromNoIf :: "xml option \<Rightarrow> string \<Rightarrow> xml list" where
  "parseChildrenFromNoIf p n = (case p of None \<Rightarrow> []
     | Some e \<Rightarrow> filter (\<lambda>c. xml_name c = n) (xml_children e))"

definition parseChildrenFrom :: "xml option \<Rightarrow> string \<Rightarrow> (xml \<times> string) list" where
  "parseChildrenFrom p n = map (\<lambda>c. (c, xml_attr c ''if'')) (parseChildrenFromNoIf p n)"

subsection \<open>Enumerations\<close>

text \<open>The codes of \<open>EnumAll\<close>; male and female have the same one. The tables are ordered maps, and of two
  entries with one key the first counts.\<close>

type_synonym EnumAll = int

abbreviation ENUM_KEYC :: EnumAll where "ENUM_KEYC \<equiv> 0"
abbreviation ENUM_NONE :: EnumAll where "ENUM_NONE \<equiv> 255"

definition omap_init :: "(string \<times> 'v) list \<Rightarrow> (string, 'v) omap" where
  "omap_init kvs = fold (\<lambda>(k, v). om_try k v) kvs []"

definition INPUT_OPTION_TYPE_MAP :: "(string, EnumAll) omap" where
  "INPUT_OPTION_TYPE_MAP = omap_init
     [(''INT'', 50), (''PINT'', 51), (''NINT'', 52), (''FLOAT'', 53), (''BOOL'', 54), (''TINYTEXT'', 60),
      (''TEXT'', 61), (''MEDIUMTEXT'', 63), (''DATETIME'', 71), (''DATE'', 72), (''BIN'', 31), (''DEC'', 32),
      (''HEX'', 33), (''BASE58'', 34), (''BASE64'', 35), (''PEM'', 21), (''ENUMV'', 10), (''ENUMGENDER'', 11),
      (''ENUMALL'', 12), (''CONTRACT'', 22), (''MALE'', 90), (''FEMALE'', 90), (''OTHER'', 92), (''XML'', 23),
      (''KEYC'', 0), (''FIAT'', 1), (''COIN'', 2), (''XCOIN'', 3), (''MILE'', 4)]"

definition TSCE_ERROR_MSG :: "string \<Rightarrow> string" where
  "TSCE_ERROR_MSG k = the (map_of
     [(''RUN_INPUT'', ''input is not met''), (''RUN_CONDITION'', ''condition is not met''),
      (''RUN_PERIOD'', ''runnable time period is not met''), (''RUN_SET'', ''invalid set directive''),
      (''RUN_FEE'', ''invalid set directive''), (''NOT_ENOUGH_FEE'', ''transaction fee shortage''),
      (''NO_RECORD'', ''no record for given pid''), (''RUN_TAG'', ''tag is not met''),
      (''NO_CONTRACT'', ''corresponding contract does not exist''), (''INVALID_TX'', ''transaction is not valid''),
      (''RUN_UNKNOWN'', ''unknown error occurred''),
      (''CONFIG_WORLD'', ''error on configuration of world and chain''),
      (''NO_USER'', ''error on reading user attributes'')] k)"

definition getEnumString :: "EnumAll \<Rightarrow> string" where
  "getEnumString code = (case List.find (\<lambda>(k, v). v = code) INPUT_OPTION_TYPE_MAP of
     Some (k, _) \<Rightarrow> k | None \<Rightarrow> [])"

definition getEnumAll :: "string \<Rightarrow> EnumAll" where
  "getEnumAll s = (case map_of INPUT_OPTION_TYPE_MAP s of Some v \<Rightarrow> v | None \<Rightarrow> ENUM_NONE)"

subsection \<open>Records\<close>

record DataAttribute =
  da_name :: string
  da_string_value :: string
  da_bool_value :: bool

abbreviation attr_str :: "string \<Rightarrow> string \<Rightarrow> DataAttribute" where
  "attr_str n v \<equiv> \<lparr>da_name = n, da_string_value = v, da_bool_value = False\<rparr>"

abbreviation attr_bool :: "string \<Rightarrow> bool \<Rightarrow> DataAttribute" where
  "attr_bool n v \<equiv> \<lparr>da_name = n, da_string_value = [], da_bool_value = v\<rparr>"

record UserScopeRecord =
  sr_var_name :: string
  sr_var_value :: string
  sr_var_type :: EnumAll
  sr_var_owner :: string
  sr_up_time :: "64 word"
  sr_up_block :: "64 word"
  sr_tag :: string
  sr_pid :: string

record ContractScopeRecord =
  cr_contract_id :: string
  cr_var_name :: string
  cr_var_value :: string
  cr_var_type :: EnumAll
  cr_var_info :: string
  cr_up_time :: "64 word"
  cr_up_block :: "64 word"
  cr_pid :: string

record UserAttributeRecord =
  ar_uid :: string
  ar_register_day :: string
  ar_register_code :: string
  ar_gender :: int
  ar_isc_type :: string
  ar_isc_code :: string
  ar_location :: string
  ar_age_limit :: int

record UserCertRecord =
  kc_uid :: string
  kc_sn :: string
  kc_nvbefore :: "64 word"
  kc_nvafter :: "64 word"
  kc_x509 :: string

record DataManager =
  dm_tx_datamap :: "(string, string) omap"
  dm_keyc_name :: string
  dm_query_cache :: "(string, json) omap"
  dm_user_scope :: "(string, UserScopeRecord list) omap"
  dm_contract_scope :: "(string, ContractScopeRecord) omap"
  dm_user_attr :: "(string, UserAttributeRecord) omap"
  dm_user_cert :: "(string, UserCertRecord list) omap"

definition DataManager_new :: DataManager where
  "DataManager_new = \<lparr>dm_tx_datamap = [], dm_keyc_name = ''KEYC'', dm_query_cache = [], dm_user_scope = [],
     dm_contract_scope = [], dm_user_attr = [], dm_user_cert = []\<rparr>"

end
