(* ===== verification/Data_Manager.thy ===== *)
theory Data_Manager
  imports Contract_Data
begin

text \<open>
  The data manager (\<open>data_manager.cpp\<close>, \<open>data_manager.hpp\<close>) and the value map it holds
  (\<open>datamap.cpp\<close>): evaluation of \<open>$\<close>-expressions, queries to the chain with a cache per query, and the
  tables of scope variables, attributes and certificates that are filled from the answers.
\<close>

subsection \<open>Environment\<close>

text \<open>
  What the contract engine calls outside its own code: the reading interface of the chain, the XML
  parser (\<open>None\<close> when the document has an error), regular expressions a contract gives, the date
  library (times are milliseconds since the epoch, days are year, month and day), floating point
  numbers, the certificate library and signatures.
\<close>

type_synonym ymd = "int \<times> int \<times> int"

record tsce_env =
  c_utils :: utils
  c_read :: "json \<Rightarrow> json result"
  c_parse_xml :: "string \<Rightarrow> xml option option"
  c_regex :: "string \<Rightarrow> string \<Rightarrow> bool result"
  c_parse_time :: "string \<Rightarrow> int option"
  c_parse_day :: "string \<Rightarrow> int option"
  c_ymd :: "int \<Rightarrow> ymd"
  c_add_years :: "ymd \<Rightarrow> int \<Rightarrow> ymd"
  c_stof :: "string \<Rightarrow> string result"
  c_stold :: "string \<Rightarrow> bool"
  c_dec_text :: "string \<Rightarrow> string"
  c_hex :: "string \<Rightarrow> string"
  c_ecdsa_point :: "string \<Rightarrow> string \<Rightarrow> string \<Rightarrow> string \<Rightarrow> bool"
  c_verify_cert :: "string \<Rightarrow> string \<Rightarrow> bool"
  c_cert_info :: "string \<Rightarrow> (string \<times> string \<times> string) result"

subsection \<open>Values\<close>

definition dm_set :: "string \<Rightarrow> string \<Rightarrow> (string, string) omap \<Rightarrow> (string, string) omap" where
  "dm_set k v m = (if k = [] then m else om_put k v m)"

definition updateValue :: "string \<Rightarrow> string \<Rightarrow> DataManager \<Rightarrow> DataManager" where
  "updateValue k v m = m\<lparr>dm_tx_datamap := dm_set k v (dm_tx_datamap m)\<rparr>"

definition dm_get :: "DataManager \<Rightarrow> string \<Rightarrow> string option" where
  "dm_get m k = map_of (dm_tx_datamap m) k"

definition evalOpt :: "DataManager \<Rightarrow> string \<Rightarrow> string option" where
  "evalOpt m expr = (case mt_trim expr of
       [] \<Rightarrow> None
     | c # r \<Rightarrow> if c \<noteq> CHR ''$'' then Some (c # r) else dm_get m (c # r))"

definition dm_eval :: "DataManager \<Rightarrow> string \<Rightarrow> string" where
  "dm_eval m expr = (case evalOpt m expr of Some v \<Rightarrow> v | None \<Rightarrow> [])"

text \<open>The caches of queries, attributes and certificates survive.\<close>

definition dm_clear :: "DataManager \<Rightarrow> DataManager" where
  "dm_clear m = m\<lparr>dm_user_scope := [], dm_contract_scope := [], dm_tx_datamap := []\<rparr>"

definition setKeyCurrencyName :: "string \<Rightarrow> DataManager \<Rightarrow> DataManager" where
  "setKeyCurrencyName n m = m\<lparr>dm_keyc_name := n\<rparr>"

subsection \<open>Queries\<close>

text \<open>\<open>row[i]\<close> on a value that is not constant: an array that is too short, or null, grows by nulls.\<close>

definition row_cell :: "json \<Rightarrow> nat \<Rightarrow> json result" where
  "row_cell j i = (case j of
       JArr xs \<Rightarrow> Inr (if i < length xs then xs ! i else JNull)
     | JNull \<Rightarrow> Inr JNull
     | _ \<Rightarrow> Inl Json_Type_Error)"

definition queryAndCache :: "tsce_env \<Rightarrow> json \<Rightarrow> (DataManager, string list \<times> json) prog" where
  "queryAndCache E query m =
     (let key = u_to_cbor (c_utils E) query;
          answer = (case map_of (dm_query_cache m) key of
              Some r \<Rightarrow> (m, Inr r)
            | None \<Rightarrow> (case c_read E query of
                  Inl e \<Rightarrow> (m, Inl e)
                | Inr r \<Rightarrow> (m\<lparr>dm_query_cache := om_put key r (dm_query_cache m)\<rparr>, Inr r)))
      in sbind (\<lambda>_. answer) (\<lambda>r. slift
           (rbind (json_member_opt r ''name'') (\<lambda>n. rbind (json_member_opt r ''data'') (\<lambda>d.
              case (n, d) of
                (Some ns, Some rows) \<Rightarrow> rbind (rmap json_to_str (json_items ns)) (\<lambda>names. Inr (names, rows))
              | _ \<Rightarrow> Inr ([], JNull))))) m)"

definition generic_row :: "string list \<Rightarrow> json \<Rightarrow> DataAttribute list result" where
  "generic_row names row = rmap (\<lambda>i. rbind (row_cell row i) (\<lambda>c. case c of
       JBool b \<Rightarrow> rbind (at_index names (int i)) (\<lambda>n. Inr (attr_bool n b))
     | _ \<Rightarrow> rbind (json_to_str c) (\<lambda>v. rbind (at_index names (int i)) (\<lambda>n. Inr (attr_str n v)))))
       [0..<length (json_items row)]"

definition queryIfAndParseData :: "tsce_env \<Rightarrow> json \<Rightarrow> (DataManager, DataAttribute list) prog" where
  "queryIfAndParseData E query = sbind (queryAndCache E query) (\<lambda>(names, rows). slift
     (if names = [] \<or> json_empty rows then Inr []
      else rbind (rmap (generic_row names) (json_items rows)) (\<lambda>as. Inr (concat as))))"

text \<open>The texts of a row, one for every column name.\<close>

definition row_texts :: "string list \<Rightarrow> json \<Rightarrow> (string \<times> string) list result" where
  "row_texts names row = rmap (\<lambda>(i, n). rbind (row_cell row i) (\<lambda>c. rbind (json_to_str c) (\<lambda>v. Inr (n, v))))
     (enumerate 0 names)"

definition set_cert_field :: "string \<times> string \<Rightarrow> UserCertRecord \<Rightarrow> UserCertRecord" where
  "set_cert_field = (\<lambda>(n, v) r.
     if n = ''sn'' then r\<lparr>kc_sn := v\<rparr>
     else if n = ''after'' then r\<lparr>kc_nvbefore := str2u64 v\<rparr>
     else if n = ''before'' then r\<lparr>kc_nvafter := str2u64 v\<rparr>
     else if n = ''cert'' then r\<lparr>kc_x509 := v\<rparr>
     else r)"

definition UserCertRecord_default :: UserCertRecord where
  "UserCertRecord_default = \<lparr>kc_uid = [], kc_sn = [], kc_nvbefore = 0, kc_nvafter = 0, kc_x509 = []\<rparr>"

definition add_cert :: "string \<Rightarrow> UserCertRecord \<Rightarrow> DataManager \<Rightarrow> DataManager" where
  "add_cert i r m = m\<lparr>dm_user_cert := om_put i ((case map_of (dm_user_cert m) i of Some rs \<Rightarrow> rs | None \<Rightarrow> []) @ [r])
     (dm_user_cert m)\<rparr>"

definition queryIfUserCertAndParseData :: "tsce_env \<Rightarrow> json \<Rightarrow> string \<Rightarrow> (DataManager, DataAttribute list) prog" where
  "queryIfUserCertAndParseData E query i = sbind (queryAndCache E query) (\<lambda>(names, rows).
     if names = [] \<or> json_empty rows then sret []
     else sbind (assign (Inr ()) (\<lambda>_ m. m\<lparr>dm_user_cert := om_put i [] (dm_user_cert m)\<rparr>)) (\<lambda>_.
       sfold (\<lambda>row acc. sbind (slift (row_texts names row)) (\<lambda>cells.
           sbind (assign (Inr ()) (\<lambda>_. add_cert i (fold set_cert_field cells UserCertRecord_default))) (\<lambda>_.
           sret (acc @ map (\<lambda>(n, v). attr_str n v) cells))))
         (json_items rows) []))"

definition set_attr_field :: "string \<times> string \<Rightarrow> UserAttributeRecord \<Rightarrow> UserAttributeRecord" where
  "set_attr_field = (\<lambda>(n, v) r.
     if n = ''uid'' then r\<lparr>ar_uid := v\<rparr>
     else if n = ''register_day'' then r\<lparr>ar_register_day := v\<rparr>
     else if n = ''register_code'' then r\<lparr>ar_register_code := v\<rparr>
     else if n = ''gender'' then r\<lparr>ar_gender := str2num v mod 256\<rparr>
     else if n = ''isc_type'' then r\<lparr>ar_isc_type := v\<rparr>
     else if n = ''isc_code'' then r\<lparr>ar_isc_code := v\<rparr>
     else if n = ''location'' then r\<lparr>ar_location := v\<rparr>
     else if n = ''age_limit'' then r\<lparr>ar_age_limit := str2int v\<rparr>
     else r)"

definition UserAttributeRecord_default :: UserAttributeRecord where
  "UserAttributeRecord_default = \<lparr>ar_uid = [], ar_register_day = [], ar_register_code = [], ar_gender = 0,
     ar_isc_type = [], ar_isc_code = [], ar_location = [], ar_age_limit = 0\<rparr>"

definition queryIfUserAttrAndParseData :: "tsce_env \<Rightarrow> json \<Rightarrow> string \<Rightarrow> (DataManager, DataAttribute list) prog" where
  "queryIfUserAttrAndParseData E query user_id = sbind (queryAndCache E query) (\<lambda>(names, rows).
     if names = [] \<or> json_empty rows then sret []
     else sbind (slift (rbind (row_cell rows 0) (row_texts names))) (\<lambda>cells.
       sbind (assign (Inr ()) (\<lambda>_ m. m\<lparr>dm_user_attr := om_put user_id
         (fold set_attr_field cells UserAttributeRecord_default) (dm_user_attr m)\<rparr>)) (\<lambda>_.
       sret (map (\<lambda>(n, v). attr_str n v) cells))))"

subsection \<open>Scope variables\<close>

definition set_user_scope_field :: "string \<times> string \<Rightarrow> UserScopeRecord \<Rightarrow> UserScopeRecord" where
  "set_user_scope_field = (\<lambda>(n, v) r.
     if n = ''var_name'' then r\<lparr>sr_var_name := v\<rparr>
     else if n = ''var_value'' then r\<lparr>sr_var_value := v\<rparr>
     else if n = ''var_type'' then r\<lparr>sr_var_type := getEnumAll v\<rparr>
     else if n = ''var_owner'' then r\<lparr>sr_var_owner := v\<rparr>
     else if n = ''up_time'' then r\<lparr>sr_up_time := str2u64 v\<rparr>
     else if n = ''up_block'' then r\<lparr>sr_up_block := str2u64 v\<rparr>
     else if n = ''tag'' then r\<lparr>sr_tag := v\<rparr>
     else if n = ''pid'' then r\<lparr>sr_pid := v\<rparr>
     else r)"

definition UserScopeRecord_default :: UserScopeRecord where
  "UserScopeRecord_default = \<lparr>sr_var_name = [], sr_var_value = [], sr_var_type = 0, sr_var_owner = [],
     sr_up_time = 0, sr_up_block = 0, sr_tag = [], sr_pid = []\<rparr>"

text \<open>A cached record with the same \<open>pid\<close> only gets the new value; otherwise the record is appended.\<close>

fun update_or_add :: "UserScopeRecord \<Rightarrow> UserScopeRecord list \<Rightarrow> UserScopeRecord list" where
  "update_or_add b [] = [b]"
| "update_or_add b (r # rs) =
     (if sr_pid r = sr_pid b then r\<lparr>sr_var_value := sr_var_value b\<rparr> # rs else r # update_or_add b rs)"

definition cache_user_scope :: "string \<Rightarrow> UserScopeRecord \<Rightarrow> DataManager \<Rightarrow> DataManager" where
  "cache_user_scope user_id b m = (let key = user_id @ sr_var_name b in
     m\<lparr>dm_user_scope := om_put key (update_or_add b
        (case map_of (dm_user_scope m) key of Some rs \<Rightarrow> rs | None \<Rightarrow> [])) (dm_user_scope m)\<rparr>)"

definition user_scope_record :: "string \<Rightarrow> (string \<times> string) list \<Rightarrow> UserScopeRecord" where
  "user_scope_record user_id cells = (let b = fold set_user_scope_field cells UserScopeRecord_default in
     if sr_var_owner b = [] then b\<lparr>sr_var_owner := user_id\<rparr> else b)"

definition queryIfUserScopeAndParseData ::
    "tsce_env \<Rightarrow> json \<Rightarrow> string \<Rightarrow> string \<Rightarrow> bool \<Rightarrow> (DataManager, DataAttribute list) prog" where
  "queryIfUserScopeAndParseData E query user_id pid get_val = sbind (queryAndCache E query) (\<lambda>(names, rows).
     if names = [] \<or> json_empty rows then sret []
     else sfold (\<lambda>row acc. sbind (slift (row_texts names row)) (\<lambda>cells.
         (let b = user_scope_record user_id cells in
          if sr_var_name b = [] then sret acc
          else sbind (assign (Inr ()) (\<lambda>_. cache_user_scope user_id b)) (\<lambda>_.
            sret (if get_val \<and> (if pid = [] then sr_tag b = [] else sr_pid b = pid)
                  then acc @ [attr_str (sr_var_name b) (sr_var_value b)] else acc)))))
       (json_items rows) [])"

definition set_contract_scope_field :: "string \<times> string \<Rightarrow> ContractScopeRecord \<Rightarrow> ContractScopeRecord" where
  "set_contract_scope_field = (\<lambda>(n, v) r.
     if n = ''var_name'' then r\<lparr>cr_var_name := v\<rparr>
     else if n = ''var_value'' then r\<lparr>cr_var_value := v\<rparr>
     else if n = ''var_type'' then r\<lparr>cr_var_type := getEnumAll v\<rparr>
     else if n = ''contract_id'' then r\<lparr>cr_contract_id := v\<rparr>
     else if n = ''up_time'' then r\<lparr>cr_up_time := str2u64 v\<rparr>
     else if n = ''up_block'' then r\<lparr>cr_up_block := str2u64 v\<rparr>
     else if n = ''pid'' then r\<lparr>cr_pid := v\<rparr>
     else r)"

definition ContractScopeRecord_default :: ContractScopeRecord where
  "ContractScopeRecord_default = \<lparr>cr_contract_id = [], cr_var_name = [], cr_var_value = [], cr_var_type = 0,
     cr_var_info = [], cr_up_time = 0, cr_up_block = 0, cr_pid = []\<rparr>"

definition queryIfContractScopeAndParseData ::
    "tsce_env \<Rightarrow> json \<Rightarrow> string \<Rightarrow> (DataManager, DataAttribute list) prog" where
  "queryIfContractScopeAndParseData E query cid = sbind (queryAndCache E query) (\<lambda>(names, rows).
     if names = [] \<or> json_empty rows then sret []
     else sfold (\<lambda>row acc. sbind (slift (row_texts names row)) (\<lambda>cells.
         (let b0 = fold set_contract_scope_field cells ContractScopeRecord_default;
              b = (if cr_contract_id b0 = [] then b0\<lparr>cr_contract_id := cid\<rparr> else b0) in
          if cr_var_name b = [] then sret acc
          else sbind (assign (Inr ()) (\<lambda>_ m. m\<lparr>dm_contract_scope :=
                 om_put (cid @ cr_var_name b) b (dm_contract_scope m)\<rparr>)) (\<lambda>_.
            sret (acc @ [attr_str (cr_var_name b) (cr_var_value b)])))))
       (json_items rows) [])"

text \<open>The last record of that name without a tag, or the last one when all have a tag.\<close>

definition findUserScopeTableByName :: "DataManager \<Rightarrow> string \<Rightarrow> string \<Rightarrow> UserScopeRecord option" where
  "findUserScopeTableByName m user_id var_name =
     (case map_of (dm_user_scope m) (user_id @ var_name) of None \<Rightarrow> None
      | Some rows \<Rightarrow> fst (foldl (\<lambda>(ret, null_tag) r.
            if sr_var_name r \<noteq> var_name then (ret, null_tag)
            else if sr_tag r = [] then (Some r, True)
            else if \<not> null_tag then (Some r, null_tag)
            else (ret, null_tag)) (None, False) rows))"

definition findUserScopeTableByPid :: "DataManager \<Rightarrow> string \<Rightarrow> string \<Rightarrow> string \<Rightarrow> UserScopeRecord option" where
  "findUserScopeTableByPid m user_id var_name pid =
     (case map_of (dm_user_scope m) (user_id @ var_name) of None \<Rightarrow> None
      | Some rows \<Rightarrow> List.find (\<lambda>r. sr_pid r = pid) rows)"

subsection \<open>Operations\<close>

definition query_of :: "string \<Rightarrow> (string \<times> json) list \<Rightarrow> json" where
  "query_of type wh = json_obj [(''type'', JStr type), (''where'', json_obj wh)]"

definition getWorld :: "tsce_env \<Rightarrow> (DataManager, DataAttribute list) prog" where
  "getWorld E = queryIfAndParseData E (json_obj [(''type'', JStr ''world.get'')])"

definition getChain :: "tsce_env \<Rightarrow> (DataManager, DataAttribute list) prog" where
  "getChain E = queryIfAndParseData E (json_obj [(''type'', JStr ''chain.get'')])"

definition cached_user_info :: "UserAttributeRecord \<Rightarrow> DataAttribute list" where
  "cached_user_info r =
     [attr_str ''register_day'' (ar_register_day r), attr_str ''register_code'' (ar_register_code r),
      attr_str ''gender'' (getEnumString (ar_gender r)), attr_str ''isc_type'' (ar_isc_type r),
      attr_str ''isc_code'' (ar_isc_code r), attr_str ''location'' (ar_location r),
      attr_str ''age_limit'' (dec_int (ar_age_limit r))]"

definition getUserInfo :: "tsce_env \<Rightarrow> string \<Rightarrow> (DataManager, DataAttribute list) prog" where
  "getUserInfo E user_id_expr m = (if user_id_expr = [] then (m, Inr [])
     else let user_id = dm_eval m user_id_expr in
       (case map_of (dm_user_attr m) user_id of
          Some r \<Rightarrow> (m, Inr (cached_user_info r))
        | None \<Rightarrow> queryIfUserAttrAndParseData E (query_of ''user.info.get'' [(''uid'', JStr user_id)]) user_id m))"

text \<open>The amount found in the cache is only a default: the chain is asked in any case.\<close>

definition cached_currency :: "DataManager \<Rightarrow> string \<Rightarrow> 64 word" where
  "cached_currency m user_id = (case map_of (dm_user_scope m) (user_id @ dm_keyc_name m) of None \<Rightarrow> 0
     | Some rows \<Rightarrow> (case List.find (\<lambda>r. sr_tag r = [] \<and> sr_var_type r = ENUM_KEYC \<and> sr_var_name r = dm_keyc_name m) rows of
          None \<Rightarrow> 0 | Some r \<Rightarrow> str2u64 (sr_var_value r)))"

definition getUserKeyCurrency :: "tsce_env \<Rightarrow> string \<Rightarrow> (DataManager, int) prog" where
  "getUserKeyCurrency E user_id_expr m = (if user_id_expr = [] then (m, Inr 0)
     else let user_id = dm_eval m user_id_expr; name = dm_keyc_name m; cached = cached_currency m user_id in
       sbind (queryIfUserScopeAndParseData E (query_of ''user.scope.get''
           [(''uid'', JStr user_id), (''name'', JStr name), (''type'', JStr (getEnumString ENUM_KEYC)),
            (''notag'', JBool True)]) user_id [] True)
         (\<lambda>res. sret (sint (case res of
            a # _ \<Rightarrow> if da_name a = name then str2u64 (da_string_value a) else cached
          | [] \<Rightarrow> cached))) m)"

definition getUserCert :: "tsce_env \<Rightarrow> string \<Rightarrow> (DataManager, DataAttribute list) prog" where
  "getUserCert E user_id_expr m = (case user_id_expr of [] \<Rightarrow> (m, Inr [])
     | c # _ \<Rightarrow> (let user_id = (if c = CHR ''$'' then dm_eval m user_id_expr else user_id_expr) in
         queryIfUserCertAndParseData E (query_of ''user.cert.get'' [(''uid'', JStr user_id)]) user_id m))"

definition getUserScopeRecordByName :: "tsce_env \<Rightarrow> string \<Rightarrow> string \<Rightarrow> (DataManager, UserScopeRecord option) prog" where
  "getUserScopeRecordByName E user_id var_name m =
     (if var_name = ''*'' then (m, Inr None)
      else case findUserScopeTableByName m user_id var_name of
          Some r \<Rightarrow> (m, Inr (Some r))
        | None \<Rightarrow> sbind (queryIfUserScopeAndParseData E (query_of ''user.scope.get''
               [(''uid'', JStr user_id), (''name'', JStr var_name)]) user_id [] False)
             (\<lambda>_ m. (m, Inr (findUserScopeTableByName m user_id var_name))) m)"

definition getUserScopeRecordByPid :: "tsce_env \<Rightarrow> string \<Rightarrow> string \<Rightarrow> string \<Rightarrow> (DataManager, UserScopeRecord option) prog" where
  "getUserScopeRecordByPid E user_id var_name pid m =
     (case findUserScopeTableByPid m user_id var_name pid of
          Some r \<Rightarrow> (m, Inr (Some r))
        | None \<Rightarrow> sbind (queryIfUserScopeAndParseData E (query_of ''user.scope.get''
               [(''uid'', JStr user_id), (''pid'', JStr pid)]) user_id [] False)
             (\<lambda>_ m. (m, Inr (findUserScopeTableByPid m user_id var_name pid))) m)"

definition cached_variables :: "DataManager \<Rightarrow> string \<Rightarrow> string \<Rightarrow> string \<Rightarrow> DataAttribute list" where
  "cached_variables m scope i name =
     (if name \<noteq> ''*'' then
        (if scope = ''user'' then
           (case map_of (dm_user_scope m) (i @ name) of None \<Rightarrow> []
            | Some rows \<Rightarrow> (case List.find (\<lambda>r. sr_tag r = []) rows of
                 None \<Rightarrow> [] | Some r \<Rightarrow> [attr_str name (sr_var_value r)]))
         else (case map_of (dm_contract_scope m) (i @ name) of None \<Rightarrow> []
            | Some r \<Rightarrow> [attr_str name (cr_var_value r)]))
      else
        (if scope = ''user'' then concat (map (\<lambda>(k, rows).
             map (\<lambda>r. attr_str (sr_var_name r) (sr_var_value r))
               (filter (\<lambda>r. sr_var_owner r = i \<and> sr_tag r = []) rows)) (dm_user_scope m))
         else map (\<lambda>(k, r). attr_str (cr_var_name r) (cr_var_value r))
               (filter (\<lambda>(k, r). cr_contract_id r = i) (dm_contract_scope m))))"

definition getScopeVariables :: "tsce_env \<Rightarrow> string \<Rightarrow> string \<Rightarrow> string \<Rightarrow> (DataManager, DataAttribute list) prog" where
  "getScopeVariables E scope i name m =
     (if i = [] \<or> name = [] \<or> scope \<notin> {''user'', ''contract''} then (m, Inr [])
      else let found = cached_variables m scope i name in
        if found \<noteq> [] then (m, Inr found)
        else let q = query_of (if scope = ''user'' then ''user.scope.get'' else ''contract.scope.get'')
                  ([(''uid'', JStr i), (''notag'', JBool True)] @ (if name \<noteq> ''*'' then [(''name'', JStr name)] else []))
          in if scope = ''user'' then queryIfUserScopeAndParseData E q i [] True m
             else queryIfContractScopeAndParseData E q i m)"

end
