(* ===== verification/Contract_Conditions.thy ===== *)
theory Contract_Conditions
  imports Data_Manager
begin

text \<open>
  The conditions of a contract: \<open>base_condition_handler.cpp\<close> and the handlers for comparisons,
  variables, times, users, endorsers, certificates and signatures, the handler that combines them
  (\<open>condition_handler.cpp\<close>) and the manager that caches their results (\<open>condition_manager.cpp\<close>).
  The recursion is over the elements of a document, so it needs no fuel. All children of a group are
  evaluated, also when the result is known: evaluating one may fill the caches.
\<close>

subsection \<open>Kinds of conditions\<close>

datatype EvalRuleType = EVAL_AND | EVAL_OR

datatype PrimaryConditionType = P_ROOT | P_IF | P_NIF | P_COMPARE | P_SIGNATURE | P_CERTIFICATE | P_TIME
  | P_ENDORSER | P_RECEIVER | P_USER | P_VAR | P_UNKNOWN

datatype SecondaryConditionType = S_USER | S_RECEIVER | S_ENDORSER | S_IF | S_NIF | S_ID | S_LOCATION
  | S_SERVICE | S_AGE | S_GENDER | S_UNKNOWN

definition getEvalRule :: "string \<Rightarrow> EvalRuleType option" where
  "getEvalRule s = (if s = [] then None else if mt_toLower s = ''or'' then Some EVAL_OR else Some EVAL_AND)"

definition eval_rule :: "xml \<Rightarrow> EvalRuleType \<Rightarrow> EvalRuleType" where
  "eval_rule e dflt = (case getEvalRule (xml_attr e ''eval-rule'') of Some r \<Rightarrow> r | None \<Rightarrow> dflt)"

definition getPrimaryConditionType :: "string \<Rightarrow> PrimaryConditionType" where
  "getPrimaryConditionType tag = (case map_of
     [(''condition'', P_ROOT), (''update'', P_ROOT), (''if'', P_IF), (''nif'', P_NIF), (''compare'', P_COMPARE),
      (''signature'', P_SIGNATURE), (''certificate'', P_CERTIFICATE), (''time'', P_TIME),
      (''endorser'', P_ENDORSER), (''receiver'', P_RECEIVER), (''user'', P_USER), (''var'', P_VAR)]
     (mt_toLower tag) of Some t \<Rightarrow> t | None \<Rightarrow> P_UNKNOWN)"

definition getSecondaryConditionType :: "string \<Rightarrow> SecondaryConditionType" where
  "getSecondaryConditionType tag = (case map_of
     [(''if'', S_IF), (''nif'', S_NIF), (''age'', S_AGE), (''gender'', S_GENDER), (''service'', S_SERVICE),
      (''id'', S_ID), (''location'', S_LOCATION), (''endorser'', S_ENDORSER), (''user'', S_USER),
      (''receiver'', S_RECEIVER)]
     (mt_toLower tag) of Some t \<Rightarrow> t | None \<Rightarrow> S_UNKNOWN)"

subsection \<open>Comparisons\<close>

datatype CompareType = C_EQ | C_NE | C_GE | C_LE | C_GT | C_LT | C_AGE | C_ALE | C_AGT | C_ALT | C_UNKNOWN

definition getCompareType :: "string \<Rightarrow> CompareType" where
  "getCompareType s = (case map_of
     [(''EQ'', C_EQ), (''='', C_EQ), (''=='', C_EQ), (''NE'', C_NE), (''!='', C_NE), (''GE'', C_GE),
      (''>='', C_GE), (''=>'', C_GE), (''LE'', C_LE), (''<='', C_LE), (''=<'', C_LE), (''GT'', C_GT),
      (''>'', C_GT), (''LT'', C_LT), (''<'', C_LT), (''AGE'', C_AGE), (''ALE'', C_ALE), (''AGT'', C_AGT),
      (''ALT'', C_ALT)]
     (mt_toUpper s) of Some t \<Rightarrow> t | None \<Rightarrow> C_UNKNOWN)"

text \<open>\<open>abs(src - ref)\<close> on \<open>int\<close>.\<close>

definition abs_diff :: "int \<Rightarrow> int \<Rightarrow> int result" where
  "abs_diff a b = rbind (chk_int (a - b)) (\<lambda>d. chk_int \<bar>d\<bar>)"

definition compare_values :: "CompareType \<Rightarrow> string \<Rightarrow> string \<Rightarrow> string \<Rightarrow> bool result" where
  "compare_values t src ref abs_str =
     (let s = str2int src; r = str2int ref; a = str2int (mt_trim abs_str) in
      case t of
        C_EQ \<Rightarrow> Inr (src = ref)
      | C_NE \<Rightarrow> Inr (src \<noteq> ref)
      | C_GE \<Rightarrow> Inr (s \<ge> r)
      | C_LE \<Rightarrow> Inr (s \<le> r)
      | C_GT \<Rightarrow> Inr (s > r)
      | C_LT \<Rightarrow> Inr (s < r)
      | C_AGE \<Rightarrow> rbind (abs_diff s r) (\<lambda>d. Inr (d \<ge> a))
      | C_ALE \<Rightarrow> rbind (abs_diff s r) (\<lambda>d. Inr (d \<le> a))
      | C_AGT \<Rightarrow> rbind (abs_diff s r) (\<lambda>d. Inr (d > a))
      | C_ALT \<Rightarrow> rbind (abs_diff s r) (\<lambda>d. Inr (d < a))
      | C_UNKNOWN \<Rightarrow> Inr False)"

definition eval_compare :: "DataManager \<Rightarrow> xml \<Rightarrow> bool result" where
  "eval_compare m e =
     (let src = mt_trim (xml_attr e ''src''); ref = mt_trim (xml_attr e ''ref'') in
      if src = [] \<or> ref = [] then Inr False
      else case (evalOpt m src, evalOpt m ref) of
          (Some s, Some r) \<Rightarrow> compare_values (getCompareType (xml_attr e ''type'')) s r (xml_attr e ''abs'')
        | _ \<Rightarrow> Inr False)"

definition compare_node :: "xml \<Rightarrow> string \<Rightarrow> xml" where
  "compare_node e src = Elem ''compare'' [(''ref'', xml_attr e ''ref''), (''type'', xml_attr e ''type''),
     (''abs'', xml_attr e ''abs''), (''src'', src)] None []"

definition eval_var :: "tsce_env \<Rightarrow> xml \<Rightarrow> (DataManager, bool) prog" where
  "eval_var E e m =
     (let scope = xml_attr e ''scope''; name = mt_trim (xml_attr e ''name'') in
      if name = ''*'' then (m, Inr False)
      else if scope \<in> {''user'', ''author'', ''receiver'', ''contract''} then
        sbind (getScopeVariables E (if scope = ''contract'' then ''contract'' else ''user'')
                 (dm_eval m (xml_attr e ''id'')) name)
          (\<lambda>vals m. case vals of [] \<Rightarrow> (m, Inr False)
             | v # _ \<Rightarrow> (m, eval_compare m (compare_node e (da_string_value v)))) m
      else if scope = ''world'' then
        (m, eval_compare m (compare_node e (dm_eval m (''$world.'' @ name))))
      else if scope = ''chain'' then
        (m, eval_compare m (compare_node e (dm_eval m (''$chain.'' @ name))))
      else (m, Inr False))"

subsection \<open>Times\<close>

text \<open>\<open>mt::timestr2timestamp\<close> without an offset: a date, a local time or a time with its zone.\<close>

definition timestr2timestamp :: "tsce_env \<Rightarrow> string \<Rightarrow> 64 word" where
  "timestr2timestamp E s =
     (let t0 = (if s \<noteq> [] \<and> last s \<in> {CHR ''Z'', CHR ''z''} then butlast s else s);
          n = length t0;
          t = (if n > 10 then t0[10 := CHR ''T''] else t0);
          text = (if n = 10 then Some (t @ ''T00:00:00+00:00'')
                  else if n = 19 then Some (t @ ''+00:00'')
                  else if n = 25 then Some t else None)
      in case text of None \<Rightarrow> 0
         | Some x \<Rightarrow> (case c_parse_time E x of None \<Rightarrow> 0 | Some ms \<Rightarrow> word_of_int ms))"

definition child_text_of :: "xml \<Rightarrow> string \<Rightarrow> string" where
  "child_text_of e n = mt_trim (case first_child e n of None \<Rightarrow> [] | Some c \<Rightarrow> xml_get_text c)"

definition eval_time :: "tsce_env \<Rightarrow> DataManager \<Rightarrow> xml option \<Rightarrow> bool" where
  "eval_time E m p = (case (p, evalOpt m ''$time'') of
       (Some e, Some t) \<Rightarrow>
         (let base = str2u64 t * 1000; after = child_text_of e ''after''; before = child_text_of e ''before'' in
          if after = [] \<and> before = [] then False
          else if before = [] then timestr2timestamp E after < base
          else if after = [] then timestr2timestamp E before > base
          else timestr2timestamp E after < base \<and> base < timestr2timestamp E before)
     | _ \<Rightarrow> False)"

subsection \<open>Users and endorsers\<close>

fun ymd_less :: "ymd \<Rightarrow> ymd \<Rightarrow> bool" where
  "ymd_less (y1, m1, d1) (y2, m2, d2) \<longleftrightarrow> y1 < y2 \<or> (y1 = y2 \<and> (m1 < m2 \<or> (m1 = m2 \<and> d1 < d2)))"

text \<open>The milliseconds are counted by a signed 64-bit integer.\<close>

definition eval_age :: "tsce_env \<Rightarrow> DataManager \<Rightarrow> string \<Rightarrow> xml \<Rightarrow> bool" where
  "eval_age E m user_key e =
     (let after = mt_trim (xml_attr e ''after''); before = mt_trim (xml_attr e ''before'');
          birthday_str = dm_eval m (user_key @ ''.birthday'');
          now = str2u64 (dm_eval m ''$time'') * 1000 in
      if after = [] \<and> before = [] then False
      else if birthday_str = [] then False
      else case c_parse_day E birthday_str of None \<Rightarrow> False
        | Some ms \<Rightarrow>
           if now = 0 then False
           else let birthday = c_ymd E ms; today = c_ymd E (sint now);
                    older = ymd_less (c_add_years E birthday (str2int after)) today;
                    younger = ymd_less today (c_add_years E birthday (str2int before))
             in if before = [] then older else if after = [] then younger else older \<and> younger)"

definition combine :: "EvalRuleType \<Rightarrow> bool \<Rightarrow> bool \<Rightarrow> bool" where
  "combine rule a b = (case rule of EVAL_AND \<Rightarrow> a \<and> b | EVAL_OR \<Rightarrow> a \<or> b)"

definition rule_start :: "EvalRuleType \<Rightarrow> bool" where
  "rule_start rule = (rule = EVAL_AND)"

fun eval_user :: "tsce_env \<Rightarrow> DataManager \<Rightarrow> string \<Rightarrow> xml \<Rightarrow> bool"
  and eval_users :: "tsce_env \<Rightarrow> DataManager \<Rightarrow> string \<Rightarrow> EvalRuleType \<Rightarrow> bool \<Rightarrow> xml list \<Rightarrow> bool" where
  "eval_user E m user_key (Elem n as t cs) =
     (let e = Elem n as t cs; kind = getSecondaryConditionType n;
          res = (case kind of
             S_ID \<Rightarrow> dm_eval m user_key = mt_trim (xml_get_text e)
           | S_LOCATION \<Rightarrow> evalOpt m (user_key @ ''.location'')
               = Some (mt_trim (xml_attr e ''country'' @ '' '' @ xml_attr e ''state''))
           | S_SERVICE \<Rightarrow> evalOpt m (user_key @ ''.isc_type'') = Some (xml_attr e ''type'')
               \<and> evalOpt m (user_key @ ''.isc_code'') = Some (mt_trim (xml_get_text e))
           | S_GENDER \<Rightarrow> evalOpt m (user_key @ ''.gender'') = Some (mt_toUpper (mt_trim (xml_get_text e)))
           | S_AGE \<Rightarrow> eval_age E m user_key e
           | S_ENDORSER \<Rightarrow> False
           | S_UNKNOWN \<Rightarrow> False
           | _ \<Rightarrow> (let rule = eval_rule e EVAL_AND in eval_users E m user_key rule (rule_start rule) cs))
      in if kind = S_NIF then \<not> res else res)"
| "eval_users E m user_key rule acc [] = acc"
| "eval_users E m user_key rule acc (c # cs) =
     eval_users E m user_key rule (combine rule acc (eval_user E m user_key c)) cs"

definition endorser_is :: "DataManager \<Rightarrow> string \<Rightarrow> nat \<Rightarrow> bool" where
  "endorser_is m i k \<longleftrightarrow> i \<noteq> [] \<and> evalOpt m (''$tx.endorser['' @ dec_nat k @ ''].id'') = Some i"

fun eval_endorser :: "DataManager \<Rightarrow> xml \<Rightarrow> bool"
  and eval_endorsers :: "DataManager \<Rightarrow> EvalRuleType \<Rightarrow> bool \<Rightarrow> xml list \<Rightarrow> bool" where
  "eval_endorser m (Elem n as t cs) =
     (let e = Elem n as t cs; kind = getSecondaryConditionType n;
          rule = eval_rule e EVAL_AND;
          res = (case kind of
             S_ENDORSER \<Rightarrow> eval_endorsers m rule (rule_start rule) cs
           | S_IF \<Rightarrow> eval_endorsers m rule (rule_start rule) cs
           | S_NIF \<Rightarrow> eval_endorsers m rule (rule_start rule) cs
           | S_ID \<Rightarrow> (case evalOpt m ''$tx.endorser.count'' of None \<Rightarrow> False
               | Some c \<Rightarrow> list_ex (endorser_is m (mt_trim (xml_get_text e))) [0..<nat (str2int c)])
           | _ \<Rightarrow> False)
      in if kind = S_NIF then \<not> res else res)"
| "eval_endorsers m rule acc [] = acc"
| "eval_endorsers m rule acc (c # cs) = eval_endorsers m rule (combine rule acc (eval_endorser m c)) cs"

subsection \<open>Certificates and signatures\<close>

definition eval_certificate :: "tsce_env \<Rightarrow> DataManager \<Rightarrow> xml \<Rightarrow> bool" where
  "eval_certificate E m e = (case (first_child e ''pk'', first_child e ''by'') of
       (Some pk_node, Some by_node) \<Rightarrow>
         (let pk_expr = xml_attr pk_node ''value''; pk = dm_eval m pk_expr;
              by_attr = xml_attr by_node ''value'';
              by_val = (if by_attr \<noteq> [] then dm_eval m by_attr else xml_get_text by_node) in
          if pk_expr = [] \<or> pk = [] \<or> by_val = [] then False else c_verify_cert E pk by_val)
     | _ \<Rightarrow> False)"

text \<open>
  \<open>appendData\<close>: the bytes a value contributes, by the code of its type. For \<open>BIN\<close> every group of
  eight characters is read as \<open>stoi("0b..", nullptr, 2)\<close>, which stops at the letter and gives zero. For
  \<open>BOOL\<close> a text that is no number is true when it starts like \<open>true\<close>.
\<close>

definition bool_byte :: "bool \<Rightarrow> string" where
  "bool_byte b = [if b then CHR 0x01 else CHR 0x00]"

definition enumv_code :: "string \<Rightarrow> int" where
  "enumv_code s = (if s = ''KEYC'' then 0 else if s = ''FIAT'' then 1 else if s = ''COIN'' then 2
     else if s = ''XCOIN'' then 3 else 4)"

definition gender_code :: "string \<Rightarrow> int" where
  "gender_code s = (if s = ''MALE'' then 90 else if s = ''FEMALE'' then 91 else 92)"

definition append_bool :: "string \<Rightarrow> string result" where
  "append_bool s = (if list_all is_digit s then rbind (stoi s) (\<lambda>x. Inr (bool_byte (x > 0)))
     else Inr (bool_byte (take 4 (dropWhile is_space (mt_toLower s)) = ''true'')))"

definition appendData :: "tsce_env \<Rightarrow> string \<Rightarrow> string \<Rightarrow> string result" where
  "appendData E type val =
     (let c = getEnumAll type; u = c_utils E in
      if c \<in> {50, 51, 52, 32} then Inr (c_dec_text E val)
      else if c = 53 then c_stof E val
      else if c = 54 then append_bool val
      else if c \<in> {60, 61, 63} then Inr val
      else if c \<in> {71, 72} then Inr (u_bytes_dec u (uint (timestr2timestamp E val)))
      else if c = 31 then Inr (replicate (length val div 8) (CHR 0x00))
      else if c = 33 then Inr (c_hex E val)
      else if c = 34 then Inr (u_from58 u val)
      else if c = 35 then Inr (u_from64 u val)
      else if c = 10 then Inr (u_bytes_dec u (enumv_code val))
      else if c = 11 then Inr (u_bytes_dec u (gender_code val))
      else Inr [])"

definition verifySig :: "tsce_env \<Rightarrow> string \<Rightarrow> string \<Rightarrow> string \<Rightarrow> string \<Rightarrow> string \<Rightarrow> bool" where
  "verifySig E signature_type signature pk_type pk msg =
     (if pk_type = ''PEM'' then True
      else if signature_type = [] \<or> signature_type = ''GAMMA'' then True
      else if signature_type = ''ECDSA'' then
        (let h = length pk div 2 in c_ecdsa_point E (take h (drop 1 pk)) (drop (h + 1) pk) msg signature)
      else False)"

definition text_part :: "tsce_env \<Rightarrow> DataManager \<Rightarrow> xml \<Rightarrow> string result" where
  "text_part E m v = (case xml_attr v ''value'' of
       [] \<Rightarrow> Inr []
     | c # r \<Rightarrow> if c = CHR ''$''
         then (case dm_get m (c # r) of None \<Rightarrow> Inr [] | Some x \<Rightarrow> appendData E (xml_attr v ''type'') x)
         else appendData E (xml_attr v ''type'') (c # r))"

text \<open>The key is read from the element of the signature, and the signature itself is never evaluated.\<close>

definition eval_signature :: "tsce_env \<Rightarrow> DataManager \<Rightarrow> xml \<Rightarrow> bool result" where
  "eval_signature E m e = (case (first_child e ''sig'', first_child e ''pk'', first_child e ''text'') of
       (Some sig_node, Some pk_node, Some text_node) \<Rightarrow>
         (case xml_attr sig_node ''value'' of
            [] \<Rightarrow> Inr False
          | c # r \<Rightarrow> if c \<noteq> CHR ''$'' then Inr False
              else (case dm_get m (c # r) of None \<Rightarrow> Inr False
                | Some pk \<Rightarrow>
                   rbind (rmap (text_part E m) (parseChildrenFromNoIf (Some text_node) ''val'')) (\<lambda>parts.
                     Inr (verifySig E (xml_attr e ''type'') (c # r) (xml_attr sig_node ''type'') pk (concat parts)))))
     | _ \<Rightarrow> Inr False)"

subsection \<open>Conditions\<close>

fun eval_condition :: "tsce_env \<Rightarrow> xml \<Rightarrow> (DataManager, bool) prog"
  and eval_conditions :: "tsce_env \<Rightarrow> EvalRuleType \<Rightarrow> bool \<Rightarrow> xml list \<Rightarrow> (DataManager, bool) prog" where
  "eval_condition E (Elem n as t cs) =
     (let e = Elem n as t cs; kind = getPrimaryConditionType n; rule = eval_rule e EVAL_OR in
      case kind of
        P_ROOT \<Rightarrow> eval_conditions E rule (rule_start rule) cs
      | P_IF \<Rightarrow> eval_conditions E rule (rule_start rule) cs
      | P_NIF \<Rightarrow> sbind (eval_conditions E rule (rule_start rule) cs) (\<lambda>b. sret (\<not> b))
      | P_COMPARE \<Rightarrow> (\<lambda>m. (m, eval_compare m e))
      | P_SIGNATURE \<Rightarrow> (\<lambda>m. (m, eval_signature E m e))
      | P_CERTIFICATE \<Rightarrow> (\<lambda>m. (m, Inr (eval_certificate E m e)))
      | P_TIME \<Rightarrow> (\<lambda>m. (m, Inr (eval_time E m (Some e))))
      | P_ENDORSER \<Rightarrow> (\<lambda>m. (m, Inr (eval_endorser m e)))
      | P_RECEIVER \<Rightarrow> (\<lambda>m. (m, Inr (eval_user E m ''$receiver'' e)))
      | P_USER \<Rightarrow> (\<lambda>m. (m, Inr (eval_user E m ''$user'' e)))
      | P_VAR \<Rightarrow> eval_var E e
      | P_UNKNOWN \<Rightarrow> sret True)"
| "eval_conditions E rule acc [] = sret acc"
| "eval_conditions E rule acc (c # cs) =
     sbind (eval_condition E c) (\<lambda>b. eval_conditions E rule (combine rule acc b) cs)"

definition condition_evalue :: "tsce_env \<Rightarrow> xml option \<Rightarrow> (DataManager, bool) prog" where
  "condition_evalue E p = (case p of None \<Rightarrow> sret False | Some e \<Rightarrow> eval_condition E e)"

subsection \<open>The condition manager\<close>

record ConditionManager =
  cm_result_cache :: "(string, bool \<times> string) omap"
  cm_keyword_map :: "(string, string list) omap"

definition ConditionManager_new :: ConditionManager where
  "ConditionManager_new = \<lparr>cm_result_cache = [], cm_keyword_map = []\<rparr>"

definition checkAndPush :: "xml \<Rightarrow> string \<Rightarrow> string list" where
  "checkAndPush e k = (case xml_attr e k of [] \<Rightarrow> []
     | c # r \<Rightarrow> if c = CHR ''$'' then [c # r] else [])"

fun keyword_search :: "xml \<Rightarrow> string list" where
  "keyword_search (Elem n as t cs) =
     (let e = Elem n as t cs in
      (if n = ''compare'' then checkAndPush e ''src'' @ checkAndPush e ''ref''
       else if n = ''age'' then checkAndPush e ''after'' @ checkAndPush e ''before''
       else if n = ''var'' then checkAndPush e ''id'' @ checkAndPush e ''name''
       else checkAndPush e ''value'') @ concat (map keyword_search cs))"

definition getHashKV :: "tsce_env \<Rightarrow> string list \<Rightarrow> DataManager \<Rightarrow> string" where
  "getHashKV E kws m = u_sha256 (c_utils E)
     (concat (map (\<lambda>k. case dm_get m k of Some v \<Rightarrow> v | None \<Rightarrow> []) kws))"

text \<open>A result is inserted, never replaced: a second insertion under an id has no effect.\<close>

definition cm_evalue :: "tsce_env \<Rightarrow> xml option \<Rightarrow> (ConditionManager \<times> DataManager, bool) prog" where
  "cm_evalue E p = (\<lambda>(cm, m). case p of None \<Rightarrow> ((cm, m), Inr False)
     | Some e \<Rightarrow> (let i = xml_attr e ''id'' in
        if i = [] then ((cm, m), Inr True)
        else
          let kws = (case map_of (cm_keyword_map cm) i of Some ks \<Rightarrow> ks | None \<Rightarrow> keyword_search e);
              cm1 = cm\<lparr>cm_keyword_map := om_try i kws (cm_keyword_map cm)\<rparr>;
              hash_kv = getHashKV E kws m;
              run = (case condition_evalue E (Some e) m of
                  (m1, Inl err) \<Rightarrow> ((cm1, m1), Inl err)
                | (m1, Inr b) \<Rightarrow> ((cm1\<lparr>cm_result_cache := om_try i (b, hash_kv) (cm_result_cache cm1)\<rparr>, m1), Inr b))
          in case map_of (cm_result_cache cm1) i of
               None \<Rightarrow> run
             | Some (b, h) \<Rightarrow> if h = hash_kv then ((cm1, m), Inr b) else run))"

text \<open>An unknown condition holds; a leading tilde negates.\<close>

definition getEvalResultById :: "ConditionManager \<Rightarrow> string \<Rightarrow> bool" where
  "getEvalResultById cm i =
     (let (neg, key) = (case i of c # r \<Rightarrow> if c = CHR ''~'' then (True, r) else (False, i) | [] \<Rightarrow> (False, [])) in
      if key = [] then True
      else case map_of (cm_result_cache cm) key of None \<Rightarrow> True | Some (b, _) \<Rightarrow> (neg = (\<not> b)))"

end
