(* ===== verification/Contract_Handlers.thy ===== *)
theory Contract_Handlers
  imports Contract_Conditions
begin

text \<open>
  The directives of a contract: input (\<open>input_handler\<close>), get, fee, set and the tags of scope variables
  (\<open>get_handler.cpp\<close>, \<open>fee_handler.cpp\<close>, \<open>set_handler.cpp\<close>, \<open>tag_handler.cpp\<close>). The regular
  expressions that are written in the code are recognisers here; one that comes with a contract is
  matched by the environment.
\<close>

subsection \<open>Texts of the input types\<close>

definition is_bool_text :: "string \<Rightarrow> bool" where
  "is_bool_text s \<longleftrightarrow> mt_toLower s = ''true'' \<or> mt_toLower s = ''false''"

definition is_bin :: "string \<Rightarrow> bool" where
  "is_bin s \<longleftrightarrow> list_all (\<lambda>c. c = CHR ''0'' \<or> c = CHR ''1'') s"

definition digit_between :: "char \<Rightarrow> char \<Rightarrow> char \<Rightarrow> bool" where
  "digit_between a b c = char_in (of_char a) (of_char b) c"

definition day_ok :: "char \<Rightarrow> char \<Rightarrow> bool" where
  "day_ok a b \<longleftrightarrow> (a = CHR ''0'' \<and> digit_between CHR ''1'' CHR ''9'' b)
     \<or> (digit_between CHR ''1'' CHR ''2'' a \<and> is_digit b) \<or> (a = CHR ''3'' \<and> b \<in> {CHR ''0'', CHR ''1''})"

fun is_date :: "string \<Rightarrow> bool" where
  "is_date [y1, y2, y3, y4, h1, m1, m2, h2, d1, d2] \<longleftrightarrow>
     digit_between CHR ''1'' CHR ''2'' y1 \<and> is_digit y2 \<and> is_digit y3 \<and> is_digit y4 \<and> h1 = CHR ''-'' \<and> h2 = CHR ''-''
     \<and> ((m1 = CHR ''0'' \<and> digit_between CHR ''1'' CHR ''9'' m2) \<or> (m1 = CHR ''1'' \<and> digit_between CHR ''0'' CHR ''2'' m2))
     \<and> day_ok d1 d2"
| "is_date _ \<longleftrightarrow> False"

definition is_time_of_day :: "string \<Rightarrow> bool" where
  "is_time_of_day s \<longleftrightarrow> (case s of [h1, h2, c1, m1, m2, c2, s1, s2] \<Rightarrow>
       ((digit_between CHR ''0'' CHR ''1'' h1 \<and> is_digit h2) \<or> (h1 = CHR ''2'' \<and> digit_between CHR ''0'' CHR ''3'' h2))
       \<and> c1 = CHR '':'' \<and> c2 = CHR '':'' \<and> digit_between CHR ''0'' CHR ''5'' m1 \<and> is_digit m2
       \<and> digit_between CHR ''0'' CHR ''5'' s1 \<and> is_digit s2
     | _ \<Rightarrow> False)"

text \<open>The expression ends in one zero for the minutes of the zone, so the text has 24 characters.\<close>

definition is_datetime :: "string \<Rightarrow> bool" where
  "is_datetime s \<longleftrightarrow> length s = 24
     \<and> (take 2 s = ''19'' \<or> take 2 s = ''20'') \<and> is_digit (s ! 2) \<and> is_digit (s ! 3) \<and> s ! 4 = CHR ''-''
     \<and> ((s ! 5 = CHR ''0'' \<and> is_digit (s ! 6)) \<or> (s ! 5 = CHR ''1'' \<and> digit_between CHR ''0'' CHR ''2'' (s ! 6)))
     \<and> s ! 7 = CHR ''-'' \<and> day_ok (s ! 8) (s ! 9) \<and> s ! 10 = CHR ''T'' \<and> is_time_of_day (take 8 (drop 11 s))
     \<and> s ! 19 \<in> {CHR ''+'', CHR ''-''} \<and> digit_between CHR ''0'' CHR ''1'' (s ! 20) \<and> is_digit (s ! 21)
     \<and> s ! 22 = CHR '':'' \<and> s ! 23 = CHR ''0''"

definition begin_certificate :: string where "begin_certificate = ''-----BEGIN CERTIFICATE-----''"
definition end_certificate :: string where "end_certificate = ''-----END CERTIFICATE-----''"

subsection \<open>Input\<close>

abbreviation INT_LENGTH :: nat where "INT_LENGTH \<equiv> 17"
abbreviation MAX_INT :: int where "MAX_INT \<equiv> 9007199254740991"
abbreviation MAX_INPUT_SIZE :: int where "MAX_INPUT_SIZE \<equiv> 5"

record InputOption =
  io_key :: string
  io_type :: string
  io_validation :: string

definition in_range :: "string \<Rightarrow> int \<Rightarrow> int \<Rightarrow> bool" where
  "in_range s lo hi \<longleftrightarrow> length s \<le> INT_LENGTH \<and> lo \<le> str2num s \<and> str2num s \<le> hi"

text \<open>The check by type; whatever is thrown on the way makes the value invalid.\<close>

definition type_ok :: "tsce_env \<Rightarrow> EnumAll \<Rightarrow> string \<Rightarrow> bool" where
  "type_ok E c s =
     (if c = 50 then in_range s (- MAX_INT) MAX_INT
      else if c = 51 then in_range s 1 MAX_INT
      else if c = 52 then in_range s (- MAX_INT) (-1)
      else if c = 53 then c_stold E s
      else if c = 54 then is_bool_text s
      else if c = 60 then length s \<le> 255
      else if c = 61 then length s \<le> 65535
      else if c = 62 then length s \<le> 16777215
      else if c = 72 then is_date s
      else if c = 71 then is_datetime s
      else if c = 31 then is_bin s
      else if c = 32 then list_all is_digit s
      else if c = 33 then list_all is_xdigit s
      else if c = 34 then list_all is_base58 s
      else if c = 35 then is_base64 s
      else if c = 10 then s \<in> {''KEYC'', ''FIAT'', ''COIN'', ''XCOIN''}
      else if c = 11 then s \<in> {''MALE'', ''FEMALE'', ''OTHER''}
      else if c = 12 then True
      else if c = 21 then contains_text begin_certificate s \<and> contains_text end_certificate s \<and> is_base64 s
      else if c = 23 then c_parse_xml E s \<noteq> None
      else if c = 22 then c_parse_xml E s \<noteq> None \<and> length s \<ge> 11 \<and> take 9 s = ''<contract''
             \<and> drop (length s - 11) s = ''</contract>''
      else False)"

definition isValidValue :: "tsce_env \<Rightarrow> string \<Rightarrow> string \<Rightarrow> string \<Rightarrow> bool" where
  "isValidValue E val type validation =
     (type_ok E (case map_of INPUT_OPTION_TYPE_MAP type of Some c \<Rightarrow> c | None \<Rightarrow> 61) val
      \<and> (validation = [] \<or> c_regex E validation val = Inr True))"

text \<open>\<open>IntAttribute\<close> reads a leading number as \<open>sscanf\<close> does.\<close>

definition xml_int_attr :: "xml \<Rightarrow> string \<Rightarrow> int \<Rightarrow> int" where
  "xml_int_attr e k d = (case map_of (xml_attrs e) k of None \<Rightarrow> d
     | Some v \<Rightarrow> (case strto v of None \<Rightarrow> d | Some x \<Rightarrow> i32 x))"

type_synonym value_groups = "(string, string list) omap"

definition set_both :: "nat \<Rightarrow> string \<Rightarrow> string \<Rightarrow> DataManager \<Rightarrow> DataManager" where
  "set_both i key val m = updateValue (''$'' @ dec_nat i @ ''.'' @ key) val
     (updateValue (''$tx.contract.input['' @ dec_nat i @ ''].'' @ key) val m)"

definition take_input :: "tsce_env \<Rightarrow> InputOption list \<Rightarrow> nat \<Rightarrow> string \<times> json \<Rightarrow> value_groups
    \<Rightarrow> (DataManager, value_groups) prog" where
  "take_input E options i kv groups = (case kv of (key, j) \<Rightarrow>
     sbind (slift (json_to_str j)) (\<lambda>val.
       case List.find (\<lambda>opt. io_key opt = key) options of
         None \<Rightarrow> sret groups
       | Some opt \<Rightarrow>
           if \<not> isValidValue E val (io_type opt) (io_validation opt) then sret groups
           else sbind (assign (Inr ()) (\<lambda>_. set_both i key val)) (\<lambda>_.
             let groups' = om_put key ((case map_of groups key of Some vs \<Rightarrow> vs | None \<Rightarrow> []) @ [val]) groups in
             if io_type opt = ''PEM''
             then sbind (assign (c_cert_info E val) (\<lambda>(after, before, sn) m.
                 set_both i ''sn'' sn (set_both i ''notbefore'' before (set_both i ''notafter'' after m)))) (\<lambda>_. sret groups')
             else sret groups')))"

definition json_size :: "json \<Rightarrow> nat" where
  "json_size j = length (json_items j)"

text \<open>The limit is compared with the unsigned size, so a negative one lets all inputs through.\<close>

definition num_inputs :: "int \<Rightarrow> nat \<Rightarrow> nat" where
  "num_inputs limit n = (if (word_of_int limit :: 64 word) > word_of_nat n then n else nat limit)"

definition parseInput :: "tsce_env \<Rightarrow> json \<Rightarrow> xml \<Rightarrow> (DataManager, bool) prog" where
  "parseInput E input node =
     (let limit = xml_int_attr node ''max'' 1;
          options = map (\<lambda>e. \<lparr>io_key = xml_attr e ''name'', io_type = xml_attr e ''type'',
              io_validation = xml_attr e ''validation''\<rparr>) (parseChildrenFromNoIf (Some node) ''option'') in
      if json_empty input then sret False
      else if limit > MAX_INPUT_SIZE then sret False
      else sbind (sfold (\<lambda>i groups. sbind (slift (row_cell input i)) (\<lambda>group.
               sfold (take_input E options i) (concat (map json_kvs (json_items group))) groups))
             [0..<num_inputs limit (json_size input)] [])
           (\<lambda>groups. sbind (assign (Inr ()) (\<lambda>_ m. fold (\<lambda>(k, vs). updateValue (''$input@'' @ k)
               (u_dump (c_utils E) (JArr (map JStr vs)))) groups m)) (\<lambda>_. sret True)))"

subsection \<open>Get\<close>

definition set_attrs :: "string \<Rightarrow> DataAttribute list \<Rightarrow> DataManager \<Rightarrow> DataManager" where
  "set_attrs pre attrs m = fold (\<lambda>a. updateValue (pre @ ''.'' @ da_name a) (da_string_value a)) attrs m"

text \<open>The keys under which the values that were found are stored.\<close>

definition store_found :: "xml \<Rightarrow> string \<Rightarrow> string \<Rightarrow> string \<Rightarrow> DataAttribute list \<Rightarrow> DataManager \<Rightarrow> DataManager" where
  "store_found v scope i storage_id vals m =
     (let id_as = xml_attr v ''id-as''; name_as = xml_attr v ''as'';
          m1 = (if i = [] \<or> i = storage_id then set_attrs (''$'' @ scope) vals m else m);
          m2 = (if i \<noteq> [] \<and> i \<noteq> storage_id \<and> id_as \<noteq> [] then set_attrs (''$.'' @ id_as) vals m1 else m1)
      in if name_as = [] then m2
         else case vals of [a] \<Rightarrow> updateValue (''$.'' @ name_as) (da_string_value a) m2
           | _ \<Rightarrow> set_attrs (''$.'' @ name_as) vals m2)"

definition get_var :: "tsce_env \<Rightarrow> xml \<Rightarrow> (DataManager, unit) prog" where
  "get_var E v m =
     (let scope = xml_attr v ''scope''; i = dm_eval m (xml_attr v ''id''); name = dm_eval m (xml_attr v ''name'') in
      if scope \<notin> {''author'', ''user'', ''contract''} \<or> name = [] then (m, Inr ())
      else let storage_id = (if scope = ''author'' then dm_eval m ''$author''
                 else if i \<noteq> [] then i
                 else if scope = ''user'' then dm_eval m ''$user'' else dm_eval m ''$tx.body.cid'')
           in sbind (getScopeVariables E (if scope = ''contract'' then ''contract'' else ''user'') storage_id name)
                (\<lambda>vals m. (if vals = [] then m else store_found v scope i storage_id vals m, Inr ())) m)"

definition skip_node :: "ConditionManager \<Rightarrow> string \<Rightarrow> bool" where
  "skip_node cm i \<longleftrightarrow> i \<noteq> [] \<and> \<not> getEvalResultById cm i"

definition parseGet :: "tsce_env \<Rightarrow> (xml \<times> string) list \<Rightarrow> ConditionManager \<Rightarrow> (DataManager, unit) prog" where
  "parseGet E nodes cm = seq (map (get_var E)
     (concat (map (\<lambda>(e, i). if skip_node cm i then [] else parseChildrenFromNoIf (Some e) ''var'') nodes)))"

subsection \<open>Fee\<close>

text \<open>Only what a user pays is evaluated; an author pays the number that is written.\<close>

definition pay :: "DataManager \<Rightarrow> xml \<Rightarrow> int \<times> int \<Rightarrow> int \<times> int" where
  "pay m e acc = (if xml_attr e ''from'' = ''user'' then (str2int (dm_eval m (xml_attr e ''value'')), snd acc)
     else (fst acc, str2int (xml_attr e ''value'')))"

definition fee_parseGet :: "(xml \<times> string) list \<Rightarrow> ConditionManager \<Rightarrow> DataManager \<Rightarrow> (int \<times> int) option" where
  "fee_parseGet nodes cm m = (if nodes = [] then None
     else Some (fold (pay m)
       (concat (map (\<lambda>(e, i). if skip_node cm i then [] else parseChildrenFromNoIf (Some e) ''pay'') nodes)) (0, 0)))"

subsection \<open>Tags\<close>

definition tag_evalue_node :: "tsce_env \<Rightarrow> xml option \<Rightarrow> (DataManager, bool) prog" where
  "tag_evalue_node E p = (case p of None \<Rightarrow> sret False | Some e \<Rightarrow> condition_evalue E (first_child e ''update''))"

definition tag_evalue :: "tsce_env \<Rightarrow> string \<Rightarrow> (DataManager, bool) prog" where
  "tag_evalue E tag = (case c_parse_xml E tag of None \<Rightarrow> sret False | Some root \<Rightarrow> tag_evalue_node E root)"

subsection \<open>Set\<close>

datatype SetType = T_USER_JOIN | T_USER_CERT | T_V_CREATE | T_V_INCINERATE | T_V_TRANSFER | T_SCOPE_USER
  | T_SCOPE_CONTRACT | T_CONTRACT_NEW | T_CONTRACT_DISABLE | T_TRADE_ITEM | T_TRADE_V | T_RUN_QUERY
  | T_RUN_CONTRACT | T_NONE

definition SET_TYPE_MAP :: "(string, SetType) omap" where
  "SET_TYPE_MAP = omap_init
     [(''user.cert'', T_USER_JOIN), (''user.cert'', T_USER_CERT), (''v.create'', T_V_CREATE),
      (''v.incinerate'', T_V_INCINERATE), (''v.transfer'', T_V_TRANSFER), (''scope.user'', T_SCOPE_USER),
      (''scope.contract'', T_SCOPE_CONTRACT), (''contract.new'', T_CONTRACT_NEW),
      (''contract.disable'', T_CONTRACT_DISABLE), (''trade.item'', T_TRADE_ITEM), (''trade.v'', T_TRADE_V),
      (''run.query'', T_RUN_QUERY), (''run.contract'', T_RUN_CONTRACT)]"

definition set_type_of :: "string \<Rightarrow> SetType" where
  "set_type_of s = (case map_of SET_TYPE_MAP s of Some t \<Rightarrow> t | None \<Rightarrow> T_NONE)"

abbreviation only_if :: "bool \<Rightarrow> string \<Rightarrow> string" where
  "only_if b s \<equiv> (if b then s else [])"

text \<open>
  The value an option is given, empty when it is refused. A certificate without its markers is cleared
  first, and taking a part of the empty text throws.
\<close>

definition cert_option :: "string \<Rightarrow> string result" where
  "cert_option d =
     (let d1 = only_if (contains_text begin_certificate d \<and> contains_text end_certificate d) d in
      if length d1 < length begin_certificate then Inl Out_Of_Range else Inr (only_if (is_base64 d1) d1))"

definition set_option_value :: "SetType \<Rightarrow> string \<Rightarrow> string \<Rightarrow> string result" where
  "set_option_value t name d = (case t of
       T_USER_JOIN \<Rightarrow> Inr (if name = ''gender'' then only_if (mt_toUpper d \<in> {''MALE'', ''FEMALE'', ''OTHER''}) (mt_toUpper d)
         else if name = ''register_day'' then only_if (mt_isDigit d) d else d)
     | T_USER_CERT \<Rightarrow> (if name = ''notbefore'' \<or> name = ''notafter'' then Inr (only_if (mt_isDigit d) d)
         else if name = ''x509'' then cert_option d else Inr d)
     | T_V_CREATE \<Rightarrow> Inr (if name = ''amount'' then only_if (str2int d > 0) d
         else if name = ''type'' then only_if (mt_toUpper d \<in> {''KEYC'', ''FIAT'', ''COIN'', ''XCOIN'', ''MILE''}) (mt_toUpper d)
         else d)
     | T_V_INCINERATE \<Rightarrow> Inr (if name = ''pid'' then only_if (is_base64 d) d else d)
     | T_SCOPE_CONTRACT \<Rightarrow> Inr (if name = ''pid'' then only_if (is_base64 d) d else d)
     | T_CONTRACT_NEW \<Rightarrow> Inr (if name = ''before'' \<or> name = ''after'' then only_if (mt_isDigit d) d else d)
     | T_V_TRANSFER \<Rightarrow> Inr (if name = ''amount'' then only_if (str2int d > 0) d else d)
     | T_RUN_QUERY \<Rightarrow> Inr (if name = ''type'' then only_if (d \<in> {''run.query'', ''user.cert''}) d
         else if name = ''after'' then only_if (mt_isDigit d) d else d)
     | T_RUN_CONTRACT \<Rightarrow> Inr (if name = ''after'' then only_if (mt_isDigit d) d else d)
     | _ \<Rightarrow> Inr d)"

definition put_option :: "DataManager \<Rightarrow> SetType \<Rightarrow> xml \<Rightarrow> (string, json) omap \<Rightarrow> (string, json) omap result" where
  "put_option m t e contents =
     (let name = mt_toLower (xml_attr e ''name''); d = mt_trim (dm_eval m (xml_attr e ''value'')) in
      if name = [] \<or> d = [] then Inr contents
      else rbind (set_option_value t name d) (\<lambda>v.
        Inr (if v \<noteq> [] then om_put name (JStr v) contents else contents)))"

fun put_options :: "DataManager \<Rightarrow> SetType \<Rightarrow> xml list \<Rightarrow> (string, json) omap \<Rightarrow> (string, json) omap result" where
  "put_options m t [] contents = Inr contents"
| "put_options m t (e # es) contents = rbind (put_option m t e contents) (put_options m t es)"

definition contents_json :: "(string, json) omap \<Rightarrow> json" where
  "contents_json c = (if c = [] then JNull else JObj c)"

text \<open>The owner is looked up through the attribute \<open>from\<close>, also for a user scope, which has \<open>for\<close> instead.\<close>

definition tag_allows :: "tsce_env \<Rightarrow> SetType \<Rightarrow> string \<Rightarrow> (string, json) omap \<Rightarrow> (DataManager, bool) prog" where
  "tag_allows E t from_att contents =
     (if t = T_SCOPE_USER \<or> (t = T_V_TRANSFER \<and> (from_att = ''user'' \<or> from_att = ''author'')) then
        sbind (slift (json_get (contents_json contents) ''pid'')) (\<lambda>pid.
        sbind (slift (json_get (contents_json contents) (if t = T_SCOPE_USER then ''name'' else ''unit''))) (\<lambda>name m.
          case pid of None \<Rightarrow> (m, Inr True)
          | Some p \<Rightarrow>
             if p = [] then (m, Inr True)
             else sbind (getUserScopeRecordByPid E (dm_eval m (''$'' @ from_att)) (case name of Some n \<Rightarrow> n | None \<Rightarrow> []) p)
               (\<lambda>record. case record of None \<Rightarrow> sret False
                  | Some r \<Rightarrow> if sr_tag r = [] then sret True else tag_evalue E (sr_tag r)) m))
      else sret True)"

definition set_handle :: "tsce_env \<Rightarrow> SetType \<Rightarrow> xml \<Rightarrow> (DataManager, json option) prog" where
  "set_handle E t e m =
     (let for_att = xml_attr e ''for''; from_att = (if t = T_V_TRANSFER then xml_attr e ''from'' else []) in
      if t = T_SCOPE_USER \<and> for_att \<notin> {''user'', ''author''} then (m, Inr None)
      else if t = T_V_TRANSFER \<and> from_att \<notin> {''user'', ''author'', ''contract''} then (m, Inr None)
      else let start = (if t = T_SCOPE_USER then [(''for'', JStr for_att)]
               else if t = T_V_TRANSFER then [(''from'', JStr from_att)] else [])
        in sbind (slift (put_options m t (parseChildrenFromNoIf (Some e) ''option'') start)) (\<lambda>contents.
             sbind (tag_allows E t from_att contents) (\<lambda>ok.
               sret (if ok then Some (contents_json contents) else None))) m)"

definition parseSet :: "tsce_env \<Rightarrow> (xml \<times> string) list \<Rightarrow> ConditionManager \<Rightarrow> (DataManager, json list) prog" where
  "parseSet E nodes cm = sfold (\<lambda>(e, i) queries.
       let t = set_type_of (xml_attr e ''type'') in
       if skip_node cm i \<or> t = T_NONE then sret queries
       else sbind (set_handle E t e) (\<lambda>contents. sret (case contents of None \<Rightarrow> queries
         | Some c \<Rightarrow> queries @ [json_obj [(''type'', JStr (xml_attr e ''type'')), (''option'', c)]])))
     nodes []"

end
