(* ===== verification/Contract_Engine.thy ===== *)
theory Contract_Engine
  imports Contract_Handlers
begin

text \<open>
  Running contracts: the parser of a contract document (\<open>element_parser.cpp\<close>), the runner
  (\<open>contract_runner.cpp\<close>), the cache of contracts (\<open>contract_manager.hpp\<close>), the composition of
  results (\<open>query_composer.cpp\<close>), the engine that runs the transactions of a block (\<open>engine.cpp\<close>) and
  the distribution of transactions over threads (\<open>tx_parallelizer.cpp\<close>).
\<close>

subsection \<open>Contract documents\<close>

record ElementParser =
  ep_head :: "xml option"
  ep_input :: xml
  ep_gets :: "(xml \<times> string) list"
  ep_sets :: "(xml \<times> string) list"
  ep_conditions :: "(xml \<times> string) list"
  ep_oracles :: "(xml \<times> string) list"
  ep_displays :: "(xml \<times> string) list"
  ep_calls :: "(xml \<times> string) list"
  ep_fees :: "(xml \<times> string) list"
  ep_scripts :: "(xml \<times> string) list"

text \<open>
  Scripts and fees are looked for beside the body. A document whose head or body is missing passes the
  first check, because the optional then holds a null pointer. The result is \<open>None\<close> where the code
  answers false; a parser that failed is not used again before the next document.
\<close>

definition parse_contract_doc :: "tsce_env \<Rightarrow> string \<Rightarrow> ElementParser option" where
  "parse_contract_doc E doc = (case c_parse_xml E doc of None \<Rightarrow> None | Some root \<Rightarrow>
     (case (parseChildFrom root ''head'', parseChildFrom root ''body'') of
        (Some head, Some body) \<Rightarrow>
          (case parseChildrenFrom body ''input'' of [] \<Rightarrow> None
           | (input, _) # _ \<Rightarrow> Some \<lparr>ep_head = head, ep_input = input, ep_gets = parseChildrenFrom body ''get'',
               ep_sets = parseChildrenFrom body ''set'', ep_conditions = parseChildrenFrom body ''condition'',
               ep_oracles = parseChildrenFrom body ''oracle'', ep_displays = parseChildrenFrom body ''display'',
               ep_calls = parseChildrenFrom body ''call'', ep_fees = parseChildrenFrom root ''fee'',
               ep_scripts = parseChildrenFrom root ''script''\<rparr>)
      | _ \<Rightarrow> None))"

subsection \<open>The runner\<close>

record ContractRunner =
  cr_data :: DataManager
  cr_cond :: ConditionManager
  cr_parser :: "ElementParser option"
  cr_proc_tx :: Transaction
  cr_world_attr :: "DataAttribute list"
  cr_chain_attr :: "DataAttribute list"

definition ContractRunner_new :: ContractRunner where
  "ContractRunner_new = \<lparr>cr_data = DataManager_new, cr_cond = ConditionManager_new, cr_parser = None,
     cr_proc_tx = Transaction_default, cr_world_attr = [], cr_chain_attr = []\<rparr>"

definition on_data :: "(DataManager, 'a) prog \<Rightarrow> (ContractRunner, 'a) prog" where
  "on_data f r = (case f (cr_data r) of (d, x) \<Rightarrow> (r\<lparr>cr_data := d\<rparr>, x))"

definition upd_data :: "(DataManager \<Rightarrow> DataManager) \<Rightarrow> ContractRunner \<Rightarrow> ContractRunner" where
  "upd_data f r = r\<lparr>cr_data := f (cr_data r)\<rparr>"

definition runner_clear :: "ContractRunner \<Rightarrow> ContractRunner" where
  "runner_clear = upd_data dm_clear"

definition loadWorldChain :: "tsce_env \<Rightarrow> (ContractRunner, bool) prog" where
  "loadWorldChain E = sbind (on_data (getWorld E)) (\<lambda>world. sbind (on_data (getChain E)) (\<lambda>chain.
     if world = [] \<or> chain = [] then sret False
     else sbind (assign (Inr ()) (\<lambda>_ r. r\<lparr>cr_world_attr := world, cr_chain_attr := chain\<rparr>)) (\<lambda>_. sret True)))"

definition attrToMap :: "DataAttribute list \<Rightarrow> string \<Rightarrow> DataManager \<Rightarrow> DataManager" where
  "attrToMap attrs pre m = set_attrs pre attrs m"

definition setWorldChain :: "ContractRunner \<Rightarrow> ContractRunner \<times> bool" where
  "setWorldChain r = (if cr_world_attr r = [] \<or> cr_chain_attr r = [] then (r, False)
     else (upd_data (\<lambda>m. let m1 = attrToMap (cr_chain_attr r) ''$chain'' (attrToMap (cr_world_attr r) ''$world'' m)
            in setKeyCurrencyName (dm_eval m1 ''$world.keyc_name'') m1) r, True))"

definition runner_setContract :: "tsce_env \<Rightarrow> string \<Rightarrow> ContractRunner \<Rightarrow> ContractRunner \<times> bool" where
  "runner_setContract E doc r = (case parse_contract_doc E doc of
     None \<Rightarrow> (r, False) | Some p \<Rightarrow> (r\<lparr>cr_parser := Some p\<rparr>, True))"

abbreviation MIN_USER_FEE :: int where "MIN_USER_FEE \<equiv> 10"

definition endorser_values :: "Endorser list \<Rightarrow> (string \<times> string) list" where
  "endorser_values es = concat (map (\<lambda>(i, e).
     [(''$tx.endorser['' @ dec_nat i @ ''].id'', endorser_id e), (''$tx.endorser['' @ dec_nat i @ ''].pk'', endorser_pk e)])
     (enumerate 0 es)) @ [(''$tx.endorser.count'', dec_nat (length es))]"

definition tx_values :: "Transaction \<Rightarrow> string \<Rightarrow> string \<Rightarrow> string \<Rightarrow> (string \<times> string) list" where
  "tx_values t author chain world =
     [(''$tx.txid'', m_txid t), (''$txid'', m_txid t), (''$tx.time'', dec_u64 (m_tx_time t)),
      (''$time'', dec_u64 (m_tx_time t)), (''$tx.body.cid'', m_contract_id t), (''$cid'', m_contract_id t),
      (''$author'', author), (''$chain'', chain), (''$world'', world), (''$tx.body.receiver'', m_receiver_id t),
      (''$receiver'', m_receiver_id t), (''$tx.body.fee'', dec_int (m_fee t)), (''$fee'', dec_int (m_fee t)),
      (''$tx.user.id'', m_tx_user_id t), (''$user'', m_tx_user_id t), (''$tx.user.pk'', m_tx_user_pk t)]
     @ endorser_values (m_tx_endorsers t)"

text \<open>
  \<open>None\<close> for success, or the error text. The parts of the contract identifier are taken without a look at
  how many there are; the values before them are already set then.
\<close>

definition setTransaction_run :: "Transaction \<Rightarrow> (ContractRunner, string option) prog" where
  "setTransaction_run t = sbind (assign (Inr ()) (\<lambda>_ r. r\<lparr>cr_proc_tx := t\<rparr>)) (\<lambda>_.
     if m_contract_id t = [] \<or> m_receiver_id t = [] \<or> m_tx_user_id t = [] \<or> m_txid t = []
     then sret (Some ''missing elements'')
     else if m_fee t < MIN_USER_FEE then sret (Some ''less than minimum user fee'')
     else (case mt_split [] (m_contract_id t) of
         _ # author # chain # world # _ \<Rightarrow>
           sbind (assign (Inr ()) (\<lambda>_. upd_data (fold (\<lambda>(k, v). updateValue k v) (tx_values t author chain world))))
             (\<lambda>_. sret None)
       | _ \<Rightarrow> slift (Inl Undefined_Behaviour)))"

definition readUserAttributes :: "tsce_env \<Rightarrow> (ContractRunner, bool) prog" where
  "readUserAttributes E = sbind (on_data (getUserInfo E ''$user'')) (\<lambda>us.
     sbind (on_data (getUserInfo E ''$receiver'')) (\<lambda>recv. sbind (on_data (getUserInfo E ''$author'')) (\<lambda>auth.
       if us = [] \<or> recv = [] \<or> auth = [] then sret False
       else sbind (assign (Inr ()) (\<lambda>_. upd_data (\<lambda>m.
              attrToMap auth ''$author'' (attrToMap recv ''$receiver'' (attrToMap us ''$user'' m))))) (\<lambda>_. sret True))))"

text \<open>The result document; it starts with empty texts and is filled in on the way.\<close>

record RunResult =
  rr_txid :: string
  rr_status :: bool
  rr_info :: string
  rr_author :: string
  rr_user :: string
  rr_receiver :: string
  rr_self :: string
  rr_fee_author :: string
  rr_fee_user :: string
  rr_queries :: "json list"

definition result_json :: "RunResult \<Rightarrow> json" where
  "result_json q = json_obj
     [(''txid'', JStr (rr_txid q)), (''status'', JBool (rr_status q)), (''info'', JStr (rr_info q)),
      (''authority'', json_obj [(''author'', JStr (rr_author q)), (''user'', JStr (rr_user q)),
         (''receiver'', JStr (rr_receiver q)), (''self'', JStr (rr_self q)), (''friend'', JArr [])]),
      (''fee'', json_obj [(''author'', JStr (rr_fee_author q)), (''user'', JStr (rr_fee_user q))]),
      (''queries'', JArr (rr_queries q))]"

definition result_start :: "string \<Rightarrow> RunResult" where
  "result_start txid = \<lparr>rr_txid = txid, rr_status = True, rr_info = [], rr_author = [], rr_user = [], rr_receiver = [],
     rr_self = [], rr_fee_author = [], rr_fee_user = [], rr_queries = []\<rparr>"

definition fail_with :: "string \<Rightarrow> RunResult \<Rightarrow> RunResult" where
  "fail_with info q = q\<lparr>rr_status := False, rr_info := info\<rparr>"

definition eval_all_conditions :: "tsce_env \<Rightarrow> (xml \<times> string) list \<Rightarrow> (ContractRunner, unit) prog" where
  "eval_all_conditions E nodes = seq (map (\<lambda>(e, i) r.
     case cm_evalue E (Some e) (cr_cond r, cr_data r) of
       ((cm, m), res) \<Rightarrow> (r\<lparr>cr_cond := cm, cr_data := m\<rparr>, rbind res (\<lambda>_. Inr ()))) nodes)"

definition read_input :: "tsce_env \<Rightarrow> Transaction \<Rightarrow> json result" where
  "read_input E t = (case u_from_cbor (c_utils E) (m_tx_input_cbor t) of
     Some j \<Rightarrow> Inr j | None \<Rightarrow> Inl Json_Parse_Error)"

text \<open>Whether the balance of a payer covers the fee; it is only asked for when there is something to pay.\<close>

definition covers :: "tsce_env \<Rightarrow> string \<Rightarrow> int \<Rightarrow> (ContractRunner, bool) prog" where
  "covers E who amount = (if amount > 0
     then sbind (on_data (getUserKeyCurrency E who)) (\<lambda>have. sret (have \<ge> amount)) else sret True)"

definition run_sets :: "tsce_env \<Rightarrow> ElementParser \<Rightarrow> RunResult \<Rightarrow> (ContractRunner, RunResult) prog" where
  "run_sets E p q = (\<lambda>r. sbind (on_data (parseSet E (ep_sets p) (cr_cond r))) (\<lambda>queries.
     sret (if queries = [] then fail_with (TSCE_ERROR_MSG ''RUN_SET'' @ '' or '' @ TSCE_ERROR_MSG ''RUN_TAG'') q
           else q\<lparr>rr_queries := queries\<rparr>)) r)"

definition run_fees :: "tsce_env \<Rightarrow> ElementParser \<Rightarrow> RunResult \<Rightarrow> (ContractRunner, RunResult) prog" where
  "run_fees E p q = (\<lambda>r. (case fee_parseGet (ep_fees p) (cr_cond r) (cr_data r) of
       None \<Rightarrow> sret (fail_with (TSCE_ERROR_MSG ''RUN_FEE'') q)
     | Some (fee_user, fee_author) \<Rightarrow>
         sbind (covers E ''$user'' fee_user) (\<lambda>ok.
           if \<not> ok then sret (fail_with (TSCE_ERROR_MSG ''NOT_ENOUGH_FEE'' @ '' (user)'') q)
           else sbind (covers E ''$author'' fee_author) (\<lambda>ok.
             if \<not> ok then sret (fail_with (TSCE_ERROR_MSG ''NOT_ENOUGH_FEE'' @ '' (author)'') q)
             else run_sets E p (q\<lparr>rr_fee_user := dec_int fee_user, rr_fee_author := dec_int fee_author\<rparr>)))) r)"

definition authorities :: "DataManager \<Rightarrow> RunResult \<Rightarrow> RunResult" where
  "authorities m q = q\<lparr>rr_author := dm_eval m ''$author'', rr_user := dm_eval m ''$user'',
     rr_receiver := dm_eval m ''$receiver'', rr_self := dm_eval m ''$tx.body.cid''\<rparr>"

definition run_contract :: "tsce_env \<Rightarrow> ElementParser \<Rightarrow> (ContractRunner, RunResult) prog" where
  "run_contract E p r0 =
     (let q0 = result_start (dm_eval (cr_data r0) ''$tx.txid'') in
      if \<not> eval_time E (cr_data r0) (ep_head p) then (r0, Inr (fail_with (TSCE_ERROR_MSG ''RUN_PERIOD'') q0))
      else sbind (eval_all_conditions E (ep_conditions p)) (\<lambda>_ r1.
        (let q1 = authorities (cr_data r1) q0 in
         sbind (slift (read_input E (cr_proc_tx r1))) (\<lambda>input.
         sbind (on_data (parseInput E input (ep_input p))) (\<lambda>ok.
           if \<not> ok then sret (fail_with (TSCE_ERROR_MSG ''RUN_INPUT'') q1)
           else sbind (eval_all_conditions E (ep_conditions p)) (\<lambda>_ r.
             sbind (on_data (parseGet E (ep_gets p) (cr_cond r))) (\<lambda>_.
             sbind (eval_all_conditions E (ep_conditions p)) (\<lambda>_. run_fees E p q1)) r))) r1)) r0)"

subsection \<open>Contracts by identifier\<close>

text \<open>The cache of contracts; the empty text stands for a contract that was not found.\<close>

type_synonym contract_cache = "(string, string) omap"

definition found_contract :: "json \<Rightarrow> string option result" where
  "found_contract q =
     (if json_empty q then Inr None
      else rbind (json_at_mut q ''data'') (\<lambda>d. if json_empty d then Inr None
             else rbind (row_cell d 0) (\<lambda>row. if json_empty row then Inr None
               else rbind (row_cell row 0) (\<lambda>c. rbind (json_to_str c) (\<lambda>s. Inr (Some s))))))"

definition getContract :: "tsce_env \<Rightarrow> string \<Rightarrow> (contract_cache, string option) prog" where
  "getContract E cid cache =
     (let present = (\<lambda>s. if s = [] then None else Some s) in
      case map_of cache cid of
        Some doc \<Rightarrow> (cache, Inr (present doc))
      | None \<Rightarrow> (case rbind (c_read E (query_of ''contract.get'' [(''cid'', JStr cid)])) found_contract of
            Inl e \<Rightarrow> (cache, Inl e)
          | Inr None \<Rightarrow> (om_try cid [] cache, Inr None)
          | Inr (Some doc) \<Rightarrow> (om_try cid doc cache, Inr (present doc))))"

subsection \<open>Composition of results\<close>

definition json_erase :: "string \<Rightarrow> json \<Rightarrow> json" where
  "json_erase k j = (case j of JObj m \<Rightarrow> JObj (om_erase k m) | _ \<Rightarrow> j)"

definition json_put :: "string \<Rightarrow> json \<Rightarrow> json \<Rightarrow> json result" where
  "json_put k v j = (case j of JObj m \<Rightarrow> Inr (JObj (om_put k v m)) | JNull \<Rightarrow> Inr (JObj [(k, v)])
     | _ \<Rightarrow> Inl Json_Type_Error)"

definition json_get_bool :: "json \<Rightarrow> string \<Rightarrow> bool result" where
  "json_get_bool j k = (if json_contains j k
     then rbind (json_idx j k) (\<lambda>v. case v of JBool b \<Rightarrow> Inr b | _ \<Rightarrow> Inl Json_Type_Error)
     else Inl Bad_Optional_Access)"

text \<open>The fees of a failed result are numbers, where a successful one has texts.\<close>

definition failed_fee :: "json \<Rightarrow> json result" where
  "failed_fee res = rbind (json_at_mut res ''fee'') (\<lambda>f. rbind (json_put ''author'' (JInt 0) f) (\<lambda>f1. rbind (json_put ''user'' (JInt MIN_USER_FEE) f1) (\<lambda>f2.
        json_put ''fee'' f2 res)))"

definition compose_one :: "json \<Rightarrow> json result" where
  "compose_one res = rbind (json_get_bool res ''status'') (\<lambda>ok.
     if ok then Inr (json_erase ''info'' res)
     else failed_fee (json_erase ''queries'' (json_erase ''authority'' res)))"

definition compose :: "json list \<Rightarrow> string \<Rightarrow> 64 word \<Rightarrow> json result" where
  "compose results block_id height = rbind (rmap compose_one results) (\<lambda>rs.
     Inr (json_obj [(''block'', json_obj [(''id'', JStr block_id), (''height'', JStr (dec_u64 height))]),
       (''results'', JArr rs)]))"

subsection \<open>The engine\<close>

type_synonym engine_state = "contract_cache \<times> ContractRunner"

definition on_cache :: "(contract_cache, 'a) prog \<Rightarrow> (engine_state, 'a) prog" where
  "on_cache f = (\<lambda>(c, r). case f c of (c', x) \<Rightarrow> ((c', r), x))"

definition on_runner :: "(ContractRunner, 'a) prog \<Rightarrow> (engine_state, 'a) prog" where
  "on_runner f = (\<lambda>(c, r). case f r of (r', x) \<Rightarrow> ((c, r'), x))"

definition fail_json :: "string \<Rightarrow> string \<Rightarrow> json" where
  "fail_json txid info = json_obj [(''status'', JBool False), (''txid'', JStr txid), (''info'', JStr info)]"

text \<open>The answer to one transaction, a failure with its reason or what the contract asks for.\<close>

definition run_parsed :: "tsce_env \<Rightarrow> Transaction \<Rightarrow> (ContractRunner, json) prog" where
  "run_parsed E t = sbind (setTransaction_run t) (\<lambda>err. case err of
     Some e \<Rightarrow> sret (fail_json (m_txid t) (TSCE_ERROR_MSG ''INVALID_TX'' @ '' ('' @ e @ '')''))
   | None \<Rightarrow> sbind (readUserAttributes E) (\<lambda>ok.
       if \<not> ok then sret (fail_json (m_txid t) (TSCE_ERROR_MSG ''NO_USER''))
       else (\<lambda>r. case cr_parser r of None \<Rightarrow> (r, Inl Undefined_Behaviour)
          | Some p \<Rightarrow> sbind (run_contract E p) (\<lambda>q. sret (result_json q)) r)))"

definition proc_tx :: "tsce_env \<Rightarrow> Transaction \<Rightarrow> (engine_state, json) prog" where
  "proc_tx E t =
     (if m_txid t = [] \<or> m_contract_id t = [] then sret (fail_json (m_txid t) (TSCE_ERROR_MSG ''INVALID_TX''))
      else sbind (on_runner (\<lambda>r. case setWorldChain (runner_clear r) of (r', ok) \<Rightarrow> (r', Inr ok))) (\<lambda>ok.
        if \<not> ok then sret (fail_json (m_txid t) (TSCE_ERROR_MSG ''CONFIG_WORLD''))
        else sbind (on_cache (getContract E (m_contract_id t))) (\<lambda>contract. case contract of
            None \<Rightarrow> sret (fail_json (m_txid t) (TSCE_ERROR_MSG ''NO_CONTRACT''))
          | Some doc \<Rightarrow> sbind (on_runner (\<lambda>r. case runner_setContract E doc r of (r', ok) \<Rightarrow> (r', Inr ok))) (\<lambda>ok.
              if \<not> ok then sret (fail_json (m_txid t) (TSCE_ERROR_MSG ''NO_CONTRACT''))
              else on_runner (run_parsed E t)))))"

text \<open>\<open>None\<close> when there is nothing to run. The reading interface is attached.\<close>

definition procBlock :: "tsce_env \<Rightarrow> Block \<Rightarrow> (contract_cache, json option) prog" where
  "procBlock E b cache =
     (if m_transactions b = [] then (cache, Inr None)
      else case loadWorldChain E ContractRunner_new of
          (r, Inl e) \<Rightarrow> (cache, Inl e)
        | (r, Inr False) \<Rightarrow> (cache, Inr None)
        | (r, Inr True) \<Rightarrow>
            (case sfold (\<lambda>t acc. sbind (proc_tx E t) (\<lambda>j. sret (acc @ [j]))) (m_transactions b) [] (cache, r) of
               ((c, _), Inl e) \<Rightarrow> (c, Inl e)
             | ((c, _), Inr results) \<Rightarrow>
                 (c, rbind (compose results (m_block_id b) (m_block_height b)) (\<lambda>j. Inr (Some j)))))"

subsection \<open>Distribution over threads\<close>

abbreviation NUM_GSCE_THREAD :: nat where "NUM_GSCE_THREAD \<equiv> 4"

text \<open>A group has the users, the receivers and the transactions that depend on each other.\<close>

record 'tx tx_groups =
  g_user :: "string list list"
  g_recv :: "string list list"
  g_txs :: "'tx list list"

definition related_bin :: "string \<Rightarrow> string list list \<Rightarrow> nat option" where
  "related_bin x groups = first_index (\<lambda>g. x \<in> set g) groups"

definition append_at :: "nat \<Rightarrow> 'a list \<Rightarrow> 'a list list \<Rightarrow> 'a list list" where
  "append_at i xs groups = groups[i := groups ! i @ xs]"

definition push_group :: "nat \<Rightarrow> string \<Rightarrow> string \<Rightarrow> 'tx \<Rightarrow> 'tx tx_groups \<Rightarrow> 'tx tx_groups" where
  "push_group i user receiver tx g = g\<lparr>g_user := append_at i [user] (g_user g),
     g_recv := append_at i [receiver] (g_recv g), g_txs := append_at i [tx] (g_txs g)\<rparr>"

text \<open>
  Moving the receiver's group to the user's: the receivers and the transactions that are cleared are
  those of the user's group, not those that were copied. Copying a vector to its own end is undefined.
\<close>

definition merge_groups :: "nat \<Rightarrow> nat \<Rightarrow> 'tx tx_groups \<Rightarrow> 'tx tx_groups result" where
  "merge_groups ub rb g = (if ub = rb then Inl Undefined_Behaviour
     else Inr (g\<lparr>g_user := (append_at ub (g_user g ! rb) (g_user g))[rb := []],
                 g_recv := (append_at ub (g_recv g ! rb) (g_recv g))[ub := []],
                 g_txs := (append_at ub (g_txs g ! rb) (g_txs g))[ub := []]\<rparr>))"

definition group_step :: "string \<times> string \<times> 'tx \<Rightarrow> 'tx tx_groups \<Rightarrow> 'tx tx_groups result" where
  "group_step = (\<lambda>(user, receiver, tx) g.
     case (related_bin user (g_user g), related_bin receiver (g_recv g)) of
       (Some ub, Some rb) \<Rightarrow> rbind (merge_groups ub rb g) (\<lambda>g'. Inr (push_group ub user receiver tx g'))
     | (Some ub, None) \<Rightarrow> Inr (push_group ub user receiver tx g)
     | (None, Some rb) \<Rightarrow> Inr (push_group rb user receiver tx g)
     | (None, None) \<Rightarrow> Inr (g\<lparr>g_user := g_user g @ [[user]], g_recv := g_recv g @ [[receiver]],
           g_txs := g_txs g @ [[tx]]\<rparr>))"

fun group_txs :: "(string \<times> string \<times> 'tx) list \<Rightarrow> 'tx tx_groups \<Rightarrow> 'tx tx_groups result" where
  "group_txs [] g = Inr g"
| "group_txs (x # xs) g = rbind (group_step x g) (group_txs xs)"

fun min_bin :: "'tx list list \<Rightarrow> nat \<Rightarrow> nat \<Rightarrow> nat option \<Rightarrow> nat option" where
  "min_bin [] j least found = found"
| "min_bin (b # bs) j least found =
     (if length b < least then min_bin bs (Suc j) (length b) (Some j) else min_bin bs (Suc j) least found)"

definition spread_group :: "nat \<Rightarrow> 'tx list \<Rightarrow> 'tx list list \<Rightarrow> 'tx list list" where
  "spread_group num_tx grp bins =
     append_at (case min_bin bins 0 num_tx None of Some j \<Rightarrow> j | None \<Rightarrow> 0) grp bins"

definition parse_parallel_tx :: "utils \<Rightarrow> json \<Rightarrow> (string \<times> string \<times> json) result" where
  "parse_parallel_tx u j = rbind (json_to_str j) (\<lambda>s.
     case u_from_cbor u (u_from64 u s) of None \<Rightarrow> Inl Json_Parse_Error
     | Some t \<Rightarrow> rbind (json_at_mut t ''user'') (\<lambda>us. rbind (json_at_mut us ''id'') (\<lambda>i.
         rbind (json_to_str i) (\<lambda>user. rbind (json_at_mut t ''body'') (\<lambda>body.
         rbind (json_at_mut body ''receiver'') (\<lambda>r. rbind (json_to_str r) (\<lambda>receiver.
         Inr (user, receiver, t))))))))"

definition distribute :: "(string \<times> string \<times> 'tx) list \<Rightarrow> 'tx list list result" where
  "distribute txs = rbind (group_txs txs \<lparr>g_user = [], g_recv = [], g_txs = []\<rparr>) (\<lambda>g.
     Inr (fold (spread_group (length txs)) (g_txs g) (replicate NUM_GSCE_THREAD [])))"

text \<open>Reading and grouping alternate in the code; a transaction that cannot be read ends both.\<close>

definition parallelize :: "utils \<Rightarrow> json \<Rightarrow> json list list result" where
  "parallelize u block = rbind (json_at_mut block ''tx'') (\<lambda>txs.
     rbind (rmap (\<lambda>i. rbind (row_cell txs i) (parse_parallel_tx u)) [0..<json_size txs]) distribute)"

end
