(* ===== verification/Contract_Props.thy ===== *)
theory Contract_Props
  imports Contract_Engine Chain_Plugin "HOL-Library.Multiset"
begin

text \<open>
  Properties of the contract engine: what the results of conditions and of contracts are, what the
  caches do to them, and how the engine fits the chain plugin, which reads its results.
\<close>

subsection \<open>Conditions\<close>

lemma eval_users_alt:
  "eval_users E m k rule acc cs = (case rule of
     EVAL_AND \<Rightarrow> acc \<and> list_all (eval_user E m k) cs | EVAL_OR \<Rightarrow> acc \<or> list_ex (eval_user E m k) cs)"
  by (induction cs arbitrary: acc) (auto simp: combine_def split: EvalRuleType.splits)

lemma eval_endorsers_alt:
  "eval_endorsers m rule acc cs = (case rule of
     EVAL_AND \<Rightarrow> acc \<and> list_all (eval_endorser m) cs | EVAL_OR \<Rightarrow> acc \<or> list_ex (eval_endorser m) cs)"
  by (induction cs arbitrary: acc) (auto simp: combine_def split: EvalRuleType.splits)

text \<open>A run of the condition manager over documents, each with the data of its moment.\<close>

definition cm_run :: "tsce_env \<Rightarrow> (xml option \<times> DataManager) list \<Rightarrow> ConditionManager \<Rightarrow> ConditionManager" where
  "cm_run E evs cm = fold (\<lambda>(p, m) cm. fst (fst (cm_evalue E p (cm, m)))) evs cm"

lemma cm_evalue_keeps:
  "map_of (cm_result_cache cm) i = Some v \<Longrightarrow>
   map_of (cm_result_cache (fst (fst (cm_evalue E p (cm, m))))) i = Some v"
  by (auto simp: cm_evalue_def Let_def split: option.split prod.split sum.split)

lemma cm_run_keeps:
  "map_of (cm_result_cache cm) i = Some v \<Longrightarrow> map_of (cm_result_cache (cm_run E evs cm)) i = Some v"
  by (induction evs arbitrary: cm) (auto simp: cm_run_def cm_evalue_keeps)

lemma cm_evalue_first:
  assumes "xml_attr e ''id'' = i" "i \<noteq> []" "map_of (cm_result_cache cm) i = None"
    and "snd (cm_evalue E (Some e) (cm, m)) = Inr b"
  shows "\<exists>h. map_of (cm_result_cache (fst (fst (cm_evalue E (Some e) (cm, m))))) i = Some (b, h)"
  using assms by (auto simp: cm_evalue_def Let_def split: prod.splits sum.splits)

text \<open>The first result of a condition is the one every later test of it sees: whatever conditions
  are evaluated afterwards, with whatever values (also this one, and with other inputs), the answer under
  its identifier stays the first one and the answer under its negation the opposite.\<close>

theorem first_result_sticks:
  assumes "xml_attr e ''id'' = i" and "i \<noteq> []" and "hd i \<noteq> CHR ''~''"
    and "map_of (cm_result_cache cm) i = None"
    and "snd (cm_evalue E (Some e) (cm, m)) = Inr b"
  shows "getEvalResultById (cm_run E ((Some e, m) # evs) cm) i = b
    \<and> getEvalResultById (cm_run E ((Some e, m) # evs) cm) (CHR ''~'' # i) = (\<not> b)"
proof -
  obtain h where h: "map_of (cm_result_cache (fst (fst (cm_evalue E (Some e) (cm, m))))) i = Some (b, h)"
    using cm_evalue_first [OF assms(1,2,4,5)] by blast
  then have "map_of (cm_result_cache (cm_run E ((Some e, m) # evs) cm)) i = Some (b, h)"
    using cm_run_keeps [OF h, of E evs] by (simp add: cm_run_def)
  then show ?thesis
    using assms(2,3) by (cases i) (auto simp: getEvalResultById_def)
qed

text \<open>A group of conditions on a user or on endorsers is the conjunction or the disjunction of its
  members, by its rule, and \<open>nif\<close> is the negation of what \<open>if\<close> is.\<close>

theorem group_semantics:
  "eval_user E m k (Elem ''if'' as t cs) = (case eval_rule (Elem ''if'' as t cs) EVAL_AND of
       EVAL_AND \<Rightarrow> list_all (eval_user E m k) cs | EVAL_OR \<Rightarrow> list_ex (eval_user E m k) cs)
   \<and> eval_user E m k (Elem ''nif'' as t cs) = (\<not> eval_user E m k (Elem ''if'' as t cs))
   \<and> eval_endorser m (Elem ''if'' as t cs) = (case eval_rule (Elem ''if'' as t cs) EVAL_AND of
       EVAL_AND \<Rightarrow> list_all (eval_endorser m) cs | EVAL_OR \<Rightarrow> list_ex (eval_endorser m) cs)
   \<and> eval_endorser m (Elem ''nif'' as t cs) = (\<not> eval_endorser m (Elem ''if'' as t cs))"
proof -
  have k: "getSecondaryConditionType ''if'' = S_IF" "getSecondaryConditionType ''nif'' = S_NIF"
    by (simp_all add: getSecondaryConditionType_def mt_toLower_def lower_char_def)
  have r: "eval_rule (Elem n as t cs) d = eval_rule (Elem ''if'' as t cs) d" for n d
    by (simp add: eval_rule_def xml_attr_def)
  show ?thesis
    by (auto simp: k r [of "''nif''"] Let_def eval_users_alt eval_endorsers_alt rule_start_def
        split: EvalRuleType.splits)
qed

subsection \<open>Results of contracts\<close>

definition result_ok :: "RunResult \<Rightarrow> bool" where
  "result_ok q \<longleftrightarrow> (if rr_status q then rr_queries q \<noteq> [] \<and> rr_info q = [] else rr_queries q = [] \<and> rr_info q \<noteq> [])"

definition fresh_result :: "RunResult \<Rightarrow> bool" where
  "fresh_result q \<longleftrightarrow> rr_status q \<and> rr_queries q = [] \<and> rr_info q = []"

lemma fail_with_ok: "fresh_result q \<Longrightarrow> info \<noteq> [] \<Longrightarrow> result_ok (fail_with info q)"
  by (simp add: fresh_result_def result_ok_def fail_with_def)

lemma run_sets_ok:
  assumes "run_sets E p q r = (r', Inr q')" "fresh_result q"
  shows "result_ok q'"
proof -
  obtain qs where "q' = (if qs = [] then fail_with (TSCE_ERROR_MSG ''RUN_SET'' @ '' or '' @ TSCE_ERROR_MSG ''RUN_TAG'') q
      else q\<lparr>rr_queries := qs\<rparr>)"
    using assms(1) by (auto simp: run_sets_def sbind_Inr)
  then show ?thesis
    using assms(2) by (cases "qs = []") (simp_all add: fail_with_ok, simp add: result_ok_def fresh_result_def)
qed

lemma fresh_fees [simp]: "fresh_result (q\<lparr>rr_fee_user := a, rr_fee_author := b\<rparr>) = fresh_result q"
  by (simp add: fresh_result_def)

lemma error_texts [simp]: "TSCE_ERROR_MSG ''RUN_FEE'' \<noteq> []" "TSCE_ERROR_MSG ''RUN_PERIOD'' \<noteq> []"
  "TSCE_ERROR_MSG ''RUN_INPUT'' \<noteq> []"
  by (simp_all add: TSCE_ERROR_MSG_def)

lemma run_fees_ok: "run_fees E p q r = (r', Inr q') \<Longrightarrow> fresh_result q \<Longrightarrow> result_ok q'"
  by (auto simp: run_fees_def sbind_Inr fail_with_ok run_sets_ok split: option.splits if_splits)

lemma fresh_start: "fresh_result (result_start t)" "fresh_result (authorities m (result_start t))"
  by (simp_all add: fresh_result_def result_start_def authorities_def)

text \<open>C16: When a contract runs to its end, its result is either a success with at least one query and no
  error text, or a failure with an error text and no query; the first only inside the time window of the
  contract.\<close>

theorem run_contract_result:
  assumes "run_contract E p r = (r', Inr q)"
  shows "(if rr_status q then rr_queries q \<noteq> [] \<and> rr_info q = [] \<and> eval_time E (cr_data r) (ep_head p)
          else rr_queries q = [] \<and> rr_info q \<noteq> [])"
proof (cases "eval_time E (cr_data r) (ep_head p)")
  case False
  then have "q = fail_with (TSCE_ERROR_MSG ''RUN_PERIOD'') (result_start (dm_eval (cr_data r) ''$tx.txid''))"
    using assms by (auto simp: run_contract_def Let_def)
  then show ?thesis by (simp add: fail_with_def result_start_def)
next
  case True
  have "result_ok q"
    using assms True
    by (auto simp: run_contract_def Let_def sbind_Inr fail_with_ok fresh_start split: if_splits
        dest!: run_fees_ok [OF _ fresh_start(2)])
  then show ?thesis using True by (simp add: result_ok_def split: if_splits)
qed

subsection \<open>The engine and the chain plugin\<close>

lemma json_str_erased: "json_str (json_erase k (JObj m)) k = Inl Bad_Optional_Access"
  by (simp add: json_erase_def)

lemma rbind_Inl_ex: "(\<And>x. m = Inr x \<Longrightarrow> \<exists>e. f x = Inl e) \<Longrightarrow> \<exists>e. rbind m f = Inl e"
  by (cases m) auto

text \<open>No result the engine composes can be read by the chain plugin: a success has lost its
  \<open>info\<close> and a failure its \<open>authority\<close>, and \<open>processTxResult\<close> asks for both, so it throws at the first
  result of every block, before any query is applied.\<close>

theorem composed_results_rejected:
  assumes "compose_one res = Inr r"
  shows "\<exists>e. snd (run_result env block_id height r s) = Inl e"
proof -
  obtain b where b: "json_get_bool res ''status'' = Inr b" using assms by (auto simp: compose_one_def rbind_eq_Inr)
  then obtain m where m: "res = JObj m"
    by (cases res) (auto simp: json_get_bool_def json_contains_def)
  have "\<exists>e. read_result_info block_id height r = Inl e"
  proof (cases b)
    case True
    then have "r = json_erase ''info'' (JObj m)" using assms b m by (simp add: compose_one_def)
    then have "json_str r ''info'' = Inl Bad_Optional_Access" by (simp only: json_str_erased)
    then show ?thesis unfolding read_result_info_def by (intro rbind_Inl_ex) simp
  next
    case False
    let ?m = "om_erase ''queries'' (om_erase ''authority'' m)"
    have "failed_fee (JObj ?m) = Inr r" using assms b m False by (simp add: compose_one_def json_erase_def)
    then obtain f where "r = JObj (om_put ''fee'' f ?m)"
      by (auto simp: failed_fee_def rbind_eq_Inr json_put_def)
    then have "mut_str r ''authority'' ''author'' = Inl Bad_Optional_Access"
      by (simp add: json_str_def json_get_def json_contains_def)
    then show ?thesis unfolding read_result_info_def by (intro rbind_Inl_ex) simp
  qed
  then show ?thesis by (auto simp: run_result_def)
qed

subsection \<open>Caches\<close>

text \<open>Clearing the data manager between transactions keeps the answers of the chain: a query that was
  answered once gets the same answer after the clearing, whatever the chain would answer now.\<close>

theorem stale_after_clear:
  assumes "queryAndCache E query m = (m', Inr answer)"
    and "c_utils E' = c_utils E"
  shows "queryAndCache E' query (dm_clear m') = (dm_clear m', Inr answer)"
  using assms by (auto simp: queryAndCache_def Let_def dm_clear_def sbind_def
      split: option.splits sum.splits prod.splits)

text \<open>The answer of the chain about a user, as \<open>queryUserInfoGet\<close> builds it, is read in full.\<close>

definition user_info_names :: "string list" where
  "user_info_names = [''register_day'', ''register_code'', ''gender'', ''isc_type'', ''isc_code'', ''location'', ''age_limit'']"

definition user_info_texts :: "UserAttribute \<Rightarrow> string list" where
  "user_info_texts a = [dec_u64 (ua_register_day a), ua_register_code a, dec_int (ua_gender a), ua_isc_type a,
     ua_isc_code a, ua_location a, dec_int (ua_age_limit a)]"

lemma queryUserInfoGet_alt:
  "queryUserInfoGet rd wh = table user_info_names [map JStr (user_info_texts (r_user_info_get rd wh))]"
  by (simp add: queryUserInfoGet_def user_info_names_def user_info_texts_def Let_def)

lemma rmap_Inr: "(\<And>x. x \<in> set xs \<Longrightarrow> f x = Inr (g x)) \<Longrightarrow> rmap f xs = Inr (map g xs)"
  by (induction xs) auto

lemma row_texts_JStr:
  assumes "length names = length vs"
  shows "row_texts names (JArr (map JStr vs)) = Inr (zip names vs)"
proof -
  have "row_texts names (JArr (map JStr vs)) = Inr (map (\<lambda>(i, n). (n, vs ! i)) (enumerate 0 names))"
    unfolding row_texts_def using assms
    by (intro rmap_Inr) (auto simp: row_cell_def in_set_enumerate_eq)
  also have "map (\<lambda>(i, n). (n, vs ! i)) (enumerate 0 names) = zip names vs"
    using assms by (intro nth_equalityI) (auto simp: nth_enumerate_eq)
  finally show ?thesis .
qed

lemma queryAndCache_table:
  assumes "map_of (dm_query_cache m) (u_to_cbor (c_utils E) query) = None" "c_read E query = Inr (table names rows)"
  shows "queryAndCache E query m
    = (m\<lparr>dm_query_cache := om_put (u_to_cbor (c_utils E) query) (table names rows) (dm_query_cache m)\<rparr>,
       Inr (names, JArr (map JArr rows)))"
proof -
  have "rmap json_to_str (map JStr names) = Inr names"
    by (induction names) auto
  then show ?thesis
    using assms by (simp add: queryAndCache_def Let_def sbind_def table_def json_obj_def json_member_opt_def
        json_contains_def json_idx_def json_items_def)
qed

lemma stoll_dec_int: "llong_min \<le> x \<Longrightarrow> x \<le> llong_max \<Longrightarrow> stoll (dec_int x) = Inr x"
  by (simp add: stoll_def)

text \<open>The attributes of a user change between two readings: the first answer about the gender is the
  decimal code the chain sends, the second, from the cache, the name of that code in the table of types,
  which for a male (90) is \<open>FEMALE\<close> and for a female (91) is nothing.\<close>

theorem user_info_unstable:
  assumes "user_expr \<noteq> []" and "map_of (dm_user_attr m) (dm_eval m user_expr) = None"
    and "map_of (dm_query_cache m) (u_to_cbor (c_utils E)
           (query_of ''user.info.get'' [(''uid'', JStr (dm_eval m user_expr))])) = None"
    and "c_read E (query_of ''user.info.get'' [(''uid'', JStr (dm_eval m user_expr))]) = Inr (queryUserInfoGet rd wh)"
    and "0 \<le> ua_gender (r_user_info_get rd wh)" and "ua_gender (r_user_info_get rd wh) < 256"
  defines "first \<equiv> getUserInfo E user_expr m"
  defines "second \<equiv> getUserInfo E user_expr (fst first)"
  shows "(\<exists>as. snd first = Inr as \<and> attr_str ''gender'' (dec_int (ua_gender (r_user_info_get rd wh))) \<in> set as)
    \<and> (\<exists>bs. snd second = Inr bs \<and> attr_str ''gender'' (getEnumString (ua_gender (r_user_info_get rd wh))) \<in> set bs)
    \<and> getEnumString 90 = ''FEMALE'' \<and> getEnumString 91 = []"
proof -
  let ?a = "r_user_info_get rd wh" and ?i = "dm_eval m user_expr"
  let ?q = "query_of ''user.info.get'' [(''uid'', JStr ?i)]"
  let ?cells = "zip user_info_names (user_info_texts ?a)"
  let ?m1 = "m\<lparr>dm_query_cache := om_put (u_to_cbor (c_utils E) ?q) (queryUserInfoGet rd wh) (dm_query_cache m)\<rparr>"
  let ?rec = "fold set_attr_field ?cells UserAttributeRecord_default"
  have len: "length user_info_names = length (user_info_texts ?a)"
    by (simp add: user_info_names_def user_info_texts_def)
  have q: "queryAndCache E ?q m = (?m1, Inr (user_info_names, JArr [JArr (map JStr (user_info_texts ?a))]))"
    using queryAndCache_table [OF assms(3), of user_info_names "[map JStr (user_info_texts ?a)]"] assms(4)
    by (simp add: queryUserInfoGet_alt)
  have names: "user_info_names \<noteq> []" by (simp add: user_info_names_def)
  have f: "first = (?m1\<lparr>dm_user_attr := om_put ?i ?rec (dm_user_attr m)\<rparr>, Inr (map (\<lambda>(n, v). attr_str n v) ?cells))"
    using assms(1,2) q names row_texts_JStr [OF len]
    by (simp add: first_def getUserInfo_def Let_def queryIfUserAttrAndParseData_def sbind_def json_empty_def json_items_def
        row_cell_def)
  have gender: "ar_gender ?rec = ua_gender ?a"
    using assms(5,6)
    by (simp add: user_info_names_def user_info_texts_def set_attr_field_def UserAttributeRecord_default_def
        str2num_def stoll_dec_int)
  have "dm_eval (fst first) user_expr = ?i"
    by (simp add: f dm_eval_def evalOpt_def dm_get_def split: list.split)
  then have s: "snd second = Inr (cached_user_info ?rec)"
    using assms(1) by (simp add: second_def f getUserInfo_def Let_def)
  have "attr_str ''gender'' (dec_int (ua_gender ?a)) \<in> set (map (\<lambda>(n, v). attr_str n v) ?cells)"
    by (simp add: user_info_names_def user_info_texts_def)
  moreover have "attr_str ''gender'' (getEnumString (ua_gender ?a)) \<in> set (cached_user_info ?rec)"
    by (simp add: cached_user_info_def gender)
  moreover have "getEnumString 90 = ''FEMALE'' \<and> getEnumString 91 = []" by code_simp
  ultimately show ?thesis using f s by simp
qed

subsection \<open>Examples\<close>

definition demo_tsce :: "json \<Rightarrow> tsce_env" where
  "demo_tsce answer = \<lparr>c_utils = demo_utils\<lparr>u_from_cbor := \<lambda>_. Some (JArr [JArr [json_obj [(''x'', JStr ''5'')]]])\<rparr>,
     c_read = (\<lambda>_. Inr answer), c_parse_xml = (\<lambda>_. None), c_regex = (\<lambda>_ _. Inr True), c_parse_time = (\<lambda>_. Some 0),
     c_parse_day = (\<lambda>_. None), c_ymd = (\<lambda>_. (1970, 1, 1)), c_add_years = (\<lambda>(y, m, d) n. (y + n, m, d)),
     c_stof = (\<lambda>_. Inl Invalid_Argument), c_stold = (\<lambda>_. False), c_dec_text = (\<lambda>_. []), c_hex = (\<lambda>_. []),
     c_ecdsa_point = (\<lambda>_ _ _ _. False), c_verify_cert = (\<lambda>_ _. False), c_cert_info = (\<lambda>_. Inl Invalid_Argument)\<rparr>"

text \<open>A contract with one input, a condition on it, a fee and one directive under the condition.\<close>

definition demo_condition :: xml where
  "demo_condition = Elem ''condition'' [(''id'', ''c1'')] None
     [Elem ''compare'' [(''src'', ''$0.x''), (''ref'', ''5''), (''type'', ''EQ'')] None []]"

definition demo_contract :: ElementParser where
  "demo_contract = \<lparr>ep_head = Some (Elem ''head'' [] None [Elem ''after'' [] (Some ''2019-01-01'') []]),
     ep_input = Elem ''input'' [(''max'', ''2'')] None [Elem ''option'' [(''name'', ''x''), (''type'', ''INT'')] None []],
     ep_gets = [], ep_sets = [(Elem ''set'' [(''type'', ''v.incinerate'')] None
       [Elem ''option'' [(''name'', ''amount''), (''value'', ''$0.x'')] None []], [])],
     ep_conditions = [(demo_condition, [])], ep_oracles = [], ep_displays = [], ep_calls = [],
     ep_fees = [(Elem ''fee'' [] None [Elem ''pay'' [(''from'', ''user''), (''value'', ''0'')] None []], [])], ep_scripts = []\<rparr>"

definition demo_runner :: ContractRunner where
  "demo_runner = upd_data (updateValue ''$time'' ''5'') ContractRunner_new"

theorem first_result_sticks_witness:
  "\<not> getEvalResultById (cm_run (demo_tsce JNull)
       [(Some demo_condition, DataManager_new), (Some demo_condition, updateValue ''$0.x'' ''5'' DataManager_new)]
       ConditionManager_new) ''c1''
   \<and> snd (cm_evalue (demo_tsce JNull) (Some demo_condition)
       (ConditionManager_new, updateValue ''$0.x'' ''5'' DataManager_new)) = Inr True"
proof
  have "snd (cm_evalue (demo_tsce JNull) (Some demo_condition) (ConditionManager_new, DataManager_new)) = Inr False"
    by code_simp
  then show "\<not> getEvalResultById (cm_run (demo_tsce JNull)
       [(Some demo_condition, DataManager_new), (Some demo_condition, updateValue ''$0.x'' ''5'' DataManager_new)]
       ConditionManager_new) ''c1''"
    using first_result_sticks [of demo_condition "''c1''" ConditionManager_new "demo_tsce JNull" DataManager_new False]
    by (simp add: demo_condition_def xml_attr_def ConditionManager_new_def)
qed code_simp

theorem run_contract_result_witness:
  "\<exists>r q. run_contract (demo_tsce JNull) demo_contract demo_runner = (r, Inr q) \<and> rr_status q
     \<and> rr_queries q \<noteq> [] \<and> rr_info q = []"
proof -
  have ok: "case run_contract (demo_tsce JNull) demo_contract demo_runner of (_, Inr q) \<Rightarrow> rr_status q | _ \<Rightarrow> False"
    by code_simp
  then obtain r q where q: "run_contract (demo_tsce JNull) demo_contract demo_runner = (r, Inr q)" "rr_status q"
    by (auto split: prod.splits sum.splits)
  then show ?thesis using run_contract_result [OF q(1)] by simp
qed

theorem composed_results_rejected_witness:
  "\<exists>r. compose_one (result_json (result_start ''t'')) = Inr r
     \<and> (\<forall>env block_id height s. \<exists>e. snd (run_result env block_id height r s) = Inl e)"
proof -
  have "case compose_one (result_json (result_start ''t'')) of Inr _ \<Rightarrow> True | Inl _ \<Rightarrow> False" by code_simp
  then obtain r where "compose_one (result_json (result_start ''t'')) = Inr r" by (auto split: sum.splits)
  then show ?thesis using composed_results_rejected by blast
qed

definition demo_answer :: "string \<Rightarrow> json" where
  "demo_answer v = table [''name''] [[JStr v]]"

theorem stale_after_clear_witness:
  "\<exists>m. queryAndCache (demo_tsce (demo_answer ''new'')) (JStr ''q'') (dm_clear m)
     = (dm_clear m, Inr ([''name''], JArr [JArr [JStr ''old'']]))"
proof -
  have "queryAndCache (demo_tsce (demo_answer ''old'')) (JStr ''q'') DataManager_new
    = (DataManager_new\<lparr>dm_query_cache := om_put (u_to_cbor (c_utils (demo_tsce (demo_answer ''old''))) (JStr ''q''))
        (demo_answer ''old'') (dm_query_cache DataManager_new)\<rparr>, Inr ([''name''], JArr (map JArr [[JStr ''old'']])))"
    unfolding demo_answer_def by (rule queryAndCache_table) (simp_all add: DataManager_new_def demo_tsce_def)
  then have "queryAndCache (demo_tsce (demo_answer ''new'')) (JStr ''q'') (dm_clear (DataManager_new\<lparr>dm_query_cache := om_put (u_to_cbor (c_utils (demo_tsce (demo_answer ''old''))) (JStr ''q''))
        (demo_answer ''old'') (dm_query_cache DataManager_new)\<rparr>)) = (dm_clear (DataManager_new\<lparr>dm_query_cache := om_put (u_to_cbor (c_utils (demo_tsce (demo_answer ''old''))) (JStr ''q''))
        (demo_answer ''old'') (dm_query_cache DataManager_new)\<rparr>), Inr ([''name''], JArr (map JArr [[JStr ''old'']])))"
    by (rule stale_after_clear) (simp add: demo_tsce_def)
  then show ?thesis by auto
qed

definition demo_rdb :: rdb where
  "demo_rdb = \<lparr>r_contract_scan = (\<lambda>_. Inr []), r_contract_get = (\<lambda>_. []), r_cert_get = (\<lambda>_. []),
     r_user_info_get = (\<lambda>_. \<lparr>ua_uid = ''u'', ua_register_day = 5, ua_register_code = ''c'', ua_gender = 90,
        ua_isc_type = ''t'', ua_isc_code = ''i'', ua_location = ''l'', ua_age_limit = 19, ua_sigma = ''s''\<rparr>),
     r_user_scope_get = (\<lambda>_. []), r_contract_scope_get = (\<lambda>_. []), r_tx_get = (\<lambda>_. []), r_block_scan = (\<lambda>_. []),
     r_tx_scan = (\<lambda>_. []), r_all_user_ledger = [], r_all_contract_ledger = [], r_get_blocks = (\<lambda>_ _. Inr []),
     r_latest_block = None\<rparr>"

theorem user_info_unstable_witness:
  "\<exists>m as bs. snd (getUserInfo (demo_tsce (queryUserInfoGet demo_rdb JNull)) ''u'' DataManager_new) = Inr as
     \<and> attr_str ''gender'' ''90'' \<in> set as
     \<and> snd (getUserInfo (demo_tsce (queryUserInfoGet demo_rdb JNull)) ''u'' m) = Inr bs
     \<and> attr_str ''gender'' ''FEMALE'' \<in> set bs"
proof -
  let ?E = "demo_tsce (queryUserInfoGet demo_rdb JNull)"
  have g: "ua_gender (r_user_info_get demo_rdb JNull) = 90" by (simp add: demo_rdb_def)
  have n: "dec_int 90 = ''90''" by code_simp
  have r: "c_read ?E q = Inr (queryUserInfoGet demo_rdb JNull)" for q by (simp add: demo_tsce_def)
  have e: "map_of (dm_user_attr DataManager_new) x = None" "map_of (dm_query_cache DataManager_new) x = None" for x
    by (simp_all add: DataManager_new_def)
  have "(\<exists>as. snd (getUserInfo ?E ''u'' DataManager_new) = Inr as \<and> attr_str ''gender'' (dec_int 90) \<in> set as)
    \<and> (\<exists>bs. snd (getUserInfo ?E ''u'' (fst (getUserInfo ?E ''u'' DataManager_new))) = Inr bs
        \<and> attr_str ''gender'' (getEnumString 90) \<in> set bs) \<and> getEnumString 90 = ''FEMALE'' \<and> getEnumString 91 = []"
    by (rule user_info_unstable [where rd = demo_rdb and wh = JNull, unfolded g, OF _ e(1) e(2) r]) simp_all
  then show ?thesis unfolding n by metis
qed

end
