(* ===== verification/Contract_Parallel.thy ===== *)
theory Contract_Parallel
  imports Contract_Engine "HOL-Library.Multiset"
begin

text \<open>
  The distribution of transactions over threads: as long as no two groups have to be merged it keeps
  every transaction and keeps dependent ones together; merging loses transactions.
\<close>

subsection \<open>Lists of groups\<close>

lemma length_append_at [simp]: "length (append_at i xs gs) = length gs"
  by (simp add: append_at_def)

lemma nth_append_at: "j < length gs \<Longrightarrow> append_at i xs gs ! j = (if i = j then gs ! j @ xs else gs ! j)"
  by (simp add: append_at_def nth_list_update)

lemma mset_append_at: "i < length gs \<Longrightarrow> mset (concat (append_at i xs gs)) = mset (concat gs) + mset xs"
proof (induction gs arbitrary: i)
  case (Cons g gs)
  then show ?case by (cases i) (auto simp: append_at_def)
qed simp

lemma related_bin_Some: "related_bin x gs = Some i \<Longrightarrow> i < length gs \<and> x \<in> set (gs ! i)"
  unfolding related_bin_def using first_index_Some by metis

lemma related_bin_None: "related_bin x gs = None \<Longrightarrow> j < length gs \<Longrightarrow> x \<notin> set (gs ! j)"
  unfolding related_bin_def by (simp add: first_index_None)

subsection \<open>Grouping without merging\<close>

text \<open>Every value is in one group only.\<close>

definition apart :: "'a list list \<Rightarrow> bool" where
  "apart gs \<longleftrightarrow> (\<forall>i<length gs. \<forall>j<length gs. \<forall>x. x \<in> set (gs ! i) \<longrightarrow> x \<in> set (gs ! j) \<longrightarrow> i = j)"

lemma apart_append_at:
  assumes "apart gs" "i < length gs" "\<forall>j<length gs. j \<noteq> i \<longrightarrow> x \<notin> set (gs ! j)"
  shows "apart (append_at i [x] gs)"
  using assms unfolding apart_def by (auto simp: nth_append_at split: if_splits)

lemma apart_snoc:
  assumes "apart gs" "\<forall>j<length gs. x \<notin> set (gs ! j)"
  shows "apart (gs @ [[x]])"
  using assms unfolding apart_def by (auto simp: nth_append less_Suc_eq)

definition placed :: "'tx tx_groups \<Rightarrow> string \<times> string \<times> 'tx \<Rightarrow> nat \<Rightarrow> bool" where
  "placed g x i \<longleftrightarrow> i < length (g_txs g) \<and> fst x \<in> set (g_user g ! i) \<and> fst (snd x) \<in> set (g_recv g ! i)
     \<and> snd (snd x) \<in> set (g_txs g ! i)"

definition groups_ok :: "(string \<times> string \<times> 'tx) list \<Rightarrow> 'tx tx_groups \<Rightarrow> bool" where
  "groups_ok xs g \<longleftrightarrow> length (g_user g) = length (g_txs g) \<and> length (g_recv g) = length (g_txs g)
     \<and> apart (g_user g) \<and> apart (g_recv g)
     \<and> (\<forall>i<length (g_txs g). set (g_user g ! i) \<subseteq> fst ` set xs \<and> set (g_recv g ! i) \<subseteq> (fst \<circ> snd) ` set xs)
     \<and> mset (concat (g_txs g)) = mset (map (snd \<circ> snd) xs)
     \<and> (\<forall>x\<in>set xs. \<exists>i. placed g x i)"

fun no_merge :: "string set \<Rightarrow> string set \<Rightarrow> (string \<times> string \<times> 'tx) list \<Rightarrow> bool" where
  "no_merge us rs [] = True"
| "no_merge us rs ((u, r, t) # xs) = (\<not> (u \<in> us \<and> r \<in> rs) \<and> no_merge (insert u us) (insert r rs) xs)"

lemma placed_all:
  assumes "\<forall>x\<in>set xs. \<exists>i. placed g x i" "\<And>x i. placed g x i \<Longrightarrow> placed g' x i" "placed g' y k"
  shows "\<forall>x\<in>set (xs @ [y]). \<exists>i. placed g' x i"
  using assms by (metis UnE empty_iff empty_set insert_iff list.simps(15) set_append)

lemma push_group_ok:
  assumes ok: "groups_ok xs g" and i: "i < length (g_txs g)"
    and u: "\<forall>j<length (g_txs g). j \<noteq> i \<longrightarrow> u \<notin> set (g_user g ! j)"
    and r: "\<forall>j<length (g_txs g). j \<noteq> i \<longrightarrow> r \<notin> set (g_recv g ! j)"
  shows "groups_ok (xs @ [(u, r, t)]) (push_group i u r t g)"
proof -
  define g' where "g' = push_group i u r t g"
  have f: "g_user g' = append_at i [u] (g_user g)" "g_recv g' = append_at i [r] (g_recv g)"
    "g_txs g' = append_at i [t] (g_txs g)"
    by (simp_all add: g'_def push_group_def)
  have lens: "length (g_user g) = length (g_txs g)" "length (g_recv g) = length (g_txs g)"
    and all: "\<forall>x\<in>set xs. \<exists>i. placed g x i" and ap: "apart (g_user g)" "apart (g_recv g)"
    using ok by (simp_all add: groups_ok_def)
  have keep: "placed g' x j" if "placed g x j" for x j
    using that lens by (auto simp: placed_def f nth_append_at)
  have new: "placed g' (u, r, t) i"
    using i lens by (simp add: placed_def f nth_append_at)
  have "apart (g_user g')" "apart (g_recv g')"
    using ap i u r lens by (simp_all add: f apart_append_at)
  moreover have "set (g_user g' ! j) \<subseteq> insert u (fst ` set xs) \<and> set (g_recv g' ! j) \<subseteq> insert r ((fst \<circ> snd) ` set xs)"
    if "j < length (g_txs g)" for j
    using ok that lens by (auto simp: groups_ok_def f nth_append_at)
  moreover have "mset (concat (g_txs g')) = mset (map (snd \<circ> snd) xs) + {#t#}"
    using ok i by (simp add: groups_ok_def f mset_append_at)
  moreover note placed_all [OF all keep new]
  ultimately have "groups_ok (xs @ [(u, r, t)]) g'"
    unfolding groups_ok_def using lens f by simp
  then show ?thesis by (simp add: g'_def)
qed

lemma new_group_ok:
  assumes ok: "groups_ok xs g" and u: "\<forall>j<length (g_txs g). u \<notin> set (g_user g ! j)"
    and r: "\<forall>j<length (g_txs g). r \<notin> set (g_recv g ! j)"
    and f: "g_user g' = g_user g @ [[u]]" "g_recv g' = g_recv g @ [[r]]" "g_txs g' = g_txs g @ [[t]]"
  shows "groups_ok (xs @ [(u, r, t)]) g'"
proof -
  have lens: "length (g_user g) = length (g_txs g)" "length (g_recv g) = length (g_txs g)"
    and all: "\<forall>x\<in>set xs. \<exists>i. placed g x i" and ap: "apart (g_user g)" "apart (g_recv g)"
    using ok by (simp_all add: groups_ok_def)
  have keep: "placed g' x j" if "placed g x j" for x j
    using that lens by (auto simp: placed_def f nth_append)
  have new: "placed g' (u, r, t) (length (g_txs g))"
    using lens by (simp add: placed_def f nth_append)
  have "apart (g_user g')" "apart (g_recv g')"
    using ap u r lens by (simp_all add: f apart_snoc)
  moreover have "set (g_user g' ! j) \<subseteq> insert u (fst ` set xs) \<and> set (g_recv g' ! j) \<subseteq> insert r ((fst \<circ> snd) ` set xs)"
    if "j < Suc (length (g_txs g))" for j
    using ok that lens by (auto simp: groups_ok_def f nth_append less_Suc_eq)
  moreover have "mset (concat (g_txs g')) = mset (map (snd \<circ> snd) xs) + {#t#}"
    using ok by (simp add: groups_ok_def f)
  moreover note placed_all [OF all keep new]
  ultimately show ?thesis
    unfolding groups_ok_def using lens f by simp
qed

lemma group_step_ok:
  assumes ok: "groups_ok xs g" and no: "\<not> (u \<in> fst ` set xs \<and> r \<in> (fst \<circ> snd) ` set xs)"
  shows "\<exists>g'. group_step (u, r, t) g = Inr g' \<and> groups_ok (xs @ [(u, r, t)]) g'"
proof -
  have lens: "length (g_user g) = length (g_txs g)" "length (g_recv g) = length (g_txs g)"
    using ok by (simp_all add: groups_ok_def)
  have others: "\<forall>j<length gs. j \<noteq> i \<longrightarrow> x \<notin> set (gs ! j)" if "related_bin x gs = Some i" "apart gs" for x gs i
    using related_bin_Some [OF that(1)] that(2) unfolding apart_def by blast
  have ap: "apart (g_user g)" "apart (g_recv g)" using ok by (simp_all add: groups_ok_def)
  show ?thesis
  proof (cases "related_bin u (g_user g)"; cases "related_bin r (g_recv g)")
    fix ub rb assume "related_bin u (g_user g) = Some ub" "related_bin r (g_recv g) = Some rb"
    then have "ub < length (g_txs g)" "u \<in> set (g_user g ! ub)" "rb < length (g_txs g)" "r \<in> set (g_recv g ! rb)"
      using related_bin_Some lens by metis+
    moreover have "\<forall>i<length (g_txs g). set (g_user g ! i) \<subseteq> fst ` set xs \<and> set (g_recv g ! i) \<subseteq> (fst \<circ> snd) ` set xs"
      using ok unfolding groups_ok_def by (elim conjE)
    ultimately show ?thesis using no by blast
  next
    fix ub assume s: "related_bin u (g_user g) = Some ub" "related_bin r (g_recv g) = None"
    show ?thesis
      using s push_group_ok [OF ok, of ub u r t] related_bin_Some [OF s(1)] related_bin_None [OF s(2)]
        others [OF s(1) ap(1)] lens by (simp add: group_step_def)
  next
    fix rb assume s: "related_bin u (g_user g) = None" "related_bin r (g_recv g) = Some rb"
    show ?thesis
      using s push_group_ok [OF ok, of rb u r t] related_bin_Some [OF s(2)] related_bin_None [OF s(1)]
        others [OF s(2) ap(2)] lens by (simp add: group_step_def)
  next
    assume s: "related_bin u (g_user g) = None" "related_bin r (g_recv g) = None"
    show ?thesis
      using s new_group_ok [OF ok, of u r _ t] related_bin_None [OF s(1)] related_bin_None [OF s(2)] lens
      by (simp add: group_step_def)
  qed
qed

lemma group_txs_ok:
  "groups_ok prev g \<Longrightarrow> no_merge (fst ` set prev) ((fst \<circ> snd) ` set prev) xs
   \<Longrightarrow> \<exists>g'. group_txs xs g = Inr g' \<and> groups_ok (prev @ xs) g'"
proof (induction xs arbitrary: prev g)
  case (Cons x xs)
  obtain u r t where x: "x = (u, r, t)" by (cases x)
  from group_step_ok [OF Cons.prems(1), of u r t] Cons.prems(2) x
  obtain g' where g': "group_step (u, r, t) g = Inr g'" "groups_ok (prev @ [(u, r, t)]) g'" by auto
  from Cons.IH [OF g'(2)] Cons.prems(2) x g'(1) show ?case by simp
qed simp

subsection \<open>Spreading the groups\<close>

lemma min_bin_bound: "min_bin bs j least found = Some k \<Longrightarrow> k < j + length bs \<or> found = Some k"
  by (induction bs j least found rule: min_bin.induct) (fastforce split: if_splits)+

lemma spread_bin: 
  assumes "bins \<noteq> []"
  shows "\<exists>k<length bins. spread_group n grp bins = append_at k grp bins"
  using assms min_bin_bound [of bins 0 n None]
  by (auto simp: spread_group_def split: option.split)

lemma spread_fold:
  assumes "bins \<noteq> []"
  shows "length (fold (spread_group n) gs bins) = length bins
    \<and> mset (concat (fold (spread_group n) gs bins)) = mset (concat bins) + mset (concat gs)
    \<and> (\<forall>b\<in>set bins \<union> set gs. \<exists>b'\<in>set (fold (spread_group n) gs bins). set b \<subseteq> set b')"
  using assms
proof (induction gs arbitrary: bins)
  case (Cons g gs)
  obtain k where k: "k < length bins" "spread_group n g bins = append_at k g bins"
    using spread_bin [OF Cons.prems] by blast
  let ?bins = "append_at k g bins"
  have "?bins \<noteq> []" using k(1) by (auto simp: append_at_def)
  note IH = Cons.IH [OF this]
  have "\<exists>b'\<in>set ?bins. set b \<subseteq> set b'" if b: "b \<in> insert g (set bins)" for b
  proof -
    obtain j where "j < length bins" "set b \<subseteq> set (?bins ! j)"
      using b k(1) by (auto simp: in_set_conv_nth nth_append_at)
    then show ?thesis by (metis length_append_at nth_mem)
  qed
  then have "\<exists>b'\<in>set (fold (spread_group n) gs ?bins). set b \<subseteq> set b'" if "b \<in> insert g (set bins) \<union> set gs" for b
    using that IH by (metis UnE UnI1 UnI2 subset_trans)
  then show ?case using IH k by (auto simp: mset_append_at)
qed auto



text \<open>A transaction from a known user to a receiver of another group makes the transactions of the
  user's group disappear, a second transfer between the same two users is undefined, and a chain of
  transfers, where a receiver pays on, is spread over different threads.\<close>

theorem distribute_merge_loses:
  "distribute [(''A'', ''X'', t1), (''B'', ''Y'', t2), (''A'', ''Y'', t3)] = Inr [[t3], [t2], [], []]
   \<and> distribute [(''A'', ''B'', t1), (''A'', ''B'', t2)] = Inl Undefined_Behaviour
   \<and> distribute [(''A'', ''B'', t1), (''B'', ''C'', t2)] = Inr [[t1], [t2], [], []]"
  by (simp add: distribute_def group_step_def related_bin_def merge_groups_def push_group_def append_at_def
      spread_group_def numeral_eq_Suc)

end
