(* ===== verification/Rpc_Services.thy ===== *)
theory Rpc_Services
  imports Message_Validator User_Pool Kademlia
begin

text \<open>
  The services a merger offers over gRPC (\<open>rpc_services.cpp\<close>): the dispatch of messages and, for each
  service, what it does with a request, from its bytes to the reply. A service is a function from the
  state of the network plugin to the new state, the reply, and the events it caused: messages published
  to other plugins and messages sent to other mergers. The objects that wait for the requests are in
  \<open>Net_Node\<close>.
\<close>

subsection \<open>State and environment\<close>


abbreviation PARALLELISM_ALPHA :: nat where "PARALLELISM_ALPHA \<equiv> 3"

datatype channel = CH_transaction | CH_block | CH_ssig

datatype net_event = Publish channel json | To_Merger node string bool string | To_User string string

text \<open>Connections of users are named by numbers.\<close>

record net_state =
  ns_users :: UserPoolManager
  ns_conns :: "nat conn_table"
  ns_ids :: id_table
  ns_table :: routing_table
  ns_broadcast :: "(string, 64 word) omap"
  ns_trackers :: "string list"
  ns_p2p_address :: string

text \<open>
  What the services call: the libraries, the session's random values, the running mode, the clock,
  SHA-1, the check of an HMAC (of a message, a code and a key), the states of gRPC channels, the
  shuffle, and the texts of exceptions.
\<close>

record rpc_env =
  rv_net :: net_utils
  rv_ids :: node_ids
  rv_session :: session_env
  rv_monitor :: bool
  rv_now :: "64 word"
  rv_sha1 :: "string \<Rightarrow> hash160"
  rv_verify_hmac :: "string \<Rightarrow> string \<Rightarrow> string \<Rightarrow> bool"
  rv_grpc :: "string \<Rightarrow> grpc_state"
  rv_shuffle :: "node list \<Rightarrow> node list"
  rv_what :: "cpp_error \<Rightarrow> string"

definition net_sha1 :: "rpc_env \<Rightarrow> string \<Rightarrow> string" where
  "net_sha1 env s = map byte_char (rv_sha1 env s)"

subsection \<open>Messages to other mergers\<close>

definition selectRandomAliveNodes :: "rpc_env \<Rightarrow> nat \<Rightarrow> kbucket \<Rightarrow> kbucket \<times> node list" where
  "selectRandomAliveNodes env num_of_node kb = (case selectAliveNodes (rv_grpc env) False kb of
     (kb', alive) \<Rightarrow> (kb', take num_of_node (rv_shuffle env alive)))"

fun over_buckets :: "(kbucket \<Rightarrow> kbucket \<times> 'a list) \<Rightarrow> kbucket list \<Rightarrow> kbucket list \<times> 'a list" where
  "over_buckets f [] = ([], [])"
| "over_buckets f (b # bs) =
     (case (if kb_empty b then (b, []) else f b) of (b', xs) \<Rightarrow>
      case over_buckets f bs of (bs', ys) \<Rightarrow> (b' # bs', xs @ ys))"

definition to_some_mergers :: "rpc_env \<Rightarrow> (node \<Rightarrow> net_event) \<Rightarrow> net_state \<Rightarrow> net_state \<times> net_event list" where
  "to_some_mergers env mk st =
     (case over_buckets (selectRandomAliveNodes env PARALLELISM_ALPHA) (rt_buckets (ns_table st)) of
        (bs, ns) \<Rightarrow> (st\<lparr>ns_table := (ns_table st)\<lparr>rt_buckets := bs\<rparr>\<rparr>, map mk ns))"

subsection \<open>The message handler\<close>

text \<open>
  A handler is made with the pool of users, with the context of a call (whose metadata may have a
  \<open>net_id\<close>) and the identifier table, or with nothing; what it was not made with is a null pointer.
\<close>

datatype handler_kind = With_Pool | With_Context "string option" | Bare

definition mapping_user_id_to_net_id :: "rpc_env \<Rightarrow> handler_kind \<Rightarrow> InNetMsg \<Rightarrow> net_state \<Rightarrow> net_state result" where
  "mapping_user_id_to_net_id env kind msg st = (case kind of
       With_Context (Some net_id) \<Rightarrow>
         Inr (st\<lparr>ns_ids := mapId (net_sha1 env) (u_to58 (n_utils (rv_net env)) (in_sender_id msg)) net_id (ns_ids st)\<rparr>)
     | _ \<Rightarrow> Inl Undefined_Behaviour)"

definition handle_message :: "rpc_env \<Rightarrow> handler_kind \<Rightarrow> InNetMsg \<Rightarrow> net_state
    \<Rightarrow> net_state \<times> (handler_error + OutNetMsg option \<times> net_event list)" where
  "handle_message env kind msg st =
     (let t = in_type msg; body = in_body msg in
      case (if t = MSG_REQ_BONE \<or> t = MSG_REQ_BLOCK then mapping_user_id_to_net_id env kind msg st else Inr st) of
        Inl e \<Rightarrow> (st, Inl (Cpp e))
      | Inr st1 \<Rightarrow>
         if t = MSG_TX then (st1, Inr (None, [Publish CH_transaction body]))
         else if t = MSG_BLOCK then (st1, Inr (None, [Publish CH_block body]))
         else if t = MSG_JOIN \<or> t = MSG_RESPONSE_1 \<or> t = MSG_SUCCESS then
           (case kind of
              With_Pool \<Rightarrow> (case handleMsg (rv_net env) (rv_ids env) (rv_session env) msg (ns_users st1) of
                 (m, Inl e) \<Rightarrow> (st1\<lparr>ns_users := m\<rparr>, Inl e)
               | (m, Inr out) \<Rightarrow> (st1\<lparr>ns_users := m\<rparr>, Inr (Some out, [])))
            | _ \<Rightarrow> (st1, Inl (Cpp Undefined_Behaviour)))
         else if t = MSG_SSIG then (st1, Inr (None, [Publish CH_ssig body]))
         else (st1, Inr (None, [])))"

subsection \<open>Replies\<close>

datatype reply_status = REP_UNKNOWN | REP_SUCCESS | REP_INVALID | REP_INTERNAL | REP_ECDH ErrorMsgType

record reply =
  rp_status :: reply_status
  rp_message :: string
  rp_err_info :: string

abbreviation reply_of :: "reply_status \<Rightarrow> string \<Rightarrow> string \<Rightarrow> reply" where
  "reply_of s m e \<equiv> \<lparr>rp_status = s, rp_message = m, rp_err_info = e\<rparr>"

type_synonym service = "net_state \<Rightarrow> net_state \<times> (reply \<times> net_event list) result"

definition verifyHMAC :: "rpc_env \<Rightarrow> string \<Rightarrow> string \<Rightarrow> bool result" where
  "verifyHMAC env packed_msg hmac_key =
     (if length packed_msg < 32 then Inl Out_Of_Range
      else let n = length packed_msg - 32 in
        Inr (rv_verify_hmac env (take n packed_msg) (drop n packed_msg) hmac_key))"

text \<open>
  The handlers of a service's \<open>try\<close>. Undefined behaviour is nothing that is caught. Only the key
  exchange catches the errors of the protocol, and only it can run into them; elsewhere they would
  end the process.
\<close>

definition caught_std :: "rpc_env \<Rightarrow> (string \<Rightarrow> 'r) \<Rightarrow> handler_error \<Rightarrow> ('r \<times> net_event list) result" where
  "caught_std env mk e = (case e of
       Cpp Undefined_Behaviour \<Rightarrow> Inl Undefined_Behaviour
     | Cpp x \<Rightarrow> Inr (mk (rv_what env x), [])
     | Thrown t \<Rightarrow> Inl Undefined_Behaviour)"

definition caught_user :: "rpc_env \<Rightarrow> handler_error \<Rightarrow> (reply \<times> net_event list) result" where
  "caught_user env = caught_std env (reply_of REP_INTERNAL [])"

definition caught_keyex :: "rpc_env \<Rightarrow> handler_error \<Rightarrow> (reply \<times> net_event list) result" where
  "caught_keyex env e = (case e of
       Thrown t \<Rightarrow> Inr (reply_of (REP_ECDH t) [] ''ECDH Key exchange error'', [])
     | _ \<Rightarrow> caught_user env e)"

definition refused :: "string \<Rightarrow> (reply \<times> net_event list) result" where
  "refused err = Inr (reply_of REP_INVALID [] err, [])"

subsection \<open>Key exchange\<close>

definition monitor_text :: string where
  "monitor_text = ''This node is running as a monitoring mode. Please contact other node.''"

text \<open>The code of a \<open>MSG_SUCCESS\<close> is checked with the key of the session, or an empty one if there is none.\<close>

definition keyex_hmac_ok :: "rpc_env \<Rightarrow> string \<Rightarrow> InNetMsg \<Rightarrow> net_state \<Rightarrow> bool result" where
  "keyex_hmac_ok env packed_msg msg st = (if in_type msg = MSG_SUCCESS
     then verifyHMAC env packed_msg (case getTempHmacKey (in_sender_id msg) (ns_users st) of Some k \<Rightarrow> k | None \<Rightarrow> [])
     else Inr True)"

definition pack_reply :: "rpc_env \<Rightarrow> string \<Rightarrow> OutNetMsg \<Rightarrow> net_state \<Rightarrow> reply" where
  "pack_reply env user_id out st =
     (if out_type out = MSG_ACCEPT then
        (case getHmacKey user_id (pm_user_pool (ns_users st)) of
           Some k \<Rightarrow> reply_of REP_SUCCESS (packMessage_hmac (rv_net env) (rv_ids env) out k) []
         | None \<Rightarrow> reply_of REP_INVALID [] ''Bad request (cannot find hmac key)'')
      else reply_of REP_SUCCESS (pack (rv_net env) (rv_ids env) out) [])"

definition keyex_process :: "rpc_env \<Rightarrow> string \<Rightarrow> service" where
  "keyex_process env packed_msg st =
     (if rv_monitor env then (st, Inr (reply_of REP_INTERNAL [] monitor_text, []))
      else case parseMessage (rv_net env) packed_msg of
        Inl e \<Rightarrow> (st, caught_keyex env (Cpp e))
      | Inr (None, err) \<Rightarrow> (st, refused err)
      | Inr (Some msg, _) \<Rightarrow>
          if \<not> validate (in_body msg) then (st, refused ''Bad request (message validate fail)'')
          else (case keyex_hmac_ok env packed_msg msg st of
              Inl e \<Rightarrow> (st, caught_keyex env (Cpp e))
            | Inr False \<Rightarrow> (st, refused ''Bad request (fail to verify hmac )'')
            | Inr True \<Rightarrow> (case handle_message env With_Pool msg st of
                  (st1, Inl e) \<Rightarrow> (st1, caught_keyex env e)
                | (st1, Inr (None, evs)) \<Rightarrow> (st1, Inr (reply_of REP_UNKNOWN [] [], evs))
                | (st1, Inr (Some out, evs)) \<Rightarrow> (st1, Inr (pack_reply env (in_sender_id msg) out st1, evs)))))"

subsection \<open>Users and signers\<close>

text \<open>What both services do; the last argument is what follows a message that was handled.\<close>

definition serve_user :: "rpc_env \<Rightarrow> string \<Rightarrow> (InNetMsg \<Rightarrow> net_state \<Rightarrow> net_state \<times> net_event list) \<Rightarrow> service" where
  "serve_user env packed_msg after st =
     (case parseMessage (rv_net env) packed_msg of
        Inl e \<Rightarrow> (st, caught_user env (Cpp e))
      | Inr (None, err) \<Rightarrow> (st, refused err)
      | Inr (Some msg, _) \<Rightarrow>
          if \<not> validate (in_body msg) then (st, refused ''Bad request (message validation fail)'')
          else (case verifyHMAC env packed_msg
                  (case getHmacKey (in_sender_id msg) (pm_user_pool (ns_users st)) of Some k \<Rightarrow> k | None \<Rightarrow> []) of
              Inl e \<Rightarrow> (st, caught_user env (Cpp e))
            | Inr False \<Rightarrow> (st, refused ''Bad request (fail to verify hmac)'')
            | Inr True \<Rightarrow> (case handle_message env Bare msg st of
                  (st1, Inl e) \<Rightarrow> (st1, caught_user env e)
                | (st1, Inr (_, evs)) \<Rightarrow> (case after msg st1 of (st2, evs2) \<Rightarrow>
                     (st2, Inr (reply_of REP_SUCCESS [] [], evs @ evs2))))))"

definition forward_tx :: "rpc_env \<Rightarrow> InNetMsg \<Rightarrow> net_state \<Rightarrow> net_state \<times> net_event list" where
  "forward_tx env msg st = (if in_type msg = MSG_TX
     then (let re_packed = pack (rv_net env) (rv_ids env)
                 \<lparr>out_type = in_type msg, out_body = in_body msg, out_receivers = []\<rparr>
           in to_some_mergers env (\<lambda>n. To_Merger n re_packed False []) st)
     else (st, []))"

definition user_process :: "rpc_env \<Rightarrow> string \<Rightarrow> service" where
  "user_process env packed_msg = serve_user env packed_msg (forward_tx env)"

definition signer_process :: "rpc_env \<Rightarrow> string \<Rightarrow> service" where
  "signer_process env packed_msg = serve_user env packed_msg (\<lambda>msg st. (st, []))"

subsection \<open>Mergers\<close>

datatype merger_status = MS_SUCCESS | MS_INVALID | MS_INTERNAL | MS_DUPLICATED

text \<open>The request of another merger: whether to pass it on, its message identifier, and the \<open>net_id\<close> of the
  call's metadata.\<close>

record merger_request =
  mr_broadcast :: bool
  mr_message_id :: string
  mr_message :: string
  mr_net_id :: "string option"

text \<open>The copy that is passed on has no message identifier.\<close>

definition pass_on :: "rpc_env \<Rightarrow> merger_request \<Rightarrow> net_state \<Rightarrow> net_state \<times> net_event list" where
  "pass_on env q st = (if mr_broadcast q
     then to_some_mergers env (\<lambda>n. To_Merger n (mr_message q) True [])
       (st\<lparr>ns_broadcast := om_try (mr_message_id q) (rv_now env) (ns_broadcast st)\<rparr>)
     else (st, []))"

definition merger_process :: "rpc_env \<Rightarrow> merger_request \<Rightarrow> net_state
    \<Rightarrow> net_state \<times> ((merger_status \<times> string) \<times> net_event list) result" where
  "merger_process env q st =
     (case parseMessage (rv_net env) (mr_message q) of
        Inl e \<Rightarrow> (st, caught_std env (Pair MS_INTERNAL) (Cpp e))
      | Inr (None, err) \<Rightarrow> (st, Inr ((MS_INVALID, err), []))
      | Inr (Some msg, _) \<Rightarrow>
          if \<not> validate (in_body msg) then (st, Inr ((MS_INVALID, ''Bad request (message validate fail)''), []))
          else if mr_broadcast q \<and> map_of (ns_broadcast st) (mr_message_id q) \<noteq> None
          then (st, Inr ((MS_DUPLICATED, ''duplicate message''), []))
          else (case pass_on env q st of (st1, evs) \<Rightarrow>
            if rv_monitor env \<and> in_type msg = MSG_TX then (st1, Inr ((MS_SUCCESS, []), evs))
            else (case handle_message env (With_Context (mr_net_id q)) msg st1 of
                (st2, Inl e) \<Rightarrow> (st2, caught_std env (Pair MS_INTERNAL) e)
              | (st2, Inr (_, evs2)) \<Rightarrow> (st2, Inr ((MS_SUCCESS, []), evs @ evs2)))))"

subsection \<open>Connections and peers\<close>

definition push_process :: "rpc_env \<Rightarrow> nat \<Rightarrow> string \<Rightarrow> net_state \<Rightarrow> net_state" where
  "push_process env call sender st =
     st\<lparr>ns_conns := setRpcInfo (u_to58 (n_utils (rv_net env)) sender) (Some call) (Some call) (ns_conns st)\<rparr>"

definition push_cancelled :: "string \<Rightarrow> net_state \<Rightarrow> net_state" where
  "push_cancelled user_id_b58 st = st\<lparr>ns_conns := eraseRpcInfo user_id_b58 (ns_conns st),
     ns_users := removeTempUser user_id_b58 (removeUser user_id_b58 (ns_users st))\<rparr>"

definition find_node_process :: "rpc_env \<Rightarrow> string \<Rightarrow> string \<Rightarrow> string \<Rightarrow> string \<Rightarrow> net_state
    \<Rightarrow> net_state \<times> (string \<times> string \<times> string) list result" where
  "find_node_process env target sender_id address port st =
     (case findNeighbors (rv_sha1 env target) PARALLELISM_ALPHA (ns_table st) of
        Inl e \<Rightarrow> (st, Inl e)
      | Inr ns \<Rightarrow> (case addPeer (new_node (rv_sha1 env sender_id) sender_id address port) (ns_table st) of
            Inl e \<Rightarrow> (st, Inl e)
          | Inr (_, rt) \<Rightarrow> (st\<lparr>ns_table := rt\<rparr>, Inr (map (\<lambda>n. (nd_address n, nd_port n, nd_id n)) ns))))"

end
