(* ===== verification/Net_Plugin.thy ===== *)
theory Net_Plugin
  imports Rpc_Services
begin

text \<open>
  The network plugin (\<open>net_plugin.cpp\<close>) and the query it sends to trackers (\<open>http_client.cpp\<close>): the choice
  of receivers for outgoing messages, peers from trackers and neighbours, the refreshing of the routing
  table and of the table of broadcasts, and the control messages of the administrator. What a tracker
  or a peer answers is an argument; the timers that start the operations are in \<open>Net_Node\<close>.
\<close>

subsection \<open>Addresses\<close>

definition before_first :: "char \<Rightarrow> string \<Rightarrow> string" where
  "before_first c s = takeWhile (\<lambda>x. x \<noteq> c) s"

definition after_last :: "char \<Rightarrow> string \<Rightarrow> string" where
  "after_last c s = rev (takeWhile (\<lambda>x. x \<noteq> c) (rev s))"

definition getHostAndPort :: "string \<Rightarrow> string \<times> string" where
  "getHostAndPort addr = (before_first CHR '':'' addr, after_last CHR '':'' addr)"

definition getMyNetId :: "net_state \<Rightarrow> string" where
  "getMyNetId st = ns_p2p_address st"

abbreviation KBUCKET_SIZE :: nat where "KBUCKET_SIZE \<equiv> 20"

definition initializeRoutingTable :: "rpc_env \<Rightarrow> net_state \<Rightarrow> net_state" where
  "initializeRoutingTable env st = (case getHostAndPort (ns_p2p_address st) of (host, port) \<Rightarrow>
     st\<lparr>ns_table := new_routing_table
       (new_node (rv_sha1 env (ns_p2p_address st)) (ns_p2p_address st) host port) KBUCKET_SIZE\<rparr>)"

subsection \<open>Trackers\<close>

definition is_alnum :: "char \<Rightarrow> bool" where
  "is_alnum c \<longleftrightarrow> is_digit c \<or> char_in 65 90 c \<or> char_in 97 122 c"

definition hex_char :: "nat \<Rightarrow> char" where
  "hex_char d = (if d < 10 then char_of (48 + d) else char_of (55 + d))"

definition encode_char :: "char \<Rightarrow> string" where
  "encode_char c = (if is_alnum c \<or> c = CHR ''-'' \<or> c = CHR ''_'' \<or> c = CHR ''.'' \<or> c = CHR ''~'' then [c]
     else (let n = of_char c :: nat in [CHR ''%'', hex_char (n div 16), hex_char (n mod 16)]))"

definition encodeQuery :: "string \<Rightarrow> string" where
  "encodeQuery s = concat (map encode_char s)"

text \<open>The target of the request \<open>HttpClient::get\<close> sends.\<close>

definition request_target :: "string \<Rightarrow> string \<Rightarrow> string" where
  "request_target target query = target @ ''?'' @ encodeQuery query"

definition announce_query :: "rpc_env \<Rightarrow> net_state \<Rightarrow> string" where
  "announce_query env st = ''port='' @ snd (getHostAndPort (ns_p2p_address st)) @ ''&id=''
     @ u_to58 (n_utils (rv_net env)) (ni_self (rv_ids env))"

text \<open>The identifier of a peer a tracker names is its host, without the port.\<close>

definition add_tracker_peer :: "rpc_env \<Rightarrow> json \<Rightarrow> (net_state, unit) prog" where
  "add_tracker_peer env peer = sbind (slift (json_to_str peer)) (\<lambda>addr st.
     case getHostAndPort addr of (host, port) \<Rightarrow>
       if host = getMyNetId st then (st, Inr ())
       else (case addPeer (new_node (rv_sha1 env host) host host port) (ns_table st) of
           Inl e \<Rightarrow> (st, Inl e)
         | Inr (_, rt) \<Rightarrow> (st\<lparr>ns_table := rt\<rparr>, Inr ())))"

text \<open>\<open>ask host port target\<close> is the body of a tracker's answer, empty when the request failed.\<close>

definition peers_from_tracker :: "rpc_env \<Rightarrow> (string \<Rightarrow> string \<Rightarrow> string \<Rightarrow> string) \<Rightarrow> string \<Rightarrow> (net_state, unit) prog" where
  "peers_from_tracker env ask tracker st =
     (case getHostAndPort tracker of (host, port) \<Rightarrow>
        let res = ask host port (request_target ''/announce'' (announce_query env st)) in
        if res = [] then (st, Inr ())
        else case n_parse_json (rv_net env) res of
            None \<Rightarrow> (st, Inr ())
          | Some peers \<Rightarrow> seq (map (add_tracker_peer env) (json_items peers)) st)"

definition getPeersFromTracker :: "rpc_env \<Rightarrow> (string \<Rightarrow> string \<Rightarrow> string \<Rightarrow> string) \<Rightarrow> (net_state, unit) prog" where
  "getPeersFromTracker env ask = (\<lambda>st. seq (map (peers_from_tracker env ask) (ns_trackers st)) st)"

subsection \<open>Neighbours\<close>

text \<open>The neighbours in an answer, without the node itself.\<close>

definition neighbors_in_answer :: "rpc_env \<Rightarrow> net_state \<Rightarrow> (string \<times> string \<times> string) list \<Rightarrow> node list" where
  "neighbors_in_answer env st answer = map (\<lambda>(i, address, port). new_node (rv_sha1 env i) i address port)
     (filter (\<lambda>(i, _). getMyNetId st \<noteq> i) answer)"

definition add_peer_to :: "node \<Rightarrow> (net_state, unit) prog" where
  "add_peer_to n st = (case addPeer n (ns_table st) of
     Inl e \<Rightarrow> (st, Inl e) | Inr (_, rt) \<Rightarrow> (st\<lparr>ns_table := rt\<rparr>, Inr ()))"

text \<open>A node that does not answer (\<open>None\<close>) is timed out; asking it again has no further effect.\<close>

definition net_findNeighbors :: "rpc_env \<Rightarrow> (node \<Rightarrow> (string \<times> string \<times> string) list option) \<Rightarrow> node list
    \<Rightarrow> (net_state, unit) prog" where
  "net_findNeighbors env answers nodes = seq (map (\<lambda>n st. case answers n of
       None \<Rightarrow> (st\<lparr>ns_table := snd (peerTimedOut n (ns_table st))\<rparr>, Inr ())
     | Some answer \<Rightarrow> seq (map add_peer_to (neighbors_in_answer env st answer)) st) nodes)"

text \<open>
  For each bucket that is not empty: the nodes without a connection go, their identifiers are unmapped,
  and the living ones are asked for their neighbours. The future \<open>std::async\<close> returns is dropped, and
  its destructor waits, so a bucket's answers are worked in before the loop goes on; what the task
  throws is lost. Splitting a bucket inserts into the deque the loop runs over, whose iterators are
  invalid then.
\<close>

definition refresh_bucket :: "rpc_env \<Rightarrow> nat \<Rightarrow> net_state \<Rightarrow> net_state \<times> node list" where
  "refresh_bucket env i st = (case removeDeadNodes (rv_grpc env) (rt_buckets (ns_table st) ! i) of (b1, dead) \<Rightarrow>
     (case selectAliveNodes (rv_grpc env) False b1 of (b2, alive) \<Rightarrow>
       (st\<lparr>ns_table := (ns_table st)\<lparr>rt_buckets := (rt_buckets (ns_table st))[i := b2]\<rparr>,
           ns_ids := (case dead of None \<Rightarrow> ns_ids st
             | Some hs \<Rightarrow> fold (\<lambda>h. unmapId_hash (map byte_char h)) hs (ns_ids st))\<rparr>, alive)))"

fun refresh_loop :: "rpc_env \<Rightarrow> (node \<Rightarrow> (string \<times> string \<times> string) list option) \<Rightarrow> nat \<Rightarrow> nat \<Rightarrow> (net_state, unit) prog" where
  "refresh_loop env answers 0 i st = (st, Inr ())"
| "refresh_loop env answers (Suc k) i st =
     (if kb_empty (rt_buckets (ns_table st) ! i) then refresh_loop env answers k (Suc i) st
      else (case refresh_bucket env i st of (st1, alive) \<Rightarrow>
        (case net_findNeighbors env answers alive st1 of (st2, r) \<Rightarrow>
           if r = Inl Undefined_Behaviour \<or> bucketsCount (ns_table st2) \<noteq> bucketsCount (ns_table st1)
           then (st2, Inl Undefined_Behaviour)
           else refresh_loop env answers k (Suc i) st2)))"

definition refreshBuckets :: "rpc_env \<Rightarrow> (node \<Rightarrow> (string \<times> string \<times> string) list option) \<Rightarrow> (net_state, unit) prog" where
  "refreshBuckets env answers st = refresh_loop env answers (bucketsCount (ns_table st)) 0 st"

subsection \<open>The table of broadcasts\<close>

abbreviation KEEP_BROADCAST_MSG_TIME :: int where "KEEP_BROADCAST_MSG_TIME \<equiv> 180"

text \<open>\<open>abs\<close> of the least \<open>int\<close> is undefined.\<close>

fun keep_recent :: "64 word \<Rightarrow> (string, 64 word) omap \<Rightarrow> (string, 64 word) omap result" where
  "keep_recent now [] = Inr []"
| "keep_recent now ((i, t) # r) = rbind (chk_int \<bar>u64_to_int (now - t)\<bar>) (\<lambda>age.
     rbind (keep_recent now r) (\<lambda>r'. Inr (if age > KEEP_BROADCAST_MSG_TIME then r' else (i, t) # r')))"

definition refreshBroadcastCheckTable :: "rpc_env \<Rightarrow> net_state \<Rightarrow> net_state result" where
  "refreshBroadcastCheckTable env st =
     rbind (keep_recent (rv_now env) (ns_broadcast st)) (\<lambda>t. Inr (st\<lparr>ns_broadcast := t\<rparr>))"

subsection \<open>Outgoing messages\<close>

definition checkOneHopBroadcastMsgType :: "MessageType \<Rightarrow> bool" where
  "checkOneHopBroadcastMsgType t \<longleftrightarrow> t \<in> {MSG_PING, MSG_REQ_BLOCK, MSG_REQ_BONE}"

definition checkMergerMsgType :: "MessageType \<Rightarrow> bool" where
  "checkMergerMsgType t \<longleftrightarrow> t \<in> {MSG_PING, MSG_BONE, MSG_BLOCK, MSG_REQ_BLOCK, MSG_REQ_BONE}"

definition checkUserMsgType :: "MessageType \<Rightarrow> bool" where
  "checkUserMsgType t \<longleftrightarrow> t \<in> {MSG_REQ_SSIG, MSG_RES_TX_CHECK, MSG_RESULT}"

definition sendToMergerBroadcast :: "rpc_env \<Rightarrow> MessageType \<Rightarrow> string \<Rightarrow> net_state \<Rightarrow> net_state \<times> net_event list" where
  "sendToMergerBroadcast env msg_type packed_msg st =
     (if checkOneHopBroadcastMsgType msg_type
      then to_some_mergers env (\<lambda>n. To_Merger n packed_msg False []) st
      else let msg_id = u_sha256 (n_utils (rv_net env)) packed_msg in
        to_some_mergers env (\<lambda>n. To_Merger n packed_msg True msg_id)
          (st\<lparr>ns_broadcast := om_try msg_id (rv_now env) (ns_broadcast st)\<rparr>))"

text \<open>A receiver without a network identifier is passed over; one whose node is gone is unmapped.\<close>

fun sendToMerger :: "string \<Rightarrow> string list \<Rightarrow> net_state \<Rightarrow> net_state \<times> net_event list result" where
  "sendToMerger packed_msg [] st = (st, Inr [])"
| "sendToMerger packed_msg (i # is) st = (case get_net_id i (ns_ids st) of
       None \<Rightarrow> sendToMerger packed_msg is st
     | Some h \<Rightarrow> (case findNode (map char_byte h) (ns_table st) of
           Inl e \<Rightarrow> (st, Inl e)
         | Inr None \<Rightarrow> sendToMerger packed_msg is (st\<lparr>ns_ids := unmapId i (ns_ids st)\<rparr>)
         | Inr (Some n) \<Rightarrow> (case sendToMerger packed_msg is st of
               (st', Inl e) \<Rightarrow> (st', Inl e)
             | (st', Inr evs) \<Rightarrow> (st', Inr (To_Merger n packed_msg False [] # evs)))))"

fun sendToUser :: "rpc_env \<Rightarrow> OutNetMsg \<Rightarrow> string list \<Rightarrow> net_state \<Rightarrow> net_state \<times> net_event list" where
  "sendToUser env msg [] st = (st, [])"
| "sendToUser env msg (i # is) st = (case getRpcInfo i (ns_conns st) of (conns, sender, _) \<Rightarrow>
     (let st1 = st\<lparr>ns_conns := conns\<rparr>;
          evs = (case (sender, getHmacKey i (pm_user_pool (ns_users st1))) of
             (Some _, Some k) \<Rightarrow> [To_User i (packMessage_hmac (rv_net env) (rv_ids env) msg k)]
           | _ \<Rightarrow> [])
      in (case sendToUser env msg is st1 of (st2, evs2) \<Rightarrow> (st2, evs @ evs2))))"

definition sendMessage :: "rpc_env \<Rightarrow> OutNetMsg \<Rightarrow> net_state \<Rightarrow> net_state \<times> net_event list result" where
  "sendMessage env msg st =
     (if checkMergerMsgType (out_type msg) then
        (let packed_msg = pack (rv_net env) (rv_ids env) msg in
         if out_receivers msg = []
         then (case sendToMergerBroadcast env (out_type msg) packed_msg st of (st', evs) \<Rightarrow> (st', Inr evs))
         else sendToMerger packed_msg (out_receivers msg) st)
      else if checkUserMsgType (out_type msg)
      then (case sendToUser env msg (out_receivers msg) st of (st', evs) \<Rightarrow> (st', Inr evs))
      else (st, Inr []))"

subsection \<open>Control messages\<close>

definition json_get_int :: "json \<Rightarrow> string \<Rightarrow> int result" where
  "json_get_int j k = rbind (json_member_opt j k) (\<lambda>v. case v of
     None \<Rightarrow> Inl Bad_Optional_Access | Some (JInt i) \<Rightarrow> Inr (i32 i)
   | Some (JBool b) \<Rightarrow> Inr (if b then 1 else 0) | Some _ \<Rightarrow> Inl Json_Type_Error)"

abbreviation CTL_LOGIN :: int where "CTL_LOGIN \<equiv> 1"
abbreviation CTL_START :: int where "CTL_START \<equiv> 2"
abbreviation CTL_LOAD_CHAIN :: int where "CTL_LOAD_CHAIN \<equiv> 3"

definition on_users :: "(UserPoolManager, 'a) prog \<Rightarrow> (net_state, 'a) prog" where
  "on_users f st = (case f (ns_users st) of (m, r) \<Rightarrow> (st\<lparr>ns_users := m\<rparr>, r))"

definition controlNet :: "json \<Rightarrow> (net_state, unit) prog" where
  "controlNet info = sbind (slift (json_get_int info ''type'')) (\<lambda>t.
     if t = CTL_LOGIN then on_users (setSelfKeyInfo info)
     else if t = CTL_LOAD_CHAIN then
       (\<lambda>st. case json_at_mut info ''trackers'' of
           Inl e \<Rightarrow> (st, Inl e)
         | Inr ts \<Rightarrow> seq (map (\<lambda>j. assign (json_to_str j) (\<lambda>a s. s\<lparr>ns_trackers := ns_trackers s @ [a]\<rparr>)) (json_items ts)) st)
     else sret ())"

end
