(* ===== verification/Rpc_Props.thy ===== *)
theory Rpc_Props
  imports Rpc_Services
begin

text \<open>
  Properties of the services: who may have a message handled, what the key exchange leaves behind when
  it succeeds, which requests end in undefined behaviour, and what becomes of broadcasts.
\<close>

subsection \<open>Users\<close>

definition user_key :: "string \<Rightarrow> net_state \<Rightarrow> string" where
  "user_key i st = (case getHmacKey i (pm_user_pool (ns_users st)) of Some k \<Rightarrow> k | None \<Rightarrow> [])"

definition authentic :: "rpc_env \<Rightarrow> string \<Rightarrow> string \<Rightarrow> bool" where
  "authentic env packed k \<longleftrightarrow> 32 \<le> length packed
     \<and> rv_verify_hmac env (take (length packed - 32) packed) (drop (length packed - 32) packed) k"

lemma verifyHMAC_True: "verifyHMAC env packed k = Inr True \<longleftrightarrow> authentic env packed k"
  by (auto simp: verifyHMAC_def authentic_def Let_def)

lemma serve_user_alt:
  "serve_user env packed after st = (case parseMessage (rv_net env) packed of
      Inl e \<Rightarrow> (st, caught_user env (Cpp e))
    | Inr (None, err) \<Rightarrow> (st, refused err)
    | Inr (Some msg, _) \<Rightarrow>
        if \<not> validate (in_body msg) then (st, refused ''Bad request (message validation fail)'')
        else if length packed < 32 then (st, caught_user env (Cpp Out_Of_Range))
        else if \<not> authentic env packed (user_key (in_sender_id msg) st) then (st, refused ''Bad request (fail to verify hmac)'')
        else (case handle_message env Bare msg st of
            (st1, Inl e) \<Rightarrow> (st1, caught_user env e)
          | (st1, Inr (_, evs)) \<Rightarrow> (case after msg st1 of (st2, evs2) \<Rightarrow> (st2, Inr (reply_of REP_SUCCESS [] [], evs @ evs2)))))"
  by (auto simp: serve_user_def verifyHMAC_def authentic_def user_key_def Let_def
      split: sum.split option.split prod.split bool.split)

lemma caught_user_status: "caught_user env e = Inr (r, evs) \<Longrightarrow> rp_status r = REP_INTERNAL \<and> evs = []"
  by (auto simp: caught_user_def caught_std_def split: handler_error.splits cpp_error.splits)

lemma refused_status: "refused err = Inr (r, evs) \<Longrightarrow> rp_status r = REP_INVALID \<and> evs = []"
  by (auto simp: refused_def)

lemma bare_handler:
  "handle_message env Bare msg st =
     (st, if in_type msg \<in> {MSG_REQ_BONE, MSG_REQ_BLOCK, MSG_JOIN, MSG_RESPONSE_1, MSG_SUCCESS} then Inl (Cpp Undefined_Behaviour)
          else Inr (None, if in_type msg = MSG_TX then [Publish CH_transaction (in_body msg)]
            else if in_type msg = MSG_BLOCK then [Publish CH_block (in_body msg)]
            else if in_type msg = MSG_SSIG then [Publish CH_ssig (in_body msg)] else []))"
  by (auto simp: handle_message_def mapping_user_id_to_net_id_def Let_def)

text \<open>C19: The service for users handles a message only when it is well formed and its last 32 bytes are a code
  of the rest under the key of its sender, or under the empty key when the sender has not joined;
  otherwise nothing is published or sent and the state stays as it was.\<close>

theorem user_service_authentic:
  assumes "user_process env packed st = (st', Inr (rep, evs))"
  shows "if rp_status rep = REP_SUCCESS
    then (\<exists>msg e. parseMessage (rv_net env) packed = Inr (Some msg, e) \<and> validate (in_body msg)
            \<and> authentic env packed (user_key (in_sender_id msg) st))
    else st' = st \<and> evs = []"
proof (cases "parseMessage (rv_net env) packed")
  case (Inl e)
  then show ?thesis using assms by (auto simp: user_process_def serve_user_alt dest: caught_user_status)
next
  case (Inr p)
  then obtain mo e where p: "parseMessage (rv_net env) packed = Inr (mo, e)" by (cases p) auto
  show ?thesis
  proof (cases mo)
    case None
    then show ?thesis using assms p by (auto simp: user_process_def serve_user_alt dest: refused_status)
  next
    case (Some msg)
    show ?thesis
    proof (cases "validate (in_body msg) \<and> authentic env packed (user_key (in_sender_id msg) st)")
      case True
      then show ?thesis using assms p Some
        by (auto simp: user_process_def serve_user_alt bare_handler authentic_def dest!: caught_user_status
            split: if_splits prod.splits)
    next
      case False
      then show ?thesis using assms p Some
        by (auto simp: user_process_def serve_user_alt dest!: caught_user_status refused_status split: if_splits)
    qed
  qed
qed

text \<open>Whoever has not joined can post transactions: a packed transaction with a code under the empty key,
  in the name of any identifier that is not registered, is published and answered with success.\<close>

theorem unknown_sender_accepted:
  assumes ids: "length (ni_world ids) = 8" "length (ni_chain ids) = 8" "length (ni_self ids) = 32"
    and bytes: "\<forall>k. 0 \<le> k \<and> k < 2 ^ 31 \<longrightarrow> n_int_bytes (rv_net env) k = be32 k"
    and msg: "out_type msg = MSG_TX" "validate (out_body msg)"
    and body: "u_to_cbor (n_utils (rv_net env)) (out_body msg) = raw" "raw \<noteq> []" "length raw < 2 ^ 31 - 58"
    and cbor: "u_from_cbor (n_utils (rv_net env)) raw = Some (out_body msg)"
    and schema: "fits (message_shape MSG_TX) (out_body msg)"
    and hmac: "\<forall>m k. length (n_hmac (rv_net env) m k) = 32" "\<forall>m k. rv_verify_hmac env m (n_hmac (rv_net env) m k) k"
    and unknown: "getHmacKey (u_to58 (n_utils (rv_net env)) (ni_self ids)) (pm_user_pool (ns_users st)) = None"
  shows "\<exists>st' evs. user_process env (packMessage_hmac (rv_net env) ids msg []) st
    = (st', Inr (reply_of REP_SUCCESS [] [], Publish CH_transaction (out_body msg) # evs))"
proof -
  let ?p = "pack (rv_net env) ids msg"
  let ?h = "n_hmac (rv_net env) ?p []"
  have parsed: "parseMessage (rv_net env) (?p @ ?h) = Inr (Some \<lparr>in_type = MSG_TX, in_body = out_body msg,
      in_sender_id = u_to58 (n_utils (rv_net env)) (ni_self ids)\<rparr>, [])"
    using parse_packed [OF ids bytes body cbor] msg(1) schema by simp
  have "authentic env (?p @ ?h) []" using hmac by (simp add: authentic_def)
  then show ?thesis
    using parsed msg(2) unknown hmac(1)
    by (auto simp: packMessage_hmac_def Let_def user_process_def serve_user_alt user_key_def bare_handler split: prod.split)
qed

subsection \<open>The key exchange\<close>

lemma pool_handler:
  "in_type msg = MSG_SUCCESS \<Longrightarrow> handle_message env With_Pool msg st =
     (case handle_success (rv_net env) (rv_ids env) (rv_session env) msg (ns_users st) of
        (m, Inl e) \<Rightarrow> (st\<lparr>ns_users := m\<rparr>, Inl e) | (m, Inr out) \<Rightarrow> (st\<lparr>ns_users := m\<rparr>, Inr (Some out, [])))"
  by (simp add: handle_message_def handleMsg_def Let_def)

lemma handle_success_Inr:
  assumes "handle_success n ids s msg m = (m', Inr out)" and "se_now s > 10"
  shows "\<exists>d. map_of (pm_temp_user_pool m) (in_sender_id msg) = Some d
    \<and> getHmacKey (in_sender_id msg) (pm_user_pool m') = Some (jt_shared_sk d)
    \<and> map_of (pm_temp_user_pool m') (in_sender_id msg) = None
    \<and> out = build_accept n ids (se_now_text s) (in_sender_id msg)"
proof -
  have late: "\<not> isTimeout (se_now s) (in_sender_id msg) m"
    using assms(1) by (auto simp: handle_success_def Let_def split: if_splits)
  then obtain d where d: "map_of (pm_temp_user_pool m) (in_sender_id msg) = Some d"
    using assms(2) by (cases "map_of (pm_temp_user_pool m) (in_sender_id msg)")
      (auto simp: isTimeout_def JoinTempData_default_def)
  then show ?thesis using assms(1) late
    by (auto simp: handle_success_def Let_def touch_temp_def getHmacKey_def pushUser_def split: sum.splits if_splits)
qed

lemma caught_keyex_status: "caught_keyex env e = Inr (r, evs) \<Longrightarrow> rp_status r \<noteq> REP_SUCCESS"
  by (cases e) (auto simp: caught_keyex_def dest: caught_user_status)

text \<open>C22: A key exchange that ends with success was closed by a message whose code fits the key of the
  session; the sender is then registered with that key, the session is gone, and the reply carries a
  code under the same key. The clock is past the first ten seconds of its epoch.\<close>

theorem keyex_success:
  assumes "keyex_process env packed st = (st', Inr (rep, evs))" and "rp_status rep = REP_SUCCESS"
    and "parseMessage (rv_net env) packed = Inr (Some msg, e)" and "in_type msg = MSG_SUCCESS"
    and "se_now (rv_session env) > 10"
  shows "\<exists>k. getTempHmacKey (in_sender_id msg) (ns_users st) = Some k \<and> authentic env packed k
    \<and> getHmacKey (in_sender_id msg) (pm_user_pool (ns_users st')) = Some k
    \<and> getTempHmacKey (in_sender_id msg) (ns_users st') = None
    \<and> rp_message rep = packMessage_hmac (rv_net env) (rv_ids env)
        (build_accept (rv_net env) (rv_ids env) (se_now_text (rv_session env)) (in_sender_id msg)) k"
proof -
  let ?k = "case getTempHmacKey (in_sender_id msg) (ns_users st) of Some k \<Rightarrow> k | None \<Rightarrow> []"
  have ok: "\<not> rv_monitor env" "validate (in_body msg)"
    using assms(1-3) by (auto simp: keyex_process_def refused_def split: if_splits)
  have run: "(case verifyHMAC env packed ?k of
      Inl e \<Rightarrow> (st, caught_keyex env (Cpp e))
    | Inr False \<Rightarrow> (st, refused ''Bad request (fail to verify hmac )'')
    | Inr True \<Rightarrow> (case handle_message env With_Pool msg st of
        (st1, Inl e) \<Rightarrow> (st1, caught_keyex env e)
      | (st1, Inr (None, evs)) \<Rightarrow> (st1, Inr (reply_of REP_UNKNOWN [] [], evs))
      | (st1, Inr (Some out, evs)) \<Rightarrow> (st1, Inr (pack_reply env (in_sender_id msg) out st1, evs))))
    = (st', Inr (rep, evs))"
    using assms(1,3,4) ok by (simp add: keyex_process_def keyex_hmac_ok_def)
  then have mac: "verifyHMAC env packed ?k = Inr True"
    using assms(2) by (cases "verifyHMAC env packed ?k") (auto simp: refused_def dest: caught_keyex_status split: bool.splits)
  obtain m r where h: "handle_success (rv_net env) (rv_ids env) (rv_session env) msg (ns_users st) = (m, r)" by fastforce
  have "\<exists>out. r = Inr out"
    using run mac assms(2) by (cases r) (auto simp: pool_handler [OF assms(4)] h dest: caught_keyex_status)
  then obtain out where r: "r = Inr out" by blast
  have st': "st' = st\<lparr>ns_users := m\<rparr>" and rep: "rep = pack_reply env (in_sender_id msg) out st'"
    using run mac by (auto simp: pool_handler [OF assms(4)] h r)
  note h = h [unfolded r]
  have ok: "authentic env packed ?k" using mac by (simp add: verifyHMAC_True)
  show ?thesis
    using handle_success_Inr [OF h assms(5)] ok
    by (auto simp: st' rep getTempHmacKey_def pack_reply_def build_accept_def)
qed

subsection \<open>Requests that end in undefined behaviour\<close>

text \<open>A well-formed message of the key exchange that reaches the service for mergers, which asks for no
  code, or that an authentic user sends to the service for users or signers, ends in undefined
  behaviour: those services have no pool of users to hand it to.\<close>

theorem pool_messages_undefined:
  assumes "parseMessage (rv_net env) packed = Inr (Some msg, e)" and "validate (in_body msg)"
    and "in_type msg = MSG_JOIN \<or> in_type msg = MSG_RESPONSE_1 \<or> in_type msg = MSG_SUCCESS"
  shows "snd (merger_process env \<lparr>mr_broadcast = False, mr_message_id = i, mr_message = packed, mr_net_id = nid\<rparr> st)
      = Inl Undefined_Behaviour
    \<and> (authentic env packed (user_key (in_sender_id msg) st) \<longrightarrow>
        snd (user_process env packed st) = Inl Undefined_Behaviour
        \<and> snd (signer_process env packed st) = Inl Undefined_Behaviour)"
proof
  show "snd (merger_process env \<lparr>mr_broadcast = False, mr_message_id = i, mr_message = packed, mr_net_id = nid\<rparr> st)
      = Inl Undefined_Behaviour"
    using assms by (auto simp: merger_process_def pass_on_def handle_message_def caught_std_def Let_def)
  show "authentic env packed (user_key (in_sender_id msg) st) \<longrightarrow>
        snd (user_process env packed st) = Inl Undefined_Behaviour
        \<and> snd (signer_process env packed st) = Inl Undefined_Behaviour"
    using assms by (auto simp: user_process_def signer_process_def serve_user_alt bare_handler authentic_def
        caught_user_def caught_std_def)
qed

subsection \<open>Broadcasts\<close>

lemma to_some_mergers_ids:
  "to_some_mergers env mk st = (st', evs) \<Longrightarrow> ns_broadcast st' = ns_broadcast st \<and> set evs \<subseteq> range mk"
  by (auto simp: to_some_mergers_def split: prod.splits)

lemma handler_broadcast: "ns_broadcast (fst (handle_message env kind msg st)) = ns_broadcast st"
  by (auto simp: handle_message_def mapping_user_id_to_net_id_def Let_def split: handler_kind.split option.split
      sum.split prod.split)

lemma handler_events: "handle_message env kind msg st = (st', Inr (out, evs)) \<Longrightarrow> To_Merger n m b i \<notin> set evs"
  by (auto simp: handle_message_def mapping_user_id_to_net_id_def Let_def
      split: handler_kind.splits option.splits sum.splits prod.splits if_splits)

lemma merger_success:
  assumes "merger_process env q st = (st', Inr ((MS_SUCCESS, t), evs))" and "mr_broadcast q"
  shows "map_of (ns_broadcast st') (mr_message_id q) \<noteq> None
    \<and> (\<forall>n m b i. To_Merger n m b i \<in> set evs \<longrightarrow> b \<and> i = [] \<and> m = mr_message q)"
proof -
  obtain st1 evs1 where p: "pass_on env q st = (st1, evs1)" by fastforce
  have b: "map_of (ns_broadcast st1) (mr_message_id q) \<noteq> None"
    and e: "\<forall>n m b i. To_Merger n m b i \<in> set evs1 \<longrightarrow> b \<and> i = [] \<and> m = mr_message q"
    using p assms(2) by (auto simp: pass_on_def dest!: to_some_mergers_ids)
  obtain msg where "st' = st1 \<and> evs = evs1 \<or> (\<exists>out evs2. handle_message env (With_Context (mr_net_id q)) msg st1 = (st', Inr (out, evs2))
      \<and> evs = evs1 @ evs2)"
    using assms(1) p
    by (auto simp: merger_process_def caught_std_def
        split: sum.splits option.splits prod.splits if_splits handler_error.splits cpp_error.splits)
  then show ?thesis
  proof (elim disjE exE conjE)
    fix out evs2
    assume h: "handle_message env (With_Context (mr_net_id q)) msg st1 = (st', Inr (out, evs2))" and evs: "evs = evs1 @ evs2"
    have "ns_broadcast st' = ns_broadcast st1"
      using handler_broadcast [of env "With_Context (mr_net_id q)" msg st1] by (simp add: h)
    then show ?thesis using b e evs handler_events [OF h] by auto
  qed (use b e in blast)
qed


text \<open>But the copies a merger passes on carry no identifier: a merger that handled one copy refuses the
  copy of any other message as a duplicate, whoever passed it on.\<close>

theorem copies_collide:
  assumes "merger_process env q st = (st', Inr ((MS_SUCCESS, t), evs))" and "mr_broadcast q"
    and "To_Merger n copy b i \<in> set evs"
    and "merger_process env2 q2 st2 = (st2', Inr ((MS_SUCCESS, t2), evs2))" and "mr_broadcast q2"
    and "To_Merger n2 copy2 b2 i2 \<in> set evs2"
    and "merger_process env3 \<lparr>mr_broadcast = b, mr_message_id = i, mr_message = copy, mr_net_id = nid\<rparr> st3
          = (st3', Inr ((MS_SUCCESS, t3), evs3))"
    and "parseMessage (rv_net env3) copy2 = Inr (Some msg, e)" and "validate (in_body msg)"
  shows "merger_process env3 \<lparr>mr_broadcast = b2, mr_message_id = i2, mr_message = copy2, mr_net_id = nid2\<rparr> st3'
    = (st3', Inr ((MS_DUPLICATED, ''duplicate message''), []))"
proof -
  have "b" "i = []" "b2" "i2 = []"
    using merger_success [OF assms(1,2)] merger_success [OF assms(4,5)] assms(3,6) by blast+
  moreover from this have "map_of (ns_broadcast st3') [] \<noteq> None"
    using merger_success [OF assms(7)] by simp
  ultimately show ?thesis using assms(8,9) by (simp add: merger_process_def)
qed

subsection \<open>Examples\<close>

text \<open>A body that four types of messages accept.\<close>

abbreviation demo_id :: string where
  "demo_id \<equiv> replicate 44 CHR ''A''"

definition demo_mode :: json where
  "demo_mode = JObj
     [(''block'', JObj [(''id'', JStr demo_id)]), (''body'', JObj []), (''chain'', JStr ''CCCCCCCC''),
      (''endorser'', JArr []), (''merger'', JStr demo_id), (''mode'', JStr ''signer''),
      (''signer'', JObj [(''id'', JStr demo_id), (''sig'', JStr ''AAAA'')]), (''time'', JStr ''12''),
      (''txid'', JStr demo_id), (''user'', JStr demo_id), (''val'', JBool True), (''world'', JStr ''WWWWWWWW'')]"

text \<open>A node whose every HMAC is the same; identifiers are encoded by appending a character.\<close>

definition demo_rpc :: rpc_env where
  "demo_rpc = \<lparr>rv_net = demo_net\<lparr>n_utils := demo_utils\<lparr>u_to_cbor := \<lambda>_. ''B'', u_from_cbor := \<lambda>_. Some demo_mode,
       u_to58 := \<lambda>s. s @ ''z''\<rparr>, n_hmac := \<lambda>_ _. replicate 32 CHR ''m''\<rparr>,
     rv_ids = demo_ids, rv_session = \<lparr>se_now = 100, se_now_text = ''100'', se_nonce = ''n'', se_dhx = ''x'', se_dhy = ''y'',
       se_shared = (\<lambda>x y. ''k''), se_auth_cert = []\<rparr>,
     rv_monitor = False, rv_now = 1000, rv_sha1 = (\<lambda>s. if s = ''h'' then replicate 20 1 else replicate 20 0),
     rv_verify_hmac = (\<lambda>m h k. h = replicate 32 CHR ''m''), rv_grpc = (\<lambda>_. Ready), rv_shuffle = (\<lambda>ns. ns),
     rv_what = (\<lambda>_. ''error'')\<rparr>"

definition demo_sender :: string where "demo_sender = ni_self demo_ids @ ''z''"

definition demo_peer :: node where "demo_peer = openChannel (new_node (replicate 20 3) ''p'' ''host'' ''80'')"

definition demo_net_state :: net_state where
  "demo_net_state = \<lparr>ns_users = \<lparr>pm_user_pool = \<lparr>up_num_of_signers = 0, up_users = []\<rparr>,
       pm_temp_user_pool = [(demo_sender, \<lparr>jt_merger_nonce = ''n'', jt_user_pk = ''pk'', jt_shared_sk = ''key'', jt_start_time = 95\<rparr>)],
       pm_enc_sk = [], pm_cert = [], pm_pass = []\<rparr>, ns_conns = [], ns_ids = [],
     ns_table = (new_routing_table (new_node (replicate 20 0) ''me'' ''me'' ''1'') 20)
       \<lparr>rt_buckets := [(new_kbucket (new_node (replicate 20 0) ''me'' ''me'' ''1'') 0 20)\<lparr>kb_nodes := [demo_peer]\<rparr>]\<rparr>,
     ns_broadcast = [], ns_trackers = [''t:1''], ns_p2p_address = ''h:1''\<rparr>"

abbreviation demo_packet :: "MessageType \<Rightarrow> string" where
  "demo_packet t \<equiv> packMessage_hmac (rv_net demo_rpc) demo_ids \<lparr>out_type = t, out_body = demo_mode, out_receivers = []\<rparr> []"

lemma demo_valid: "validate demo_mode" by code_simp

abbreviation demo_types :: "MessageType set" where
  "demo_types \<equiv> {MSG_JOIN, MSG_TX, MSG_SSIG, MSG_SUCCESS}"

lemma demo_fits: "t \<in> demo_types \<Longrightarrow> fits (message_shape t) demo_mode"
  by (auto simp: message_shape_def message_shapes_def tx_shape_def demo_mode_def)

lemma demo_packets:
  "t \<in> demo_types \<Longrightarrow> parseMessage (rv_net demo_rpc) (demo_packet t) =
     Inr (Some \<lparr>in_type = t, in_body = demo_mode, in_sender_id = demo_sender\<rparr>, [])"
  unfolding packMessage_hmac_def Let_def
  by (subst parse_packed [where raw = "''B''"])
     (auto simp: demo_rpc_def demo_ids_def demo_net_def demo_sender_def demo_fits)

lemma demo_authentic: "authentic demo_rpc (demo_packet t) k"
  by (simp add: authentic_def packMessage_hmac_def Let_def) (simp add: demo_rpc_def)

lemma demo_length: "\<not> length (demo_packet t) < 32"
  using demo_authentic [of t "[]"] by (simp add: authentic_def)

lemma demo_unknown: "user_key i demo_net_state = []"
  by (simp add: user_key_def getHmacKey_def demo_net_state_def)

theorem user_service_authentic_witness:
  "\<exists>msg e. parseMessage (rv_net demo_rpc) (demo_packet MSG_SSIG) = Inr (Some msg, e) \<and> validate (in_body msg)
    \<and> authentic demo_rpc (demo_packet MSG_SSIG) (user_key (in_sender_id msg) demo_net_state)"
proof -
  have "user_process demo_rpc (demo_packet MSG_SSIG) demo_net_state
    = (demo_net_state, Inr (reply_of REP_SUCCESS [] [], [Publish CH_ssig demo_mode]))"
    by (simp add: user_process_def serve_user_alt demo_packets demo_valid demo_length demo_authentic bare_handler forward_tx_def)
  from user_service_authentic [OF this] show ?thesis by simp
qed

theorem unknown_sender_accepted_witness:
  "\<exists>st' evs. user_process demo_rpc (demo_packet MSG_TX) demo_net_state
    = (st', Inr (reply_of REP_SUCCESS [] [], Publish CH_transaction demo_mode # evs))"
  using unknown_sender_accepted [of demo_ids demo_rpc "\<lparr>out_type = MSG_TX, out_body = demo_mode, out_receivers = []\<rparr>" "''B''"
      demo_net_state] demo_valid demo_fits [of MSG_TX]
  by (simp add: demo_rpc_def demo_ids_def demo_net_def demo_net_state_def getHmacKey_def)

theorem keyex_success_witness:
  "\<exists>st' rep. keyex_process demo_rpc (demo_packet MSG_SUCCESS) demo_net_state = (st', Inr (rep, []))
    \<and> getHmacKey demo_sender (pm_user_pool (ns_users st')) = Some ''key''
    \<and> rp_message rep = packMessage_hmac (rv_net demo_rpc) demo_ids (build_accept (rv_net demo_rpc) demo_ids ''100'' demo_sender) ''key''"
proof -
  have t: "getTempHmacKey demo_sender (ns_users demo_net_state) = Some ''key''"
    by (simp add: getTempHmacKey_def demo_net_state_def)
  have s: "\<exists>m. handle_success (rv_net demo_rpc) (rv_ids demo_rpc) (rv_session demo_rpc)
      \<lparr>in_type = MSG_SUCCESS, in_body = demo_mode, in_sender_id = demo_sender\<rparr> (ns_users demo_net_state)
    = (m, Inr (build_accept (rv_net demo_rpc) demo_ids ''100'' demo_sender))
    \<and> getHmacKey demo_sender (pm_user_pool m) = Some ''key''"
    by (simp add: handle_success_def Let_def isTimeout_def touch_temp_def demo_net_state_def demo_mode_def json_obj_def
        demo_rpc_def getHmacKey_def pushUser_def om_try_def)
  then obtain m where m: "handle_success (rv_net demo_rpc) (rv_ids demo_rpc) (rv_session demo_rpc)
      \<lparr>in_type = MSG_SUCCESS, in_body = demo_mode, in_sender_id = demo_sender\<rparr> (ns_users demo_net_state)
    = (m, Inr (build_accept (rv_net demo_rpc) demo_ids ''100'' demo_sender))"
    "getHmacKey demo_sender (pm_user_pool m) = Some ''key''" by blast
  have e: "\<not> rv_monitor demo_rpc" "se_now (rv_session demo_rpc) > 10" "rv_ids demo_rpc = demo_ids"
    "se_now_text (rv_session demo_rpc) = ''100''" by (simp_all add: demo_rpc_def)
  have run: "keyex_process demo_rpc (demo_packet MSG_SUCCESS) demo_net_state = (demo_net_state\<lparr>ns_users := m\<rparr>,
      Inr (pack_reply demo_rpc demo_sender (build_accept (rv_net demo_rpc) demo_ids ''100'' demo_sender)
        (demo_net_state\<lparr>ns_users := m\<rparr>), []))"
    using m(1) by (simp add: keyex_process_def e demo_packets demo_valid keyex_hmac_ok_def
        verifyHMAC_True [THEN iffD2, OF demo_authentic] pool_handler)
  have "rp_status (pack_reply demo_rpc demo_sender (build_accept (rv_net demo_rpc) demo_ids ''100'' demo_sender)
      (demo_net_state\<lparr>ns_users := m\<rparr>)) = REP_SUCCESS"
    using m(2) by (simp add: pack_reply_def build_accept_def)
  from keyex_success [OF run this _ _ e(2)] show ?thesis
    using run t by (auto simp: demo_packets e)
qed

theorem pool_messages_undefined_witness:
  "snd (merger_process demo_rpc \<lparr>mr_broadcast = False, mr_message_id = [], mr_message = demo_packet MSG_JOIN, mr_net_id = None\<rparr>
      demo_net_state) = Inl Undefined_Behaviour
    \<and> snd (signer_process demo_rpc (demo_packet MSG_JOIN) demo_net_state) = Inl Undefined_Behaviour"
  using pool_messages_undefined [of demo_rpc "demo_packet MSG_JOIN"
      "\<lparr>in_type = MSG_JOIN, in_body = demo_mode, in_sender_id = demo_sender\<rparr>" "[]" "[]" None demo_net_state]
    demo_authentic [of MSG_JOIN "[]"]
  by (simp add: demo_packets demo_valid demo_unknown)

abbreviation demo_request :: "string \<Rightarrow> merger_request" where
  "demo_request i \<equiv> \<lparr>mr_broadcast = True, mr_message_id = i, mr_message = demo_packet MSG_TX, mr_net_id = None\<rparr>"

lemma demo_pass_on:
  "pass_on demo_rpc (demo_request i) demo_net_state
    = (demo_net_state\<lparr>ns_broadcast := [(i, 1000)]\<rparr>, [To_Merger demo_peer (demo_packet MSG_TX) True []])"
  by (simp add: pass_on_def to_some_mergers_def demo_net_state_def selectRandomAliveNodes_def selectAliveNodes_def
      kb_empty_def new_kbucket_def om_try_def)
     (simp add: demo_rpc_def demo_peer_def isAlive_def openChannel_def new_node_def)

lemma demo_broadcast:
  "merger_process demo_rpc (demo_request i) demo_net_state = (demo_net_state\<lparr>ns_broadcast := [(i, 1000)]\<rparr>,
     Inr ((MS_SUCCESS, []), [To_Merger demo_peer (demo_packet MSG_TX) True [], Publish CH_transaction demo_mode]))"
proof -
  have "map_of (ns_broadcast demo_net_state) i = None" "\<not> rv_monitor demo_rpc"
    by (simp_all add: demo_net_state_def demo_rpc_def)
  then show ?thesis
    by (simp add: merger_process_def demo_packets demo_valid demo_pass_on handle_message_def Let_def)
qed


theorem copies_collide_witness:
  "merger_process demo_rpc \<lparr>mr_broadcast = True, mr_message_id = [], mr_message = demo_packet MSG_TX, mr_net_id = None\<rparr>
      (demo_net_state\<lparr>ns_broadcast := [([], 1000)]\<rparr>)
    = (demo_net_state\<lparr>ns_broadcast := [([], 1000)]\<rparr>, Inr ((MS_DUPLICATED, ''duplicate message''), []))"
  by (rule copies_collide [OF demo_broadcast [of "''i''"] _ _ demo_broadcast [of "''j''"] _ _ demo_broadcast [of "[]"]])
     (simp_all add: demo_packets, simp add: demo_valid)

end
