(* ===== verification/Net_Props.thy ===== *)
theory Net_Props
  imports Net_Plugin Rpc_Props
begin

text \<open>
  Properties of the network plugin: to whom messages go, what the table of broadcasts keeps, what a
  refresh of the routing table leaves, and what trackers are told and tell.
\<close>

subsection \<open>Answers to other mergers\<close>

lemma u_id_mapped:
  "mapping_user_id_to_net_id env kind msg st = Inr st1 \<Longrightarrow>
   (\<exists>net_id. kind = With_Context (Some net_id)
     \<and> ns_ids st1 = om_try (u_to58 (n_utils (rv_net env)) (in_sender_id msg)) (net_sha1 env net_id) (ns_ids st))"
  by (auto simp: mapping_user_id_to_net_id_def mapId_def split: handler_kind.splits option.splits)

text \<open>A merger that asks for a block or for bones is not reached by the answer: its network identifier is
  stored under its identifier encoded a second time, so that a message to the identifier it sent with is
  sent to nobody.\<close>

theorem requester_not_reached:
  assumes "handle_message env kind msg st = (st1, Inr r)"
    and "in_type msg = MSG_REQ_BLOCK \<or> in_type msg = MSG_REQ_BONE"
    and "get_net_id (in_sender_id msg) (ns_ids st) = None"
    and "u_to58 (n_utils (rv_net env)) (in_sender_id msg) \<noteq> in_sender_id msg"
  shows "sendToMerger packed [in_sender_id msg] st1 = (st1, Inr [])"
proof -
  obtain st2 where "mapping_user_id_to_net_id env kind msg st = Inr st2" "ns_ids st1 = ns_ids st2"
    using assms(1,2) by (auto simp: handle_message_def Let_def split: sum.splits)
  then have "get_net_id (in_sender_id msg) (ns_ids st1) = None"
    using assms(3,4) u_id_mapped by (fastforce simp: get_net_id_def)
  then show ?thesis by simp
qed

subsection \<open>Broadcasts\<close>

lemma keep_recent_map_of:
  "keep_recent now m = Inr m' \<Longrightarrow> distinct (map fst m) \<Longrightarrow>
   map_of m' i = (case map_of m i of None \<Rightarrow> None
     | Some t \<Rightarrow> if \<bar>u64_to_int (now - t)\<bar> > KEEP_BROADCAST_MSG_TIME then None else Some t)
   \<and> fst ` set m' \<subseteq> fst ` set m"
proof (induction m arbitrary: m')
  case (Cons kv m)
  obtain k t where kv: "kv = (k, t)" by force
  obtain r where r: "keep_recent now m = Inr r" using Cons.prems(1) by (auto simp: kv rbind_eq_Inr)
  have IH: "map_of r i = (case map_of m i of None \<Rightarrow> None
      | Some t \<Rightarrow> if \<bar>u64_to_int (now - t)\<bar> > KEEP_BROADCAST_MSG_TIME then None else Some t)" "fst ` set r \<subseteq> fst ` set m"
    using Cons.IH [OF r] Cons.prems(2) by auto
  have "k \<notin> fst ` set m" using Cons.prems(2) by (auto simp: kv)
  then have "map_of m k = None" "map_of r k = None" using IH(2) by (auto simp: map_of_eq_None_iff)
  moreover have "m' = (if \<bar>u64_to_int (now - t)\<bar> > KEEP_BROADCAST_MSG_TIME then r else (k, t) # r)"
    using Cons.prems(1) by (auto simp: kv r rbind_eq_Inr chk_int_eq_Inr)
  ultimately show ?case using IH by (cases "\<bar>u64_to_int (now - t)\<bar> > KEEP_BROADCAST_MSG_TIME") (simp add: kv, blast, auto simp: kv)
qed simp

text \<open>The clean-up of the table of broadcasts keeps exactly the identifiers entered at most three minutes
  before or after now, in the arithmetic of the code.\<close>

theorem broadcast_cleanup:
  assumes "refreshBroadcastCheckTable env st = Inr st'" and "om_ok (ns_broadcast st)"
  shows "map_of (ns_broadcast st') i = (case map_of (ns_broadcast st) i of None \<Rightarrow> None
    | Some t \<Rightarrow> if \<bar>u64_to_int (rv_now env - t)\<bar> > 180 then None else Some t)"
  using assms keep_recent_map_of [OF _ om_ok_distinct [OF assms(2)]]
  by (auto simp: refreshBroadcastCheckTable_def rbind_eq_Inr)

subsection \<open>The routing table\<close>

lemma refresh_bucket_count:
  "refresh_bucket env i st = (st1, alive) \<Longrightarrow> bucketsCount (ns_table st1) = bucketsCount (ns_table st)"
  by (auto simp: refresh_bucket_def bucketsCount_def split: prod.splits)

lemma refresh_loop_count:
  "refresh_loop env answers k i st = (st', Inr ()) \<Longrightarrow> bucketsCount (ns_table st') = bucketsCount (ns_table st)"
proof (induction k arbitrary: i st)
  case (Suc k)
  show ?case
  proof (cases "kb_empty (rt_buckets (ns_table st) ! i)")
    case True
    then show ?thesis using Suc by simp
  next
    case False
    obtain st1 alive where b: "refresh_bucket env i st = (st1, alive)" by fastforce
    obtain st2 r where n: "net_findNeighbors env answers alive st1 = (st2, r)" by fastforce
    show ?thesis
      using Suc.prems Suc.IH [of "Suc i" st2] False b n refresh_bucket_count [OF b] by (auto split: if_splits)
  qed
qed simp

text \<open>A refresh of the routing table that ends in an orderly way has split no bucket; one that splits a
  bucket ends in undefined behaviour.\<close>

theorem refresh_splits_nothing:
  assumes "refreshBuckets env answers st = (st', Inr ())"
  shows "bucketsCount (ns_table st') = bucketsCount (ns_table st)"
  using assms by (auto simp: refreshBuckets_def intro: refresh_loop_count)

subsection \<open>Trackers\<close>

lemma hex_char_alnum: "d < 16 \<Longrightarrow> is_alnum (hex_char d)"
  by (auto simp: hex_char_def is_alnum_def is_digit_def char_in_def)

text \<open>The query a tracker receives has no separators: \<open>=\<close> and \<open>&\<close> are encoded with the rest.\<close>

lemma encodeQuery_no_separators:
  "\<forall>c\<in>set (encodeQuery s). is_alnum c \<or> c \<in> {CHR ''-'', CHR ''_'', CHR ''.'', CHR ''~'', CHR ''%''}"
proof -
  have "(of_char c :: nat) div 16 < 16" for c :: char
    using nat_of_char_less_256 [of c] by (intro less_mult_imp_div_less) simp
  then show ?thesis
    by (auto simp: encodeQuery_def encode_char_def Let_def hex_char_alnum split: if_splits)
qed

lemma new_table_holds: "getBucketIndexFor h (new_routing_table n k) = Inr 0"
  by (simp add: getBucketIndexFor_def new_routing_table_def canHoldNode_def new_kbucket_def canHold_loop.simps)

text \<open>A node whose own address is in a tracker's answer takes itself for a peer: it compares the host of
  the address with its whole address, and the identifier it gives the peer is the host.\<close>

theorem own_address_added:
  assumes "getHostAndPort (ns_p2p_address st) = (host, port)" and "host \<noteq> ns_p2p_address st"
    and "rv_sha1 env host \<noteq> rv_sha1 env (ns_p2p_address st)"
    and "n_parse_json (rv_net env) res = Some (JArr [JStr (ns_p2p_address st)])" and "res \<noteq> []"
    and "ns_trackers st = [tracker]"
  shows "\<exists>st'. getPeersFromTracker env (\<lambda>_ _ _. res) (initializeRoutingTable env st) = (st', Inr ())
    \<and> map kb_nodes (rt_buckets (ns_table st')) = [[openChannel (new_node (rv_sha1 env host) host host port)]]"
proof -
  let ?me = "new_node (rv_sha1 env (ns_p2p_address st)) (ns_p2p_address st) host port"
  let ?n = "new_node (rv_sha1 env host) host host port"
  let ?rt = "new_routing_table ?me KBUCKET_SIZE"
  have init: "initializeRoutingTable env st = st\<lparr>ns_table := ?rt\<rparr>"
    by (simp add: initializeRoutingTable_def assms(1))
  have "nd_id_hash (initReqFailuresCount ?n) = rv_sha1 env host" by (simp add: new_node_def initReqFailuresCount_def)
  moreover have "initReqFailuresCount ?n = ?n" by (simp add: new_node_def initReqFailuresCount_def)
  moreover have "\<not> node_eq ?me ?n" using assms(3) by (simp add: node_eq_def new_node_def)
  ultimately have add: "addPeer ?n ?rt = Inr (True, ?rt\<lparr>rt_buckets := [(new_kbucket ?me 0 20)\<lparr>kb_nodes := [openChannel ?n]\<rparr>]\<rparr>)"
    by (simp add: addPeer_def Let_def new_table_holds)
       (simp add: new_routing_table_def new_kbucket_def addNode_def kb_full_def at_index_def)
  have "add_tracker_peer env (JStr (ns_p2p_address st)) (st\<lparr>ns_table := ?rt\<rparr>)
    = (st\<lparr>ns_table := ?rt\<lparr>rt_buckets := [(new_kbucket ?me 0 20)\<lparr>kb_nodes := [openChannel ?n]\<rparr>]\<rparr>\<rparr>, Inr ())"
    using assms(1,2) add by (simp add: add_tracker_peer_def sbind_def getMyNetId_def)
  then show ?thesis
    using assms(4-6) by (simp add: init getPeersFromTracker_def peers_from_tracker_def json_items_def new_kbucket_def sbind_def
        split: prod.split)
qed

subsection \<open>Examples\<close>

theorem requester_not_reached_witness:
  "\<exists>st. ns_ids st \<noteq> [] \<and> sendToMerger ''answer'' [''asker''] st = (st, Inr [])"
proof -
  let ?msg = "\<lparr>in_type = MSG_REQ_BLOCK, in_body = JNull, in_sender_id = ''asker''\<rparr>"
  let ?st = "demo_net_state\<lparr>ns_ids := [(''askerz'', net_sha1 demo_rpc ''h'')]\<rparr>"
  have h: "handle_message demo_rpc (With_Context (Some ''h'')) ?msg demo_net_state = (?st, Inr (None, []))"
    by (simp add: handle_message_def mapping_user_id_to_net_id_def mapId_def om_try_def Let_def demo_net_state_def)
       (simp add: demo_rpc_def)
  have "sendToMerger ''answer'' [in_sender_id ?msg] ?st = (?st, Inr [])"
    by (rule requester_not_reached [OF h]) (simp_all add: get_net_id_def demo_net_state_def demo_rpc_def)
  then show ?thesis by (intro exI [of _ ?st]) (simp del: sendToMerger.simps)
qed

theorem broadcast_cleanup_witness:
  "\<exists>st'. refreshBroadcastCheckTable demo_rpc (demo_net_state\<lparr>ns_broadcast := [(''a'', 900), (''b'', 100)]\<rparr>) = Inr st'
    \<and> map_of (ns_broadcast st') ''a'' = Some 900 \<and> map_of (ns_broadcast st') ''b'' = None"
proof -
  let ?st = "demo_net_state\<lparr>ns_broadcast := [(''a'', 900), (''b'', 100)]\<rparr>"
  have n: "u64_to_int (rv_now demo_rpc - 900) = 100" "u64_to_int (rv_now demo_rpc - 100) = 900"
    by (simp_all add: demo_rpc_def u64_to_int_small)
  have ok: "om_ok (ns_broadcast ?st)" by (simp add: om_ok_def)
  obtain st' where st': "refreshBroadcastCheckTable demo_rpc ?st = Inr st'"
    by (simp add: refreshBroadcastCheckTable_def n chk_int_def)
  then show ?thesis
    using broadcast_cleanup [OF st' ok, of "''a''"] broadcast_cleanup [OF st' ok, of "''b''"] n by simp
qed

theorem refresh_splits_nothing_witness:
  "\<exists>st'. refreshBuckets demo_rpc (\<lambda>_. None) demo_net_state = (st', Inr ()) \<and> bucketsCount (ns_table st') = 1"
proof -
  have "snd (refreshBuckets demo_rpc (\<lambda>_. None) demo_net_state) = Inr ()" by code_simp
  then obtain st' where "refreshBuckets demo_rpc (\<lambda>_. None) demo_net_state = (st', Inr ())"
    by (metis prod.collapse)
  then show ?thesis
    using refresh_splits_nothing by (fastforce simp: bucketsCount_def demo_net_state_def)
qed

theorem own_address_added_witness:
  "\<exists>st'. getPeersFromTracker (demo_rpc\<lparr>rv_net := (rv_net demo_rpc)\<lparr>n_parse_json := \<lambda>_. Some (JArr [JStr ''h:1''])\<rparr>\<rparr>)
      (\<lambda>_ _ _. ''[...]'') (initializeRoutingTable (demo_rpc\<lparr>rv_net := (rv_net demo_rpc)
        \<lparr>n_parse_json := \<lambda>_. Some (JArr [JStr ''h:1''])\<rparr>\<rparr>) demo_net_state) = (st', Inr ())
    \<and> map kb_nodes (rt_buckets (ns_table st')) = [[openChannel (new_node (replicate 20 1) ''h'' ''h'' ''1'')]]"
  using own_address_added [of demo_net_state "''h''" "''1''" "demo_rpc\<lparr>rv_net := (rv_net demo_rpc)
      \<lparr>n_parse_json := \<lambda>_. Some (JArr [JStr ''h:1''])\<rparr>\<rparr>" "''[...]''" "''t:1''"]
  by (simp add: demo_net_state_def demo_rpc_def getHostAndPort_def before_first_def after_last_def)

end
