(* ===== verification/Block_Producer.thy ===== *)
theory Block_Producer
  imports Chain_Plugin User_Pool
begin

text \<open>
  The block producer (block_producer_plugin.cpp, ssig_pool.cpp): collecting support signatures,
  choosing the optimal merger and the signers closest to the optimal signer, and putting a block and
  its messages together from the transaction pool.  The delay until the next block is computed in
  floating point and is not modelled; the distances it starts from are.
\<close>

subsection \<open>The pool of support signatures\<close>

record SupportSigInfo =
  ss_id :: string
  ss_sig :: string
  ss_cert :: string

type_synonym ssig_pool = "(string, SupportSigInfo) omap"

definition ssig_add :: "SupportSigInfo \<Rightarrow> ssig_pool \<Rightarrow> ssig_pool" where
  "ssig_add info p = om_try (ss_id info) info p"

text \<open>Returns the contents and clears the pool.\<close>

definition ssig_fetchAll :: "ssig_pool \<Rightarrow> ssig_pool \<times> SupportSigInfo list" where
  "ssig_fetchAll p = ([], map snd p)"

record BlockProducer =
  pd_ssig_pool :: ssig_pool
  pd_selected_signers :: "(User \<times> 256 word) list"

text \<open>The member is asked for as \<open>singer\<close>; where it is missing the value is null.\<close>

definition pushSupportSig :: "json \<Rightarrow> (BlockProducer, unit) prog" where
  "pushSupportSig msg_ssig =
     sbind (slift (json_at_mut msg_ssig ''singer'')) (\<lambda>info.
     sbind (slift (json_str info ''id'')) (\<lambda>signer_id bp.
       case find (\<lambda>si. us_user_id (fst si) = signer_id) (pd_selected_signers bp) of
         None \<Rightarrow> (bp, Inr ())
       | Some found \<Rightarrow> assign (json_str info ''sig'')
           (\<lambda>ssig bp. bp\<lparr>pd_ssig_pool := ssig_add
              \<lparr>ss_id = signer_id, ss_sig = ssig, ss_cert = us_pk (fst found)\<rparr> (pd_ssig_pool bp)\<rparr>) bp))"

subsection \<open>Distances\<close>

abbreviation PRODUCERS_COUNT :: int where "PRODUCERS_COUNT \<equiv> 10"
abbreviation SIGNERS_SIZE :: int where "SIGNERS_SIZE \<equiv> 100"

text \<open>\<open>std::sort\<close> leaves the order of equal heights open; here they keep theirs.\<close>

definition getPreviousBlocks :: "rdb \<Rightarrow> Block list result" where
  "getPreviousBlocks r =
     (let latestHeight = getLatestResolvedHeight r;
          from0 = u64_to_int (latestHeight - word_of_int PRODUCERS_COUNT + 1);
          from1 = (if from0 \<le> 0 then 1 else from0)
      in rbind (getBlocksByHeight r from1 (u64_to_int latestHeight)) (\<lambda>blocks.
           Inr (sort_key (\<lambda>b. - int (unat (m_block_height b))) blocks)))"

text \<open>
  One bit over all producers: the counters grow by the same positive amount, 1.414 to a power that
  depends on the bit position only, and with at most ten blocks the sums compare as the numbers of
  summands do.  The bit is assigned after each producer; its index is the bit position, not the
  position of the byte.
\<close>

fun vote_bit :: "nat \<Rightarrow> nat \<Rightarrow> string list \<Rightarrow> nat \<Rightarrow> nat \<Rightarrow> 256 word \<Rightarrow> 256 word result" where
  "vote_bit byte_pos bit_pos [] c0 c1 acc = Inr acc"
| "vote_bit byte_pos bit_pos (p # ps) c0 c1 acc = rbind (at_index p (int byte_pos)) (\<lambda>c.
     (let one = bit (char_byte c) bit_pos;
          c0' = (if one then c0 else Suc c0);
          c1' = (if one then Suc c1 else c1)
      in vote_bit byte_pos bit_pos ps c0' c1' (if c0' > c1' then set_bit bit_pos acc else unset_bit bit_pos acc)))"

fun vote_bits :: "string list \<Rightarrow> (nat \<times> nat) list \<Rightarrow> 256 word \<Rightarrow> 256 word result" where
  "vote_bits ids [] acc = Inr acc"
| "vote_bits ids ((by, bi) # ps) acc = rbind (vote_bit by bi ids 0 0 acc) (vote_bits ids ps)"

definition getOptimalMergerId :: "utils \<Rightarrow> Block list \<Rightarrow> nat \<Rightarrow> 256 word result" where
  "getOptimalMergerId u blocks producers_count =
     (if length blocks < producers_count then Inl Out_Of_Range
      else vote_bits (map (\<lambda>b. u_from58 u (signer_id (m_block_prod_info b))) (take producers_count blocks))
             [(by, bi). by \<leftarrow> [0..<32], bi \<leftarrow> [0..<8]] 0)"

definition getHammingDistance :: "256 word \<Rightarrow> 256 word \<Rightarrow> int" where
  "getHammingDistance a b = int (bit_count (a XOR b))"

definition calculateDistanceBetweenMergers :: "utils \<Rightarrow> string \<Rightarrow> Block list \<Rightarrow> int result" where
  "calculateDistanceBetweenMergers u my_id blocks =
     rbind (getOptimalMergerId u blocks (if int (length blocks) \<noteq> PRODUCERS_COUNT then length blocks
        else nat PRODUCERS_COUNT))
       (\<lambda>id_bits. Inr (getHammingDistance id_bits (idToBitSet my_id)))"

definition getOptimalSignerId :: "utils \<Rightarrow> Block \<Rightarrow> 256 word" where
  "getOptimalSignerId u b = idToBitSet (u_sha256 u
     (m_tx_root b @ m_us_state_root b @ m_cs_state_root b @ m_sg_root b))"

text \<open>The \<open>j\<close>-th of the 64 bits of the \<open>i\<close>-th part is the bit \<open>i * j\<close> of the identifier.\<close>

definition part_distance :: "nat \<Rightarrow> 256 word \<Rightarrow> 256 word \<Rightarrow> nat" where
  "part_distance i a b = length (filter (\<lambda>j. bit a (i * j) \<noteq> bit b (i * j)) [0..<64]) mod 11"

text \<open>
  The distances whose exponentials \<open>calculateDistanceBetweenSigners\<close> sums up, and the signers it
  selects.  Without a block it fails an assertion or reads outside the vector.
\<close>

definition calculateDistanceBetweenSigners ::
    "utils \<Rightarrow> UserPool \<Rightarrow> Block list \<Rightarrow> (BlockProducer, nat list) prog" where
  "calculateDistanceBetweenSigners u upool blocks = sbind (slift (at_index blocks 0)) (\<lambda>b.
     (let optimal = getOptimalSignerId u b in
      sbind (slift (getCloseSigners u optimal SIGNERS_SIZE upool)) (\<lambda>signers.
      sbind (assign (Inr signers) (\<lambda>s bp. bp\<lparr>pd_selected_signers := s\<rparr>)) (\<lambda>_.
        sret [part_distance i bits optimal. (_, bits) \<leftarrow> signers, i \<leftarrow> [0..<4]]))))"

subsection \<open>A block to be proposed\<close>

record PartialBlock =
  pb_id :: string
  pb_time :: timestamp_t
  pb_world_id :: string
  pb_chain_id :: string
  pb_height :: block_height_type
  pb_prev_id :: string
  pb_txroot :: string
  pb_usroot :: string
  pb_csroot :: string
  pb_link :: string
  pb_txagg_cbor_list :: "string list"

text \<open>What the application object and the libraries provide.\<close>

record bp_env =
  be_net :: net_utils
  be_verifiers :: verifiers
  be_ids :: node_ids
  be_sk :: string
  be_pass :: string
  be_cert :: string

abbreviation be_utils :: "bp_env \<Rightarrow> utils" where "be_utils e \<equiv> n_utils (be_net e)"
abbreviation be_b58_id :: "bp_env \<Rightarrow> string" where "be_b58_id e \<equiv> u_to58 (be_utils e) (ni_self (be_ids e))"

definition partial_block_bytes :: "bp_env \<Rightarrow> timestamp_t \<Rightarrow> block_height_type \<Rightarrow> string \<Rightarrow> string \<Rightarrow> string" where
  "partial_block_bytes e now height prev_id link =
     ni_self (be_ids e) @ v_bytes_u64 (be_verifiers e) now @ ni_world (be_ids e) @ ni_chain (be_ids e)
     @ v_bytes_u64 (be_verifiers e) height @ u_from58 (be_utils e) prev_id @ u_from64 (be_utils e) link"

text \<open>The state roots of the block \<open>BLOCK_CONFIRM_LEVEL\<close> below, or 32 zero bytes.\<close>

definition previous_roots :: "utils \<Rightarrow> rdb \<Rightarrow> block_height_type \<Rightarrow> (string \<times> string) result" where
  "previous_roots u r height =
     (let latest = u64_to_int (height - BLOCK_CONFIRM_LEVEL) in
      if latest > 0 then rbind (rbind (getBlocksByHeight r latest latest) (\<lambda>blocks. at_index blocks 0))
        (\<lambda>b. Inr (m_cs_state_root b, m_us_state_root b))
      else Inr (u_to64 u dummy_leaf, u_to64 u dummy_leaf))"

text \<open>
  \<open>makePartialBlock\<close> starts from \<open>ur_latest_block\<close>, a fresh unresolved block; its height is the one
  member without an initialiser, so the call is given the block.
\<close>

definition makePartialBlock ::
    "bp_env \<Rightarrow> rdb \<Rightarrow> timestamp_t \<Rightarrow> tx_pool \<Rightarrow> UnresolvedBlock \<Rightarrow> PartialBlock result" where
  "makePartialBlock e r now txs ur_latest =
     (let u = be_utils e;
          height = m_block_height (ub_block ur_latest) + 1;
          prev_id = ub_id ur_latest;
          link = u_to64 u (u_sha256 u (signer_sig (m_block_prod_info (ub_block ur_latest))));
          aggs = map m_tx_agg_cbor (fetchAll txs)
      in rbind (previous_roots u r height) (\<lambda>(csroot, usroot).
         Inr \<lparr>pb_id = u_to58 u (u_sha256 u (partial_block_bytes e now height prev_id link)),
              pb_time = now, pb_world_id = ni_world (be_ids e), pb_chain_id = ni_chain (be_ids e),
              pb_height = height, pb_prev_id = prev_id,
              pb_txroot = u_to64 u (generate u (map (u_sha256 u) aggs) ! 0),
              pb_usroot = usroot, pb_csroot = csroot, pb_link = link, pb_txagg_cbor_list = aggs\<rparr>))"

text \<open>The members \<open>makeBaseMsgBlock\<close> assigns; its callers assign more.\<close>

definition base_msg_members :: "PartialBlock \<Rightarrow> (string \<times> json) list" where
  "base_msg_members pb =
     [(''id'', JStr (pb_id pb)), (''time'', JStr (dec_u64 (pb_time pb))), (''world'', JStr (pb_world_id pb)),
      (''chain'', JStr (pb_chain_id pb)), (''height'', JStr (dec_u64 (pb_height pb))),
      (''previd'', JStr (pb_prev_id pb)), (''link'', JStr (pb_link pb))]"

definition roots_bytes :: "utils \<Rightarrow> PartialBlock \<Rightarrow> string" where
  "roots_bytes u pb = u_from58 u (pb_id pb) @ u_from64 u (pb_txroot pb) @ u_from64 u (pb_usroot pb)
     @ u_from64 u (pb_csroot pb)"

definition producer_sign :: "bp_env \<Rightarrow> string \<Rightarrow> string" where
  "producer_sign e bytes = u_to64 (be_utils e) (n_ecdsa_sign (be_net e) (be_sk e) bytes (be_pass e))"

definition signMsgReqSsig :: "bp_env \<Rightarrow> PartialBlock \<Rightarrow> string" where
  "signMsgReqSsig e pb = producer_sign e (roots_bytes (be_utils e) pb)"

definition makeMsgReqSsig :: "bp_env \<Rightarrow> PartialBlock \<Rightarrow> BlockProducer \<Rightarrow> OutNetMsg" where
  "makeMsgReqSsig e pb bp =
     \<lparr>out_type = MSG_REQ_SSIG,
      out_body = json_obj
        [(''block'', json_obj (base_msg_members pb @ [(''txroot'', JStr (pb_txroot pb)),
            (''usroot'', JStr (pb_usroot pb)), (''csroot'', JStr (pb_csroot pb))])),
         (''producer'', json_obj [(''id'', JStr (be_b58_id e)), (''sig'', JStr (signMsgReqSsig e pb))])],
      out_receivers = map (\<lambda>(signer, _). us_user_id signer) (pd_selected_signers bp)\<rparr>"

definition signMsgBlock :: "bp_env \<Rightarrow> timestamp_t \<Rightarrow> string \<Rightarrow> int \<Rightarrow> int \<Rightarrow> string \<Rightarrow> string" where
  "signMsgBlock e btime hash tx_len signer_len sgroot = producer_sign e
     (v_bytes_u64 (be_verifiers e) btime @ u_from64 (be_utils e) hash @ u_bytes_dec (be_utils e) tx_len
      @ u_bytes_dec (be_utils e) signer_len @ u_from64 (be_utils e) sgroot)"

text \<open>A value filled by \<open>push_back\<close> is null as long as nothing was pushed.\<close>

definition pushed :: "json list \<Rightarrow> json" where
  "pushed js = (if js = [] then JNull else JArr js)"

definition hash_ssig :: "utils \<Rightarrow> SupportSigInfo \<Rightarrow> string" where
  "hash_ssig u s = u_sha256 u (u_from58 u (ss_id s) @ u_from64 u (ss_sig s))"

definition cert_item :: "string \<Rightarrow> string \<Rightarrow> json" where
  "cert_item i c = json_obj [(''id'', JStr i), (''cert'', JStr c)]"

definition makeMsgBlock :: "bp_env \<Rightarrow> timestamp_t \<Rightarrow> PartialBlock \<Rightarrow> BlockProducer \<Rightarrow> BlockProducer \<times> OutNetMsg" where
  "makeMsgBlock e now pb bp =
     (case ssig_fetchAll (pd_ssig_pool bp) of (pool, ssigs) \<Rightarrow>
      (let u = be_utils e;
           b64_hash = u_to64 u (u_sha256 u (roots_bytes u pb));
           sgroot = u_to64 u (generate u (map (hash_ssig u) ssigs) ! 0);
           body = json_obj
             [(''btime'', JStr (dec_u64 now)),
              (''block'', json_obj (base_msg_members pb @ [(''hash'', JStr b64_hash)])),
              (''tx'', JArr (map JStr (pb_txagg_cbor_list pb))),
              (''state'', json_obj [(''txroot'', JStr (pb_txroot pb)), (''usroot'', JStr (pb_usroot pb)),
                 (''csroot'', JStr (pb_csroot pb)), (''sgroot'', JStr sgroot)]),
              (''signer'', pushed (map (\<lambda>s. json_obj [(''id'', JStr (ss_id s)), (''sig'', JStr (ss_sig s))]) ssigs)),
              (''certificate'', pushed (cert_item (be_b58_id e) (be_cert e)
                 # map (\<lambda>s. cert_item (ss_id s) (ss_cert s)) ssigs)),
              (''producer'', json_obj [(''id'', JStr (be_b58_id e)),
                 (''sig'', JStr (signMsgBlock e now b64_hash (i32 (int (length (pb_txagg_cbor_list pb))))
                    (i32 (int (length ssigs))) sgroot))])]
       in (bp\<lparr>pd_ssig_pool := pool\<rparr>, \<lparr>out_type = 0xB4, out_body = body, out_receivers = []\<rparr>)))"

end
