(* ===== verification/Producer_Props.thy ===== *)
theory Producer_Props
  imports Block_Producer Net_Plugin Rpc_Props
begin

text \<open>
  What becomes of the block producer's work: the transactions, the signatures and the block it puts
  together, checked against the components that would receive them.
\<close>

subsection \<open>Transactions\<close>

lemma setEndorsers_keeps: "keeps m_tx_agg_cbor (setEndorsers j)"
  unfolding setEndorsers_def by (auto intro!: keeping)

lemma inputMsgTx_keeps: "keeps m_tx_agg_cbor (inputMsgTx u j)"
  unfolding inputMsgTx_def by (intro keeping) (auto intro!: keeping setEndorsers_keeps)

lemma parse_tx_msg_agg: "parse_tx_msg u j = Inr (Some t) \<Longrightarrow> m_tx_agg_cbor t = []"
  using inputMsgTx_keeps [of u j]
  by (auto simp: parse_tx_msg_def keeps_def Transaction_default_def split: prod.splits sum.splits if_splits)
     (metis Transaction.select_convs(15) fst_conv)

lemma pushTransaction_set:
  "kt \<in> set (fst (pushTransaction v u j p)) \<Longrightarrow> kt \<in> set p \<or> parse_tx_msg u j = Inr (Some (snd kt))"
  by (auto simp: pushTransaction_def tx_add_def om_try_def split: sum.splits option.splits if_splits
      dest!: set_om_put [THEN subsetD])

lemma pushTransactions_agg:
  "(\<And>kt. kt \<in> set p \<Longrightarrow> m_tx_agg_cbor (snd kt) = []) \<Longrightarrow>
     kt \<in> set (fold (\<lambda>j p. fst (pushTransaction v u j p)) js p) \<Longrightarrow> m_tx_agg_cbor (snd kt) = []"
proof (induction js arbitrary: p)
  case (Cons j js)
  show ?case
    by (rule Cons.IH [of "fst (pushTransaction v u j p)"])
       (use Cons.prems in \<open>auto dest!: pushTransaction_set parse_tx_msg_agg\<close>)
qed simp

lemma makePartialBlock_parts:
  assumes "makePartialBlock e r now txs ur = Inr pb"
  shows "pb_txagg_cbor_list pb = map m_tx_agg_cbor (fetchAll txs)"
    and "pb_txroot pb = u_to64 (be_utils e) (padded 4096 (map (u_sha256 (be_utils e)) (pb_txagg_cbor_list pb)) ! 0)"
    and "pb_link pb = u_to64 (be_utils e) (u_sha256 (be_utils e) (signer_sig (m_block_prod_info (ub_block ur))))"
    and "pb_id pb = u_to58 (be_utils e) (u_sha256 (be_utils e)
       (partial_block_bytes e (pb_time pb) (pb_height pb) (pb_prev_id pb) (pb_link pb)))"
    and "pb_world_id pb = ni_world (be_ids e)" "pb_chain_id pb = ni_chain (be_ids e)"
  using assms by (auto simp: makePartialBlock_def Let_def generate_leaf rbind_eq_Inr)

text \<open>Whatever transactions arrived in messages, a block made from the pool carries an empty text for
  each of them: reading a message does not fill the form of the transaction that blocks hold.  The
  root over the transactions is the hash of the empty text, or of zeros when there are none.\<close>

theorem produced_transactions_empty:
  assumes "txs = fold (\<lambda>j p. fst (pushTransaction v u j p)) js []"
    and "makePartialBlock e r now txs ur = Inr pb"
  shows "pb_txagg_cbor_list pb = replicate (length txs) []
    \<and> pb_txroot pb = u_to64 (be_utils e) (if txs = [] then dummy_leaf else u_sha256 (be_utils e) [])"
proof -
  have "m_tx_agg_cbor (snd kt) = []" if "kt \<in> set txs" for kt
    using that unfolding assms(1) by (rule pushTransactions_agg [rotated]) simp
  then have "pb_txagg_cbor_list pb = replicate (length txs) []"
    using makePartialBlock_parts(1) [OF assms(2)] by (auto simp: fetchAll_def intro!: replicate_eqI)
  then show ?thesis
    using makePartialBlock_parts(2) [OF assms(2)] by (cases txs) (simp_all add: padded_def)
qed

text \<open>The root the producer announces for its transactions is the first leaf of the tree. A block that
  carries it passes the check of other nodes only if that leaf is the root they compute.\<close>

theorem produced_txroot_is_leaf:
  assumes "makePartialBlock e r now txs ur = Inr pb"
    and "m_tx_root b = pb_txroot pb" "m_txaggs b = pb_txagg_cbor_list pb"
    and "verifyBlock v (be_utils e) b"
  shows "let u = be_utils e; leaves = padded 4096 (map (u_sha256 u) (map m_tx_agg_cbor (fetchAll txs)))
     in u_to64 u (hd leaves) = u_to64 u (mroot (makeParent u) 12 leaves)"
proof -
  let ?u = "be_utils e"
  let ?l = "padded 4096 (map (u_sha256 ?u) (pb_txagg_cbor_list pb))"
  have "u_to64 ?u (?l ! 0) = u_to64 ?u (mroot (makeParent ?u) 12 ?l)"
    using assms makePartialBlock_parts(2) [OF assms(1)]
    by (simp add: verifyBlock_def makeStaticMerkleTree_def generate_last split: if_splits)
  moreover have "?l \<noteq> []" using length_padded [of 4096] by (metis list.size(3) zero_neq_numeral)
  ultimately show ?thesis
    using makePartialBlock_parts(1) [OF assms(1)] by (simp add: Let_def hd_conv_nth)
qed

subsection \<open>The identifier of a block\<close>

text \<open>The producer hashes the link to the previous block into the identifier, the check of other nodes
  does not. A block of the producer that passes the check shows two texts with the same SHA-256 hash,
  one the other with the link behind it.\<close>

theorem produced_id_needs_collision:
  assumes "makePartialBlock e r now txs ur = Inr pb"
    and "m_block_id b = pb_id pb" "m_block_time b = pb_time pb" "m_world_id b = pb_world_id pb"
      "m_chain_id b = pb_chain_id pb" "m_block_height b = pb_height pb" "m_block_prev_id b = pb_prev_id pb"
      "signer_id (m_block_prod_info b) = be_b58_id e"
    and "verifyBlockID (be_verifiers e) (be_utils e) b"
    and "\<And>x. u_from58 (be_utils e) (u_to58 (be_utils e) x) = x" "\<And>x. u_from64 (be_utils e) (u_to64 (be_utils e) x) = x"
  shows "let sha = u_sha256 (be_utils e); link = sha (signer_sig (m_block_prod_info (ub_block ur)));
       text = ni_self (be_ids e) @ v_bytes_u64 (be_verifiers e) (pb_time pb) @ ni_world (be_ids e)
         @ ni_chain (be_ids e) @ v_bytes_u64 (be_verifiers e) (pb_height pb) @ u_from58 (be_utils e) (pb_prev_id pb)
     in sha (text @ link) = sha text"
proof -
  let ?u = "be_utils e"
  have "inj (u_to58 ?u)" using assms(10) by (metis injI)
  moreover have "m_block_id b = u_to58 ?u (u_sha256 ?u (partial_block_bytes e (pb_time pb) (pb_height pb)
      (pb_prev_id pb) (pb_link pb)))"
    using assms(2) makePartialBlock_parts(4) [OF assms(1)] by simp
  ultimately have "u_sha256 ?u (partial_block_bytes e (pb_time pb) (pb_height pb) (pb_prev_id pb) (pb_link pb))
     = u_sha256 ?u (u_from58 ?u (signer_id (m_block_prod_info b)) @ v_bytes_u64 (be_verifiers e) (m_block_time b)
        @ m_world_id b @ m_chain_id b @ v_bytes_u64 (be_verifiers e) (m_block_height b)
        @ u_from58 ?u (m_block_prev_id b))"
    using assms(9) by (simp add: verifyBlockID_def inj_eq)
  then show ?thesis
    using assms(3-8,10,11) makePartialBlock_parts(3,5,6) [OF assms(1)]
    by (simp add: partial_block_bytes_def Let_def)
qed

subsection \<open>Reading a produced block\<close>

lemma seq_assign_Inr:
  "snd (seq (map (\<lambda>c. assign (g c) h) xs) s) = Inr y \<Longrightarrow> x \<in> set xs \<Longrightarrow> \<exists>z. g x = Inr z"
proof (induction xs arbitrary: s)
  case (Cons a xs)
  then show ?case by (cases "g a") auto
qed simp

lemma setUserCerts_Inr:
  assumes "snd (setUserCerts j b) = Inr y" "c \<in> set (json_items j)"
  shows "\<exists>z. parse_cert c = Inr z"
  using assms unfolding setUserCerts_def
  by (auto elim!: sbind_InrE dest!: arg_cong [where f = snd] intro: seq_assign_Inr)

lemma parse_cert_text: "parse_cert (cert_item i c) = Inl Json_Type_Error"
  by (simp add: parse_cert_def cert_item_def json_obj_def json_get_def json_contains_def json_idx_def
      json_items_def json_nth_def)

lemma initialize_tail_certificates:
  assumes "snd (initialize_tail u j b) = Inr y" "json_idx j ''certificate'' = Inr cs"
  shows "\<forall>c\<in>set (json_items cs). \<exists>z. parse_cert c = Inr z"
proof (cases "setUserCerts cs b")
  case (Pair t r)
  then show ?thesis using assms setUserCerts_Inr [of cs b]
    by (cases r) (simp_all add: initialize_tail_def sbind_def)
qed

lemma block_initialize_tail:
  assumes "snd (block_initialize u j b) = Inr True"
  shows "\<exists>t y. snd (initialize_tail u j t) = Inr y"
  using assms unfolding block_initialize_def
  by (auto elim!: sbind_InrE split: if_splits) (metis snd_conv)

text \<open>No node can read a block the producer puts together: whatever it contains, reading its message
  ends in an error or reports that the block is not well-formed. The certificate is written as one text
  and read as a list of lines.\<close>

theorem produced_block_unreadable:
  "snd (block_initialize u (out_body (snd (makeMsgBlock e now pb bp))) b) \<noteq> Inr True"
proof
  let ?j = "out_body (snd (makeMsgBlock e now pb bp))"
  obtain rest where cs: "json_idx ?j ''certificate'' = Inr (JArr (cert_item (be_b58_id e) (be_cert e) # rest))"
    by (simp add: makeMsgBlock_def ssig_fetchAll_def Let_def json_idx_def json_obj_def pushed_def)
  assume "snd (block_initialize u ?j b) = Inr True"
  then obtain t y where "snd (initialize_tail u ?j t) = Inr y" using block_initialize_tail by blast
  from initialize_tail_certificates [OF this cs] show False by (simp add: json_items_def parse_cert_text)
qed

subsection \<open>Support signatures\<close>

lemma pushSupportSig_selected: "keeps pd_selected_signers (pushSupportSig j)"
  unfolding pushSupportSig_def keeps_def
  by (auto simp: sbind_def assign_def split: option.split sum.split)

lemma no_singer_kept: "\<not> json_contains j ''singer'' \<Longrightarrow> fst (pushSupportSig j bp) = bp"
  by (cases j) (auto simp: pushSupportSig_def json_at_mut_def json_contains_def json_str_def json_get_def sbind_def
      split: option.split)

lemma no_singers_kept:
  "\<forall>j\<in>set js. \<not> json_contains j ''singer'' \<Longrightarrow> fold (\<lambda>j bp. fst (pushSupportSig j bp)) js bp = bp"
  by (induction js arbitrary: bp) (simp_all add: no_singer_kept)

text \<open>Support signatures are lost. Whatever messages arrive, as long as they have no member \<open>singer\<close>
  (the messages say \<open>signer\<close>), the block proposed after them names no signers, and its list of signers is
  null, not an empty array.\<close>

theorem support_signatures_lost:
  assumes "\<forall>j\<in>set js. \<not> json_contains j ''singer''" "pd_ssig_pool bp = []"
  shows "json_idx (out_body (snd (makeMsgBlock e now pb (fold (\<lambda>j bp. fst (pushSupportSig j bp)) js bp)))) ''signer''
    = Inr JNull"
  using no_singers_kept [OF assms(1)] assms(2)
  by (simp add: makeMsgBlock_def ssig_fetchAll_def Let_def json_idx_def json_obj_def pushed_def)

text \<open>A signature a selected signer stands behind, and a pool of such signatures.\<close>

definition backed :: "(User \<times> 256 word) list \<Rightarrow> SupportSigInfo \<Rightarrow> bool" where
  "backed sel s \<longleftrightarrow> (\<exists>usr bits. (usr, bits) \<in> set sel \<and> us_user_id usr = ss_id s \<and> us_pk usr = ss_cert s)"

definition ssig_ok :: "(User \<times> 256 word) list \<Rightarrow> ssig_pool \<Rightarrow> bool" where
  "ssig_ok sel p \<longleftrightarrow> om_ok p \<and> (\<forall>kt\<in>set p. fst kt = ss_id (snd kt) \<and> backed sel (snd kt))"

lemma ssig_add_ok: "ssig_ok sel p \<Longrightarrow> backed sel s \<Longrightarrow> ssig_ok sel (ssig_add s p)"
  by (auto simp: ssig_ok_def ssig_add_def om_try_def split: option.split dest!: set_om_put [THEN subsetD])

lemma find_backed:
  assumes "find (\<lambda>si. us_user_id (fst si) = i) sel = Some f" "ss_id s = i" "ss_cert s = us_pk (fst f)"
  shows "backed sel s"
proof -
  have "f \<in> set sel" "us_user_id (fst f) = i" using assms(1) by (auto simp: find_Some_iff)
  then show ?thesis using assms(2,3) unfolding backed_def by (metis prod.collapse)
qed

lemma pushSupportSig_ok:
  assumes "ssig_ok (pd_selected_signers bp) (pd_ssig_pool bp)"
  shows "ssig_ok (pd_selected_signers bp) (pd_ssig_pool (fst (pushSupportSig j bp)))"
  using assms
  by (auto simp: pushSupportSig_def sbind_def assign_def split: option.split sum.split
      intro!: ssig_add_ok intro: find_backed)

lemma pushSupportSigs_ok:
  assumes "ssig_ok (pd_selected_signers bp) (pd_ssig_pool bp)"
  defines "bp' \<equiv> \<lambda>js. fold (\<lambda>j bp. fst (pushSupportSig j bp)) js bp"
  shows "pd_selected_signers (bp' js) = pd_selected_signers bp
    \<and> ssig_ok (pd_selected_signers bp) (pd_ssig_pool (bp' js))"
  using assms(1) unfolding bp'_def
proof (induction js arbitrary: bp)
  case (Cons j js)
  have "pd_selected_signers (fst (pushSupportSig j bp)) = pd_selected_signers bp"
    using pushSupportSig_selected [of j] by (simp add: keeps_def)
  with Cons.IH [of "fst (pushSupportSig j bp)"] pushSupportSig_ok [OF Cons.prems, of j] show ?case by simp
qed simp

text \<open>Where support signatures do arrive, the pool holds those of selected signers only, at most one for
  each, recorded with the key the signer was selected with, and the signers stay the selected ones.\<close>

theorem support_from_selected:
  assumes "pd_ssig_pool bp = []" "bp' = fold (\<lambda>j bp. fst (pushSupportSig j bp)) js bp"
  shows "pd_selected_signers bp' = pd_selected_signers bp
    \<and> distinct (map ss_id (snd (ssig_fetchAll (pd_ssig_pool bp'))))
    \<and> (\<forall>s\<in>set (snd (ssig_fetchAll (pd_ssig_pool bp'))).
        \<exists>usr bits. (usr, bits) \<in> set (pd_selected_signers bp) \<and> us_user_id usr = ss_id s \<and> us_pk usr = ss_cert s)"
proof -
  have "ssig_ok (pd_selected_signers bp) (pd_ssig_pool bp)" using assms(1) by (simp add: ssig_ok_def)
  from pushSupportSigs_ok [OF this, of js, folded assms(2)]
  have sel: "pd_selected_signers bp' = pd_selected_signers bp"
    and ok: "ssig_ok (pd_selected_signers bp) (pd_ssig_pool bp')" by simp_all
  have "map ss_id (map snd (pd_ssig_pool bp')) = map fst (pd_ssig_pool bp')"
    using ok by (simp add: ssig_ok_def)
  then have "distinct (map ss_id (map snd (pd_ssig_pool bp')))"
    using ok om_ok_distinct [of "pd_ssig_pool bp'"] by (simp only: ssig_ok_def)
  with sel ok show ?thesis by (auto simp: ssig_fetchAll_def ssig_ok_def backed_def)
qed

subsection \<open>Asking for support signatures\<close>

definition no_raw_connection :: "net_state \<Rightarrow> bool" where
  "no_raw_connection st \<longleftrightarrow> (\<forall>(k, c)\<in>set (ns_conns st). length k \<le> 32 \<longrightarrow> c = (None, None))"

lemma getRpcInfo_raw:
  assumes "no_raw_connection st" "length i \<le> 32" "getRpcInfo i (ns_conns st) = (conns, c)"
  shows "c = (None, None) \<and> no_raw_connection (st\<lparr>ns_conns := conns\<rparr>)"
  using assms
  by (auto simp: getRpcInfo_def no_raw_connection_def Let_def om_try_def split: option.splits
      dest!: set_om_put [THEN subsetD] map_of_SomeD)

lemma sendToUser_raw:
  "no_raw_connection st \<Longrightarrow> \<forall>i\<in>set is. length i \<le> 32 \<Longrightarrow> snd (sendToUser env msg is st) = []"
proof (induction "is" arbitrary: st)
  case (Cons i "is")
  obtain conns c where c: "getRpcInfo i (ns_conns st) = (conns, c)"
    by (cases "getRpcInfo i (ns_conns st)")
  then show ?case
    using getRpcInfo_raw [OF Cons.prems(1) _ c] Cons.IH [of "st\<lparr>ns_conns := conns\<rparr>"] Cons.prems(2)
    by (simp split: prod.split)
qed simp

text \<open>The request for support signatures reaches nobody. It is addressed to the raw identifiers of the
  selected signers, of at most 32 bytes, while connections are kept under their base58 texts, which are
  longer.\<close>

theorem ssig_request_unsent:
  assumes "\<forall>k\<in>fst ` set (ns_conns st). 32 < length k"
    and "\<forall>s\<in>set (pd_selected_signers bp). length (us_user_id (fst s)) \<le> 32"
  shows "snd (sendMessage env (makeMsgReqSsig e pb bp) st) = Inr []"
proof -
  have "no_raw_connection st" using assms(1) by (force simp: no_raw_connection_def)
  then have "snd (sendToUser env (makeMsgReqSsig e pb bp) (out_receivers (makeMsgReqSsig e pb bp)) st) = []"
    using assms(2) by (intro sendToUser_raw) (auto simp: makeMsgReqSsig_def)
  then show ?thesis
    by (auto simp: sendMessage_def makeMsgReqSsig_def checkMergerMsgType_def checkUserMsgType_def split: prod.split)
qed

subsection \<open>The optimal merger\<close>

definition vote_upd :: "string list \<Rightarrow> nat \<Rightarrow> nat \<Rightarrow> nat \<Rightarrow> nat \<Rightarrow> 256 word \<Rightarrow> 256 word" where
  "vote_upd ids k bi c0 c1 acc = (let ones = length (filter (\<lambda>p. bit (char_byte (p ! k)) bi) ids);
       zeros = length (filter (\<lambda>p. \<not> bit (char_byte (p ! k)) bi) ids)
     in if c0 + zeros > c1 + ones then set_bit bi acc else unset_bit bi acc)"

lemma set_after [simp]: "set_bit i (unset_bit i w) = set_bit i w" "unset_bit i (set_bit i w) = unset_bit i w"
  "set_bit i (set_bit i w) = set_bit i w" "unset_bit i (unset_bit i w) = unset_bit i w" for w :: "256 word"
  by (rule bit_word_eqI, auto simp: bit_simps)+

lemma vote_upd_twice [simp]: "vote_upd ids k bi c0 c1 (if b then set_bit bi acc else unset_bit bi acc)
    = vote_upd ids k bi c0 c1 acc"
  by (simp add: vote_upd_def Let_def)

lemma vote_upd_Cons:
  "vote_upd (p # ids) k bi c0 c1 acc = (if bit (char_byte (p ! k)) bi
     then vote_upd ids k bi c0 (Suc c1) acc else vote_upd ids k bi (Suc c0) c1 acc)"
  by (simp add: vote_upd_def Let_def)

lemma vote_bit_eq:
  "ids \<noteq> [] \<Longrightarrow> \<forall>p\<in>set ids. k < length p \<Longrightarrow> vote_bit k bi ids c0 c1 acc = Inr (vote_upd ids k bi c0 c1 acc)"
proof (induction k bi ids c0 c1 acc rule: vote_bit.induct)
  case (2 byte_pos bit_pos p ps c0 c1 acc)
  then show ?case
    by (cases "ps = []") (simp_all add: vote_upd_Cons Let_def, simp_all add: vote_upd_def)
qed simp

lemma vote_bits_eq:
  "ids \<noteq> [] \<Longrightarrow> \<forall>(k, bi)\<in>set ps. \<forall>p\<in>set ids. k < length p \<Longrightarrow>
     vote_bits ids ps acc = Inr (fold (\<lambda>(k, bi). vote_upd ids k bi 0 0) ps acc)"
  by (induction ids ps acc rule: vote_bits.induct) (simp_all add: vote_bit_eq)

lemma bit_vote_upd:
  "bit (vote_upd ids k bi c0 c1 acc) i = (if i = bi \<and> i < 256
     then length (filter (\<lambda>p. \<not> bit (char_byte (p ! k)) bi) ids) + c0
        > length (filter (\<lambda>p. bit (char_byte (p ! k)) bi) ids) + c1 else bit acc i)"
  by (auto simp: vote_upd_def Let_def bit_simps add.commute dest: bit_imp_le_length)

lemma bit_vote_byte:
  "n \<le> 256 \<Longrightarrow> bit (fold (\<lambda>(k, bi). vote_upd ids k bi 0 0) (map (\<lambda>bi. (k, bi)) [0..<n]) acc) i = (if i < n
     then length (filter (\<lambda>p. \<not> bit (char_byte (p ! k)) i) ids) > length (filter (\<lambda>p. bit (char_byte (p ! k)) i) ids)
     else bit acc i)"
  by (induction n) (auto simp: bit_vote_upd less_Suc_eq)

lemma bit_vote_high:
  "(\<forall>(k, bi)\<in>set ps. bi < 8) \<Longrightarrow> 8 \<le> i \<Longrightarrow>
     bit (fold (\<lambda>(k, bi). vote_upd ids k bi 0 0) ps acc) i = bit acc i"
  by (induction ps arbitrary: acc) (auto simp: bit_vote_upd)

text \<open>The identifier of the optimal merger, meant to take each of 256 bits by majority, depends on the
  last byte of the producers' identifiers only: its bits from the eighth on are zero, and a bit below is
  set when the producers without that bit in their last byte outnumber those with it.\<close>

theorem optimal_merger_last_byte:
  assumes "blocks \<noteq> []"
    and "\<forall>b\<in>set blocks. 32 \<le> length (u_from58 u (signer_id (m_block_prod_info b)))"
  shows "\<exists>w. getOptimalMergerId u blocks (length blocks) = Inr w
    \<and> (\<forall>i. bit w i \<longleftrightarrow> i < 8 \<and> (let has = \<lambda>b. bit (char_byte (u_from58 u (signer_id (m_block_prod_info b)) ! 31)) i
        in length (filter has blocks) < length (filter (Not \<circ> has) blocks)))"
proof -
  let ?ids = "map (\<lambda>b. u_from58 u (signer_id (m_block_prod_info b))) blocks"
  let ?ps = "[(k, bi). k \<leftarrow> [0..<31], bi \<leftarrow> [0..<8]]" and ?last = "map (\<lambda>bi. (31::nat, bi)) [0..<8::nat]"
  have split: "[(k, bi). k \<leftarrow> [0..<32::nat], bi \<leftarrow> [0..<8::nat]] = ?ps @ ?last"
    by (simp add: upt_Suc_append [of 0 31, simplified])
  have "\<forall>(k, bi)\<in>set (?ps @ ?last). \<forall>p\<in>set ?ids. k < length p" using assms(2) by fastforce
  then have "getOptimalMergerId u blocks (length blocks)
      = Inr (fold (\<lambda>(k, bi). vote_upd ?ids k bi 0 0) (?ps @ ?last) 0)"
    unfolding getOptimalMergerId_def split using assms(1) by (subst vote_bits_eq) simp_all
  moreover have "\<forall>(k, bi)\<in>set ?ps. bi < 8" by auto
  ultimately show ?thesis
    by (simp add: bit_vote_byte bit_vote_high filter_map o_def Let_def)
qed

subsection \<open>Witnesses\<close>

definition demo_bp :: bp_env where
  "demo_bp = \<lparr>be_net = demo_net\<lparr>n_utils := demo_utils\<rparr>, be_verifiers = demo_verifiers, be_ids = demo_ids,
     be_sk = ''sk'', be_pass = ''p'', be_cert = ''cert''\<rparr>"

definition empty_rdb :: rdb where
  "empty_rdb = \<lparr>r_contract_scan = (\<lambda>_. Inr []), r_contract_get = (\<lambda>_. []), r_cert_get = (\<lambda>_. []),
     r_user_info_get = (\<lambda>_. \<lparr>ua_uid = [], ua_register_day = 0, ua_register_code = [], ua_gender = 0,
        ua_isc_type = [], ua_isc_code = [], ua_location = [], ua_age_limit = 0, ua_sigma = []\<rparr>),
     r_user_scope_get = (\<lambda>_. []), r_contract_scope_get = (\<lambda>_. []), r_tx_get = (\<lambda>_. []), r_block_scan = (\<lambda>_. []),
     r_tx_scan = (\<lambda>_. []), r_all_user_ledger = [], r_all_contract_ledger = [], r_get_blocks = (\<lambda>_ _. Inr []),
     r_latest_block = None\<rparr>"

lemma makePartialBlock_first:
  "\<exists>pb. makePartialBlock e r now txs UnresolvedBlock_default = Inr pb \<and> pb_time pb = now \<and> pb_height pb = 1 \<and> pb_prev_id pb = []"
proof -
  have "\<not> u64_to_int (1 - BLOCK_CONFIRM_LEVEL) > 0" by code_simp
  then show ?thesis
    by (simp add: makePartialBlock_def previous_roots_def UnresolvedBlock_default_def Block_default_def Let_def)
qed

theorem produced_transactions_empty_witness:
  "\<exists>pb. makePartialBlock demo_bp empty_rdb 7 (fst (pushTransaction demo_verifiers demo_utils (demo_tx_json ''ok'') []))
     UnresolvedBlock_default = Inr pb \<and> pb_txagg_cbor_list pb = [[]]"
proof -
  let ?p = "fst (pushTransaction demo_verifiers demo_utils (demo_tx_json ''ok'') [])"
  obtain pb where pb: "makePartialBlock demo_bp empty_rdb 7 ?p UnresolvedBlock_default = Inr pb"
    using makePartialBlock_first by blast
  have "length ?p = 1" by code_simp
  then have "pb_txagg_cbor_list pb = [[]]"
    using produced_transactions_empty [of ?p demo_verifiers demo_utils "[demo_tx_json ''ok'']", OF _ pb] by simp
  with pb show ?thesis by blast
qed

definition zero_bp :: bp_env where
  "zero_bp = demo_bp\<lparr>be_net := demo_net\<lparr>n_utils := demo_utils\<lparr>u_sha256 := (\<lambda>_. dummy_leaf), u_from64 := (\<lambda>_. dummy_leaf)\<rparr>\<rparr>\<rparr>"

lemma fold_om_try_const: "\<forall>(k, v)\<in>set m. v = c \<Longrightarrow> (k, v) \<in> set (fold (\<lambda>(k, v). om_try (f k) c) xs m) \<Longrightarrow> v = c"
  by (induction xs arbitrary: m)
    (auto simp: om_try_def split: option.splits dest!: set_om_put [THEN subsetD], fastforce dest!: set_om_put [THEN subsetD])

lemma zero_parent: "makeParent (be_utils zero_bp) = (\<lambda>_ _. dummy_leaf)"
proof -
  have "v = dummy_leaf" if "map_of (HASH_LOOKUP (be_utils zero_bp)) k = Some v" for k v
    using that fold_om_try_const [of "[]" dummy_leaf k v "\<lambda>_. dummy_leaf"] map_of_SomeD
    by (fastforce simp: HASH_LOOKUP_def zero_bp_def)
  then show ?thesis by (simp add: makeParent_def fun_eq_iff zero_bp_def split: option.split)
qed

lemma mroot_const: "set xs \<subseteq> {c} \<Longrightarrow> xs \<noteq> [] \<Longrightarrow> length xs = 2 ^ k \<Longrightarrow> mroot (\<lambda>_ _. c) k xs = c"
  by (cases k; cases xs) auto

theorem produced_txroot_is_leaf_witness:
  "let u = be_utils zero_bp; leaves = padded 4096 (map (u_sha256 u) (map m_tx_agg_cbor (fetchAll [])))
     in u_to64 u (hd leaves) = u_to64 u (mroot (makeParent u) 12 leaves)"
proof -
  let ?u = "be_utils zero_bp"
  obtain pb where pb: "makePartialBlock zero_bp empty_rdb 7 [] UnresolvedBlock_default = Inr pb"
    using makePartialBlock_first by blast
  let ?b = "Block_default\<lparr>m_block_id := dummy_leaf, m_block_hash := dummy_leaf, m_tx_root := dummy_leaf, m_sg_root := dummy_leaf\<rparr>"
  have aggs: "pb_txagg_cbor_list pb = []" using makePartialBlock_parts(1) [OF pb] by (simp add: fetchAll_def)
  then have root: "pb_txroot pb = dummy_leaf"
    using makePartialBlock_parts(2) [OF pb] by (simp add: padded_def zero_bp_def demo_utils_def)
  have "last (generate ?u []) = dummy_leaf"
    unfolding generate_last zero_parent by (rule mroot_const) (simp_all add: padded_def)
  then have "verifyBlock demo_verifiers ?u ?b"
    by (simp add: verifyBlock_def makeStaticMerkleTree_def verifyBlockID_def verifyBlockHash_def Block_default_def
        zero_bp_def demo_utils_def)
  then show ?thesis
    by (rule produced_txroot_is_leaf [OF pb, rotated 2]) (simp_all add: aggs root Block_default_def)
qed

theorem produced_id_needs_collision_witness:
  "\<exists>text. length text = 50 \<and> u_sha256 demo_utils (text @ u_sha256 demo_utils []) = u_sha256 demo_utils text"
proof -
  obtain pb where pb: "makePartialBlock demo_bp empty_rdb 7 [] UnresolvedBlock_default = Inr pb" "pb_time pb = 7"
    "pb_height pb = 1" "pb_prev_id pb = []" using makePartialBlock_first by blast
  let ?b = "Block_default\<lparr>m_block_id := pb_id pb, m_block_time := pb_time pb, m_world_id := pb_world_id pb,
    m_chain_id := pb_chain_id pb, m_block_height := pb_height pb, m_block_prev_id := pb_prev_id pb,
    m_block_prod_info := \<lparr>signer_id = be_b58_id demo_bp, signer_sig = []\<rparr>\<rparr>"
  have dec: "dec_u64 7 = ''7''" "dec_u64 1 = ''1''" by code_simp+
  have "verifyBlockID (be_verifiers demo_bp) (be_utils demo_bp) ?b"
    using makePartialBlock_parts(4-6) [OF pb(1)] pb(2-4)
    by (simp add: verifyBlockID_def partial_block_bytes_def demo_bp_def demo_utils_def demo_verifiers_def demo_ids_def
        Block_default_def)
  then have "let sha = u_sha256 (be_utils demo_bp); link = sha (signer_sig (m_block_prod_info (ub_block UnresolvedBlock_default)));
       text = ni_self (be_ids demo_bp) @ v_bytes_u64 (be_verifiers demo_bp) (pb_time pb) @ ni_world (be_ids demo_bp)
         @ ni_chain (be_ids demo_bp) @ v_bytes_u64 (be_verifiers demo_bp) (pb_height pb)
         @ u_from58 (be_utils demo_bp) (pb_prev_id pb)
     in sha (text @ link) = sha text"
    by (intro produced_id_needs_collision [OF pb(1), of ?b]) (simp_all add: Block_default_def demo_bp_def demo_utils_def)
  then show ?thesis
    by (intro exI [of _ "replicate 32 (CHR ''I'') @ ''7'' @ replicate 8 (CHR ''W'') @ replicate 8 (CHR ''C'') @ ''1''"])
      (simp add: Let_def pb(2-4) demo_bp_def demo_ids_def demo_verifiers_def dec demo_utils_def UnresolvedBlock_default_def
        Block_default_def)
qed

definition demo_signer :: User where
  "demo_signer = \<lparr>us_user_id = ''s'', us_pk = ''pk'', us_mode = SIGNER_ONLY, us_hmac_key = ''k''\<rparr>"

definition demo_producer :: BlockProducer where
  "demo_producer = \<lparr>pd_ssig_pool = [], pd_selected_signers = [(demo_signer, 0)]\<rparr>"

definition demo_ssig :: "string \<Rightarrow> string \<Rightarrow> json" where
  "demo_ssig member i = json_obj [(member, json_obj [(''id'', JStr i), (''sig'', JStr ''sig'')])]"

definition demo_pb :: PartialBlock where
  "demo_pb = \<lparr>pb_id = ''b'', pb_time = 7, pb_world_id = ''W'', pb_chain_id = ''C'', pb_height = 1, pb_prev_id = [],
     pb_txroot = ''r'', pb_usroot = ''r'', pb_csroot = ''r'', pb_link = ''l'', pb_txagg_cbor_list = []\<rparr>"

theorem support_signatures_lost_witness:
  "json_idx (out_body (snd (makeMsgBlock demo_bp 9 demo_pb
      (fold (\<lambda>j bp. fst (pushSupportSig j bp)) [demo_ssig ''signer'' ''s''] demo_producer)))) ''signer'' = Inr JNull"
  by (rule support_signatures_lost)
    (simp_all add: demo_ssig_def demo_producer_def json_obj_def json_contains_def)

theorem support_from_selected_witness:
  "pd_ssig_pool (fold (\<lambda>j bp. fst (pushSupportSig j bp)) [demo_ssig ''singer'' ''x'', demo_ssig ''singer'' ''s''] demo_producer)
     = [(''s'', \<lparr>ss_id = ''s'', ss_sig = ''sig'', ss_cert = ''pk''\<rparr>)]
   \<and> distinct (map ss_id (snd (ssig_fetchAll (pd_ssig_pool
       (fold (\<lambda>j bp. fst (pushSupportSig j bp)) [demo_ssig ''singer'' ''x'', demo_ssig ''singer'' ''s''] demo_producer)))))"
proof -
  have "pd_ssig_pool demo_producer = []" by (simp add: demo_producer_def)
  from support_from_selected [OF this refl, of "[demo_ssig ''singer'' ''x'', demo_ssig ''singer'' ''s'']"]
  show ?thesis
    by (simp add: pushSupportSig_def demo_ssig_def json_obj_def json_at_mut_def demo_producer_def demo_signer_def
        ssig_add_def om_try_def ssig_fetchAll_def)
qed

theorem ssig_request_unsent_witness:
  "snd (sendMessage demo_rpc (makeMsgReqSsig demo_bp demo_pb demo_producer)
     (demo_net_state\<lparr>ns_conns := [(replicate 43 (CHR ''s''), (Some 1, Some 2))]\<rparr>)) = Inr []"
  by (rule ssig_request_unsent) (simp_all add: demo_producer_def demo_signer_def)

theorem optimal_merger_last_byte_witness:
  "\<exists>w. getOptimalMergerId demo_utils [Block_default\<lparr>m_block_prod_info := \<lparr>signer_id = replicate 32 (CHR 0x01), signer_sig = []\<rparr>\<rparr>] 1
     = Inr w \<and> \<not> bit w 0 \<and> bit w 1 \<and> \<not> bit w 8"
proof -
  let ?bs = "[Block_default\<lparr>m_block_prod_info := \<lparr>signer_id = replicate 32 (CHR 0x01), signer_sig = []\<rparr>\<rparr>]"
  have u: "u_from58 demo_utils = (\<lambda>s. s)" by (simp add: demo_utils_def)
  have bits: "bit (char_byte (CHR 0x01)) 0" "\<not> bit (char_byte (CHR 0x01)) 1" by code_simp+
  have "\<exists>w. getOptimalMergerId demo_utils ?bs (length ?bs) = Inr w
    \<and> (\<forall>i. bit w i \<longleftrightarrow> i < 8 \<and> (let has = \<lambda>b. bit (char_byte (u_from58 demo_utils (signer_id (m_block_prod_info b)) ! 31)) i
        in length (filter has ?bs) < length (filter (Not \<circ> has) ?bs)))"
    by (rule optimal_merger_last_byte) (simp_all add: u)
  then show ?thesis using bits by (auto simp: u Let_def)
qed

end
