(* ===== verification/Admin_Services.thy ===== *)
theory Admin_Services
  imports Chain_State Net_Plugin
begin

text \<open>
  The administration plugin (admin_plugin/rpc_services/rpc_services.cpp, command_delegator.hpp,
  admin_middleware.hpp) on the status of the application (lib/appbase/application.cpp), and the
  order in which the application initialises its plugins.  Each request is one step.  Files,
  certificates and key containers are read by libraries: the environment \<open>admin_env\<close>.
\<close>

subsection \<open>The application\<close>

text \<open>The running mode is an enumeration over \<open>int\<close>; a request can carry other numbers as well.\<close>

abbreviation MODE_NONE :: int where "MODE_NONE \<equiv> -1"
abbreviation MODE_DEFAULT :: int where "MODE_DEFAULT \<equiv> 0"
abbreviation MODE_MONITOR :: int where "MODE_MONITOR \<equiv> 1"

record Application =
  al_load_world :: bool
  al_load_chain :: bool
  al_user_setup :: bool
  al_user_login :: bool
  al_run_mode :: int
  al_pass :: string
  al_my_sk :: string
  al_my_cert :: string
  al_id :: string
  al_running :: bool

definition Application_new :: Application where
  "Application_new = \<lparr>al_load_world = False, al_load_chain = False, al_user_setup = False, al_user_login = False,
     al_run_mode = MODE_NONE, al_pass = [], al_my_sk = [], al_my_cert = [], al_id = [], al_running = False\<rparr>"

definition resetLoadChainState :: "Application \<Rightarrow> Application" where
  "resetLoadChainState a = a\<lparr>al_load_chain := False\<rparr>"

definition completeLoadWorld :: "Application \<Rightarrow> Application" where
  "completeLoadWorld a = a\<lparr>al_load_world := True\<rparr>"

definition completeLoadChain :: "Application \<Rightarrow> Application" where
  "completeLoadChain a = a\<lparr>al_load_chain := True\<rparr>"

definition completeUserSetup :: "Application \<Rightarrow> Application" where
  "completeUserSetup a = a\<lparr>al_user_setup := True\<rparr>"

definition completeUserSignedIn :: "string \<Rightarrow> string \<Rightarrow> string \<Rightarrow> Application \<Rightarrow> Application" where
  "completeUserSignedIn sk cert pass a =
     a\<lparr>al_user_login := True, al_my_sk := sk, al_my_cert := cert, al_pass := pass\<rparr>"

subsection \<open>Plugins\<close>

text \<open>
  \<open>Plugin::initialize\<close> initialises the plugins it requires first, in the order they are named; the
  state is the list of initialised plugins.  The recursion has no bound in the code, so a cycle of
  requirements never returns: \<open>None\<close>.
\<close>

partial_function (option) init_all ::
    "(string \<Rightarrow> string list) \<Rightarrow> string list \<Rightarrow> string list \<Rightarrow> string list option" where
  "init_all reqs todo st = (case todo of
       [] \<Rightarrow> Some st
     | p # ps \<Rightarrow> if p \<in> set st then init_all reqs ps st
         else Option.bind (init_all reqs (reqs p) st) (\<lambda>st1. init_all reqs ps (st1 @ [p])))"

text \<open>Without the administration plugin the program exits; names that are not registered are passed over.\<close>

definition initializePlugins :: "(string \<Rightarrow> string list) \<Rightarrow> string list \<Rightarrow> string list \<Rightarrow> string list option" where
  "initializePlugins reqs registered names =
     (if ''AdminPlugin'' \<notin> set names then None
      else init_all reqs (filter (\<lambda>n. n \<in> set registered) names) [])"

text \<open>What the plugins of the program require.\<close>

definition plugin_requires :: "string \<Rightarrow> string list" where
  "plugin_requires p = (if p = ''BlockProducerPlugin'' then [''ChainPlugin'', ''NetPlugin''] else [])"

subsection \<open>Requests\<close>

datatype file_content = No_File string | Bad_Json string | Json_File json

record admin_env =
  ae_net :: net_utils
  ae_files :: "string \<Rightarrow> file_content"
  ae_common_name :: "string \<Rightarrow> string option"
  ae_load_key :: "string \<Rightarrow> string \<Rightarrow> bool"
  ae_edit_contract :: "string \<Rightarrow> string \<Rightarrow> string \<Rightarrow> (string \<times> string) option"

record admin_state =
  ad_app :: Application
  ad_chain :: Chain

record admin_reply =
  ar_success :: bool
  ar_info :: string

abbreviation admin_ok :: "string \<Rightarrow> admin_reply" where
  "admin_ok info \<equiv> \<lparr>ar_success = True, ar_info = info\<rparr>"

abbreviation admin_fail :: "string \<Rightarrow> admin_reply" where
  "admin_fail info \<equiv> \<lparr>ar_success = False, ar_info = info\<rparr>"

text \<open>A service answers and publishes control messages for the network plugin, which come after it.\<close>

type_synonym admin_service = "admin_state \<Rightarrow> admin_state \<times> (admin_reply \<times> json list) result"

definition on_chain :: "(Chain, 'a) prog \<Rightarrow> (admin_state, 'a) prog" where
  "on_chain m st = (case m (ad_chain st) of (ch, r) \<Rightarrow> (st\<lparr>ad_chain := ch\<rparr>, r))"

definition on_app :: "(Application \<Rightarrow> Application) \<Rightarrow> admin_state \<Rightarrow> admin_state" where
  "on_app f st = st\<lparr>ad_app := f (ad_app st)\<rparr>"

text \<open>The message a middleware refuses with; the one for \<open>SetupService\<close> is not the one
  \<open>SetupKeyService\<close> asks for.\<close>

definition middleware_login :: "Application \<Rightarrow> string option" where
  "middleware_login a = (if al_running a then Some ''Please sign in after stopping the node'' else None)"

definition middleware_setup_key :: "Application \<Rightarrow> string option" where
  "middleware_setup_key a = None"

definition middleware_load_world :: "Application \<Rightarrow> string option" where
  "middleware_load_world a = (if al_running a
     then Some ''If you want to join the world, stop node and then load different world'' else None)"

definition middleware_load_chain :: "Application \<Rightarrow> string option" where
  "middleware_load_chain a = (if al_running a
     then Some ''If you want to join a different local chain, stop node and then load different local chain'' else None)"

definition with_middleware :: "(Application \<Rightarrow> string option) \<Rightarrow> admin_service \<Rightarrow> admin_service" where
  "with_middleware mw s st = (case mw (ad_app st) of
       Some e \<Rightarrow> (st, Inr (admin_fail e, []))
     | None \<Rightarrow> s st)"

subsection \<open>Setting up the key\<close>

text \<open>\<open>SetupService::UserService\<close>: the first message a user sends to the set-up server.\<close>

definition setup_message :: "admin_env \<Rightarrow> string \<Rightarrow> json option result" where
  "setup_message env packed_msg = rbind (parseMessage (ae_net env) packed_msg)
     (\<lambda>(input_data, _). Inr (map_option in_body input_data))"

text \<open>\<open>runSetup\<close>: no message within the time limit counts as none.\<close>

definition runSetup :: "admin_env \<Rightarrow> string option \<Rightarrow> json option result" where
  "runSetup env received = (case received of None \<Rightarrow> Inr None | Some packed_msg \<Rightarrow> setup_message env packed_msg)"

abbreviation self_value :: "KvStore \<Rightarrow> string \<Rightarrow> string" where
  "self_value kv k \<equiv> getValueByKey kv ''self_info'' k"

definition isAlreadySetup :: "KvStore \<Rightarrow> bool" where
  "isAlreadySetup kv = (if self_value kv ''self_enc_sk'' = [] then False
     else if self_value kv ''self_cert'' = [] then False else True)"

definition verifyUserKeyInfo :: "admin_env \<Rightarrow> string \<Rightarrow> string \<Rightarrow> bool \<times> string" where
  "verifyUserKeyInfo env enc_sk_pem cert =
     (if enc_sk_pem = [] \<or> cert = [] then (False, ''(cert / sk) is empty'')
      else if ae_common_name env cert = None
      then (False, ''Could not find X509 common name field in Certificate'')
      else (True, []))"

definition admin_saveSelfInfo :: "admin_env \<Rightarrow> string \<Rightarrow> string \<Rightarrow> (admin_state, bool) prog" where
  "admin_saveSelfInfo env enc_sk cert st = (case ae_common_name env cert of
       None \<Rightarrow> (st, Inr False)
     | Some my_id_b58 \<Rightarrow>
         (let my_id = u_from58 (n_utils (ae_net env)) my_id_b58;
              st1 = fst (on_chain (on_kv (saveSelfInfo \<lparr>si_enc_sk = enc_sk, si_cert = cert, si_id = my_id\<rparr>)) st)
          in (on_app (\<lambda>a. a\<lparr>al_id := my_id\<rparr>) st1, Inr True)))"

definition value_or_empty :: "json \<Rightarrow> string \<Rightarrow> string result" where
  "value_or_empty j k = rbind (json_get j k) (\<lambda>v. Inr (case v of Some s \<Rightarrow> s | None \<Rightarrow> []))"

definition accept_key_info :: "admin_env \<Rightarrow> json \<Rightarrow> admin_service" where
  "accept_key_info env info =
     sbind (slift (value_or_empty info ''enc_sk'')) (\<lambda>enc_sk.
     sbind (slift (value_or_empty info ''cert'')) (\<lambda>cert.
       (case verifyUserKeyInfo env enc_sk cert of
          (False, text) \<Rightarrow> sret (admin_fail text, [])
        | (True, _) \<Rightarrow> sbind (admin_saveSelfInfo env enc_sk cert) (\<lambda>saved.
            if saved then sbind (assign (Inr ()) (\<lambda>_. on_app completeUserSetup)) (\<lambda>_. sret (admin_ok [], []))
            else sret (admin_fail ''Wrong Certificate'', [])))))"

definition setup_key :: "admin_env \<Rightarrow> string option \<Rightarrow> admin_service" where
  "setup_key env received = with_middleware middleware_setup_key (\<lambda>st.
     if isAlreadySetup (ch_kv (ad_chain st))
     then (on_app completeUserSetup st,
       Inr (admin_fail ''Your key already exists in storage, Please login'', []))
     else sbind (slift (runSetup env received)) (\<lambda>info. case info of
         Some j \<Rightarrow> accept_key_info env j
       | None \<Rightarrow> sret (admin_fail ''Could not receive any info from user. please `SETUP KEY` again'', [])) st)"

subsection \<open>Signing in, starting, status\<close>

definition login_command :: "string \<Rightarrow> string \<Rightarrow> string \<Rightarrow> json" where
  "login_command sk cert pass = json_obj
     [(''type'', JInt CTL_LOGIN), (''enc_sk'', JStr sk), (''cert'', JStr cert), (''pass'', JStr pass)]"

definition start_command :: "int \<Rightarrow> json" where
  "start_command mode = json_obj [(''type'', JInt CTL_START), (''mode'', JInt mode)]"

definition load_chain_command :: "string list \<Rightarrow> json" where
  "load_chain_command trackers = json_obj
     [(''type'', JInt CTL_LOAD_CHAIN), (''trackers'', JArr (map JStr trackers))]"

definition login :: "admin_env \<Rightarrow> string \<Rightarrow> admin_service" where
  "login env pass = with_middleware middleware_login (\<lambda>st.
     let kv = ch_kv (ad_chain st);
         self_sk = self_value kv ''self_enc_sk'';
         self_cert = self_value kv ''self_cert''
     in if al_user_login (ad_app st) then (st, Inr (admin_fail ''You have been logged in'', []))
        else if self_sk \<noteq> [] \<and> self_cert \<noteq> [] then
          (if ae_load_key env self_sk pass
           then (on_app (\<lambda>a. completeUserSignedIn self_sk self_cert pass (completeUserSetup a)) st,
             Inr (admin_ok [], [login_command self_sk self_cert pass]))
           else (st, Inr (admin_fail ''Fail to login, please check password and try again'', [])))
        else (st, Inr (admin_fail ''Could not find key info. Please `Setup Key` again'', [])))"

definition start_refusal :: "Application \<Rightarrow> string" where
  "start_refusal a =
     (let info = (if al_running a then ''It's already running as a ''
             @ (if al_run_mode a = MODE_DEFAULT then ''default mode'' else ''monitor mode'') else [])
      in if \<not> al_load_world a then ''World has not been loaded yet.''
         else if \<not> al_load_chain a then ''Local chain has not been loaded yet.'' else info)"

definition start_node :: "int \<Rightarrow> admin_service" where
  "start_node mode st = (let info = start_refusal (ad_app st) in
     if info \<noteq> [] then (st, Inr (admin_fail info, []))
     else if mode = MODE_DEFAULT \<and> \<not> al_user_login (ad_app st)
     then (st, Inr (admin_fail
       ''Could not join a network. Please setup & login OR start as a monitoring mode'', []))
     else (on_app (\<lambda>a. a\<lparr>al_running := True, al_run_mode := mode\<rparr>) st,
       Inr (admin_ok (''Start to running the node on '' @ (if mode = MODE_DEFAULT then ''default'' else ''monitor'')
         @ '' mode''), [start_command mode])))"

definition check_status :: "admin_state \<Rightarrow> bool" where
  "check_status st = al_running (ad_app st)"

subsection \<open>Loading the world and the chain\<close>

definition loadJson :: "admin_env \<Rightarrow> string \<Rightarrow> string + json" where
  "loadJson env path = (case ae_files env path of
       No_File p \<Rightarrow> Inl (''Cannot find a file. path : '' @ p)
     | Bad_Json e \<Rightarrow> Inl (''Json parsing err : '' @ e)
     | Json_File j \<Rightarrow> Inr j)"

text \<open>\<open>catch (...)\<close>.\<close>

definition caught_all :: "string \<Rightarrow> cpp_error \<Rightarrow> (admin_reply \<times> json list) result" where
  "caught_all info e = (if e = Undefined_Behaviour then Inl e else Inr (admin_fail info, []))"

definition load_world :: "admin_env \<Rightarrow> string \<Rightarrow> admin_service" where
  "load_world env path = with_middleware middleware_load_world (\<lambda>st. case loadJson env path of
       Inl info \<Rightarrow> (st, Inr (admin_fail info, []))
     | Inr world \<Rightarrow> (case on_chain (initWorld world) st of
           (st1, Inl e) \<Rightarrow> (st1, caught_all ''Cannot load world. please check the world json file.'' e)
         | (st1, Inr _) \<Rightarrow> (on_app (\<lambda>a. completeLoadWorld (resetLoadChainState a)) st1,
             Inr (admin_ok ''Success to load the world'', []))))"

text \<open>
  \<open>Chain::initBuiltInContracts\<close>: the stored document of each built-in contract gets the identifier
  and date of the chain.  Without a root, a head or one of its elements the document's parser hands
  out null pointers.
\<close>

definition BuiltInContractList :: "string list" where
  "BuiltInContractList = [''VALUE-TRANSFER'']"

definition built_in_contract :: "admin_env \<Rightarrow> Chain \<Rightarrow> string \<Rightarrow> Contract result" where
  "built_in_contract env ch name =
     (let kv = ch_kv ch;
          chain_id = ap_chain_id (ch_app ch);
          chain_after = getValueByKey kv ''chain'' (chain_id @ ''_ctime'');
          chain_author = getValueByKey kv ''chain'' (chain_id @ ''_crid'');
          world_id = ap_world_id (ch_app ch);
          world_creator = getValueByKey kv ''world'' (world_id @ ''_cid'');
          raw_xml = getValueByKey kv ''built_in_contract'' name;
          cid = name @ ''::'' @ world_creator @ ''::'' @ chain_id @ ''::'' @ world_id
      in case ae_edit_contract env raw_xml cid chain_after of
           None \<Rightarrow> Inl Undefined_Behaviour
         | Some (desc, text) \<Rightarrow> rbind (stou64 chain_after) (\<lambda>after.
             Inr \<lparr>ct_cid = cid, ct_after = after, ct_before = 0, ct_author = chain_author, ct_friends = [],
                  ct_contract = text, ct_desc = desc, ct_sigma = [], ct_query_type = Q_INSERT\<rparr>))"

fun built_in_contracts :: "admin_env \<Rightarrow> Chain \<Rightarrow> string list \<Rightarrow> (string, Contract) omap \<Rightarrow> (string, Contract) omap result" where
  "built_in_contracts env ch [] acc = Inr acc"
| "built_in_contracts env ch (n # ns) acc = rbind (built_in_contract env ch n) (\<lambda>c.
     built_in_contracts env ch ns (om_put (ct_cid c) c acc))"

definition initBuiltInContracts :: "admin_env \<Rightarrow> (Chain, unit) prog" where
  "initBuiltInContracts env ch = assign (built_in_contracts env ch BuiltInContractList [])
     (\<lambda>cs ch. ch\<lparr>ch_rdb := ch_rdb ch @ [W_Contracts cs]\<rparr>) ch"

text \<open>The chain counts as loaded before its built-in contracts are set up; the trackers were sent off by then.\<close>

definition load_chain :: "admin_env \<Rightarrow> string \<Rightarrow> admin_service" where
  "load_chain env path = with_middleware middleware_load_chain (\<lambda>st. case loadJson env path of
       Inl info \<Rightarrow> (st, Inr (admin_fail info, []))
     | Inr chain \<Rightarrow> (case on_chain (initChain chain) st of
           (st1, Inl e) \<Rightarrow> (st1, caught_all ''Cannot load the local chain.'' e)
         | (st1, Inr None) \<Rightarrow> (st1,
             Inr (admin_fail ''This local chain is in another world. Please check World ID'', []))
         | (st1, Inr (Some trackers)) \<Rightarrow>
             (case on_chain (initBuiltInContracts env) (on_app completeLoadChain st1) of
                (st2, Inl e) \<Rightarrow> (st2, rbind (caught_all ''Cannot load the local chain.'' e)
                    (\<lambda>(r, _). Inr (r, [load_chain_command trackers])))
              | (st2, Inr _) \<Rightarrow> (st2, Inr (admin_ok [], [load_chain_command trackers])))))"

end
