(* ===== verification/Admin_Props.thy ===== *)
theory Admin_Props
  imports Admin_Services Chain_Props
begin

text \<open>
  The administration services over sequences of requests: when a node runs, whose keys it is signed in
  with, what the network plugin is told; and the order of plugins.
\<close>

subsection \<open>The order of plugins\<close>

definition deps_first :: "(string \<Rightarrow> string list) \<Rightarrow> string list \<Rightarrow> bool" where
  "deps_first reqs st \<longleftrightarrow> distinct st \<and> (\<forall>i<length st. set (reqs (st ! i)) \<subseteq> set (take i st))"

lemma deps_first_snoc:
  "deps_first reqs st \<Longrightarrow> p \<notin> set st \<Longrightarrow> set (reqs p) \<subseteq> set st \<Longrightarrow> deps_first reqs (st @ [p])"
  by (auto simp: deps_first_def nth_append less_Suc_eq)

lemma init_all_ranked:
  assumes rank: "\<And>p q. q \<in> set (reqs p) \<Longrightarrow> rank q < (rank p :: nat)"
  shows "deps_first reqs st \<Longrightarrow> \<forall>p\<in>set todo. rank p < n \<Longrightarrow>
    \<exists>new. init_all reqs todo st = Some (st @ new) \<and> deps_first reqs (st @ new)
      \<and> set todo \<subseteq> set (st @ new) \<and> (\<forall>p\<in>set new. rank p < n)"
proof (induction n arbitrary: todo st rule: less_induct)
  case (less n)
  show ?case using less.prems
  proof (induction todo arbitrary: st)
    case Nil
    then show ?case by (subst init_all.simps) (auto intro!: exI [of _ "[]"])
  next
    case (Cons p ps)
    show ?case
    proof (cases "p \<in> set st")
      case True
      then show ?thesis using Cons.IH [OF Cons.prems(1)] Cons.prems(2)
        by (subst init_all.simps) auto
    next
      case False
      have "rank p < n" using Cons.prems(2) by simp
      from less.IH [OF this Cons.prems(1), of "reqs p"] rank obtain a where
        a: "init_all reqs (reqs p) st = Some (st @ a)" "deps_first reqs (st @ a)"
          "set (reqs p) \<subseteq> set (st @ a)" "\<forall>q\<in>set a. rank q < rank p" by blast
      have "p \<notin> set (st @ a)" using False a(4) by auto
      from deps_first_snoc [OF a(2) this a(3)] have ok: "deps_first reqs ((st @ a) @ [p])" .
      have "\<forall>q\<in>set ps. rank q < n" using Cons.prems(2) by simp
      from Cons.IH [OF ok this] obtain b where
        b: "init_all reqs ps ((st @ a) @ [p]) = Some (((st @ a) @ [p]) @ b)"
          "deps_first reqs (((st @ a) @ [p]) @ b)" "set ps \<subseteq> set (((st @ a) @ [p]) @ b)" "\<forall>q\<in>set b. rank q < n"
        by blast
      have "init_all reqs (p # ps) st = Some (st @ a @ p # b)"
        using False a(1) b(1) by (subst init_all.simps) simp
      then show ?thesis using b(2-4) a(4) \<open>rank p < n\<close>
        by (intro exI [of _ "a @ p # b"]) (auto intro: less_trans)
    qed
  qed
qed



subsection \<open>What requests leave as it was\<close>

text \<open>The keys of the node in the store, and that nothing is pending there.\<close>

definition self_keys :: "Chain \<Rightarrow> string \<times> string" where
  "self_keys ch = (self_value (ch_kv ch) ''self_enc_sk'', self_value (ch_kv ch) ''self_cert'')"

definition keys_kept :: "(Chain, 'a) prog \<Rightarrow> bool" where
  "keys_kept m \<longleftrightarrow> (\<forall>ch. idle (ch_kv ch) \<longrightarrow> idle (ch_kv (fst (m ch))) \<and> self_keys (fst (m ch)) = self_keys ch)"

named_theorems kept

lemma keys_kept_pure [kept]: "keys_kept (slift r)" "keys_kept (sret x)"
  by (simp_all add: keys_kept_def)

lemma keys_kept_sbind [kept]: "keys_kept m \<Longrightarrow> (\<And>x. keys_kept (k x)) \<Longrightarrow> keys_kept (sbind m k)"
  unfolding keys_kept_def sbind_def by (auto split: prod.split sum.split)

lemma keys_kept_guard [kept]: "keys_kept m \<Longrightarrow> keys_kept (\<lambda>ch. if P ch then (ch, r) else m ch)"
  by (simp add: keys_kept_def)

lemma keys_kept_assign [kept]: "(\<And>x ch. ch_kv (upd x ch) = ch_kv ch) \<Longrightarrow> keys_kept (assign r upd)"
  by (cases r) (simp_all add: keys_kept_def self_keys_def)

lemma keys_kept_save: "what \<in> set db_names \<Longrightarrow> what \<noteq> ''self_info'' \<Longrightarrow> keys_kept (on_kv (\<lambda>kv. (save_all what kvs kv, b)))"
  by (simp add: keys_kept_def on_kv_def self_keys_def save_all_db getValueByKey_kept)

lemma initWorld_kept: "keys_kept (initWorld w)"
  unfolding initWorld_def saveWorld_def [abs_def] saveLatestWorldId_def [abs_def]
  by (intro kept keys_kept_save) simp_all

lemma saveChain_kept: "keys_kept (\<lambda>ch. case saveChain c (ch_kv ch) of (kv, r) \<Rightarrow> (ch\<lparr>ch_kv := kv\<rparr>, r))"
  using keys_kept_save [of "''chain''" "chain_entries c" True]
  by (auto simp: keys_kept_def saveChain_def on_kv_def self_keys_def split: prod.split)

lemma initChain_kept: "keys_kept (initChain c)"
  unfolding initChain_def saveLatestChainId_def [abs_def]
  by (intro kept saveChain_kept keys_kept_save) simp_all

lemma initBuiltIn_kept: "keys_kept (initBuiltInContracts env)"
  by (auto simp: keys_kept_def initBuiltInContracts_def assign_def self_keys_def split: sum.split)

subsection \<open>Sequences of requests\<close>

inductive admin_step :: "admin_env \<Rightarrow> admin_state \<Rightarrow> admin_state \<Rightarrow> bool" for env where
  on_setup: "admin_step env st (fst (setup_key env received st))"
| on_login: "admin_step env st (fst (login env pass st))"
| on_start: "admin_step env st (fst (start_node mode st))"
| on_world: "admin_step env st (fst (load_world env path st))"
| on_load: "admin_step env st (fst (load_chain env path st))"

definition admin_start :: "admin_state \<Rightarrow> bool" where
  "admin_start st \<longleftrightarrow> \<not> al_running (ad_app st) \<and> \<not> al_user_login (ad_app st) \<and> idle (ch_kv (ad_chain st))"

text \<open>A running node has its world and chain, and in default mode a user; a user is signed in with the
  stored keys, which are not empty.\<close>

definition run_ok :: "Application \<Rightarrow> bool" where
  "run_ok a \<longleftrightarrow> (al_running a \<longrightarrow> al_load_world a \<and> al_load_chain a \<and> (al_run_mode a = MODE_DEFAULT \<longrightarrow> al_user_login a))"

definition login_ok :: "Application \<Rightarrow> Chain \<Rightarrow> bool" where
  "login_ok a ch \<longleftrightarrow> (al_user_login a \<longrightarrow> self_keys ch = (al_my_sk a, al_my_cert a) \<and> al_my_sk a \<noteq> [] \<and> al_my_cert a \<noteq> [])"

definition admin_inv :: "admin_state \<Rightarrow> bool" where
  "admin_inv st \<longleftrightarrow> run_ok (ad_app st) \<and> login_ok (ad_app st) (ad_chain st) \<and> idle (ch_kv (ad_chain st))"

lemma app_updates [simp]:
  "run_ok (completeUserSetup a) = run_ok a" "login_ok (completeUserSetup a) ch = login_ok a ch"
  "login_ok (completeLoadWorld a) ch = login_ok a ch" "login_ok (resetLoadChainState a) ch = login_ok a ch"
  "login_ok (completeLoadChain a) ch = login_ok a ch"
  by (auto simp: run_ok_def login_ok_def completeUserSetup_def completeLoadWorld_def resetLoadChainState_def
      completeLoadChain_def)

lemma load_chain_run_ok: "run_ok a \<Longrightarrow> run_ok (completeLoadChain a)"
  by (simp add: run_ok_def completeLoadChain_def)

lemma on_app_simps [simp]: "ad_app (on_app f st) = f (ad_app st)" "ad_chain (on_app f st) = ad_chain st"
  by (simp_all add: on_app_def)

lemma on_chain_inv:
  assumes "keys_kept m" "admin_inv st" "on_chain m st = (st', r)"
  shows "admin_inv st' \<and> ad_app st' = ad_app st"
proof (cases "m (ad_chain st)")
  case (Pair ch x)
  then have "idle (ch_kv ch) \<and> self_keys ch = self_keys (ad_chain st)"
    using assms(1,2) by (metis admin_inv_def fst_conv keys_kept_def)
  then show ?thesis using assms(2,3) Pair by (auto simp: on_chain_def admin_inv_def login_ok_def)
qed

lemma idle_save_self: "idle kv \<Longrightarrow> idle (fst (saveSelfInfo i kv))"
  by (simp add: saveSelfInfo_def save_all_db db_names_def)

lemma setup_inv:
  assumes "admin_inv st"
  shows "admin_inv (fst (setup_key env received st))"
proof -
  have fresh: "\<not> al_user_login (ad_app st)" if "\<not> isAlreadySetup (ch_kv (ad_chain st))"
    using assms that by (auto simp: admin_inv_def login_ok_def isAlreadySetup_def self_keys_def split: if_splits)
  show ?thesis
    using assms fresh
    by (auto simp: setup_key_def with_middleware_def middleware_setup_key_def sbind_def accept_key_info_def
        admin_saveSelfInfo_def on_chain_def on_kv_def admin_inv_def run_ok_def login_ok_def idle_save_self
        completeUserSetup_def assign_def Let_def split: sum.split option.split prod.split bool.split if_splits)
qed

lemma login_inv: "admin_inv st \<Longrightarrow> admin_inv (fst (login env pass st))"
  by (auto simp: login_def with_middleware_def middleware_login_def Let_def admin_inv_def run_ok_def login_ok_def
      completeUserSignedIn_def completeUserSetup_def self_keys_def)

lemma start_inv: "admin_inv st \<Longrightarrow> admin_inv (fst (start_node mode st))"
  by (auto simp: start_node_def start_refusal_def Let_def admin_inv_def run_ok_def login_ok_def split: if_splits)

lemma load_world_inv:
  assumes "admin_inv st"
  shows "admin_inv (fst (load_world env path st))"
proof (cases "al_running (ad_app st)")
  case True
  then show ?thesis using assms by (simp add: load_world_def with_middleware_def middleware_load_world_def)
next
  case False
  have loaded: "admin_inv (on_app (\<lambda>a. completeLoadWorld (resetLoadChainState a)) st1)"
    if "admin_inv st1" "ad_app st1 = ad_app st" for st1
    using that False by (simp add: admin_inv_def run_ok_def completeLoadWorld_def resetLoadChainState_def login_ok_def)
  show ?thesis
    using assms False on_chain_inv [OF initWorld_kept assms] loaded
    by (auto simp: load_world_def with_middleware_def middleware_load_world_def split: sum.split prod.split)
qed

lemma load_chain_inv:
  assumes "admin_inv st"
  shows "admin_inv (fst (load_chain env path st))"
proof -
  have loaded: "admin_inv st2" if "admin_inv st1" "on_chain (initBuiltInContracts env) (on_app completeLoadChain st1) = (st2, r)"
    for st1 st2 r
  proof -
    have "admin_inv (on_app completeLoadChain st1)" using that(1) by (simp add: admin_inv_def load_chain_run_ok)
    then show ?thesis using on_chain_inv [OF initBuiltIn_kept _ that(2)] by simp
  qed
  show ?thesis
    using assms on_chain_inv [OF initChain_kept assms]
    by (auto simp: load_chain_def with_middleware_def split: sum.split option.split prod.split) (blast intro: loaded)+
qed

interpretation admin: state_machine admin_start "admin_step env" admin_inv for env
proof
  show "admin_start st \<Longrightarrow> admin_inv st" for st
    by (simp add: admin_start_def admin_inv_def run_ok_def login_ok_def)
  show "admin_step env st t \<Longrightarrow> admin_inv st \<Longrightarrow> admin_inv t" for st t
    by (induction rule: admin_step.induct) (simp_all add: setup_inv login_inv start_inv load_world_inv load_chain_inv)
qed


subsection \<open>What reaches the network plugin\<close>

lemma control_type:
  "json_get_int (login_command sk cert pass) ''type'' = Inr CTL_LOGIN"
  "json_get_int (load_chain_command ts) ''type'' = Inr CTL_LOAD_CHAIN"
  by (simp_all add: json_get_int_def json_member_opt_def json_contains_def json_idx_def login_command_def
      load_chain_command_def json_obj_def i32_def)

lemma control_login:
  "controlNet (login_command sk cert pass) ns
     = (ns\<lparr>ns_users := (ns_users ns)\<lparr>pm_enc_sk := sk, pm_cert := cert, pm_pass := pass\<rparr>\<rparr>, Inr ())"
  unfolding controlNet_def control_type
  by (simp add: on_users_def setSelfKeyInfo_def json_get_def json_contains_def
      json_idx_def login_command_def json_obj_def)

lemma add_trackers:
  "seq (map (\<lambda>j. assign (json_to_str j) (\<lambda>a s. s\<lparr>ns_trackers := ns_trackers s @ [a]\<rparr>)) (map JStr ts)) ns
     = (ns\<lparr>ns_trackers := ns_trackers ns @ ts\<rparr>, Inr ())"
  by (induction ts arbitrary: ns) simp_all

lemma control_load_chain:
  "controlNet (load_chain_command ts) ns = (ns\<lparr>ns_trackers := ns_trackers ns @ ts\<rparr>, Inr ())"
  unfolding controlNet_def control_type using add_trackers [of ts ns]
  by (simp add: json_at_mut_def load_chain_command_def json_obj_def json_items_def o_def)

lemma saved_self_info:
  assumes "idle kv" "kv_ok kv ''self_info''"
  shows "self_value (fst (saveSelfInfo \<lparr>si_enc_sk = sk, si_cert = cert, si_id = i\<rparr> kv)) ''self_enc_sk'' = sk"
    and "self_value (fst (saveSelfInfo \<lparr>si_enc_sk = sk, si_cert = cert, si_id = i\<rparr> kv)) ''self_cert'' = cert"
  using assms by (auto simp: saveSelfInfo_def db_names_def intro: getValueByKey_saved)

text \<open>Keys set up on a node that has none can be signed in with by their password: the node takes the
  identifier from the certificate, and the message published makes the user pool of the network plugin
  sign with these keys.\<close>

theorem setup_then_login:
  assumes "idle (ch_kv (ad_chain st))" "kv_ok (ch_kv (ad_chain st)) ''self_info''"
    and "\<not> isAlreadySetup (ch_kv (ad_chain st))" "\<not> al_running (ad_app st)" "\<not> al_user_login (ad_app st)"
    and "runSetup env received = Inr (Some info)" "json_get info ''enc_sk'' = Inr (Some sk)"
      "json_get info ''cert'' = Inr (Some cert)"
    and "sk \<noteq> []" "cert \<noteq> []" "ae_common_name env cert = Some common_name" "ae_load_key env sk pass"
  shows "\<exists>st1 st2. setup_key env received st = (st1, Inr (admin_ok [], []))
     \<and> al_id (ad_app st1) = u_from58 (n_utils (ae_net env)) common_name
     \<and> login env pass st1 = (st2, Inr (admin_ok [], [login_command sk cert pass]))
     \<and> al_user_login (ad_app st2)
     \<and> (\<forall>ns. controlNet (login_command sk cert pass) ns
          = (ns\<lparr>ns_users := (ns_users ns)\<lparr>pm_enc_sk := sk, pm_cert := cert, pm_pass := pass\<rparr>\<rparr>, Inr ()))"
proof -
  let ?id = "u_from58 (n_utils (ae_net env)) common_name"
  let ?ch = "(ad_chain st)\<lparr>ch_kv := fst (saveSelfInfo \<lparr>si_enc_sk = sk, si_cert = cert, si_id = ?id\<rparr> (ch_kv (ad_chain st)))\<rparr>"
  let ?st1 = "st\<lparr>ad_chain := ?ch, ad_app := completeUserSetup ((ad_app st)\<lparr>al_id := ?id\<rparr>)\<rparr>"
  have one: "setup_key env received st = (?st1, Inr (admin_ok [], []))"
    using assms(3,6-11) by (simp add: setup_key_def with_middleware_def middleware_setup_key_def accept_key_info_def
        value_or_empty_def verifyUserKeyInfo_def admin_saveSelfInfo_def on_chain_def on_kv_def on_app_def sbind_def Let_def)
  have two: "login env pass ?st1 = (on_app (\<lambda>a. completeUserSignedIn sk cert pass (completeUserSetup a)) ?st1,
      Inr (admin_ok [], [login_command sk cert pass]))"
    using assms(4,5,9,10,12) saved_self_info [OF assms(1,2), of sk cert ?id]
    by (simp add: login_def with_middleware_def middleware_login_def completeUserSetup_def Let_def)
  show ?thesis
    using one two control_login by (intro exI conjI) (assumption | simp add: completeUserSetup_def completeUserSignedIn_def)+
qed

text \<open>Trackers of earlier chains stay: loading a chain appends to the addresses the plugin has.\<close>

theorem trackers_accumulate:
  assumes "\<not> al_running (ad_app st)" "loadJson env path = Inr chain"
    and "initChain chain (ad_chain st) = (ch1, Inr (Some trackers))"
    and "built_in_contracts env ch1 BuiltInContractList [] = Inr cs"
  shows "snd (load_chain env path st) = Inr (admin_ok [], [load_chain_command trackers])
    \<and> controlNet (load_chain_command trackers) ns = (ns\<lparr>ns_trackers := ns_trackers ns @ trackers\<rparr>, Inr ())"
  using assms control_load_chain
  by (simp add: load_chain_def with_middleware_def middleware_load_chain_def on_chain_def on_app_def
      initBuiltInContracts_def)

text \<open>When the built-in contracts of a chain cannot be set up, the request is answered as failed and yet
  the chain counts as loaded: a node in monitoring mode starts on it.\<close>

theorem failed_chain_counts_as_loaded:
  assumes "\<not> al_running (ad_app st)" "al_load_world (ad_app st)" "loadJson env path = Inr chain"
    and "initChain chain (ad_chain st) = (ch1, Inr (Some trackers))"
    and "built_in_contracts env ch1 BuiltInContractList [] = Inl e" "e \<noteq> Undefined_Behaviour"
  shows "\<exists>st1 st2. load_chain env path st
       = (st1, Inr (admin_fail ''Cannot load the local chain.'', [load_chain_command trackers]))
     \<and> start_node MODE_MONITOR st1
       = (st2, Inr (admin_ok ''Start to running the node on monitor mode'', [start_command MODE_MONITOR]))
     \<and> check_status st2"
  using assms
  by (simp add: load_chain_def with_middleware_def middleware_load_chain_def on_chain_def on_app_def caught_all_def
      initBuiltInContracts_def completeLoadChain_def start_node_def start_refusal_def check_status_def Let_def)

subsection \<open>Witnesses\<close>

definition demo_chain_json :: "string \<Rightarrow> json" where
  "demo_chain_json after = json_obj
     [(''chain'', json_obj [(''id'', JStr ''C''), (''world'', JStr ''W''), (''after'', JStr after)]),
      (''policy'', json_obj [(''allow_custom_contract'', JBool True), (''allow_oracle'', JBool True),
         (''allow_tag'', JBool True), (''allow_heavy_contract'', JBool True)]),
      (''creator'', json_obj [(''id'', JStr ''c''), (''cert'', JArr [JStr ''p'']), (''sig'', JStr ''s'')]),
      (''tracker'', JArr [json_obj [(''address'', JStr ''t:1'')]])]"

definition demo_key_info :: json where
  "demo_key_info = json_obj [(''enc_sk'', JStr ''sk''), (''cert'', JStr ''cert'')]"

definition demo_admin_env :: admin_env where
  "demo_admin_env = \<lparr>ae_net = demo_net\<lparr>n_utils := demo_utils\<lparr>u_to_cbor := (\<lambda>_. ''B''), u_from_cbor := (\<lambda>_. Some demo_key_info)\<rparr>\<rparr>,
     ae_files = (\<lambda>p. if p = ''good'' then Json_File (demo_chain_json ''7'')
        else if p = ''undated'' then Json_File (demo_chain_json ''soon'') else No_File p),
     ae_common_name = (\<lambda>c. if c = ''cert'' then Some ''id'' else None),
     ae_load_key = (\<lambda>sk pass. pass = ''pw''), ae_edit_contract = (\<lambda>xml cid after. Some (''desc'', xml))\<rparr>"

definition demo_admin :: "(string \<Rightarrow> string option) \<Rightarrow> admin_state" where
  "demo_admin self = \<lparr>ad_app = Application_new\<lparr>al_load_world := True\<rparr>,
     ad_chain = (demo_chain_on demo_start)\<lparr>ch_kv := demo_kv\<lparr>kv_db := (\<lambda>db. if db = ''self_info'' then self else (\<lambda>_. None))\<rparr>,
       ch_app := \<lparr>ap_world_id = ''W'', ap_chain_id = [], ap_auth_cert = []\<rparr>\<rparr>\<rparr>"

abbreviation demo_self :: "string \<Rightarrow> string option" where
  "demo_self \<equiv> [''self_enc_sk'' \<mapsto> ''sk'', ''self_cert'' \<mapsto> ''cert'']"

lemmas demo_admin_simps = demo_admin_def demo_admin_env_def Application_new_def demo_kv_def idle_def

abbreviation demo_ready :: admin_state where
  "demo_ready \<equiv> (demo_admin demo_self)\<lparr>ad_app := Application_new\<lparr>al_load_world := True, al_load_chain := True\<rparr>\<rparr>"


theorem setup_then_login_witness:
  "\<exists>st1 st2. setup_key demo_admin_env (Some (pack (ae_net demo_admin_env) demo_ids \<lparr>out_type = MSG_SETUP_MERGER, out_body = demo_key_info,
       out_receivers = []\<rparr>)) (demo_admin (\<lambda>_. None)) = (st1, Inr (admin_ok [], []))
     \<and> login demo_admin_env ''pw'' st1 = (st2, Inr (admin_ok [], [login_command ''sk'' ''cert'' ''pw'']))"
proof -
  let ?m = "pack (ae_net demo_admin_env) demo_ids \<lparr>out_type = MSG_SETUP_MERGER, out_body = demo_key_info, out_receivers = []\<rparr>"
  let ?net = "demo_net\<lparr>n_utils := demo_utils\<lparr>u_to_cbor := (\<lambda>_. ''B''), u_from_cbor := (\<lambda>_. Some demo_key_info)\<rparr>\<rparr>"
  have net: "ae_net demo_admin_env = ?net"
    by (simp add: demo_admin_env_def demo_net_def)
  have "fits (message_shape MSG_SETUP_MERGER) demo_key_info"
    by (simp add: message_shape_def message_shapes_def demo_key_info_def json_obj_def)
  then have "parseMessage ?net (pack ?net demo_ids \<lparr>out_type = MSG_SETUP_MERGER, out_body = demo_key_info, out_receivers = []\<rparr> @ [])
      = Inr (Some \<lparr>in_type = MSG_SETUP_MERGER, in_body = demo_key_info, in_sender_id = u_to58 (n_utils ?net) (ni_self demo_ids)\<rparr>, [])"
    by (subst parse_packed [where raw = "''B''"]) (simp_all add: demo_ids_def demo_net_def)
  then have "runSetup demo_admin_env (Some ?m) = Inr (Some demo_key_info)"
    by (simp add: runSetup_def setup_message_def net)
  from setup_then_login [of "demo_admin (\<lambda>_. None)" demo_admin_env "Some ?m" demo_key_info "''sk''" "''cert''" "''id''" "''pw''",
      OF _ _ _ _ _ this]
  show ?thesis
    by (auto simp: demo_admin_simps isAlreadySetup_def getValueByKey_def demo_key_info_def json_obj_def json_get_def
        json_contains_def json_idx_def)
qed

definition demo_loaded :: "string \<Rightarrow> Chain" where
  "demo_loaded after = fst (initChain (demo_chain_json after) (ad_chain (demo_admin (\<lambda>_. None))))"

lemma demo_initChain:
  "initChain (demo_chain_json after) (ad_chain (demo_admin (\<lambda>_. None))) = (demo_loaded after, Inr (Some [''t:1'']))"
  "getValueByKey (ch_kv (demo_loaded after)) ''chain'' ''C_ctime'' = after"
  "ap_chain_id (ch_app (demo_loaded after)) = ''C''"
proof -
  have c: "unmarshalChainState (demo_chain_json after) = Inr \<lparr>lc_chain_id = ''C'', lc_world_id = ''W'', lc_created_time = after,
      lc_allow_custom_contract = True, lc_allow_oracle = True, lc_allow_tag = True, lc_allow_heavy_contract = True,
      lc_creator_id = ''c'', lc_creator_pk = parseCertContent [''p''], lc_creator_sig = ''s'', lc_tracker_addresses = [''t:1'']\<rparr>"
    by (simp add: unmarshalChainState_def demo_chain_json_def json_obj_def json_to_bool_def json_to_strs_def json_items_def)
  have kv: "idle (ch_kv (ad_chain (demo_admin (\<lambda>_. None))))" "kv_ok (ch_kv (ad_chain (demo_admin (\<lambda>_. None)))) d" for d
    by (simp_all add: demo_admin_simps)
  show "initChain (demo_chain_json after) (ad_chain (demo_admin (\<lambda>_. None))) = (demo_loaded after, Inr (Some [''t:1'']))"
    "ap_chain_id (ch_app (demo_loaded after)) = ''C''"
    by (simp_all add: demo_loaded_def initChain_def c saveChain_def on_kv_def sbind_def demo_admin_def)
  show "getValueByKey (ch_kv (demo_loaded after)) ''chain'' ''C_ctime'' = after"
    using kv by (auto simp: demo_loaded_def initChain_def c saveChain_def on_kv_def sbind_def demo_admin_def
        saveLatestChainId_def save_all_db chain_entries_def getValueByKey_kept intro!: getValueByKey_saved)
qed

theorem failed_chain_counts_as_loaded_witness:
  "\<exists>st1 st2. load_chain demo_admin_env ''undated'' (demo_admin (\<lambda>_. None))
       = (st1, Inr (admin_fail ''Cannot load the local chain.'', [load_chain_command [''t:1'']]))
     \<and> start_node MODE_MONITOR st1
       = (st2, Inr (admin_ok ''Start to running the node on monitor mode'', [start_command MODE_MONITOR]))
     \<and> check_status st2"
proof (rule failed_chain_counts_as_loaded [OF _ _ _ demo_initChain(1)])
  have "stou64 ''soon'' = Inl Invalid_Argument" by code_simp
  then show "built_in_contracts demo_admin_env (demo_loaded ''soon'') BuiltInContractList [] = Inl Invalid_Argument"
    using demo_initChain(2,3) [of "''soon''"]
    by (simp add: BuiltInContractList_def built_in_contract_def demo_admin_env_def Let_def)
qed (simp_all add: demo_admin_simps loadJson_def)

theorem trackers_accumulate_witness:
  "snd (load_chain demo_admin_env ''good'' (demo_admin (\<lambda>_. None))) = Inr (admin_ok [], [load_chain_command [''t:1'']])
   \<and> controlNet (load_chain_command [''t:1'']) ns = (ns\<lparr>ns_trackers := ns_trackers ns @ [''t:1'']\<rparr>, Inr ())"
proof -
  have "stou64 ''7'' = Inr 7" by code_simp
  then have "\<exists>cs. built_in_contracts demo_admin_env (demo_loaded ''7'') BuiltInContractList [] = Inr cs"
    using demo_initChain(2,3) [of "''7''"]
    by (simp add: BuiltInContractList_def built_in_contract_def demo_admin_env_def Let_def)
  then obtain cs where cs: "built_in_contracts demo_admin_env (demo_loaded ''7'') BuiltInContractList [] = Inr cs" ..
  show ?thesis
    by (rule trackers_accumulate [OF _ _ demo_initChain(1) cs]) (simp_all add: demo_admin_simps loadJson_def)
qed

end
