(* ===== verification/Schema_Props.thy ===== *)
theory Schema_Props
  imports Rpc_Props Chain_Plugin
begin

text \<open>
  What the schemas of messages are good for.  The check of a body decides membership in a type; a body
  of the right type keeps the handlers of the key exchange and the reader of blocks from reading what
  is not there.  The schema of transactions does not, and for two types of messages no body passes
  both the schema and the validator of entries.
\<close>

subsection \<open>The check decides a type\<close>

text \<open>C25: a body is accepted as a message of some type exactly when it belongs to the type of JSON values
  written down for that type of message; the schema is inserted and checked without an error of its
  own, and for a type without a schema every body is accepted.\<close>

theorem schema_decides_shape:
  "validateSchema env (Some j) t = Inr (fits (message_shape t) j)
   \<and> (map_of schema_map t = None \<longleftrightarrow> message_shape t = Any)"
proof -
  have "map_of schema_map t = None \<longleftrightarrow> map_of message_shapes t = None"
    by (simp add: map_of_eq_None_iff) (simp add: schema_map_def message_shapes_def)
  moreover have "map_of message_shapes t \<noteq> Some Any"
    by (auto simp: message_shapes_def request_shape_def block_shape_def response1_shape_def tx_shape_def)
  ultimately show ?thesis
    using validateSchema_fits by (auto simp: message_shape_def split: option.splits)
qed

text \<open>C26: validation by a schema without references ends, whatever the value is, on a stack two levels
  deeper than the schema is large; a deeper stack gives the same outcome.\<close>

theorem validation_ends:
  assumes "\<And>re t. je_regex_search env re t \<noteq> Inl Undefined_Behaviour"
    and "ref_free schema" "Suc (size schema) < n" "n \<le> n'"
  shows "jv_validate env refs n inst schema \<noteq> Inl Undefined_Behaviour
    \<and> jv_validate env refs n' inst schema = jv_validate env refs n inst schema"
proof -
  have "ends (jv_validate env refs n inst schema)"
    using assms by (intro jv_validate_ends) (simp_all add: regex_ends_def ends_def)
  then show ?thesis using jv_validate_deeper [OF assms(4)] by (simp add: ends_def)
qed

theorem validation_ends_witness:
  "jv_validate demo_json_env [] 100 (JInt 2) (JObj [(''not'', JObj [(''enum'', JArr [JInt 1])])]) \<noteq> Inl Undefined_Behaviour"
  using validation_ends [of demo_json_env "JObj [(''not'', JObj [(''enum'', JArr [JInt 1])])]" 100 100 "[]" "JInt 2"]
  by (simp add: demo_json_env_def)

subsection \<open>Typed bodies\<close>

lemma parsed_fits:
  assumes "parseMessage n packed = Inr (Some msg, e)" "je_assertions (n_json n)"
  shows "fits (message_shape (in_type msg)) (in_body msg)"
proof -
  obtain body t where "validateSchema (n_json n) body t = Inr True" "in_type msg = t"
    "in_body msg = (case body of Some j \<Rightarrow> j | None \<Rightarrow> JNull)"
    using assms(1) by (auto simp: parseMessage_def Let_def rbind_eq_Inr split: if_splits)
  then show ?thesis
    using assms(2) by (cases body) (auto simp: validateSchema_discarded validateSchema_fits)
qed

text \<open>What reading a member of a typed object gives.\<close>

lemma fits_object:
  assumes "fits (Fields fs rs) j"
  obtains m where "j = JObj m" "\<And>k. k \<in> set rs \<Longrightarrow> map_of m k \<noteq> None"
    "\<And>k sh x. map_of fs k = Some sh \<Longrightarrow> distinct (map fst fs) \<Longrightarrow> map_of m k = Some x \<Longrightarrow> fits sh x"
proof -
  obtain m where m: "j = JObj m" using assms by (cases j) auto
  show ?thesis
  proof (rule that [OF m])
    show "map_of m k \<noteq> None" if "k \<in> set rs" for k using assms m that by (auto simp: list_all_iff)
    show "fits sh x" if "map_of fs k = Some sh" "distinct (map fst fs)" "map_of m k = Some x" for k sh x
      using assms m that by (auto simp: fits_fields_iff list_all_iff dest!: map_of_SomeD [of m])
  qed
qed

lemma typed_member:
  assumes "fits (Fields fs rs) j" "distinct (map fst fs)" "k \<in> set rs" "map_of fs k = Some sh"
  shows "\<exists>x. json_idx j k = Inr x \<and> json_member_opt j k = Inr (Some x) \<and> json_contains j k \<and> fits sh x"
proof (rule fits_object [OF assms(1)])
  fix m
  assume m: "j = JObj m" and have_all: "\<And>k. k \<in> set rs \<Longrightarrow> map_of m k \<noteq> None"
    and typed: "\<And>k sh x. map_of fs k = Some sh \<Longrightarrow> distinct (map fst fs) \<Longrightarrow> map_of m k = Some x \<Longrightarrow> fits sh x"
  obtain x where x: "map_of m k = Some x" using have_all [OF assms(3)] by auto
  then show ?thesis using typed [OF assms(4,2) x] m
    by (simp add: json_idx_def json_member_opt_def json_contains_def)
qed

lemma fits_Text: "fits Text x \<longleftrightarrow> (\<exists>s. x = JStr s)"
  by (cases x) simp_all

lemma typed_text:
  assumes "fits (Fields fs rs) j" "distinct (map fst fs)" "k \<in> set rs" "map_of fs k = Some Text"
  shows "\<exists>s. json_str j k = Inr s \<and> json_get j k = Inr (Some s) \<and> json_idx j k = Inr (JStr s)"
  using typed_member [OF assms] unfolding fits_Text by (auto simp: json_str_def json_get_def opt_value_def)

lemma shape_join: "message_shape MSG_JOIN
    = Fields (Texts [''chain'', ''merger'', ''time'', ''user'', ''world'']) [''time'', ''world'', ''chain'', ''user'', ''merger'']"
  and shape_response1: "message_shape MSG_RESPONSE_1 = response1_shape"
  and shape_success: "message_shape MSG_SUCCESS
    = Fields [(''mode'', Text), (''time'', Text), (''user'', Text), (''val'', Truth)] [''time'', ''user'', ''mode'', ''val'']"
  by (simp_all add: message_shape_def message_shapes_def)

lemma typed_response1:
  assumes "fits response1_shape body"
  obtains dh ui x y un ts pk sg where
    "json_member_opt body ''dh'' = Inr (Some dh)" "json_idx body ''dh'' = Inr dh"
    "json_member_opt body ''user'' = Inr (Some ui)" "json_idx body ''user'' = Inr ui"
    "json_get body ''un'' = Inr (Some un)" "json_str body ''un'' = Inr un" "json_get body ''time'' = Inr (Some ts)"
    "json_get dh ''x'' = Inr (Some x)" "json_str dh ''x'' = Inr x"
    "json_get dh ''y'' = Inr (Some y)" "json_str dh ''y'' = Inr y"
    "json_get ui ''pk'' = Inr (Some pk)" "json_str ui ''pk'' = Inr pk" "json_get ui ''sig'' = Inr (Some sg)"
proof -
  note body = assms [unfolded response1_shape_def]
  obtain dh where dh: "json_member_opt body ''dh'' = Inr (Some dh)" "json_idx body ''dh'' = Inr dh"
    "fits (Fields (Texts [''x'', ''y'']) [''x'', ''y'']) dh"
    using typed_member [OF body, of "''dh''"] by auto
  obtain ui where ui: "json_member_opt body ''user'' = Inr (Some ui)" "json_idx body ''user'' = Inr ui"
    "fits (Fields (Texts [''id'', ''pk'', ''sig'']) [''id'', ''pk'', ''sig'']) ui"
    using typed_member [OF body, of "''user''"] by auto
  show ?thesis
    using typed_text [OF body, of "''un''"] typed_text [OF body, of "''time''"]
      typed_text [OF dh(3), of "''x''"] typed_text [OF dh(3), of "''y''"]
      typed_text [OF ui(3), of "''pk''"] typed_text [OF ui(3), of "''sig''"] that [OF dh(1,2) ui(1,2)]
    by auto
qed



subsection \<open>Reading a typed block\<close>

text \<open>A reader never reads what is not there, whatever it fills.\<close>

definition reads :: "('s, 'a) prog \<Rightarrow> bool" where
  "reads p \<longleftrightarrow> (\<forall>s. ends (snd (p s)))"

named_theorems reading \<open>readers that stay within the value they read\<close>

lemma reads_sbind [reading]: "reads p \<Longrightarrow> (\<And>x. reads (k x)) \<Longrightarrow> reads (sbind p k)"
  by (auto simp: reads_def sbind_def ends_def split: prod.split sum.split) (metis snd_conv)

lemma reads_basic [reading]: "reads (sret x)" "ends r \<Longrightarrow> reads (slift r)" "ends r \<Longrightarrow> reads (assign r f)"
  by (auto simp: reads_def sret_def assign_def slift_def ends_def split: sum.split)

lemma reads_seq [reading]: "reads (seq [])" "reads p \<Longrightarrow> reads (seq ps) \<Longrightarrow> reads (seq (p # ps))"
  by (simp_all add: seq_def reading)

lemma reads_seq_map: "(\<And>x. x \<in> set xs \<Longrightarrow> reads (f x)) \<Longrightarrow> reads (seq (map f xs))"
  by (induction xs) (simp_all add: reading)

lemma sbind_slift: "sbind (slift (Inr x)) k = k x"
  by (simp add: fun_eq_iff sbind_def slift_def)

lemma reads_if [reading]: "(c \<Longrightarrow> reads p) \<Longrightarrow> (\<not> c \<Longrightarrow> reads q) \<Longrightarrow> reads (if c then p else q)"
  by simp

lemma ends_stox [not_stuck]: "ends (stoi t)" "ends (stou64 t)"
  by (auto simp: ends_def stoi_def stou64_def stoll_def rbind_eq_Inl split: option.splits if_splits)

lemma ends_opt_value [not_stuck]: "ends (opt_value x)"
  by (simp add: ends_def opt_value_def split: option.split)

lemma ends_get [not_stuck]: "ends (json_get j k)"
  by (auto simp: json_get_def json_contains_def json_idx_def json_to_str_def ends_def split: json.split option.split)

lemma ends_str [not_stuck]: "ends (json_str j k)"
  unfolding json_str_def by (intro not_stuck)

lemma ends_cert_lines: "\<forall>i\<in>set is. i < length xs \<Longrightarrow> ends (cert_lines (JArr xs) is)"
  by (induction "is") (auto simp: json_nth_def intro!: not_stuck)

lemma ends_parse_cert:
  assumes "fits (Fields [(''cert'', Seq Text), (''id'', Text)] [''id'', ''cert'']) c"
  shows "ends (parse_cert c)"
proof -
  have "ends (cert_lines x [0..<length (json_items x)])" if "fits (Seq Text) x" for x
    using that by (cases x) (auto simp: json_items_def intro: ends_cert_lines)
  moreover obtain x where "json_idx c ''cert'' = Inr x" "fits (Seq Text) x"
    using typed_member [OF assms, of "''cert''" "Seq Text"] by auto
  ultimately show ?thesis
    unfolding parse_cert_def by (auto intro!: not_stuck split: option.split)
qed

lemma ends_parse_signer: "ends (parse_signer j)"
  unfolding parse_signer_def by (intro not_stuck)

lemma typed_idx:
  assumes "fits (Fields fs rs) j" "k \<in> set rs"
  shows "ends (json_idx j k)"
  by (rule fits_object [OF assms(1)]) (use assms(2) in \<open>auto simp: json_idx_def ends_def split: option.split\<close>)

lemma ends_block:
  "fits block_shape j \<Longrightarrow> k \<in> set [''btime'', ''block'', ''tx'', ''state'', ''signer'', ''certificate'', ''producer''] \<Longrightarrow>
    ends (json_idx j k)"
  unfolding block_shape_def by (rule typed_idx)

lemma ends_sub_str:
  "fits block_shape j \<Longrightarrow> k \<in> set [''btime'', ''block'', ''tx'', ''state'', ''signer'', ''certificate'', ''producer''] \<Longrightarrow>
    ends (sub_str j k k')"
  by (intro ends_rbind ends_block ends_str)

lemma reads_head: "fits block_shape j \<Longrightarrow> reads (initialize_head j)"
  unfolding initialize_head_def by (intro reading ends_rbind ends_stox ends_str ends_sub_str; simp)

lemma reads_roots: "fits block_shape j \<Longrightarrow> reads (initialize_roots j)"
  unfolding initialize_roots_def by (intro reading ends_sub_str; simp)

lemma reads_tail:
  assumes "fits block_shape j"
  shows "reads (initialize_tail u j)"
proof -
  obtain c where c: "json_idx j ''certificate'' = Inr c"
    "fits (Seq (Fields [(''cert'', Seq Text), (''id'', Text)] [''id'', ''cert''])) c"
    using typed_member [OF assms [unfolded block_shape_def], of "''certificate''"] by auto
  from c(2) have "reads (setUserCerts c)"
    unfolding setUserCerts_def
    by (cases c) (auto simp: json_items_def list_all_iff intro!: reading reads_seq_map ends_parse_cert not_stuck)
  then have "reads (\<lambda>s. sbind (setUserCerts c) (\<lambda>_. sret ()) s)" by (simp add: reading)
  then have "reads (sbind (slift (json_idx j ''certificate'')) (\<lambda>c. sbind (setUserCerts c) (\<lambda>_. sret ())))"
    by (simp add: sbind_slift c(1))
  then show ?thesis
    unfolding initialize_tail_def using ends_sub_str [OF assms] ends_block [OF assms]
    by (intro reads_seq reads_basic; simp)
qed

lemma setTxaggs_typed:
  "setTxaggs (JArr (map JStr ss)) b = (b\<lparr>m_txaggs := ss\<rparr>, Inr True)"
proof -
  have "seq (map (\<lambda>t. assign (json_to_str t) (\<lambda>x b. b\<lparr>m_txaggs := m_txaggs b @ [x]\<rparr>)) (map JStr ss)) b
      = (b\<lparr>m_txaggs := m_txaggs b @ ss\<rparr>, Inr ())" for b
    by (induction ss arbitrary: b) (simp_all add: seq_def sret_def sbind_def assign_def)
  from this [of "b\<lparr>m_txaggs := []\<rparr>"] show ?thesis
    by (simp add: setTxaggs_def json_is_array_def json_items_def sbind_def sret_def seq_def assign_def)
qed

lemma fits_texts: "list_all (fits Text) xs \<Longrightarrow> \<exists>ss. xs = map JStr ss"
proof (induction xs)
  case (Cons x xs)
  then obtain s ss where "x = JStr s" "xs = map JStr ss" by (auto simp: fits_Text simp del: fits.simps)
  then show ?case by (intro exI [of _ "s # ss"]) simp
qed simp

lemma reads_transactions:
  "(\<And>i a. a \<in> set aggs \<Longrightarrow> ends (read_txagg u i a)) \<Longrightarrow> reads (setTransaction u aggs)"
proof -
  assume "\<And>i a. a \<in> set aggs \<Longrightarrow> ends (read_txagg u i a)"
  then have "reads (seq (map (\<lambda>a. assign (read_txagg u i a) (\<lambda>t b. b\<lparr>m_transactions := m_transactions b @ [t]\<rparr>)) aggs))" for i
    by (intro reads_seq_map reads_basic)
  then have "reads (sbind (seq (assign (Inr ()) (\<lambda>_ b. b\<lparr>m_transactions := []\<rparr>)
      # map (\<lambda>a. assign (read_txagg u i a) (\<lambda>t b. b\<lparr>m_transactions := m_transactions b @ [t]\<rparr>)) aggs))
     (\<lambda>_. sret True))" for i
    by (intro reads_sbind reads_seq reads_basic) (simp_all add: ends_def)
  then show ?thesis unfolding reads_def setTransaction_def by blast
qed

lemma reads_signers: "reads (setSigners j)"
  unfolding setSigners_def
  by (auto intro!: reads_sbind reads_seq reads_seq_map reads_basic ends_parse_signer) (simp add: ends_def)

definition demo_typed_block :: json where
  "demo_typed_block = JObj
     [(''btime'', JStr ''1''),
      (''block'', JObj (map (\<lambda>k. (k, JStr ''1'')) [''id'', ''time'', ''world'', ''chain'', ''height'', ''previd'', ''link'', ''hash''])),
      (''tx'', JArr []), (''state'', JObj (map (\<lambda>k. (k, JStr ''r'')) [''txroot'', ''usroot'', ''csroot'', ''sgroot''])),
      (''signer'', JArr [JObj [(''id'', JStr ''s''), (''sig'', JStr ''q'')]]),
      (''certificate'', JArr [JObj [(''id'', JStr ''s''), (''cert'', JArr [JStr ''line''])]]),
      (''producer'', JObj [(''id'', JStr ''p''), (''sig'', JStr ''q'')])]"

text \<open>C28: a body that passed the schema of blocks is read without touching what is not there, provided the
  same holds of the transactions packed in it, which no schema has seen.\<close>

theorem typed_block:
  assumes "fits (message_shape MSG_BLOCK) j"
    and "\<And>agg i. json_idx j ''tx'' = Inr (JArr txs) \<Longrightarrow> JStr agg \<in> set txs \<Longrightarrow>
      read_txagg u i agg \<noteq> Inl Undefined_Behaviour"
    and "json_idx j ''tx'' = Inr (JArr txs)"
  shows "snd (block_initialize u j b) \<noteq> Inl Undefined_Behaviour"
proof -
  have j: "fits block_shape j" using assms(1) by (simp add: message_shape_def message_shapes_def)
  obtain ss where ss: "txs = map JStr ss"
    using typed_member [OF j [unfolded block_shape_def], of "''tx''" "Seq Text"] assms(3) fits_texts by auto
  have tx: "reads (setTransaction u ss)"
    using assms(2,3) by (intro reads_transactions) (auto simp: ends_def ss)
  have "reads (\<lambda>b. sbind (setTxaggs (JArr txs)) (\<lambda>_. sbind (\<lambda>b. setTransaction u (m_txaggs b) b) (\<lambda>_.
      sbind (initialize_roots j) (\<lambda>_. sbind (slift (json_idx j ''signer'')) (\<lambda>sg. sbind (setSigners sg) (\<lambda>ok.
      if \<not> ok then sret False else sbind (initialize_tail u j) (\<lambda>_. sret True)))))) b)"
  proof -
    have rest: "reads (sbind (setTransaction u ss) (\<lambda>_. sbind (initialize_roots j) (\<lambda>_.
        sbind (slift (json_idx j ''signer'')) (\<lambda>sg. sbind (setSigners sg) (\<lambda>ok.
        if \<not> ok then sret False else sbind (initialize_tail u j) (\<lambda>_. sret True))))))"
      by (intro reads_sbind tx reads_roots [OF j] reads_tail [OF j] reads_signers reads_if reads_basic ends_block [OF j]) simp
    then show ?thesis
      unfolding reads_def ss sbind_def [of "setTxaggs _"] setTxaggs_typed
      by (simp add: sbind_def [of "\<lambda>b. setTransaction u (m_txaggs b) b"] sbind_def [of "setTransaction u ss"])
  qed
  then have "reads (block_initialize u j)"
    unfolding block_initialize_def assms(3)
    by (intro reads_if reads_sbind [OF reads_head [OF j]] reads_basic) (simp add: sbind_slift)
  then show ?thesis by (simp add: reads_def ends_def)
qed

theorem typed_block_witness:
  "snd (block_initialize demo_utils demo_typed_block Block_default) \<noteq> Inl Undefined_Behaviour"
proof -
  have "fits (message_shape MSG_BLOCK) demo_typed_block"
    unfolding message_shape_def message_shapes_def by code_simp
  moreover have "json_idx demo_typed_block ''tx'' = Inr (JArr [])" by code_simp
  ultimately show ?thesis using typed_block [of demo_typed_block "[]" demo_utils Block_default] by simp
qed

subsection \<open>What the schemas miss\<close>

text \<open>The schema of transactions leaves the members of \<open>body\<close> optional: a message that passes it without a
  contract identifier makes the pool of transactions read a member that is not there.\<close>

theorem tx_schema_gap:
  assumes "fits (message_shape MSG_TX) (JObj m)" "map_of m ''body'' = Some (JObj b)" "map_of b ''cid'' = None"
    and "map_of m ''time'' = Some (JStr ts)" "stou64 ts = Inr now"
  shows "pushTransaction v u (JObj m) p = (p, Inl Undefined_Behaviour)"
proof -
  have j: "fits tx_shape (JObj m)" using assms(1) by (simp add: message_shape_def message_shapes_def)
  obtain x y z where "map_of m ''txid'' = Some (JStr x)" "map_of m ''world'' = Some (JStr y)" "map_of m ''chain'' = Some (JStr z)"
    using typed_text [OF j [unfolded tx_shape_def], of "''txid''"] typed_text [OF j [unfolded tx_shape_def], of "''world''"]
      typed_text [OF j [unfolded tx_shape_def], of "''chain''"]
    by (auto simp: json_idx_def split: option.splits)
  then show ?thesis using assms(2-5)
    by (simp add: pushTransaction_def parse_tx_msg_def inputMsgTx_def try_bool_def seq_def sbind_def assign_def)
qed

theorem tx_schema_gap_witness:
  "\<exists>st evs. user_process demo_rpc (demo_packet MSG_TX) demo_net_state
      = (st, Inr (reply_of REP_SUCCESS [] [], Publish CH_transaction demo_mode # evs))
    \<and> pushTransaction demo_verifiers demo_utils demo_mode [] = ([], Inl Undefined_Behaviour)"
proof -
  have "\<exists>st evs. user_process demo_rpc (demo_packet MSG_TX) demo_net_state
      = (st, Inr (reply_of REP_SUCCESS [] [], Publish CH_transaction demo_mode # evs))"
    by (simp add: user_process_def serve_user_alt demo_packets demo_valid demo_length demo_authentic bare_handler
        split: prod.split)
  moreover have "stou64 ''12'' = Inr 12" by code_simp
  ultimately show ?thesis
    using tx_schema_gap [OF demo_fits [of MSG_TX, unfolded demo_mode_def], where ts = "''12''"]
    by (simp add: demo_mode_def)
qed

lemma leaf_text: "map_of m k = Some (JStr s) \<Longrightarrow> (k, s) \<in> set (leaves m)"
  by (induction m rule: leaves.induct) (auto split: if_splits)

lemma leaf_object:
  "map_of m k = Some (JObj m') \<Longrightarrow> k \<noteq> ''where'' \<Longrightarrow> x \<in> set (leaves m') \<Longrightarrow> x \<in> set (leaves m)"
  by (induction m rule: leaves.induct) (auto split: if_splits)

lemma invalid_leaf:
  "(k, s) \<in> set (leaves m) \<Longrightarrow> getEntryType k = ET_NONE \<Longrightarrow> null_free m \<Longrightarrow> \<not> validate_items m"
  by (induction m rule: validate_items.induct) (auto simp: checkEntry_def validateEntry_def split: if_splits)

lemma typed_leaf:
  assumes "fits (Fields fs rs) (JObj m)" "distinct (map fst fs)" "k \<in> set rs" "map_of fs k = Some Text"
  shows "\<exists>s. (k, s) \<in> set (leaves m)"
  using typed_text [OF assms] leaf_text by (auto simp: json_idx_def split: option.splits)

lemma typed_part:
  assumes "fits (Fields fs rs) (JObj m)" "distinct (map fst fs)" "k \<in> set rs" "map_of fs k = Some (Fields gs ss)" "k \<noteq> ''where''"
  shows "\<exists>m'. fits (Fields gs ss) (JObj m') \<and> set (leaves m') \<subseteq> set (leaves m)"
proof -
  obtain x where x: "map_of m k = Some x" "fits (Fields gs ss) x"
    using typed_member [OF assms(1-4)] by (auto simp: json_idx_def split: option.splits)
  then obtain m' where "x = JObj m'" by (cases x) auto
  then show ?thesis using x leaf_object [of m k m'] assms(5) by blast
qed

text \<open>No ping and no query without null members gets past both the schema and the validator of entries:
  the schema requires a member with a key the validator knows no type for.\<close>

theorem unusable_types:
  assumes "t = MSG_PING \<or> t = MSG_QUERY" "fits (message_shape t) (JObj m)" "null_free m"
  shows "\<not> validate (JObj m)"
proof -
  have "\<exists>k s. (k, s) \<in> set (leaves m) \<and> getEntryType k = ET_NONE"
    using assms(1)
  proof
    assume t: "t = MSG_PING"
    have "fits (Fields [(''merger'', Signed), (''status'', Fields
          [(''block'', Fields (Texts [''hash'', ''height'', ''id'', ''pid'']) [''id'', ''pid'', ''height'', ''hash'']),
           (''chain'', Text), (''time'', Text), (''world'', Text)]
          [''time'', ''world'', ''chain'', ''block''])] [''status'', ''merger'']) (JObj m)"
      using assms(2) unfolding t by (simp add: message_shape_def message_shapes_def del: fits.simps)
    from typed_part [OF this, of "''status''"] obtain m1 where m1: "fits (Fields
          [(''block'', Fields (Texts [''hash'', ''height'', ''id'', ''pid'']) [''id'', ''pid'', ''height'', ''hash'']),
           (''chain'', Text), (''time'', Text), (''world'', Text)]
          [''time'', ''world'', ''chain'', ''block'']) (JObj m1)" "set (leaves m1) \<subseteq> set (leaves m)" by auto
    from typed_part [OF m1(1), of "''block''"] obtain m2 where
      "fits (Fields (Texts [''hash'', ''height'', ''id'', ''pid'']) [''id'', ''pid'', ''height'', ''hash'']) (JObj m2)"
      "set (leaves m2) \<subseteq> set (leaves m1)" by auto
    with typed_leaf [OF this(1), of "''pid''"] m1(2) have "\<exists>s. (''pid'', s) \<in> set (leaves m)"
      by (auto simp del: fits.simps)
    moreover have "getEntryType ''pid'' = ET_NONE" by (simp add: getEntryType_def)
    ultimately show ?thesis by blast
  next
    assume t: "t = MSG_QUERY"
    have "fits (Fields [(''type'', Text), (''where'', Fields [] [])] [''type'', ''where'']) (JObj m)"
      using assms(2) unfolding t by (simp add: message_shape_def message_shapes_def del: fits.simps)
    from typed_leaf [OF this, of "''type''"] have "\<exists>s. (''type'', s) \<in> set (leaves m)" by simp
    moreover have "getEntryType ''type'' = ET_NONE" by (simp add: getEntryType_def)
    ultimately show ?thesis by blast
  qed
  then show ?thesis using invalid_leaf assms(3) by (auto simp: validate_def json_kvs_def)
qed

text \<open>A null behind which the validator stops looking lets such a query pass.\<close>

theorem unusable_types_witness:
  "\<not> validate (JObj [(''type'', JStr ''block''), (''where'', JObj [])])
   \<and> validate (JObj [(''pk'', JNull), (''type'', JStr ''block''), (''where'', JObj [])])"
proof -
  have "fits (message_shape MSG_QUERY) (JObj [(''type'', JStr ''block''), (''where'', JObj [])])"
    by (simp add: message_shape_def message_shapes_def)
  moreover have "validate (JObj [(''pk'', JNull), (''type'', JStr ''block''), (''where'', JObj [])])" by code_simp
  ultimately show ?thesis
    using unusable_types [of MSG_QUERY "[(''type'', JStr ''block''), (''where'', JObj [])]"] by simp
qed

text \<open>A body that is no JSON at all ends a program compiled with assertions, whatever type the header names.\<close>

theorem unparsable_body:
  assumes "length packed \<ge> HEADER_LENGTH" "validateMsgHdrFormat (parseHeader (take HEADER_LENGTH packed))"
    and "convertU8ToU32BE (h_total_length (parseHeader (take HEADER_LENGTH packed))) = int (length packed)"
    and "getJson n (h_serialization_algo_type (parseHeader (take HEADER_LENGTH packed))) (drop HEADER_LENGTH packed) = None"
    and "je_assertions (n_json n)"
  shows "parseMessage n packed = Inl Undefined_Behaviour"
  using assms by (auto simp: parseMessage_def Let_def chk_int_def validateSchema_discarded rbind_eq_Inl)

end
