(* ===== verification/Rdb_Controller.thy ===== *)
theory Rdb_Controller
  imports Chain_State
begin

text \<open>
  \<open>rdb_controller.cpp\<close>: the statements sent to the relational database, with the values bound to them,
  and what is made of the rows that come back.  The database and its client library (SOCI, MySQL) are
  the parameter \<open>soci\<close>: executing a statement changes the database and gives an answer or an error.
  The columns are those of \<open>src/scripts/db/db/schema.rb\<close>.  Taking a connection from the pool always
  succeeds here, and an error is one of the statement, not of a later fetch.
\<close>

subsection \<open>The client library\<close>

text \<open>A value bound to a statement, and a cell of a row with the type its column has in the library.\<close>

datatype sql_value = Sql_Text string | Sql_Int int

datatype sql_cell = Cell_Text string | Cell_Int int | Cell_LongLong int | Cell_Null

type_synonym sql_row = "(string \<times> sql_cell) list"
type_synonym binding = "string option \<times> sql_value"
type_synonym statement = "string \<times> binding list"

text \<open>The numeric types a cell is read as; \<open>timestamp_t\<close> and \<open>block_height_type\<close> are \<open>uint64_t\<close>.\<close>

datatype cpp_type = Cpp_Int | Cpp_Short | Cpp_LongLong | Cpp_UInt64

text \<open>
  After \<open>execute(true)\<close>: whether a row was fetched, what the row object then holds (also when none
  was), the rows \<open>fetch\<close> gives after it, and the number of affected rows.
\<close>

record sql_answer =
  sa_got :: bool
  sa_row :: sql_row
  sa_more :: "sql_row list"
  sa_affected :: int

text \<open>\<open>so_unprepared\<close> is the execution of a statement that was never prepared, \<open>so_junk\<close> the value of
  a member that is never assigned.\<close>

record 'db soci =
  so_execute :: "string \<Rightarrow> binding list \<Rightarrow> ('db, sql_answer) prog"
  so_unprepared :: "sql_answer result"
  so_text :: "sql_cell \<Rightarrow> string result"
  so_number :: "cpp_type \<Rightarrow> sql_cell \<Rightarrow> int result"
  so_junk :: int

text \<open>\<open>row >> x\<close> at a position, \<open>row.get<T>(name)\<close>.\<close>

definition cell_at :: "sql_row \<Rightarrow> nat \<Rightarrow> sql_cell result" where
  "cell_at row i = (if i < length row then Inr (snd (row ! i)) else Inl Undefined_Behaviour)"

definition cell_named :: "sql_row \<Rightarrow> string \<Rightarrow> sql_cell result" where
  "cell_named row name = (case map_of row name of None \<Rightarrow> Inl Sql_Error | Some c \<Rightarrow> Inr c)"

abbreviation text_at :: "'db soci \<Rightarrow> sql_row \<Rightarrow> nat \<Rightarrow> string result" where
  "text_at E row i \<equiv> rbind (cell_at row i) (so_text E)"

abbreviation number_at :: "'db soci \<Rightarrow> cpp_type \<Rightarrow> sql_row \<Rightarrow> nat \<Rightarrow> int result" where
  "number_at E t row i \<equiv> rbind (cell_at row i) (so_number E t)"

abbreviation text_named :: "'db soci \<Rightarrow> sql_row \<Rightarrow> string \<Rightarrow> string result" where
  "text_named E row name \<equiv> rbind (cell_named row name) (so_text E)"

abbreviation number_named :: "'db soci \<Rightarrow> cpp_type \<Rightarrow> sql_row \<Rightarrow> string \<Rightarrow> int result" where
  "number_named E t row name \<equiv> rbind (cell_named row name) (so_number E t)"

abbreviation use_text :: "string \<Rightarrow> string \<Rightarrow> binding" where
  "use_text name x \<equiv> (Some name, Sql_Text x)"

abbreviation use_int :: "string \<Rightarrow> int \<Rightarrow> binding" where
  "use_int name x \<equiv> (Some name, Sql_Int x)"

abbreviation use_u64 :: "string \<Rightarrow> 64 word \<Rightarrow> binding" where
  "use_u64 name w \<equiv> (Some name, Sql_Int (uint w))"

subsection \<open>Queries\<close>

text \<open>What a handler that catches every exception returns.\<close>

definition sql_caught :: "'a \<Rightarrow> cpp_error \<Rightarrow> 'a result" where
  "sql_caught d e = (if e = Undefined_Behaviour then Inl e else Inr d)"

text \<open>The loop \<open>do { result >> ...; list.emplace_back(...); } while (st.fetch())\<close>: the list so far, and
  the exception that ended it.\<close>

fun collect_rows :: "(sql_row \<Rightarrow> 'a result) \<Rightarrow> sql_row list \<Rightarrow> 'a list \<times> unit result" where
  "collect_rows rd [] = ([], Inr ())"
| "collect_rows rd (r # rs) = (case rd r of
       Inl e \<Rightarrow> ([], Inl e)
     | Inr x \<Rightarrow> (case collect_rows rd rs of (xs, e) \<Rightarrow> (x # xs, e)))"

text \<open>
  A query with all its rows, and one with a single row: the statement with its values and the reader of
  a row, or the exception that kept it from being prepared.  The loop reads the row before the first
  \<open>fetch\<close>, whether there is one or not.
\<close>

definition sql_scan :: "'db soci \<Rightarrow> (statement \<times> (sql_row \<Rightarrow> 'a result)) result \<Rightarrow> ('db, 'a list) prog" where
  "sql_scan E prepared db = (case prepared of
       Inl e \<Rightarrow> (db, sql_caught [] e)
     | Inr ((txt, uses), rd) \<Rightarrow> (case so_execute E txt uses db of
           (db1, Inl e) \<Rightarrow> (db1, sql_caught [] e)
         | (db1, Inr a) \<Rightarrow> (db1, case collect_rows rd (sa_row a # sa_more a) of
               (xs, Inl e) \<Rightarrow> sql_caught xs e
             | (xs, Inr _) \<Rightarrow> Inr xs)))"

definition sql_fetch :: "'db soci \<Rightarrow> 'a \<Rightarrow> (statement \<times> (sql_answer \<Rightarrow> 'a result)) result \<Rightarrow> ('db, 'a) prog" where
  "sql_fetch E d prepared db = (case prepared of
       Inl e \<Rightarrow> (db, sql_caught d e)
     | Inr ((txt, uses), rd) \<Rightarrow> (case so_execute E txt uses db of
           (db1, Inl e) \<Rightarrow> (db1, sql_caught d e)
         | (db1, Inr a) \<Rightarrow> (db1, case rd a of Inl e \<Rightarrow> sql_caught d e | Inr x \<Rightarrow> Inr x)))"

definition scan_contracts_text :: string where
  "scan_contracts_text = ''SELECT cid FROM contracts WHERE `desc` = :desc, author = :author, `after` = :after, `before` = :before''"

text \<open>
  \<open>queryContractScan\<close>: the conditions are joined by commas; without an exception the function ends
  without a \<open>return\<close>.
\<close>

definition prepare_contract_scan :: "'db soci \<Rightarrow> json \<Rightarrow> (statement \<times> (sql_row \<Rightarrow> string result)) result" where
  "prepare_contract_scan E wh = rbind (json_str wh ''desc'') (\<lambda>desc. rbind (json_str wh ''author'') (\<lambda>author.
     rbind (rbind (json_str wh ''after'') stou64) (\<lambda>after. rbind (rbind (json_str wh ''before'') stou64) (\<lambda>before.
       Inr ((scan_contracts_text,
          [use_text ''desc'' desc, use_text ''author'' author, use_u64 ''after'' after, use_u64 ''before'' before]),
          \<lambda>row. text_at E row 0)))))"

definition sql_queryContractScan :: "'db soci \<Rightarrow> json \<Rightarrow> ('db, string list) prog" where
  "sql_queryContractScan E wh db = (case prepare_contract_scan E wh of
       Inl e \<Rightarrow> (db, sql_caught [] e)
     | Inr ((txt, uses), rd) \<Rightarrow> (case so_execute E txt uses db of
           (db1, Inl e) \<Rightarrow> (db1, sql_caught [] e)
         | (db1, Inr a) \<Rightarrow> (db1, case collect_rows rd (sa_row a # sa_more a) of
               (xs, Inl e) \<Rightarrow> sql_caught xs e
             | (xs, Inr _) \<Rightarrow> Inl Undefined_Behaviour)))"

definition get_contract_text :: string where
  "get_contract_text = ''SELECT contract FROM contracts WHERE cid = :cid''"

definition sql_queryContractGet :: "'db soci \<Rightarrow> json \<Rightarrow> ('db, string) prog" where
  "sql_queryContractGet E wh = sql_fetch E [] (rbind (json_str wh ''cid'') (\<lambda>cid.
     Inr ((get_contract_text, [use_text ''cid'' cid]), \<lambda>a. text_at E (sa_row a) 0)))"

definition read_user_cert :: "'db soci \<Rightarrow> string \<Rightarrow> sql_row \<Rightarrow> UserCert result" where
  "read_user_cert E uid row = rbind (text_at E row 0) (\<lambda>sn. rbind (number_at E Cpp_UInt64 row 1) (\<lambda>nvbefore.
     rbind (number_at E Cpp_UInt64 row 2) (\<lambda>nvafter. rbind (text_at E row 3) (\<lambda>x509.
       Inr \<lparr>uc_uid = uid, uc_sn = sn, uc_nvbefore = word_of_int nvbefore, uc_nvafter = word_of_int nvafter,
            uc_x509 = x509\<rparr>))))"

definition get_certs_text :: string where
  "get_certs_text = ''SELECT sn, nvbefore, nvafter, x509 FROM user_certificates WHERE uid = :uid''"

definition sql_queryCertGet :: "'db soci \<Rightarrow> json \<Rightarrow> ('db, UserCert list) prog" where
  "sql_queryCertGet E wh = sql_scan E (rbind (json_str wh ''uid'') (\<lambda>uid. rbind (json_str wh ''sn'') (\<lambda>_.
     rbind (rbind (json_str wh ''nvbefore'') stou64) (\<lambda>_. rbind (rbind (json_str wh ''nvafter'') stou64) (\<lambda>_.
       Inr ((get_certs_text, [use_text ''uid'' uid]),
          read_user_cert E uid))))))"

text \<open>\<open>user_attribute_type{}\<close>.\<close>

definition UserAttribute_empty :: UserAttribute where
  "UserAttribute_empty = \<lparr>ua_uid = [], ua_register_day = 0, ua_register_code = [], ua_gender = 0, ua_isc_type = [],
     ua_isc_code = [], ua_location = [], ua_age_limit = 0, ua_sigma = []\<rparr>"

definition read_user_info :: "'db soci \<Rightarrow> string \<Rightarrow> sql_row \<Rightarrow> UserAttribute result" where
  "read_user_info E uid row =
     rbind (number_at E Cpp_LongLong row 0) (\<lambda>register_day. rbind (text_at E row 1) (\<lambda>register_code.
     rbind (number_at E Cpp_Int row 2) (\<lambda>gender. rbind (text_at E row 3) (\<lambda>isc_type.
     rbind (text_at E row 4) (\<lambda>isc_code. rbind (text_at E row 5) (\<lambda>location.
     rbind (number_at E Cpp_Int row 6) (\<lambda>age_limit.
       Inr \<lparr>ua_uid = uid, ua_register_day = word_of_int register_day, ua_register_code = register_code,
         ua_gender = gender, ua_isc_type = isc_type, ua_isc_code = isc_code, ua_location = location,
         ua_age_limit = age_limit, ua_sigma = []\<rparr>)))))))"

definition get_user_info_text :: string where
  "get_user_info_text = ''SELECT register_day, register_code, gender, isc_type, isc_code, location, age_limit FROM user_attributes WHERE uid = :uid''"

definition sql_queryUserInfoGet :: "'db soci \<Rightarrow> json \<Rightarrow> ('db, UserAttribute) prog" where
  "sql_queryUserInfoGet E wh = sql_fetch E UserAttribute_empty (rbind (json_str wh ''uid'') (\<lambda>uid.
     Inr ((get_user_info_text,
        [use_text ''uid'' uid]), \<lambda>a. read_user_info E uid (sa_row a))))"

text \<open>\<open>json::get<bool>\<close>.\<close>

definition json_get_bool :: "json \<Rightarrow> string \<Rightarrow> bool option result" where
  "json_get_bool j k = (if json_contains j k
     then rbind (json_idx j k) (\<lambda>v. rbind (json_to_bool v) (\<lambda>b. Inr (Some b))) else Inr None)"

text \<open>The owner is not put into the entry.\<close>

definition read_user_scope :: "'db soci \<Rightarrow> sql_row \<Rightarrow> UserLedger result" where
  "read_user_scope E row = rbind (text_at E row 0) (\<lambda>var_name. rbind (text_at E row 1) (\<lambda>var_value.
     rbind (number_at E Cpp_Int row 2) (\<lambda>var_type. rbind (number_at E Cpp_LongLong row 3) (\<lambda>up_time.
     rbind (number_at E Cpp_Int row 4) (\<lambda>up_block. rbind (text_at E row 5) (\<lambda>tag. rbind (text_at E row 6) (\<lambda>pid.
       Inr (UserLedger_default\<lparr>ul_var_name := var_name, ul_var_value := var_value, ul_var_type := var_type,
         ul_up_time := word_of_int up_time, ul_up_block := word_of_int up_block, ul_tag := tag, ul_pid := pid\<rparr>))))))))"

definition get_user_scope_text :: string where
  "get_user_scope_text = ''SELECT var_name, var_value, var_type, up_time, up_block, tag, pid FROM user_scope WHERE var_owner = :var_owner''"

definition sql_queryUserScopeGet :: "'db soci \<Rightarrow> json \<Rightarrow> ('db, UserLedger list) prog" where
  "sql_queryUserScopeGet E wh = sql_scan E (rbind (json_get wh ''uid'') (\<lambda>uid_json.
     rbind (json_get wh ''pid'') (\<lambda>_. rbind (json_get wh ''type'') (\<lambda>_. rbind (json_get wh ''name'') (\<lambda>_.
     rbind (json_get_bool wh ''notag'') (\<lambda>_. rbind (opt_value uid_json) (\<lambda>uid.
       Inr ((get_user_scope_text,
          [use_text ''var_owner'' uid]), read_user_scope E))))))))"

definition read_contract_scope :: "'db soci \<Rightarrow> sql_row \<Rightarrow> ContractLedger result" where
  "read_contract_scope E row = rbind (text_at E row 0) (\<lambda>var_name. rbind (text_at E row 1) (\<lambda>var_value.
     rbind (number_at E Cpp_Int row 2) (\<lambda>var_type. rbind (text_at E row 3) (\<lambda>var_info.
     rbind (number_at E Cpp_UInt64 row 4) (\<lambda>up_time. rbind (number_at E Cpp_UInt64 row 5) (\<lambda>up_block.
     rbind (text_at E row 6) (\<lambda>pid.
       Inr (ContractLedger_default\<lparr>cl_var_name := var_name, cl_var_value := var_value, cl_var_type := var_type,
         cl_var_info := var_info, cl_up_time := word_of_int up_time, cl_up_block := word_of_int up_block,
         cl_pid := pid\<rparr>))))))))"

definition get_contract_scope_text :: string where
  "get_contract_scope_text = ''SELECT var_name, var_value, var_type, var_info, up_time, up_block, pid FROM user_scope WHERE cid = :cid''"

definition sql_queryContractScopeGet :: "'db soci \<Rightarrow> json \<Rightarrow> ('db, ContractLedger list) prog" where
  "sql_queryContractScopeGet E wh = sql_scan E (rbind (json_str wh ''cid'') (\<lambda>cid. rbind (json_str wh ''pid'') (\<lambda>_.
     rbind (rbind (json_str wh ''type'') stoi) (\<lambda>_. rbind (json_str wh ''name'') (\<lambda>_.
     rbind (rbind (json_get_bool wh ''notag'') opt_value) (\<lambda>_.
       Inr ((get_contract_scope_text,
          [use_text ''cid'' cid]), read_contract_scope E)))))))"

definition sql_queryBlockGet :: "json \<Rightarrow> Block" where
  "sql_queryBlockGet wh = Block_default"

definition get_tx_text :: string where
  "get_tx_text = ''SELECT tx_agg_cbor FROM user_scope WHERE tx_id = :tx_id''"

definition sql_queryTxGet :: "'db soci \<Rightarrow> json \<Rightarrow> ('db, string) prog" where
  "sql_queryTxGet E wh = sql_fetch E [] (rbind (json_str wh ''txid'') (\<lambda>tx_id.
     Inr ((get_tx_text, [use_text ''tx_id'' tx_id]),
       \<lambda>a. text_at E (sa_row a) 0)))"

definition scan_blocks_text :: string where
  "scan_blocks_text = ''SELECT block_id FROM blocks WHERE producer_id = :producer_id''"

definition sql_queryBlockScan :: "'db soci \<Rightarrow> json \<Rightarrow> ('db, string list) prog" where
  "sql_queryBlockScan E wh = sql_scan E (rbind (json_str wh ''ss_id'') (\<lambda>_.
     rbind (json_str wh ''producer'') (\<lambda>producer_id. rbind (json_str wh ''endorser'') (\<lambda>_.
       Inr ((scan_blocks_text, [use_text ''producer_id'' producer_id]),
          \<lambda>row. text_at E row 0)))))"

definition scan_txs_text :: string where
  "scan_txs_text = ''SELECT tx_id FROM transactions WHERE tx_user = :tx_user''"

definition sql_queryTxScan :: "'db soci \<Rightarrow> json \<Rightarrow> ('db, string list) prog" where
  "sql_queryTxScan E wh = sql_scan E (rbind (json_str wh ''tx_user'') (\<lambda>tx_user.
     rbind (json_str wh ''tx_receiver'') (\<lambda>_. rbind (json_str wh ''cid'') (\<lambda>_.
       Inr ((scan_txs_text, [use_text ''tx_user'' tx_user]),
          \<lambda>row. text_at E row 0)))))"

subsection \<open>Writing\<close>

text \<open>Executing statements in order; \<open>None\<close> is the statement object of an entry that got no text.\<close>

definition sql_run :: "'db soci \<Rightarrow> statement option \<Rightarrow> ('db, unit) prog" where
  "sql_run E st = (case st of
       None \<Rightarrow> sbind (slift (so_unprepared E)) (\<lambda>_. sret ())
     | Some (txt, uses) \<Rightarrow> sbind (so_execute E txt uses) (\<lambda>_. sret ()))"

definition sql_apply :: "'db soci \<Rightarrow> statement option list \<Rightarrow> ('db, bool) prog" where
  "sql_apply E sts = try_bool (sbind (seq (map (sql_run E) sts)) (\<lambda>_. sret True))"

definition insert_block_text :: string where
  "insert_block_text = ''INSERT INTO blocks (block_id, block_height, block_hash, block_time, block_pub_time, block_prev_id, block_link, producer_id, producer_sig, txs, tx_root, us_state_root, cs_state_root, sg_root, certificate) VALUES (:block_id, :block_height, :block_hash, :block_time, :block_pub_time, :block_prev_id, :block_link, :producer_id, :producer_sig, :txs, :tx_root, :us_state_root, :cs_state_root, :sg_root, :certificate)''"

definition block_values :: "Block \<Rightarrow> string \<Rightarrow> sql_value list" where
  "block_values b tx_id =
     [Sql_Text (m_block_id b), Sql_Int (uint (m_block_height b)), Sql_Text (m_block_hash b),
      Sql_Int (uint (m_block_time b)), Sql_Int (uint (m_block_pub_time b)), Sql_Text (m_block_prev_id b),
      Sql_Text (m_block_prev_sig b), Sql_Text (signer_id (m_block_prod_info b)),
      Sql_Text (signer_sig (m_block_prod_info b)), Sql_Text tx_id, Sql_Text (m_tx_root b),
      Sql_Text (m_us_state_root b), Sql_Text (m_cs_state_root b), Sql_Text (m_sg_root b),
      Sql_Text (m_block_certificate b)]"

text \<open>The column \<open>txs\<close> gets the identifier of the first transaction, without a look whether there is one.\<close>

definition applyBlockToRDB :: "'db soci \<Rightarrow> Block \<Rightarrow> ('db, bool) prog" where
  "applyBlockToRDB E b = try_bool (sbind (slift (at_index (m_transactions b) 0)) (\<lambda>t.
     sbind (so_execute E insert_block_text (map (Pair None) (block_values b (m_txid t)))) (\<lambda>_. sret True)))"

definition insert_tx_text :: string where
  "insert_tx_text = ''INSERT INTO transactions (tx_id, tx_time, tx_contract_id, tx_fee_author, tx_fee_user, tx_user, tx_user_pk, tx_receiver, tx_input, tx_agg_cbor, block_id, tx_pos) VALUES (:tx_id, :tx_time, :tx_contract_id, :tx_fee_author, :tx_fee_user, :tx_user, :tx_user_pk, :tx_receiver, :tx_input, :tx_agg_cbor, :block_id, :tx_pos)''"

text \<open>The position of a transaction is a member nothing assigns.\<close>

definition tx_statement :: "'db soci \<Rightarrow> Block \<Rightarrow> Transaction \<Rightarrow> statement" where
  "tx_statement E b t = (insert_tx_text, map (Pair None)
     [Sql_Text (m_txid t), Sql_Int (uint (m_tx_time t)), Sql_Text (m_contract_id t), Sql_Int (m_fee t),
      Sql_Int (m_fee t), Sql_Text (m_tx_user_id t), Sql_Text (m_tx_user_pk t), Sql_Text (m_receiver_id t),
      Sql_Text (m_tx_input_cbor t), Sql_Text (m_tx_agg_cbor t), Sql_Text (m_block_id b), Sql_Int (so_junk E)])"

definition applyTransactionToRDB :: "'db soci \<Rightarrow> Block \<Rightarrow> ('db, bool) prog" where
  "applyTransactionToRDB E b = sql_apply E (map (\<lambda>t. Some (tx_statement E b t)) (m_transactions b))"

definition insert_user_ledger_text :: string where
  "insert_user_ledger_text = ''INSERT INTO user_scope (var_name, var_value, var_type, var_owner, up_time, up_block, tag, pid) VALUES (:var_name, :var_value, :var_type, :var_owner, :up_time, :up_block, :tag, :pid)''"

definition update_user_ledger_text :: string where
  "update_user_ledger_text = ''UPDATE user_scope SET var_value = :var_value, up_time = :up_time, up_block = :up_block WHERE pid = :pid''"

definition delete_user_ledger_text :: string where
  "delete_user_ledger_text = ''DELETE FROM user_scope WHERE pid = :pid''"

definition user_ledger_statement :: "UserLedger \<Rightarrow> statement option" where
  "user_ledger_statement l =
     (if ul_query_type l = Q_INSERT then Some
        (insert_user_ledger_text,
         [use_text ''var_name'' (ul_var_name l), use_text ''var_value'' (ul_var_value l),
          use_int ''var_type'' (ul_var_type l), use_text ''var_owner'' (ul_uid l), use_u64 ''up_time'' (ul_up_time l),
          use_u64 ''up_block'' (ul_up_block l), use_text ''tag'' (ul_tag l), use_text ''pid'' (ul_pid l)])
      else if ul_query_type l = Q_UPDATE then Some
        (update_user_ledger_text,
         [use_text ''var_value'' (ul_var_value l), use_u64 ''up_time'' (ul_up_time l),
          use_u64 ''up_block'' (ul_up_block l), use_text ''pid'' (ul_pid l)])
      else if ul_query_type l = Q_DELETE \<and> ul_var_value l = [] then Some
        (delete_user_ledger_text, [use_text ''pid'' (ul_pid l)])
      else None)"

definition applyUserLedgerToRDB :: "'db soci \<Rightarrow> (string, UserLedger) omap \<Rightarrow> ('db, bool) prog" where
  "applyUserLedgerToRDB E ledgers = sql_apply E (map (user_ledger_statement \<circ> snd) ledgers)"

definition insert_contract_ledger_text :: string where
  "insert_contract_ledger_text = ''INSERT INTO contract_scope (contract_id, var_name, var_value, var_type, var_info, up_time, up_block, pid) VALUES (:contract_id, :var_name, :var_value, :var_type, :var_info, :up_time, :up_block, :pid)''"

definition update_contract_ledger_text :: string where
  "update_contract_ledger_text = ''UPDATE contract_scope SET var_value = :var_value, up_time = :up_time, up_block = :up_block WHERE pid = :pid''"

definition delete_contract_ledger_text :: string where
  "delete_contract_ledger_text = ''DELETE FROM contract_scope WHERE pid = :pid''"

definition contract_ledger_statement :: "ContractLedger \<Rightarrow> statement option" where
  "contract_ledger_statement l =
     (if cl_query_type l = Q_INSERT then Some
        (insert_contract_ledger_text,
         [use_text ''contract_id'' (cl_cid l), use_text ''var_name'' (cl_var_name l),
          use_text ''var_value'' (cl_var_value l), use_int ''var_type'' (cl_var_type l),
          use_text ''var_info'' (cl_var_info l), use_u64 ''up_time'' (cl_up_time l),
          use_u64 ''up_block'' (cl_up_block l), use_text ''pid'' (cl_pid l)])
      else if cl_query_type l = Q_UPDATE then Some
        (update_contract_ledger_text,
         [use_text ''var_value'' (cl_var_value l), use_u64 ''up_time'' (cl_up_time l),
          use_u64 ''up_block'' (cl_up_block l), use_text ''pid'' (cl_pid l)])
      else if cl_query_type l = Q_DELETE \<and> cl_var_value l = [] then Some
        (delete_contract_ledger_text, [use_text ''pid'' (cl_pid l)])
      else None)"

definition applyContractLedgerToRDB :: "'db soci \<Rightarrow> (string, ContractLedger) omap \<Rightarrow> ('db, bool) prog" where
  "applyContractLedgerToRDB E ledgers = sql_apply E (map (contract_ledger_statement \<circ> snd) ledgers)"

definition insert_user_attribute_text :: string where
  "insert_user_attribute_text = ''INSERT INTO user_attributes (uid, register_day, register_code, gender, isc_type, isc_code, location, age_limit, sigma) VALUES (:uid, :register_day, :register_code, :gender, :isc_type, :isc_code, :location, :age_limit, :sigma) ON DUPLICATE KEY UPDATE register_day = :register_day, register_code = :register_code, gender = :gender, isc_type = :isc_type, isc_code = :isc_code, location = :location, age_limit = :age_limit, sigma = :sigma''"

definition user_attribute_statement :: "UserAttribute \<Rightarrow> statement" where
  "user_attribute_statement a =
     (insert_user_attribute_text,
      [use_text ''uid'' (ua_uid a), use_u64 ''register_day'' (ua_register_day a),
       use_text ''register_code'' (ua_register_code a), use_int ''gender'' (ua_gender a),
       use_text ''isc_type'' (ua_isc_type a), use_text ''isc_code'' (ua_isc_code a),
       use_text ''location'' (ua_location a), use_int ''age_limit'' (ua_age_limit a), use_text ''sigma'' (ua_sigma a)])"

definition applyUserAttributeToRDB :: "'db soci \<Rightarrow> (string, UserAttribute) omap \<Rightarrow> ('db, bool) prog" where
  "applyUserAttributeToRDB E attrs = sql_apply E (map (Some \<circ> user_attribute_statement \<circ> snd) attrs)"

definition insert_user_cert_text :: string where
  "insert_user_cert_text = ''INSERT INTO user_certificates (uid, sn, nvbefore, nvafter, x509) VALUES (:uid, :sn, :nvbefore, :nvafter, :x509)''"

definition user_cert_statement :: "UserCert \<Rightarrow> statement" where
  "user_cert_statement c =
     (insert_user_cert_text,
      [use_text ''uid'' (uc_uid c), use_text ''sn'' (uc_sn c), use_u64 ''nvbefore'' (uc_nvbefore c),
       use_u64 ''nvafter'' (uc_nvafter c), use_text ''x509'' (uc_x509 c)])"

definition applyUserCertToRDB :: "'db soci \<Rightarrow> (string, UserCert) omap \<Rightarrow> ('db, bool) prog" where
  "applyUserCertToRDB E certs = sql_apply E (map (Some \<circ> user_cert_statement \<circ> snd) certs)"

definition insert_contract_text :: string where
  "insert_contract_text = ''INSERT INTO contracts (cid, `after`, `before`, author, friends, contract, `desc`, sigma) VALUES (:cid, :after, :before, :author, :friends, :contract, :desc, :sigma)''"

definition update_contract_text :: string where
  "update_contract_text = ''UPDATE contracts SET `before` = :before WHERE cid = :cid''"

definition contract_statement :: "Contract \<Rightarrow> statement option" where
  "contract_statement c =
     (if ct_query_type c = Q_INSERT then Some
        (insert_contract_text,
         [use_text ''cid'' (ct_cid c), use_u64 ''after'' (ct_after c), use_u64 ''before'' (ct_before c),
          use_text ''author'' (ct_author c), use_text ''friends'' (ct_friends c),
          use_text ''contract'' (ct_contract c), use_text ''desc'' (ct_desc c), use_text ''sigma'' (ct_sigma c)])
      else if ct_query_type c = Q_UPDATE then Some
        (update_contract_text,
         [use_u64 ''before'' (ct_before c), use_text ''cid'' (ct_cid c)])
      else None)"

definition applyContractToRDB :: "'db soci \<Rightarrow> (string, Contract) omap \<Rightarrow> ('db, bool) prog" where
  "applyContractToRDB E cs = sql_apply E (map (contract_statement \<circ> snd) cs)"

subsection \<open>Reading blocks and certificates\<close>

text \<open>The text of the certificates becomes a JSON text, not the value it describes.\<close>

definition rowToBlock :: "'db soci \<Rightarrow> sql_row \<Rightarrow> Block result" where
  "rowToBlock E row = (case sbind (seq
     [assign (text_named E row ''block_id'') (\<lambda>x b. b\<lparr>m_block_id := x\<rparr>),
      assign (number_named E Cpp_UInt64 row ''block_height'') (\<lambda>x b. b\<lparr>m_block_height := word_of_int x\<rparr>),
      assign (text_named E row ''block_hash'') (\<lambda>x b. b\<lparr>m_block_hash := x\<rparr>),
      assign (number_named E Cpp_LongLong row ''block_time'') (\<lambda>x b. b\<lparr>m_block_time := word_of_int x\<rparr>),
      assign (number_named E Cpp_LongLong row ''block_pub_time'') (\<lambda>x b. b\<lparr>m_block_pub_time := word_of_int x\<rparr>),
      assign (text_named E row ''block_prev_id'') (\<lambda>x b. b\<lparr>m_block_prev_id := x\<rparr>),
      assign (text_named E row ''block_link'') (\<lambda>x b. b\<lparr>m_block_prev_sig := x\<rparr>),
      assign (text_named E row ''producer_id'')
        (\<lambda>x b. b\<lparr>m_block_prod_info := (m_block_prod_info b)\<lparr>signer_id := x\<rparr>\<rparr>),
      assign (text_named E row ''producer_sig'')
        (\<lambda>x b. b\<lparr>m_block_prod_info := (m_block_prod_info b)\<lparr>signer_sig := x\<rparr>\<rparr>),
      assign (text_named E row ''tx_root'') (\<lambda>x b. b\<lparr>m_tx_root := x\<rparr>),
      assign (text_named E row ''us_state_root'') (\<lambda>x b. b\<lparr>m_us_state_root := x\<rparr>),
      assign (text_named E row ''cs_state_root'') (\<lambda>x b. b\<lparr>m_cs_state_root := x\<rparr>),
      assign (text_named E row ''sg_root'') (\<lambda>x b. b\<lparr>m_sg_root := x\<rparr>)])
     (\<lambda>_. sbind (slift (text_named E row ''certificate'')) (\<lambda>certificates.
        setUserCerts (JStr certificates))) Block_default of
       (b, Inl e) \<Rightarrow> Inl e | (b, Inr _) \<Rightarrow> Inr b)"

fun rows_to_blocks :: "'db soci \<Rightarrow> sql_row list \<Rightarrow> Block list result" where
  "rows_to_blocks E [] = Inr []"
| "rows_to_blocks E (r # rs) = rbind (rowToBlock E r) (\<lambda>b. rbind (rows_to_blocks E rs) (\<lambda>bs. Inr (b # bs)))"

definition fetched_rows :: "sql_answer \<Rightarrow> sql_row list" where
  "fetched_rows a = (if sa_got a then sa_row a # sa_more a else [])"

text \<open>Every exception is caught as a \<open>const std::exception &\<close> and thrown again by value.\<close>

definition getBlocks :: "'db soci \<Rightarrow> int \<Rightarrow> int \<Rightarrow> ('db, Block list) prog" where
  "getBlocks E from to db =
     (case so_execute E (''SELECT * FROM blocks WHERE '' @ ''block_height BETWEEN '' @ dec_int from @ '' AND '' @ dec_int to) [] db of
        (db1, r) \<Rightarrow> (db1, case rbind r (\<lambda>a. rows_to_blocks E (fetched_rows a)) of
            Inl e \<Rightarrow> Inl (if e = Undefined_Behaviour then e else Std_Exception)
          | Inr bs \<Rightarrow> Inr bs))"

definition getLatestResolvedBlock :: "'db soci \<Rightarrow> ('db, Block option) prog" where
  "getLatestResolvedBlock E = sql_fetch E None (Inr
     ((''SELECT * FROM blocks '' @ ''ORDER BY block_height DESC LIMIT 1'', []),
      \<lambda>a. rbind (rowToBlock E (sa_row a)) (\<lambda>b. Inr (Some b))))"

text \<open>The identifier is made part of the statement, without quotation marks.\<close>

definition user_cert_text :: "string \<Rightarrow> string" where
  "user_cert_text user_id = ''SELECT x509 FROM user_certificates WHERE uid = '' @ user_id"

definition sql_getUserCert :: "'db soci \<Rightarrow> string \<Rightarrow> ('db, string) prog" where
  "sql_getUserCert E user_id = sql_fetch E [] (Inr ((user_cert_text user_id, []),
     \<lambda>a. if sa_got a then text_at E (sa_row a) 0 else Inr []))"

subsection \<open>Variables\<close>

definition user_var_type_text :: string where
  "user_var_type_text = ''SELECT var_type FROM user_scope WHERE var_owner = :var_owner AND var_name = :var_name AND tag is NULL''"

definition contract_var_type_text :: string where
  "contract_var_type_text = ''SELECT var_type FROM contract_scope WHERE contract_id = :contract_id AND var_name = :var_name AND var_info is NULL''"

text \<open>An owner that is neither a user nor a contract leaves the statement without a text.\<close>

definition var_type_statement :: "string \<Rightarrow> string \<Rightarrow> statement option" where
  "var_type_statement var_owner var_name =
     (if isUserId var_owner then Some
        (user_var_type_text,
         [use_text ''var_owner'' var_owner, use_text ''var_name'' var_name])
      else if isContractId var_owner then Some
        (contract_var_type_text,
         [use_text ''contract_id'' var_owner, use_text ''var_name'' var_name])
      else None)"

definition counted_type :: "int \<Rightarrow> sql_answer \<Rightarrow> int" where
  "counted_type var_type a = (let num_rows = i32 (sa_affected a) in
     if num_rows = 1 then var_type else if num_rows = 0 then NO_VALUE else NOT_UNIQUE)"

definition getVarTypeFromRDB :: "'db soci \<Rightarrow> string \<Rightarrow> string \<Rightarrow> ('db, int) prog" where
  "getVarTypeFromRDB E var_owner var_name db =
     (case (case var_type_statement var_owner var_name of
              Some (txt, uses) \<Rightarrow> so_execute E txt uses db | None \<Rightarrow> (db, so_unprepared E)) of
        (db1, r) \<Rightarrow> (db1, case rbind r (\<lambda>a. rbind (number_at E Cpp_Short (sa_row a) 0) (\<lambda>t. Inr (counted_type t a))) of
            Inl e \<Rightarrow> sql_caught (-3) e
          | Inr t \<Rightarrow> Inr t))"

definition read_user_entry :: "'db soci \<Rightarrow> sql_row \<Rightarrow> UserLedger result" where
  "read_user_entry E row = rbind (text_at E row 0) (\<lambda>var_name. rbind (text_at E row 1) (\<lambda>var_value.
     rbind (number_at E Cpp_Short row 2) (\<lambda>var_type. rbind (text_at E row 3) (\<lambda>var_owner.
     rbind (number_at E Cpp_LongLong row 4) (\<lambda>up_time. rbind (number_at E Cpp_Int row 5) (\<lambda>up_block.
     rbind (text_at E row 6) (\<lambda>tag.
       Inr (UserLedger_default\<lparr>ul_var_name := var_name, ul_var_value := var_value, ul_var_type := var_type,
         ul_uid := var_owner, ul_up_time := word_of_int up_time, ul_up_block := word_of_int up_block,
         ul_tag := tag\<rparr>))))))))"

definition find_user_scope_text :: string where
  "find_user_scope_text = ''SELECT var_name, var_value, var_type, var_owner, up_time, up_block, tag FROM user_scope WHERE pid = :pid''"

text \<open>The row is read before the number of rows is looked at.\<close>

definition findUserScopeFromRDB :: "'db soci \<Rightarrow> string \<Rightarrow> ('db, UserLedger) prog" where
  "findUserScopeFromRDB E pid = sql_fetch E UserLedger_default (Inr
     ((find_user_scope_text,
       [use_text ''pid'' pid]),
      \<lambda>a. rbind (read_user_entry E (sa_row a)) (\<lambda>l. Inr (if i32 (sa_affected a) = 1
        then l\<lparr>ul_pid := pid, ul_is_empty := False\<rparr> else UserLedger_default))))"

definition read_contract_entry :: "'db soci \<Rightarrow> sql_row \<Rightarrow> ContractLedger result" where
  "read_contract_entry E row = rbind (text_at E row 0) (\<lambda>var_name. rbind (text_at E row 1) (\<lambda>var_value.
     rbind (number_at E Cpp_Short row 2) (\<lambda>var_type. rbind (text_at E row 3) (\<lambda>contract_id.
     rbind (number_at E Cpp_LongLong row 4) (\<lambda>up_time. rbind (number_at E Cpp_Int row 5) (\<lambda>up_block.
     rbind (text_at E row 6) (\<lambda>var_info.
       Inr (ContractLedger_default\<lparr>cl_var_name := var_name, cl_var_value := var_value, cl_var_type := var_type,
         cl_cid := contract_id, cl_up_time := word_of_int up_time, cl_up_block := word_of_int up_block,
         cl_var_info := var_info\<rparr>))))))))"

definition find_contract_scope_text :: string where
  "find_contract_scope_text = ''SELECT var_name, var_value, var_type, contract_id, up_time, up_block, var_info FROM contract_scope WHERE pid = :pid''"

definition findContractScopeFromRDB :: "'db soci \<Rightarrow> string \<Rightarrow> ('db, ContractLedger) prog" where
  "findContractScopeFromRDB E pid = sql_fetch E ContractLedger_default (Inr
     ((find_contract_scope_text,
       [use_text ''pid'' pid]),
      \<lambda>a. rbind (read_contract_entry E (sa_row a)) (\<lambda>l. Inr (if i32 (sa_affected a) = 1
        then l\<lparr>cl_pid := pid, cl_is_empty := False\<rparr> else ContractLedger_default))))"

definition all_user_ledger_text :: string where
  "all_user_ledger_text = ''SELECT var_name, var_value, var_type, var_owner, up_time, up_block, tag, pid FROM user_scope''"

definition getAllUserLedger :: "'db soci \<Rightarrow> ('db, UserLedger list) prog" where
  "getAllUserLedger E = sql_scan E (Inr
     ((all_user_ledger_text, []),
      \<lambda>row. rbind (read_user_entry E row) (\<lambda>l. rbind (text_at E row 7) (\<lambda>pid. Inr (l\<lparr>ul_pid := pid\<rparr>)))))"

definition all_contract_ledger_text :: string where
  "all_contract_ledger_text = ''SELECT var_name, var_value, var_type, contract_id, up_time, up_block, var_info, pid FROM contract_scope''"

definition getAllContractLedger :: "'db soci \<Rightarrow> ('db, ContractLedger list) prog" where
  "getAllContractLedger E = sql_scan E (Inr
     ((all_contract_ledger_text, []),
      \<lambda>row. rbind (read_contract_entry E row) (\<lambda>l. rbind (text_at E row 7) (\<lambda>pid. Inr (l\<lparr>cl_pid := pid\<rparr>)))))"

end
