(* ===== verification/Rdb_Props.thy ===== *)
theory Rdb_Props
  imports Rdb_Controller Chain_Plugin
begin

text \<open>
  What the statements of \<open>Rdb_Controller\<close> do, whatever the database answers: how a list of entries is
  written, that values are bound and not made part of a statement, what can be read back, and what the
  rest of the chain plugin sees of it.
\<close>

subsection \<open>The database as the chain sees it\<close>

definition apply_write :: "'db soci \<Rightarrow> rdb_write \<Rightarrow> ('db, bool) prog" where
  "apply_write E w = (case w of
       W_Block b \<Rightarrow> applyBlockToRDB E b
     | W_Transactions b \<Rightarrow> applyTransactionToRDB E b
     | W_User_Ledgers m \<Rightarrow> applyUserLedgerToRDB E m
     | W_Contract_Ledgers m \<Rightarrow> applyContractLedgerToRDB E m
     | W_User_Attributes m \<Rightarrow> applyUserAttributeToRDB E m
     | W_User_Certs m \<Rightarrow> applyUserCertToRDB E m
     | W_Contracts m \<Rightarrow> applyContractToRDB E m)"

abbreviation answer_or :: "'a \<Rightarrow> 's \<times> 'a result \<Rightarrow> 'a" where
  "answer_or d r \<equiv> (case snd r of Inr x \<Rightarrow> x | Inl _ \<Rightarrow> d)"

text \<open>The answers to the queries of the chain, at one state of the database.\<close>

definition rdb_of :: "'db soci \<Rightarrow> 'db \<Rightarrow> rdb" where
  "rdb_of E db = \<lparr>r_contract_scan = (\<lambda>wh. snd (sql_queryContractScan E wh db)),
     r_contract_get = (\<lambda>wh. answer_or [] (sql_queryContractGet E wh db)),
     r_cert_get = (\<lambda>wh. answer_or [] (sql_queryCertGet E wh db)),
     r_user_info_get = (\<lambda>wh. answer_or UserAttribute_empty (sql_queryUserInfoGet E wh db)),
     r_user_scope_get = (\<lambda>wh. answer_or [] (sql_queryUserScopeGet E wh db)),
     r_contract_scope_get = (\<lambda>wh. answer_or [] (sql_queryContractScopeGet E wh db)),
     r_tx_get = (\<lambda>wh. answer_or [] (sql_queryTxGet E wh db)),
     r_block_scan = (\<lambda>wh. answer_or [] (sql_queryBlockScan E wh db)),
     r_tx_scan = (\<lambda>wh. answer_or [] (sql_queryTxScan E wh db)),
     r_all_user_ledger = answer_or [] (getAllUserLedger E db),
     r_all_contract_ledger = answer_or [] (getAllContractLedger E db),
     r_get_blocks = (\<lambda>from to. snd (getBlocks E from to db)),
     r_latest_block = answer_or None (getLatestResolvedBlock E db)\<rparr>"

subsection \<open>Writing a list of entries\<close>

fun commits :: "'db soci \<Rightarrow> statement option list \<Rightarrow> 'db \<Rightarrow> 'db \<Rightarrow> bool" where
  "commits E [] db db' \<longleftrightarrow> db = db'"
| "commits E (s # ss) db db' \<longleftrightarrow> (\<exists>db1. sql_run E s db = (db1, Inr ()) \<and> commits E ss db1 db')"

lemma seq_run_Inr: "seq (map (sql_run E) sts) db = (db', Inr ()) \<longleftrightarrow> commits E sts db db'"
  by (induction sts arbitrary: db) (auto simp: seq_def sbind_def split: prod.splits sum.splits)

lemma split_first:
  "(\<exists>pre x rest. y # ys = pre @ x # rest \<and> P pre x) \<longleftrightarrow> P [] y \<or> (\<exists>pre x rest. ys = pre @ x # rest \<and> P (y # pre) x)"
  (is "?l \<longleftrightarrow> ?r")
proof
  assume ?l
  then obtain pre x rest where "y # ys = pre @ x # rest" "P pre x" by blast
  then show ?r by (cases pre) auto
next
  assume ?r
  then show ?l
  proof
    assume "P [] y"
    then show ?l by (metis append_Nil)
  next
    assume "\<exists>pre x rest. ys = pre @ x # rest \<and> P (y # pre) x"
    then show ?l by (metis append_Cons)
  qed
qed

lemma seq_run_Inl:
  "seq (map (sql_run E) sts) db = (db', Inl e) \<longleftrightarrow>
     (\<exists>pre s rest. sts = pre @ s # rest \<and> (\<exists>db1. commits E pre db db1 \<and> sql_run E s db1 = (db', Inl e)))"
proof (induction sts arbitrary: db)
  case (Cons s sts)
  show ?case unfolding split_first
    by (cases "sql_run E s db"; cases "snd (sql_run E s db)") (auto simp: sbind_def Cons.IH)
qed simp

lemma sql_apply_iff:
  "sql_apply E sts db = (db', Inr ok) \<longleftrightarrow>
     (if ok then commits E sts db db'
      else \<exists>pre s rest. sts = pre @ s # rest \<and> (\<exists>db1 e. commits E pre db db1
        \<and> sql_run E s db1 = (db', Inl e) \<and> e \<noteq> Undefined_Behaviour))"
proof -
  have run: "sql_apply E sts db = (case seq (map (sql_run E) sts) db of
      (t, Inl e) \<Rightarrow> (t, if e = Undefined_Behaviour then Inl e else Inr False) | (t, Inr x) \<Rightarrow> (t, Inr True))"
    by (simp add: sql_apply_def try_bool_def sbind_def split: prod.split sum.split cpp_error.split)
  show ?thesis
  proof (cases ok)
    case True
    then show ?thesis using seq_run_Inr [of E sts db db'] unfolding run
      by (auto split: prod.splits sum.splits if_splits)
  next
    case False
    have "sql_apply E sts db = (db', Inr False) \<longleftrightarrow>
        (\<exists>e. seq (map (sql_run E) sts) db = (db', Inl e) \<and> e \<noteq> Undefined_Behaviour)"
      unfolding run by (auto split: prod.splits sum.splits if_splits)
    then show ?thesis using False unfolding seq_run_Inl by auto
  qed
qed

lemma map_split:
  "(\<exists>pre s rest. map (\<lambda>(k, x). f x) xs = pre @ s # rest \<and> P pre s) \<longleftrightarrow>
    (\<exists>pre k x rest. xs = pre @ (k, x) # rest \<and> P (map (\<lambda>(k, x). f x) pre) (f x))"
  by (fastforce simp: map_eq_append_conv map_eq_Cons_conv)

text \<open>C36: ledger entries are written one statement each in the order of their names; the call reports success
  exactly when the database took them all, and when it refuses one, the entries before it stay written, the
  ones behind it are not tried, and false is reported.\<close>

theorem ledgers_in_order:
  "(applyUserLedgerToRDB E ledgers db = (db', Inr True) \<longleftrightarrow>
      commits E (map (\<lambda>(pid, l). user_ledger_statement l) ledgers) db db')
   \<and> (applyUserLedgerToRDB E ledgers db = (db', Inr False) \<longleftrightarrow>
      (\<exists>pre pid l rest. ledgers = pre @ (pid, l) # rest
        \<and> (\<exists>db1 e. commits E (map (\<lambda>(pid, l). user_ledger_statement l) pre) db db1
              \<and> sql_run E (user_ledger_statement l) db1 = (db', Inl e) \<and> e \<noteq> Undefined_Behaviour)))"
proof -
  have m: "map (user_ledger_statement \<circ> snd) ledgers = map (\<lambda>(pid, l). user_ledger_statement l) ledgers"
    by (simp add: fun_eq_iff split: prod.split)
  show ?thesis
    unfolding applyUserLedgerToRDB_def m sql_apply_iff by (simp only: if_True if_False map_split simp_thms)
qed

text \<open>A block without transactions is written with the identifier of a transaction it does not have.\<close>

theorem empty_block_undefined:
  "m_transactions b = [] \<Longrightarrow> applyBlockToRDB E b db = (db, Inl Undefined_Behaviour)"
  by (simp add: applyBlockToRDB_def try_bool_def sbind_def at_index_def)

subsection \<open>Texts of statements\<close>

text \<open>A library that keeps the texts of the statements it executes, and the texts a call can send,
  whatever the database is.\<close>

definition logging :: "'db soci \<Rightarrow> ('db \<times> string list) soci" where
  "logging E = \<lparr>so_execute = (\<lambda>txt uses (db, log). case so_execute E txt uses db of (db1, r) \<Rightarrow> ((db1, log @ [txt]), r)),
     so_unprepared = so_unprepared E, so_text = so_text E, so_number = so_number E, so_junk = so_junk E\<rparr>"

definition sends :: "string set \<Rightarrow> ('db \<times> string list, 'a) prog \<Rightarrow> bool" where
  "sends T m \<longleftrightarrow> (\<forall>db log. \<exists>new. snd (fst (m (db, log))) = log @ new \<and> set new \<subseteq> T)"

lemma sendsI: "(\<And>db log. \<exists>new. snd (fst (m (db, log))) = log @ new \<and> set new \<subseteq> T) \<Longrightarrow> sends T m"
  by (simp add: sends_def)

lemma sends_mono: "sends T m \<Longrightarrow> T \<subseteq> T' \<Longrightarrow> sends T' m"
  unfolding sends_def by blast

lemma sends_basic: "sends T (sret x)" "sends T (slift r)"
  by (simp_all add: sends_def)

lemma sends_execute: "txt \<in> T \<Longrightarrow> sends T (so_execute (logging E) txt uses)"
  by (auto simp: sends_def logging_def split: prod.split)

lemma sends_sbind: "sends T m \<Longrightarrow> (\<And>x. sends T (k x)) \<Longrightarrow> sends T (sbind m k)"
proof (rule sendsI)
  fix db log
  assume m: "sends T m" and k: "\<And>x. sends T (k x)"
  obtain d l r where run: "m (db, log) = ((d, l), r)" by (metis prod.collapse)
  obtain new where new: "l = log @ new" "set new \<subseteq> T"
    using m [unfolded sends_def, rule_format, of db log] run by auto
  show "\<exists>new. snd (fst (sbind m k (db, log))) = log @ new \<and> set new \<subseteq> T"
  proof (cases r)
    case (Inl e)
    then show ?thesis using run new by (simp add: sbind_def)
  next
    case (Inr x)
    obtain more where "snd (fst (k x (d, l))) = l @ more" "set more \<subseteq> T"
      using k [of x, unfolded sends_def] by blast
    then show ?thesis using run new Inr by (intro exI [of _ "new @ more"]) (simp add: sbind_def)
  qed
qed

lemma sends_try: "sends T m \<Longrightarrow> sends T (try_bool m)"
  unfolding sends_def try_bool_def by (auto split: prod.split sum.split cpp_error.split) (metis fst_conv snd_conv)+

lemma sends_seq: "\<forall>m\<in>set ms. sends T m \<Longrightarrow> sends T (seq ms)"
  by (induction ms) (simp_all add: sends_basic sends_sbind)

definition texts_of :: "statement option \<Rightarrow> string set" where
  "texts_of st = (case st of None \<Rightarrow> {} | Some (txt, _) \<Rightarrow> {txt})"

lemma sends_run: "texts_of st \<subseteq> T \<Longrightarrow> sends T (sql_run (logging E) st)"
  unfolding sql_run_def texts_of_def
  by (auto split: option.splits prod.splits intro!: sends_sbind sends_basic sends_execute)

lemma sends_apply: "\<forall>st\<in>set sts. texts_of st \<subseteq> T \<Longrightarrow> sends T (sql_apply (logging E) sts)"
  unfolding sql_apply_def by (intro sends_try sends_sbind sends_seq sends_basic) (auto intro: sends_run)

definition prepared_texts :: "(statement \<times> 'r) result \<Rightarrow> string set" where
  "prepared_texts p = (case p of Inl _ \<Rightarrow> {} | Inr ((txt, _), _) \<Rightarrow> {txt})"

lemma execute_log:
  "so_execute (logging E) txt uses (db, log) = ((d, l), r) \<Longrightarrow> l = log @ [txt]"
  by (auto simp: logging_def split: prod.splits)

lemma sends_scan: "prepared_texts p \<subseteq> T \<Longrightarrow> sends T (sql_scan (logging E) p)"
  by (auto simp: sends_def sql_scan_def prepared_texts_def split: sum.splits prod.splits dest!: execute_log)

lemma sends_fetch: "prepared_texts p \<subseteq> T \<Longrightarrow> sends T (sql_fetch (logging E) d p)"
  by (auto simp: sends_def sql_fetch_def prepared_texts_def split: sum.splits prod.splits dest!: execute_log)

text \<open>All texts but two: those for blocks by their height and for the certificate of a user.\<close>

definition statement_texts :: "string set" where
  "statement_texts =
     {scan_contracts_text, get_contract_text, get_certs_text, get_user_info_text, get_user_scope_text,
      get_contract_scope_text, get_tx_text, scan_blocks_text, scan_txs_text, insert_block_text, insert_tx_text,
      insert_user_ledger_text, update_user_ledger_text, delete_user_ledger_text, insert_contract_ledger_text,
      update_contract_ledger_text, delete_contract_ledger_text, insert_user_attribute_text, insert_user_cert_text,
      insert_contract_text, update_contract_text, user_var_type_text, contract_var_type_text, find_user_scope_text,
      find_contract_scope_text, all_user_ledger_text, all_contract_ledger_text}"

lemma prepared_rbind: "(\<And>x. m = Inr x \<Longrightarrow> prepared_texts (f x) \<subseteq> T) \<Longrightarrow> prepared_texts (rbind m f) \<subseteq> T"
  by (cases m) (auto simp: prepared_texts_def)

lemma prepared_Inr: "txt \<in> T \<Longrightarrow> prepared_texts (Inr ((txt, uses), rd)) \<subseteq> T"
  by (simp add: prepared_texts_def)

lemma apply_write_texts: "sends statement_texts (apply_write (logging E) w)"
proof -
  have block: "sends statement_texts (applyBlockToRDB (logging E) b)" for b
    unfolding applyBlockToRDB_def
    by (intro sends_try sends_sbind sends_basic sends_execute) (simp add: statement_texts_def)
  show ?thesis
    unfolding apply_write_def applyTransactionToRDB_def applyUserLedgerToRDB_def applyContractLedgerToRDB_def
      applyUserAttributeToRDB_def applyUserCertToRDB_def applyContractToRDB_def
    by (auto split: rdb_write.split intro!: block [unfolded statement_texts_def] sends_apply
        simp: texts_of_def tx_statement_def user_ledger_statement_def contract_ledger_statement_def
          user_attribute_statement_def user_cert_statement_def contract_statement_def statement_texts_def)
qed

lemma scan_contracts_texts: "sends statement_texts (sql_queryContractScan (logging E) wh)"
proof -
  have "prepared_texts (prepare_contract_scan (logging E) wh) \<subseteq> statement_texts"
    unfolding prepare_contract_scan_def by (intro prepared_rbind prepared_Inr) (simp add: statement_texts_def)
  then show ?thesis
    by (auto simp: sends_def sql_queryContractScan_def prepared_texts_def split: sum.splits prod.splits dest!: execute_log)
qed

lemma var_type_texts: "sends statement_texts (getVarTypeFromRDB (logging E) var_owner var_name)"
  by (auto simp: sends_def getVarTypeFromRDB_def var_type_statement_def statement_texts_def
      split: sum.splits prod.splits dest!: execute_log)

lemma user_cert_sends: "sends T (sql_getUserCert (logging E) i) \<longleftrightarrow> user_cert_text i \<in> T"
proof
  assume s: "sends T (sql_getUserCert (logging E) i)"
  obtain new where "snd (fst (sql_getUserCert (logging E) i (undefined, []))) = [] @ new" "set new \<subseteq> T"
    using s [unfolded sends_def] by blast
  moreover have "snd (fst (sql_getUserCert (logging E) i (undefined, []))) = [user_cert_text i]"
    by (auto simp: sql_getUserCert_def sql_fetch_def split: sum.splits prod.splits dest!: execute_log)
  ultimately show "user_cert_text i \<in> T" by auto
next
  assume "user_cert_text i \<in> T"
  then show "sends T (sql_getUserCert (logging E) i)"
    unfolding sql_getUserCert_def by (intro sends_fetch prepared_Inr)
qed

lemma infinite_cert_texts: "infinite (range user_cert_text)"
proof -
  have "inj user_cert_text" by (simp add: inj_def user_cert_text_def)
  then show ?thesis using infinite_UNIV_listI [where 'a = char] finite_imageD by blast
qed

lemma known_texts:
  "{get_contract_text, get_certs_text, get_user_info_text, get_user_scope_text, get_contract_scope_text, get_tx_text,
    scan_blocks_text, scan_txs_text, find_user_scope_text, find_contract_scope_text} \<subseteq> statement_texts"
  by (simp add: statement_texts_def)

lemma sql_queryContractGet_texts: "sends statement_texts (sql_queryContractGet (logging E) wh)"
  unfolding sql_queryContractGet_def using known_texts by (intro sends_scan sends_fetch prepared_rbind prepared_Inr) blast

lemma sql_queryCertGet_texts: "sends statement_texts (sql_queryCertGet (logging E) wh)"
  unfolding sql_queryCertGet_def using known_texts by (intro sends_scan sends_fetch prepared_rbind prepared_Inr) blast

lemma sql_queryUserInfoGet_texts: "sends statement_texts (sql_queryUserInfoGet (logging E) wh)"
  unfolding sql_queryUserInfoGet_def using known_texts by (intro sends_scan sends_fetch prepared_rbind prepared_Inr) blast

lemma sql_queryUserScopeGet_texts: "sends statement_texts (sql_queryUserScopeGet (logging E) wh)"
  unfolding sql_queryUserScopeGet_def using known_texts by (intro sends_scan sends_fetch prepared_rbind prepared_Inr) blast

lemma sql_queryContractScopeGet_texts: "sends statement_texts (sql_queryContractScopeGet (logging E) wh)"
  unfolding sql_queryContractScopeGet_def using known_texts by (intro sends_scan sends_fetch prepared_rbind prepared_Inr) blast

lemma sql_queryTxGet_texts: "sends statement_texts (sql_queryTxGet (logging E) wh)"
  unfolding sql_queryTxGet_def using known_texts by (intro sends_scan sends_fetch prepared_rbind prepared_Inr) blast

lemma sql_queryBlockScan_texts: "sends statement_texts (sql_queryBlockScan (logging E) wh)"
  unfolding sql_queryBlockScan_def using known_texts by (intro sends_scan sends_fetch prepared_rbind prepared_Inr) blast

lemma sql_queryTxScan_texts: "sends statement_texts (sql_queryTxScan (logging E) wh)"
  unfolding sql_queryTxScan_def using known_texts by (intro sends_scan sends_fetch prepared_rbind prepared_Inr) blast

lemma findUserScopeFromRDB_texts: "sends statement_texts (findUserScopeFromRDB (logging E) pid)"
  unfolding findUserScopeFromRDB_def using known_texts by (intro sends_scan sends_fetch prepared_rbind prepared_Inr) blast

lemma findContractScopeFromRDB_texts: "sends statement_texts (findContractScopeFromRDB (logging E) pid)"
  unfolding findContractScopeFromRDB_def using known_texts by (intro sends_scan sends_fetch prepared_rbind prepared_Inr) blast


subsection \<open>Reading back\<close>

text \<open>
  The documented rule of the library: a cell is read only as the type of its column; every other type
  throws.  The columns of the schema are texts, \<open>int\<close> and \<open>bigint\<close>, none of which is read as \<open>short\<close> or
  \<open>uint64_t\<close>.
\<close>

definition exact_types :: "'db soci \<Rightarrow> bool" where
  "exact_types E \<longleftrightarrow> (\<forall>t c n. so_number E t c = Inr n \<longrightarrow>
     t = Cpp_Int \<and> c = Cell_Int n \<or> t = Cpp_LongLong \<and> c = Cell_LongLong n)"

definition fails :: "'a result \<Rightarrow> bool" where
  "fails r \<longleftrightarrow> (\<forall>x. r \<noteq> Inr x)"

lemma not_read:
  "exact_types E \<Longrightarrow> so_number E Cpp_Short c \<noteq> Inr n" "exact_types E \<Longrightarrow> so_number E Cpp_UInt64 c \<noteq> Inr n"
  unfolding exact_types_def by blast+

lemma fails_readers:
  assumes "exact_types E"
  shows "fails (read_user_entry E row)" "fails (read_contract_entry E row)" "fails (read_user_cert E uid row)"
    "fails (read_contract_scope E row)"
  unfolding read_user_entry_def read_contract_entry_def read_user_cert_def read_contract_scope_def
  by (auto simp: fails_def rbind_eq_Inr not_read [OF assms])

lemma fails_rbind: "fails m \<Longrightarrow> fails (rbind m f)"
  by (auto simp: fails_def rbind_eq_Inr)

lemma fails_block:
  assumes "exact_types E"
  shows "fails (rowToBlock E row)"
proof -
  have "fails (number_named E Cpp_UInt64 row ''block_height'')"
    by (auto simp: fails_def rbind_eq_Inr not_read [OF assms])
  then obtain e where "number_named E Cpp_UInt64 row ''block_height'' = Inl e"
    by (cases "number_named E Cpp_UInt64 row ''block_height''") (auto simp: fails_def)
  then show ?thesis
    by (auto simp: rowToBlock_def fails_def sbind_def assign_def split: prod.splits sum.splits)
qed

lemma fetch_fails:
  assumes "\<And>a. fails (rd a)"
  shows "snd (sql_fetch E d (Inr ((txt, uses), rd)) db) \<in> {Inr d, Inl Undefined_Behaviour}"
proof -
  have "\<exists>e. rd a = Inl e" for a using assms [of a] by (cases "rd a") (auto simp: fails_def)
  then show ?thesis
    by (auto simp: sql_fetch_def sql_caught_def split: prod.split sum.split) (metis Inr_not_Inl)
qed

lemma scan_fails:
  assumes "\<And>r. fails (rd r)"
  shows "snd (sql_scan E (Inr ((txt, uses), rd)) db) \<in> {Inr [], Inl Undefined_Behaviour}"
proof -
  show ?thesis
  proof (cases "so_execute E txt uses db")
    case (Pair db1 r)
    show ?thesis
    proof (cases r)
      case (Inr a)
      obtain e where "rd (sa_row a) = Inl e" using assms [of "sa_row a"] by (cases "rd (sa_row a)") (auto simp: fails_def)
      then show ?thesis using Pair Inr by (simp add: sql_scan_def sql_caught_def)
    qed (use Pair in \<open>simp add: sql_scan_def sql_caught_def\<close>)
  qed
qed

lemma blocks_fail:
  assumes "exact_types E"
  shows "snd (getBlocks E from to db) \<in> {Inr [], Inl Undefined_Behaviour, Inl Std_Exception}"
proof -
  have rows: "rows_to_blocks E rs = Inr bs \<Longrightarrow> bs = []" for rs bs
    using fails_block [OF assms] by (cases rs) (auto simp: fails_def rbind_eq_Inr)
  obtain db1 r where run: "so_execute E (''SELECT * FROM blocks WHERE '' @ ''block_height BETWEEN '' @ dec_int from @ '' AND '' @ dec_int to) [] db
      = (db1, r)" by fastforce
  show ?thesis
    unfolding getBlocks_def run using rows
    by (cases "rbind r (\<lambda>a. rows_to_blocks E (fetched_rows a))") (auto simp: rbind_eq_Inr)
qed


text \<open>What the queries of contracts make of that: an entry no block of the pool has is not found, whatever the
  database holds, and every name of a variable counts as unique.\<close>

definition reads_through :: "env \<Rightarrow> 'db soci \<Rightarrow> 'db \<Rightarrow> bool" where
  "reads_through e E db \<longleftrightarrow>
     e_rdb_user e = (\<lambda>pid. answer_or UserLedger_default (findUserScopeFromRDB E pid db))
     \<and> e_rdb_contract e = (\<lambda>pid. answer_or ContractLedger_default (findContractScopeFromRDB E pid db))
     \<and> e_rdb_var_type e = (\<lambda>var_owner var_name. answer_or (-3) (getVarTypeFromRDB E var_owner var_name db))"

lemma read_through_empty:
  assumes "exact_types E" "reads_through e E db"
  shows "e_rdb_user e pid = UserLedger_default" "e_rdb_var_type e var_owner var_name = -3"
proof -
  have "snd (findUserScopeFromRDB E pid db) \<in> {Inr UserLedger_default, Inl Undefined_Behaviour}"
    unfolding findUserScopeFromRDB_def by (intro fetch_fails fails_rbind fails_readers [OF assms(1)])
  then show "e_rdb_user e pid = UserLedger_default" using assms(2) by (auto simp: reads_through_def)
  obtain db1 r where "(case var_type_statement var_owner var_name of
      Some (txt, uses) \<Rightarrow> so_execute E txt uses db | None \<Rightarrow> (db, so_unprepared E)) = (db1, r)" by fastforce
  moreover have "fails (rbind r (\<lambda>a. rbind (number_at E Cpp_Short (sa_row a) 0) (\<lambda>t. Inr (counted_type t a))))"
    by (auto simp: fails_def rbind_eq_Inr not_read [OF assms(1)])
  ultimately have "snd (getVarTypeFromRDB E var_owner var_name db) \<in> {Inr (-3), Inl Undefined_Behaviour}"
    unfolding getVarTypeFromRDB_def
    by (cases "rbind r (\<lambda>a. rbind (number_at E Cpp_Short (sa_row a) 0) (\<lambda>t. Inr (counted_type t a)))")
       (auto simp: fails_def sql_caught_def)
  then show "e_rdb_var_type e var_owner var_name = -3" using assms(2) by (auto simp: reads_through_def)
qed

lemma point_not_found:
  assumes "\<And>d v u. getUnresolvedBlock (e_pool e) d v = Inr u \<Longrightarrow> map_of (user_ledger_list u) pid = None"
    and "e_rdb_user e pid = UserLedger_default"
  shows "user_from_point e pid d vec = Inr r \<Longrightarrow> sr_not_found r"
proof (induction d arbitrary: vec)
  case 0
  from 0 [unfolded user_from_point.simps [of e pid 0 vec]] show ?case
    using assms by (auto simp: rbind_eq_Inr UserLedger_default_def split: option.splits)
next
  case (Suc d)
  from Suc.prems [unfolded user_from_point.simps [of e pid "Suc d" vec]] show ?case
    using assms(1) Suc.IH by (auto simp: rbind_eq_Inr simp del: user_from_point.simps split: option.splits)
qed

theorem stored_ledger_not_found:
  assumes "exact_types E" "reads_through e E db"
    and "\<And>d v u. getUnresolvedBlock (e_pool e) d v = Inr u \<Longrightarrow> map_of (user_ledger_list u) pid = None"
    and "findUserLedgerFromPoint e pid height vec = Inr r"
  shows "sr_not_found r"
  using point_not_found [OF assms(3) read_through_empty(1) [OF assms(1,2)]] assms(4)
  by (auto simp: findUserLedgerFromPoint_def Let_def simp del: user_from_point.simps split: if_splits)

theorem every_name_unique:
  assumes "exact_types E" "reads_through e E db" "isUserId owner"
    and "pool_types (e_pool e) (user_types owner name)
      (nat (u64_to_int (height - m_latest_confirmed_height (e_pool e) - 1) + 1)) vec NO_VALUE = Inr (Some NO_VALUE)"
  shows "checkUniqueVarName e owner name height vec = Inr True"
  using read_through_empty(2) [OF assms(1,2)] assms(3,4)
  by (simp add: checkUniqueVarName_def getVarType_def merge_types_def Let_def)

subsection \<open>Blocks in the database\<close>

definition block_columns :: "string list" where
  "block_columns = [''block_id'', ''block_height'', ''block_hash'', ''block_time'', ''block_pub_time'',
     ''block_prev_id'', ''block_link'', ''producer_id'', ''producer_sig'', ''txs'', ''tx_root'', ''us_state_root'',
     ''cs_state_root'', ''sg_root'', ''certificate'']"

definition stored :: "sql_value \<Rightarrow> sql_cell" where
  "stored v = (case v of Sql_Text s \<Rightarrow> Cell_Text s | Sql_Int n \<Rightarrow> Cell_LongLong n)"

lemma no_certs_in_text: "setUserCerts (JStr c) b = (b\<lparr>m_user_certs := []\<rparr>, Inr True)"
  by (simp add: setUserCerts_def json_items_def parse_cert_def json_get_def json_contains_def sbind_def assign_def)


subsection \<open>Scanning contracts\<close>

lemma collect_all:
  "\<forall>r\<in>set rs. \<exists>x. rd r = Inr x \<Longrightarrow> \<exists>xs. collect_rows rd rs = (xs, Inr ())"
  by (induction rs) auto

text \<open>A request for a scan of contracts is answered with an empty table or not at all: the table when the
  request lacks a condition or the database refuses the statement, whose conditions are joined by commas;
  and when the database takes it, the function ends without a return.\<close>

theorem contract_scan_empty:
  assumes "\<And>uses d d' a row. so_execute E scan_contracts_text uses d = (d', Inr a) \<Longrightarrow>
      row \<in> set (sa_row a # sa_more a) \<Longrightarrow> \<exists>s. text_at E row 0 = Inr s"
    and "json_str request ''type'' = Inr ''contract.scan''"
    and "processRequestQuery u (rdb_of E db) ch request = Inr j"
  shows "j = table [''cid''] []"
proof -
  have none: "cs = []" if "snd (sql_queryContractScan E wh db) = Inr cs" for wh cs
  proof (cases "prepare_contract_scan E wh")
    case (Inl e)
    then show ?thesis using that by (auto simp: sql_queryContractScan_def sql_caught_def split: if_splits)
  next
    case prep: (Inr p)
    then obtain uses where p: "p = ((scan_contracts_text, uses), \<lambda>row. text_at E row 0)"
      by (auto simp: prepare_contract_scan_def rbind_eq_Inr)
    show ?thesis
    proof (cases "so_execute E scan_contracts_text uses db")
      case (Pair db1 r)
      show ?thesis
      proof (cases r)
        case (Inl e)
        then show ?thesis using that prep p Pair
          by (simp add: sql_queryContractScan_def sql_caught_def split: if_splits)
      next
        case (Inr a)
        then have "\<forall>row\<in>set (sa_row a # sa_more a). \<exists>s. text_at E row 0 = Inr s"
          using assms(1) Pair by blast
        from collect_all [OF this] obtain xs where
          "collect_rows (\<lambda>row. text_at E row 0) (sa_row a # sa_more a) = (xs, Inr ())" by blast
        then have "sql_queryContractScan E wh db = (db1, Inl Undefined_Behaviour)"
          unfolding sql_queryContractScan_def prep p using Pair Inr by (simp del: collect_rows.simps)
        then show ?thesis using that by simp
      qed
    qed
  qed
  have "answer_query u (rdb_of E db) ch request = Inr j"
    using assms(3) by (simp add: processRequestQuery_def split: sum.splits)
  moreover have "answer_query u (rdb_of E db) ch request
      = rbind (need_where request) (queryContractScan (rdb_of E db))"
    by (simp add: answer_query_def assms(2) Let_def)
  ultimately obtain wh where "queryContractScan (rdb_of E db) wh = Inr j"
    by (auto simp: rbind_eq_Inr)
  then obtain cs where "snd (sql_queryContractScan E wh db) = Inr cs" "j = table [''cid''] (map (\<lambda>c. [JStr c]) cs)"
    by (auto simp: queryContractScan_def rdb_of_def rbind_eq_Inr)
  then show ?thesis using none [of wh cs] by simp
qed

subsection \<open>Examples\<close>

text \<open>A library that converts nothing, on a database that refuses the scan of contracts and gives the same
  row for everything else.\<close>

definition strict_soci :: "sql_row \<Rightarrow> unit soci" where
  "strict_soci row = \<lparr>so_execute = (\<lambda>txt uses db. (db, if txt = scan_contracts_text then Inl Sql_Error
       else Inr \<lparr>sa_got = True, sa_row = row, sa_more = [], sa_affected = 1\<rparr>)),
     so_unprepared = Inl Sql_Error,
     so_text = (\<lambda>c. case c of Cell_Text s \<Rightarrow> Inr s | _ \<Rightarrow> Inl Bad_Cast),
     so_number = (\<lambda>t c. case (t, c) of (Cpp_Int, Cell_Int n) \<Rightarrow> Inr n | (Cpp_LongLong, Cell_LongLong n) \<Rightarrow> Inr n
       | _ \<Rightarrow> Inl Bad_Cast),
     so_junk = 0\<rparr>"

definition demo_scope_row :: sql_row where
  "demo_scope_row = [(''var_name'', Cell_Text ''KEYC''), (''var_value'', Cell_Text ''100''), (''var_type'', Cell_Int 1),
     (''var_owner'', Cell_Text ''alice''), (''up_time'', Cell_LongLong 7), (''up_block'', Cell_Int 3), (''tag'', Cell_Text [])]"

lemma strict_exact: "exact_types (strict_soci row)"
  by (auto simp: exact_types_def strict_soci_def split: cpp_type.splits sql_cell.splits)


definition lenient_soci :: "unit soci" where
  "lenient_soci = (strict_soci [])\<lparr>so_number := (\<lambda>t c. case c of Cell_Int n \<Rightarrow> Inr n | Cell_LongLong n \<Rightarrow> Inr n
       | _ \<Rightarrow> Inl Bad_Cast)\<rparr>"


definition demo_scan :: json where
  "demo_scan = JObj [(''type'', JStr ''contract.scan''), (''where'', JObj
     [(''after'', JStr ''1''), (''author'', JStr ''a''), (''before'', JStr ''9''), (''desc'', JStr ''d'')])]"

theorem contract_scan_empty_witness:
  "\<exists>j. processRequestQuery demo_utils (rdb_of (strict_soci []) ()) (undefined :: Chain) demo_scan = Inr j
    \<and> j = table [''cid''] []"
proof -
  have type: "json_str demo_scan ''type'' = Inr ''contract.scan''" by (simp add: demo_scan_def)
  have "stou64 ''1'' = Inr 1" "stou64 ''9'' = Inr 9" by code_simp+
  then have run: "processRequestQuery demo_utils (rdb_of (strict_soci []) ()) (undefined :: Chain) demo_scan = Inr (table [''cid''] [])"
    by (simp add: processRequestQuery_def answer_query_def type Let_def need_where_def demo_scan_def json_contains_def
        json_idx_def queryContractScan_def rdb_of_def sql_queryContractScan_def prepare_contract_scan_def strict_soci_def
        sql_caught_def)
  have "j = table [''cid''] []"
    if "processRequestQuery demo_utils (rdb_of (strict_soci []) ()) (undefined :: Chain) demo_scan = Inr j" for j
    by (rule contract_scan_empty [OF _ type that]) (simp add: strict_soci_def)
  then show ?thesis using run by blast
qed

end
