(* ===== verification/Chain_Node.thy ===== *)
theory Chain_Node
  imports Chain_Plugin Contract_Engine
begin

text \<open>
  The chain plugin as it runs (chain_plugin.cpp): what \<open>start\<close> does, the timer that hands blocks to
  the contract engine, and the messages that arrive on its channels.  The handlers run one after the
  other in the thread of the event loop; an exception that leaves a handler leaves that thread, so
  it ends the program.  \<open>start\<close> runs in the thread that starts the plugins; the model lets it end
  before the first handler runs.
\<close>

subsection \<open>State\<close>

record chain_node =
  nd_chain :: Chain
  nd_txs :: tx_pool
  nd_contracts :: contract_cache
  nd_timer :: bool
  nd_published :: "Transaction list list"

text \<open>
  What lies outside the plugin at one moment: the clock, the junk in uninitialised variables and the
  ledgers of the database (\<open>o_env\<close>), the libraries of the contract engine, and the answers of the
  database to queries.
\<close>

record outside =
  o_env :: env
  o_engine :: tsce_env
  o_rdb :: rdb

definition on_node :: "(Chain, 'a) prog \<Rightarrow> (chain_node, 'a) prog" where
  "on_node m n = (case m (nd_chain n) of (ch, r) \<Rightarrow> (n\<lparr>nd_chain := ch\<rparr>, r))"

definition on_txs :: "(tx_pool, 'a) prog \<Rightarrow> (chain_node, 'a) prog" where
  "on_txs m n = (case m (nd_txs n) of (p, r) \<Rightarrow> (n\<lparr>nd_txs := p\<rparr>, r))"

definition on_contracts :: "(contract_cache, 'a) prog \<Rightarrow> (chain_node, 'a) prog" where
  "on_contracts m n = (case m (nd_contracts n) of (c, r) \<Rightarrow> (n\<lparr>nd_contracts := c\<rparr>, r))"

subsection \<open>The timer\<close>

definition monitorUnresolvedBlockProcess :: "(chain_node, unit) prog" where
  "monitorUnresolvedBlockProcess n = (n\<lparr>nd_timer := True\<rparr>, Inr ())"

text \<open>The engine with its reading interface, \<open>processRequestQuery\<close>, attached.\<close>

definition engine_of :: "outside \<Rightarrow> Chain \<Rightarrow> tsce_env" where
  "engine_of out ch = (o_engine out)\<lparr>c_read := processRequestQuery (e_utils (o_env out)) (o_rdb out) ch\<rparr>"

definition process_lowest :: "outside \<Rightarrow> (chain_node, unit) prog" where
  "process_lowest out n =
     (if bp_block_height (ch_longest (nd_chain n)) > bp_block_height (ch_head (nd_chain n))
      then sbind (slift (chain_getLowestUnprocessedBlock (nd_chain n))) (\<lambda>b.
           sbind (on_contracts (procBlock (engine_of out (nd_chain n)) b)) (\<lambda>res. case res of
               None \<Rightarrow> sret ()
             | Some r \<Rightarrow> on_node (processTxResult (o_env out) r))) n
      else (n, Inr ()))"

text \<open>The callback of the timer; a timer that was cancelled is not set again.\<close>

definition block_check :: "outside \<Rightarrow> bool \<Rightarrow> (chain_node, unit) prog" where
  "block_check out ok = sbind (\<lambda>n. (n\<lparr>nd_timer := False\<rparr>, Inr ())) (\<lambda>_.
     if ok then sbind (process_lowest out) (\<lambda>_. monitorUnresolvedBlockProcess) else sret ())"

subsection \<open>Transactions for the block producer\<close>

definition asyncFetchTransactionsFromPool :: "(chain_node, unit) prog" where
  "asyncFetchTransactionsFromPool n = (n\<lparr>nd_published := nd_published n @ [fetchAll (nd_txs n)]\<rparr>, Inr ())"

subsection \<open>Options\<close>

record chain_options =
  dbms :: string
  table_name :: string
  db_user_id :: string
  db_password :: string
  block_input_path :: string
  builtin_contracts_path :: string

definition take_option :: "(string \<Rightarrow> string option) \<Rightarrow> string \<Rightarrow> string result" where
  "take_option options k = (case options k of Some x \<Rightarrow> Inr x | None \<Rightarrow> Inl Invalid_Argument)"

definition chain_pluginInitialize :: "(string \<Rightarrow> string option) \<Rightarrow> (chain_options, unit) prog" where
  "chain_pluginInitialize options = seq
     [assign (take_option options ''dbms'') (\<lambda>x c. c\<lparr>dbms := x\<rparr>),
      assign (take_option options ''table-name'') (\<lambda>x c. c\<lparr>table_name := x\<rparr>),
      assign (take_option options ''database-user'') (\<lambda>x c. c\<lparr>db_user_id := x\<rparr>),
      assign (take_option options ''database-password'') (\<lambda>x c. c\<lparr>db_password := x\<rparr>),
      assign (take_option options ''block-input-path'') (\<lambda>x c. c\<lparr>block_input_path := x\<rparr>),
      assign (take_option options ''builtin-contracts-path'') (\<lambda>x c. c\<lparr>builtin_contracts_path := x\<rparr>)]"

subsection \<open>Start\<close>

text \<open>\<open>input_block_json[i]\<close>: null and arrays that are too short are extended by null.\<close>

definition json_nth_mut :: "json \<Rightarrow> nat \<Rightarrow> json result" where
  "json_nth_mut j i = (case j of
       JArr xs \<Rightarrow> Inr (if i < length xs then xs ! i else JNull)
     | JNull \<Rightarrow> Inr JNull
     | _ \<Rightarrow> Inl Json_Type_Error)"

abbreviation input_block_num :: nat where "input_block_num \<equiv> 8"

definition read_input_block :: "utils \<Rightarrow> json \<Rightarrow> nat \<Rightarrow> Block result" where
  "read_input_block u input i = rbind (json_nth_mut input i) (\<lambda>j.
     case block_initialize u j Block_default of (b, Inl e) \<Rightarrow> Inl e | (b, Inr _) \<Rightarrow> Inr b)"

text \<open>A block that is refused or is a duplicate ends \<open>start\<close>.\<close>

fun push_inputs :: "utils \<Rightarrow> int \<Rightarrow> (nat \<Rightarrow> timestamp_t) \<Rightarrow> json \<Rightarrow> nat list \<Rightarrow> (Chain, unit) prog" where
  "push_inputs u junk clock input [] = sret ()"
| "push_inputs u junk clock input (i # is) =
     sbind (slift (read_input_block u input i)) (\<lambda>b.
     sbind (chain_pushBlock junk (clock i) b) (\<lambda>res.
       if pr_block_height res = 0 then sret ()
       else if pr_duplicated res then sret ()
       else sbind (\<lambda>ch. case chain_resolveBlock b ch of
               (ch1, None) \<Rightarrow> (ch1, Inr ()) | (ch1, Some r) \<Rightarrow> (apply_to_rdb r ch1, Inr ()))
            (\<lambda>_. push_inputs u junk clock input is)))"

abbreviation start_block_id :: string where
  "start_block_id \<equiv> ''11111111111111111111111111111111''"

definition chain_setPool :: "string \<Rightarrow> block_height_type \<Rightarrow> timestamp_t \<Rightarrow> string \<Rightarrow> string \<Rightarrow> (Chain, unit) prog" where
  "chain_setPool i h t hash prev = on_pool (\<lambda>p. (setPool i h t hash prev p, Inr ()))"

text \<open>
  \<open>input\<close> is what reading the file of blocks gives, \<open>stored\<close> and \<open>clock\<close> the times at which the
  restored blocks and those of the file are pushed.
\<close>

definition start_chain :: "outside \<Rightarrow> (string \<Rightarrow> timestamp_t) \<Rightarrow> (nat \<Rightarrow> timestamp_t) \<Rightarrow> json result
    \<Rightarrow> (Chain, unit) prog" where
  "start_chain out stored clock input = (let u = e_utils (o_env out) in
     sbind (chain_setPool start_block_id 0 0 ''AAAAAAAAAAAAAAAAAAAAAAAAAAAAAAAAAAAAAAAAAAA='' start_block_id) (\<lambda>_.
     sbind (setupStateTree u (o_rdb out)) (\<lambda>_.
     sbind (restorePool u stored) (\<lambda>_.
     sbind (slift input) (\<lambda>j. push_inputs u (e_junk (o_env out)) clock j [0..<input_block_num])))))"

definition chain_plugin_start :: "outside \<Rightarrow> (string \<Rightarrow> timestamp_t) \<Rightarrow> (nat \<Rightarrow> timestamp_t) \<Rightarrow> json result
    \<Rightarrow> (chain_node, unit) prog" where
  "chain_plugin_start out stored clock input =
     sbind monitorUnresolvedBlockProcess (\<lambda>_. on_node (start_chain out stored clock input))"

subsection \<open>Messages\<close>

datatype chain_event =
    On_Transaction json
  | On_Block json
  | On_Result json
  | On_Fetch
  | On_Timer bool

fun handle_event :: "verifiers \<Rightarrow> outside \<times> chain_event \<Rightarrow> (chain_node, unit) prog" where
  "handle_event v (out, On_Transaction j) = on_txs (pushTransaction v (e_utils (o_env out)) j)"
| "handle_event v (out, On_Block j) =
     on_node (plugin_pushBlock v (e_utils (o_env out)) (e_junk (o_env out)) (e_now (o_env out)) j)"
| "handle_event v (out, On_Result j) = on_node (processTxResult (o_env out) j)"
| "handle_event v (out, On_Fetch) = asyncFetchTransactionsFromPool"
| "handle_event v (out, On_Timer ok) = block_check out ok"

definition run_events :: "verifiers \<Rightarrow> (outside \<times> chain_event) list \<Rightarrow> (chain_node, unit) prog" where
  "run_events v evs = seq (map (handle_event v) evs)"

text \<open>A node before it starts, on what the key-value store holds.\<close>

definition node_new :: "KvStore \<Rightarrow> app_ids \<Rightarrow> chain_node" where
  "node_new kv ids = \<lparr>nd_chain = \<lparr>ch_kv = kv, ch_pool = \<lparr>m_block_pool = [], m_latest_confirmed_id = [],
       m_latest_confirmed_height = 0, m_latest_confirmed_time = 0, m_latest_confirmed_hash = [],
       m_latest_confirmed_prev_id = []\<rparr>, ch_us_tree = StateTree_new, ch_cs_tree = StateTree_new,
       ch_head = BlockPoolInfo_default, ch_longest = BlockPoolInfo_default, ch_app = ids, ch_rdb = []\<rparr>,
     nd_txs = [], nd_contracts = [], nd_timer = False, nd_published = []\<rparr>"

end
