(* ===== verification/Chain_Node_Inv.thy ===== *)
theory Chain_Node_Inv
  imports Chain_Node Chain_Props
begin

text \<open>
  The invariant of a running chain plugin: its pool is well formed, and the blocks handed to the
  database form a chain that ends in the block the pool has confirmed.  Every handler keeps it.
\<close>

subsection \<open>Heights of blocks that were read\<close>

definition height_read :: "Block \<Rightarrow> bool" where
  "height_read b \<longleftrightarrow> (\<exists>k. int_ok k \<and> m_block_height b = word_of_int k)"

lemma stoi_int_ok: "stoi s = Inr k \<Longrightarrow> int_ok k"
  by (auto simp: stoi_def int_ok_def split: if_splits option.splits)

lemma stoi_height: "stoi s = Inr k \<Longrightarrow> \<exists>i. int_ok i \<and> word_of_int k = (word_of_int i :: 64 word)"
  using stoi_int_ok by blast

lemma initialize_head_height: "preserves height_read (initialize_head j)"
  unfolding initialize_head_def
  by (intro preserves_seq) (auto intro!: preserving simp: height_read_def rbind_eq_Inr intro: stoi_height)

lemma setTransaction_height: "preserves height_read (\<lambda>b. setTransaction u (f b) b)"
  unfolding setTransaction_def
  by (intro preserves_at[where m = "\<lambda>s. sbind (seq (assign (Inr ()) _ # map (\<lambda>a. assign (read_txagg u (m_block_id s) a) _) (f s))) _"])
    (auto intro!: preserving simp: height_read_def)

lemmas block_setters = setTxaggs_def initialize_roots_def setSigners_def initialize_tail_def setUserCerts_def

lemma block_initialize_height: "preserves height_read (block_initialize u j)"
  unfolding block_initialize_def block_setters
  by (auto intro!: preserving initialize_head_height setTransaction_height simp: height_read_def split: option.split)

lemma read_block_height:
  assumes "block_initialize u j Block_default = (b, r)"
  shows "height_read b"
proof (rule preservesD[OF block_initialize_height _ assms])
  show "height_read Block_default"
    unfolding height_read_def by (intro exI[of _ 0]) (simp add: int_ok_def Block_default_def)
qed

subsection \<open>A chain of blocks\<close>

fun chain_from :: "string \<Rightarrow> nat \<Rightarrow> Block list \<Rightarrow> bool" where
  "chain_from i h [] \<longleftrightarrow> True"
| "chain_from i h (b # bs) \<longleftrightarrow> m_block_prev_id b = i \<and> unat (m_block_height b) = Suc h
     \<and> chain_from (m_block_id b) (Suc h) bs"

fun top_of :: "string \<Rightarrow> nat \<Rightarrow> Block list \<Rightarrow> string \<times> nat" where
  "top_of i h [] = (i, h)"
| "top_of i h (b # bs) = top_of (m_block_id b) (Suc h) bs"

lemma chain_from_append: "chain_from i h (bs @ [b]) \<longleftrightarrow> chain_from i h bs
    \<and> m_block_prev_id b = fst (top_of i h bs) \<and> unat (m_block_height b) = Suc (snd (top_of i h bs))"
  by (induction bs arbitrary: i h) auto

lemma top_of_append: "top_of i h (bs @ [b]) = (m_block_id b, Suc (snd (top_of i h bs)))"
  by (induction bs arbitrary: i h) auto

text \<open>The blocks among the calls that write to the database, in order, and those of the pool.\<close>

definition written :: "rdb_write list \<Rightarrow> Block list" where
  "written ws = concat (map (\<lambda>w. case w of W_Block b \<Rightarrow> [b] | _ \<Rightarrow> []) ws)"

definition pool_blocks :: "UnresolvedBlockPool \<Rightarrow> Block set" where
  "pool_blocks p = (\<Union>l\<in>set (m_block_pool p). ub_block ` set l)"

text \<open>
  The pool and what was written agree: the written blocks form a chain from the start, its last
  block is the confirmed one, and all blocks satisfy \<open>P\<close>.
\<close>

definition stored_ok :: "(Block \<Rightarrow> bool) \<Rightarrow> UnresolvedBlockPool \<times> rdb_write list \<Rightarrow> bool" where
  "stored_ok P = (\<lambda>(p, ws). pool_inv p \<and> m_latest_confirmed_time p = 0
     \<and> chain_from start_block_id 0 (written ws)
     \<and> top_of start_block_id 0 (written ws) = (m_latest_confirmed_id p, unat (m_latest_confirmed_height p))
     \<and> (\<forall>b\<in>pool_blocks p \<union> set (written ws). P b))"

definition kept :: "Chain \<Rightarrow> UnresolvedBlockPool \<times> rdb_write list" where
  "kept ch = (ch_pool ch, ch_rdb ch)"

abbreviation chain_ok :: "(Block \<Rightarrow> bool) \<Rightarrow> Chain \<Rightarrow> bool" where
  "chain_ok P ch \<equiv> stored_ok P (kept ch)"

lemma same_confirmed:
  assumes "stored_ok P (p, ws)" "pool_inv q" "pool_blocks q \<subseteq> insert b (pool_blocks p)" "P b"
    and "m_latest_confirmed_time q = m_latest_confirmed_time p" "m_latest_confirmed_id q = m_latest_confirmed_id p"
    and "m_latest_confirmed_height q = m_latest_confirmed_height p"
  shows "stored_ok P (q, ws)"
  using assms unfolding stored_ok_def by auto

lemma pool_blocks_resize: "pool_blocks (p\<lparr>m_block_pool := resize n [] (m_block_pool p)\<rparr>) \<subseteq> pool_blocks p"
  by (auto simp: pool_blocks_def resize_def dest: in_set_takeD split: if_splits)

lemma pool_blocks_nth: "x \<in> pool_blocks p \<longleftrightarrow> (\<exists>d<length (m_block_pool p). x \<in> ub_block ` set (m_block_pool p ! d))"
  by (auto simp: pool_blocks_def set_conv_nth[of "m_block_pool p"])

lemma pool_blocks_add:
  assumes "d < length (m_block_pool p)"
  shows "pool_blocks (p\<lparr>m_block_pool := add_block b d i (m_block_pool p)\<rparr>) \<subseteq> insert b (pool_blocks p)"
proof
  fix x assume "x \<in> pool_blocks (p\<lparr>m_block_pool := add_block b d i (m_block_pool p)\<rparr>)"
  then obtain k where k: "k < length (m_block_pool p)" "x \<in> ub_block ` set (add_block b d i (m_block_pool p) ! k)"
    by (auto simp: pool_blocks_nth add_block_nth(1)[OF assms])
  then have "x = b \<or> x \<in> ub_block ` set (m_block_pool p ! k)"
    by (auto simp: add_block_nth(2)[OF assms k(1)] image_image split: if_splits)
  then show "x \<in> insert b (pool_blocks p)" using k(1) by (auto simp: pool_blocks_nth)
qed

lemma push_spec_frame:
  "pool_blocks (fst (push_spec now b p)) \<subseteq> insert b (pool_blocks p)"
  "m_latest_confirmed_time (fst (push_spec now b p)) = m_latest_confirmed_time p"
  "m_latest_confirmed_id (fst (push_spec now b p)) = m_latest_confirmed_id p"
  "m_latest_confirmed_height (fst (push_spec now b p)) = m_latest_confirmed_height p"
proof -
  let ?d = "level_of (m_block_height b) p"
  have g: "pool_blocks (grown ?d p) \<subseteq> pool_blocks p"
    unfolding grown_def by (rule pool_blocks_resize)
  have "pool_blocks ((grown ?d p)\<lparr>m_block_pool := add_block b ?d i (m_block_pool (grown ?d p))\<rparr>)
      \<subseteq> insert b (pool_blocks p)" for i
    using pool_blocks_add[of ?d "grown ?d p" b i] g by auto
  then show "pool_blocks (fst (push_spec now b p)) \<subseteq> insert b (pool_blocks p)"
    using subset_trans[OF g subset_insertI] subset_insertI[of "pool_blocks p" b]
    by (cases "?d = 0") (simp_all add: push_spec_def Let_def)
qed (simp_all add: push_spec_def Let_def grown_def)

lemma pushBlock_ok:
  assumes ok: "stored_ok P (p, ws)" and b: "height_read b" "P b" and now: "time_ok now"
  shows "stored_ok P (fst (pushBlock now b p), ws)"
proof -
  have inv: "pool_inv p" and time: "m_latest_confirmed_time p = 0" using ok by (auto simp: stored_ok_def)
  obtain k where k: "int_ok k" "m_block_height b = word_of_int k" using b(1) by (auto simp: height_read_def)
  show ?thesis
  proof (cases "k < 0")
    case True
    have "unat (m_latest_confirmed_height p) < 2 ^ 31" using levels_invD(1)[OF inv[unfolded pool_inv_def]] by simp
    then have "prepareDeque now (m_block_height b) p = (p, Inr False)"
      using True k now prepareDeque_negative[of k p now] time by (simp add: int_ok_def time_ok_def)
    then have "fst (pushBlock now b p) = p"
      by (cases "deq_index p (m_block_height b)") (simp_all add: pushBlock_def Let_def sbind_def)
    then show ?thesis using ok by simp
  next
    case False
    then have "m_block_height b = of_nat (nat k)" "nat k < 2 ^ 31" using k by (simp_all add: int_ok_def)
    then have h: "unat (m_block_height b) < 2 ^ 31" by (simp add: unat_of_nat)
    show ?thesis
      using same_confirmed[OF ok push_spec_inv[OF inv h] push_spec_frame(1) b(2) push_spec_frame(2-4)]
      by (simp add: pushBlock_eq[OF inv h])
  qed
qed

lemma chain_pushBlock_kept: "kept (fst (chain_pushBlock junk now b ch)) = (fst (pushBlock now b (ch_pool ch)), ch_rdb ch)"
  by (simp add: kept_def chain_pushBlock_def on_pool_def sbind_def split: prod.split sum.split)

lemma chain_pushBlock_ok:
  "height_read b \<Longrightarrow> P b \<Longrightarrow> time_ok now \<Longrightarrow> preserves (chain_ok P) (chain_pushBlock junk now b)"
  by (rule preservesI) (unfold chain_pushBlock_kept, simp add: kept_def pushBlock_ok)

subsection \<open>Confirming a block\<close>

text \<open>The two calls that follow each other: the pool confirms a block, and the database gets it.\<close>

definition resolve_and_write :: "Block \<Rightarrow> Chain \<Rightarrow> Chain" where
  "resolve_and_write b ch = (case chain_resolveBlock b ch of
     (ch1, None) \<Rightarrow> ch1 | (ch1, Some r) \<Rightarrow> apply_to_rdb r ch1)"

lemma written_apply: "written (ch_rdb (apply_to_rdb r ch)) = written (ch_rdb ch) @ [ub_block r]"
  by (simp add: apply_to_rdb_def written_def)

lemma pool_blocks_totals: "pool_blocks (updateTotalNumSSig p) = pool_blocks p"
proof -
  have "map (map ub_block) (m_block_pool (updateTotalNumSSig p)) = map (map ub_block) (m_block_pool p)"
    using arg_cong[OF updateTotalNumSSig_same_links[of p], of "map (map ub_block)"]
    by (simp add: comp_def del: updateTotalNumSSig_same_links)
  then have "set ` set (map (map ub_block) (m_block_pool (updateTotalNumSSig p))) = set ` set (map (map ub_block) (m_block_pool p))"
    by (rule arg_cong)
  then show ?thesis by (simp add: pool_blocks_def image_image)
qed

lemma pool_blocks_confirm: "pool_blocks (confirm i p) \<subseteq> pool_blocks p"
proof
  fix x assume "x \<in> pool_blocks (confirm i p)"
  then obtain d where d: "d < length (tl (m_block_pool p))"
    "x \<in> ub_block ` set (relink_front (ub_id (m_block_pool p ! 0 ! i)) (tl (m_block_pool p)) ! d)"
    by (auto simp: pool_blocks_nth confirm_def Let_def)
  then have "x \<in> ub_block ` set (tl (m_block_pool p) ! d)"
    by (auto simp: relink_front_nth split: if_splits)
  with d(1) show "x \<in> pool_blocks p" by (auto simp: pool_blocks_nth nth_tl intro!: exI[of _ "Suc d"])
qed

lemma resolve_and_write_ok:
  assumes "chain_ok P ch"
  shows "chain_ok P (resolve_and_write b ch)"
proof (cases "resolveBlock b (ch_pool ch)")
  case (Pair p' res)
  let ?p = "ch_pool ch"
  let ?u = "updateTotalNumSSig ?p"
  have ok: "stored_ok P (?p, ch_rdb ch)" using assms by (simp add: kept_def)
  then have inv: "pool_inv ?p" by (simp add: stored_ok_def)
  note inv_u = updateTotalNumSSig_inv[OF inv]
  show ?thesis
  proof (cases res)
    case None
    then have "stored_ok P (p', ch_rdb ch)"
      using resolveBlock_None[of b ?p p'] Pair inv_u ok by (auto simp: stored_ok_def pool_blocks_totals)
    then show ?thesis using Pair None by (simp add: kept_def resolve_and_write_def chain_resolveBlock_def)
  next
    case (Some rd)
    then obtain r dropped where rd: "res = Some (r, dropped)" by (cases rd) simp
    then obtain l0 l1 rest i where r: "m_block_pool ?u = l0 # l1 # rest" "i < length l0" "r = l0 ! i"
      "prev_vec_idx r = 0" "p' = confirm i ?u"
      using resolveBlock_Some[of b ?p p' r dropped] Pair by blast
    have root: "ub_prev_id r = m_latest_confirmed_id ?p"
      using levels_invD(3)[OF inv_u[unfolded pool_inv_def]] r by (auto simp: root_ok_def split: if_splits)
    have height: "unat (m_block_height (ub_block r)) = Suc (unat (m_latest_confirmed_height ?p))"
      using levels_invD(2)[OF inv_u[unfolded pool_inv_def], of 0] r by (auto simp: level_ok_def)
    have q: "pool_inv p'" "m_latest_confirmed_time p' = m_latest_confirmed_time ?p"
      "m_latest_confirmed_id p' = ub_id r" "m_latest_confirmed_height p' = m_block_height (ub_block r)"
      using confirm_inv(1)[OF inv_u, of i] r by (simp_all add: confirm_def Let_def)
    have "ub_block r \<in> pool_blocks ?u" using r by (auto simp: pool_blocks_def)
    then have "P (ub_block r)" "\<forall>c\<in>pool_blocks p'. P c"
      using ok pool_blocks_confirm[of i ?u] r(5) by (auto simp: stored_ok_def pool_blocks_totals)
    then have "stored_ok P (p', ch_rdb (apply_to_rdb r ch))"
      using ok q root height
      by (auto simp: stored_ok_def written_apply chain_from_append top_of_append)
    then show ?thesis
      using Pair rd by (simp add: kept_def resolve_and_write_def chain_resolveBlock_def apply_to_rdb_def)
  qed
qed

subsection \<open>Queries keep the links of their block\<close>

abbreviation links :: "QueryState \<Rightarrow> UnresolvedBlock" where
  "links s \<equiv> same_links (q_ur s)"

lemma keeps_read [keeping]: "keeps f (\<lambda>s. (s, g s))"
  by (simp add: keeps_def)

lemma keeps_at: "(\<And>s. keeps f (m s)) \<Longrightarrow> keeps f (\<lambda>s. m s s)"
  by (simp add: keeps_def)

lemma put_links [keeping]:
  "keeps links (put_user pid l)" "keeps links (put_contract pid c)" "keeps links (put_attribute a)"
  "keeps links (put_cert uc)" "keeps links (put_contract_info ct)"
  by (simp_all add: keeps_def put_user_def put_contract_def put_attribute_def put_cert_def put_contract_info_def
      same_links_eq)

lemma find_links [keeping]: "keeps links (findUserLedgerFromHead pid)" "keeps links (findContractLedgerFromHead pid)"
  by (auto simp: keeps_def findUserLedgerFromHead_def findContractLedgerFromHead_def Let_def same_links_eq
      split: prod.split sum.split option.split)

lemma var_type_links [keeping]: "keeps links (var_type_here e owner name)"
  by (simp add: keeps_def var_type_here_def)

lemma pay_links [keeping]:
  "keeps links (payer_pid e given owner name)"
  "keeps links (pay_from_contract e given owner name amount b)" "keeps links (pay_from_user e given owner name amount b)"
  "keeps links (pay_to_contract e pid amount b)" "keeps links (pay_to_user e pid amount b)"
  "keeps links (scope_target e given type owner name)"
  unfolding payer_pid_def pay_from_contract_def pay_from_user_def pay_to_contract_def pay_to_user_def scope_target_def
  by (auto intro!: keeping split: option.split)

lemma query_links [keeping]:
  "keeps links (queryUserJoin j info)" "keeps links (queryUserCert j info)" "keeps links (queryContractNew j info)"
  "keeps links (queryContractDisable e j info)" "keeps links (queryIncinerate j info)"
  "keeps links (queryCreate e j info)"
  unfolding queryUserJoin_def queryUserCert_def queryContractNew_def queryContractDisable_def queryIncinerate_def
    queryCreate_def Let_def
  by (auto intro!: keeping)

lemma query_transfer_links [keeping]: "keeps links (queryTransfer e j info)"
  unfolding queryTransfer_def Let_def by (auto intro!: keeping split: option.split)

lemma query_scope_links [keeping]: "keeps links (queryUserScope e j info)" "keeps links (queryContractScope e j info)"
  unfolding queryUserScope_def queryContractScope_def Let_def
  by (auto intro!: keeping keeps_at[where m = "\<lambda>s. put_user _ \<lparr>ul_var_name = _, ul_var_value = _, ul_var_type = _,
      ul_uid = _, ul_up_time = _, ul_up_block = m_block_height (ub_block (q_ur s)), ul_tag = _, ul_pid = _,
      ul_query_type = _, ul_is_empty = _\<rparr>"]
    keeps_at[where m = "\<lambda>s. put_contract _ \<lparr>cl_var_name = _, cl_var_value = _, cl_var_type = _, cl_cid = _,
      cl_up_time = _, cl_up_block = m_block_height (ub_block (q_ur s)), cl_var_info = _, cl_pid = _,
      cl_query_type = _, cl_is_empty = _\<rparr>"]
    split: option.split)

lemma query_check_links [keeping]: "keeps links (queryTradeItem j info)" "keeps links (queryTradeVal j info)"
  "keeps links (queryRunQuery j info)" "keeps links (queryRunContract j info)"
  unfolding queryTradeItem_def queryTradeVal_def queryRunQuery_def queryRunContract_def by (auto intro!: keeping)

lemma run_result_links [keeping]: "keeps links (run_result e bid h r)"
  unfolding run_result_def run_one_query_def[abs_def] dispatch_query_def
  by (auto intro!: keeping)

subsection \<open>The rest of processing a result keeps the pool\<close>

lemma kept_parts [keeping]:
  "keeps kept (on_us_tree m)" "keeps kept (on_cs_tree m')" "keeps kept (on_kv g)" "keeps kept (with_block ur q)"
  by (simp_all add: keeps_def kept_def on_us_tree_def on_cs_tree_def on_kv_def with_block_def split: prod.split)

lemma kept_trees [keeping]: "keeps kept (updateStateTree u ur)" "keeps kept (setupStateTree u r)"
  "keeps kept (revertStateTree e ur)" "keeps kept (saveBackupResult u ur)"
  unfolding updateStateTree_def setupStateTree_def revertStateTree_def saveBackupResult_def Let_def
  by (auto intro!: keeping)

lemma kept_revert [keeping]: "keeps kept (revert_down e n deq vec)"
  by (induction n arbitrary: deq vec) (auto intro!: keeping)

lemma kept_apply [keeping]: "keeps kept (apply_up u path n deq vec)"
  by (induction n arbitrary: deq vec) (auto intro!: keeping)

lemma kept_head [keeping]: "keeps kept (set_head deq vec h)"
  by (simp add: keeps_def kept_def set_head_def Let_def split: sum.split)

lemma kept_move_steps:
  "keeps kept (sbind (slift f) (\<lambda>front. sbind (slift g) (\<lambda>back.
     sbind (revert_down e (nat back) d v) (\<lambda>(deq, vec).
     sbind (apply_up u path (nat front) deq vec) (\<lambda>(deq, vec).
       set_head deq vec (h - int (nat back) + int (nat front)))))))"
  by (auto intro!: keeping)

lemma kept_move [keeping]: "keeps kept (moveHead e target h)"
  unfolding keeps_def moveHead_def Let_def
  by (auto simp del: int_nat_eq intro: kept_move_steps[unfolded keeps_def, THEN spec]
      split: sum.split option.split prod.split)

subsection \<open>Storing a processed block\<close>

lemma find_position:
  assumes "List.find Q (concat (m_block_pool p)) = Some w"
  obtains d v where "getUnresolvedBlock p (int d) (int v) = Inr w"
proof -
  obtain l where "l \<in> set (m_block_pool p)" "w \<in> set l"
    using assms by (auto simp: find_Some_iff set_concat dest!: nth_mem)
  then obtain d v where "d < length (m_block_pool p)" "v < length (m_block_pool p ! d)" "w = m_block_pool p ! d ! v"
    by (metis in_set_conv_nth)
  then show thesis by (intro that[of d v]) (simp add: getUnresolvedBlock_Inr)
qed

lemma missing_not_stored:
  assumes inv: "pool_inv p" and u: "same_links u = same_links UnresolvedBlock_default"
  shows "\<exists>e. setUnresolvedBlock u p = (p, Inl e)"
proof -
  have "m_block_height (ub_block u) = 0" using u by (simp add: same_links_eq UnresolvedBlock_default_def Block_default_def)
  moreover have "unat (m_latest_confirmed_height p) < 2 ^ 31" using levels_invD(1)[OF inv[unfolded pool_inv_def]] by simp
  ultimately have "deq_index p (m_block_height (ub_block u)) = Inr (- int (unat (m_latest_confirmed_height p)) - 1)"
    by (subst deq_index_eq) simp_all
  then show ?thesis by (simp add: setUnresolvedBlock_def getUnresolvedBlock_def at_index_def)
qed

lemma pool_blocks_store:
  assumes "getUnresolvedBlock p d v = Inr w" "ub_block u = ub_block w"
  shows "pool_blocks (p\<lparr>m_block_pool := (m_block_pool p)[nat d := (m_block_pool p ! nat d)[nat v := u]]\<rparr>)
    \<subseteq> insert (ub_block w) (pool_blocks p)"
proof
  fix x assume "x \<in> pool_blocks (p\<lparr>m_block_pool := (m_block_pool p)[nat d := (m_block_pool p ! nat d)[nat v := u]]\<rparr>)"
  then obtain k where k: "k < length (m_block_pool p)"
    "x \<in> ub_block ` set ((m_block_pool p)[nat d := (m_block_pool p ! nat d)[nat v := u]] ! k)"
    by (auto simp: pool_blocks_nth)
  then have "x \<in> insert (ub_block u) (ub_block ` set (m_block_pool p ! k))"
    using set_update_subset_insert[of "m_block_pool p ! nat d" "nat v" u] by (cases "k = nat d") auto
  then show "x \<in> insert (ub_block w) (pool_blocks p)" using k(1) assms(2) by (auto simp: pool_blocks_nth)
qed

lemma setUnresolvedBlock_ok:
  assumes ok: "stored_ok P (p, ws)" and u: "same_links u = same_links (getUnresolvedBlock_id p i h)"
  shows "stored_ok P (fst (setUnresolvedBlock u p), ws)"
proof -
  have inv: "pool_inv p" using ok by (simp add: stored_ok_def)
  show ?thesis
  proof (cases "List.find (\<lambda>u. ub_id u = i \<and> m_block_height (ub_block u) = h) (concat (m_block_pool p))")
    case None
    then show ?thesis using missing_not_stored[OF inv] u ok by (force simp: getUnresolvedBlock_id_def)
  next
    case (Some w)
    then obtain d v where w: "getUnresolvedBlock p (int d) (int v) = Inr w" by (rule find_position)
    have u': "same_links u = same_links w" using u Some by (simp add: getUnresolvedBlock_id_def)
    have "ub_block w \<in> pool_blocks p"
      using w by (auto simp: getUnresolvedBlock_Inr pool_blocks_nth)
    then have "P (ub_block w)" using ok by (simp add: stored_ok_def)
    note store = setUnresolvedBlock_at[OF inv w u'] setUnresolvedBlock_inv[OF inv w u']
    show ?thesis
      by (rule same_confirmed[OF ok store(2) _ \<open>P (ub_block w)\<close>])
        (use pool_blocks_store[OF w, of "u\<lparr>is_processed := True\<rparr>"] u' in \<open>simp_all add: store(1) same_links_eq\<close>)
  qed
qed

lemma with_block_result:
  assumes "with_block ur m ch = (ch', Inr ur')" "keeps links m"
  shows "same_links ur' = same_links ur"
proof (cases "m \<lparr>q_ur = ur, q_us_tree = ch_us_tree ch, q_cs_tree = ch_cs_tree ch\<rparr>")
  case (Pair s r)
  then have "links s = same_links ur" using assms(2) by (metis QueryState.select_convs(1) fst_conv keeps_def)
  then show ?thesis using assms(1) Pair by (auto simp: with_block_def rbind_eq_Inr)
qed

lemma keeps_kept_D: "keeps kept m \<Longrightarrow> m s = (t, r) \<Longrightarrow> kept t = kept s"
  by (metis fst_conv keeps_def)

lemma processed_block_ok:
  assumes ok: "chain_ok P ch" and first: "keeps kept mv"
    and run: "\<And>rs. keeps kept (run rs)"
      "\<And>rs s t x. run rs s = (t, Inr x) \<Longrightarrow> same_links x = same_links (getUnresolvedBlock_id (ch_pool ch) i h)"
    and final: "\<And>x. keeps kept (rest x)"
  shows "chain_ok P (fst (sbind mv (\<lambda>_. sbind (slift r) (\<lambda>rs. sbind (run rs) (\<lambda>x.
    sbind (on_pool (setUnresolvedBlock x)) (\<lambda>_. rest x)))) ch))"
proof -
  have store: "chain_ok P (fst (sbind (on_pool (setUnresolvedBlock x)) (\<lambda>_. rest x) s))"
    if "kept s = kept ch" "same_links x = same_links (getUnresolvedBlock_id (ch_pool ch) i h)" for x s
  proof -
    have "stored_ok P (fst (setUnresolvedBlock x (ch_pool s)), ch_rdb s)"
      using setUnresolvedBlock_ok[of P "ch_pool ch" "ch_rdb ch" x i h] ok that by (simp add: kept_def)
    moreover have "kept (fst (rest x t)) = kept t" for t using final by (simp add: keeps_def)
    ultimately show ?thesis by (auto simp: sbind_def on_pool_def kept_def split: prod.split sum.split)
  qed
  show ?thesis
  proof (cases "mv ch")
    case mv: (Pair t res)
    note t = keeps_kept_D[OF first mv]
    show ?thesis
    proof (cases "\<exists>rs. r = Inr rs \<and> (\<exists>y. res = Inr y)")
      case False
      then show ?thesis using ok t by (cases res; cases r) (simp_all add: sbind_def mv)
    next
      case True
      then obtain rs y where rs: "r = Inr rs" "res = Inr y" by blast
      obtain t' x where run_rs: "run rs t = (t', x)" by fastforce
      note t' = keeps_kept_D[OF run(1) run_rs]
      show ?thesis
        using store[of t'] run(2)[of rs t t'] run_rs t t' rs mv ok by (cases x) (simp_all add: sbind_def)
    qed
  qed
qed

subsection \<open>The handlers keep the chain\<close>

lemma preserves_run: "(\<And>s. Q s \<Longrightarrow> Q (fst (m s s))) \<Longrightarrow> preserves Q (\<lambda>s. m s s)"
  by (simp add: preserves_def)

lemma queries_links [keeping]: "keeps links (seq (map (run_result e bid h) rs))"
  by (auto intro!: keeping)

lemma processTxResult_ok: "preserves (chain_ok P) (processTxResult e res)"
proof -
  have first: "keeps kept (if c then moveHead e a b else sret ())" for c a b
    by (simp add: keeping)
  have run: "keeps kept (\<lambda>ch. with_block ur (seq (map (run_result (env_of e ch) bid h) rs)) ch)" for ur bid h rs
    by (rule keeps_at[where m = "\<lambda>ch. with_block ur (seq (map (run_result (env_of e ch) bid h) rs))"]) (rule keeping)
  have final: "keeps kept (sbind (updateStateTree (e_utils e) x) (\<lambda>_. sbind (saveBackupResult (e_utils e) x)
      (\<lambda>_. moveHead e (ub_id x) (m_block_height (ub_block x)))))" for x
    by (auto intro!: keeping)
  show ?thesis
    unfolding processTxResult_def Let_def
    by (intro preserves_sbind preserves_pure preserves_run processed_block_ok[OF _ first run _ final])
      (auto intro: with_block_result queries_links)
qed

lemma preserves_resolve:
  assumes "\<And>r ch. chain_ok P (apply_to_rdb r ch) \<Longrightarrow> chain_ok P (fst (k r ch))"
  shows "preserves (chain_ok P) (\<lambda>ch. case chain_resolveBlock b ch of
    (ch1, None) \<Rightarrow> (ch1, Inr ()) | (ch1, Some r) \<Rightarrow> k r ch1)"
proof (rule preservesI)
  fix ch assume "chain_ok P ch"
  then have ok: "chain_ok P (resolve_and_write b ch)" by (rule resolve_and_write_ok)
  obtain ch1 res where res: "chain_resolveBlock b ch = (ch1, res)" by fastforce
  show "chain_ok P (fst (case chain_resolveBlock b ch of
    (ch1, None) \<Rightarrow> (ch1, Inr ()) | (ch1, Some r) \<Rightarrow> k r ch1))"
    using ok assms res by (cases res) (simp_all add: resolve_and_write_def)
qed

lemma kept_backup: "keeps kept (chain_saveBackupBlock u j)" "keeps kept (chain_saveBlockIds u)"
  unfolding chain_saveBackupBlock_def chain_saveBlockIds_def[abs_def]
  by (intro keeping) (rule keeps_at, rule kept_parts)

lemma plugin_pushBlock_ok:
  assumes "\<And>b. earlyStage v u b \<Longrightarrow> P b" "time_ok now"
  shows "preserves (chain_ok P) (plugin_pushBlock v u junk now j)"
proof (rule preservesI)
  fix ch assume ok: "chain_ok P ch"
  obtain b r where b: "block_initialize u j Block_default = (b, r)" by fastforce
  have backup: "preserves (chain_ok P) (chain_saveBackupBlock u j)" "preserves (chain_ok P) (chain_saveBlockIds u)"
    by (rule preserves_keeps[OF kept_backup(1)], simp) (rule preserves_keeps[OF kept_backup(2)], simp)
  have "preserves (chain_ok P) (sbind (chain_pushBlock junk now b) (\<lambda>res.
      if pr_block_height res = 0 then sret () else if pr_duplicated res then sret ()
      else sbind (chain_saveBackupBlock u j) (\<lambda>_. sbind (chain_saveBlockIds u) (\<lambda>_ ch.
        case chain_resolveBlock b ch of (ch1, None) \<Rightarrow> (ch1, Inr ())
        | (ch1, Some r) \<Rightarrow> chain_saveBlockIds u (apply_to_rdb r ch1)))))" if "earlyStage v u b"
    using that
    by (intro preserves_sbind preserves_if preserves_pure chain_pushBlock_ok assms backup preserves_resolve
        read_block_height[OF b] preservesD[OF backup(2), OF _ prod.collapse[symmetric]])
  then show "chain_ok P (fst (plugin_pushBlock v u junk now j ch))"
    using ok b by (cases r) (auto simp: plugin_pushBlock_def preserves_def)
qed

lemma read_input_height: "read_input_block u j i = Inr b \<Longrightarrow> height_read b"
proof -
  assume read: "read_input_block u j i = Inr b"
  then obtain x where x: "json_nth_mut j i = Inr x" by (auto simp: read_input_block_def rbind_eq_Inr)
  obtain c r where c: "block_initialize u x Block_default = (c, r)" by fastforce
  then show "height_read b" using read x read_block_height[OF c] by (cases r) (simp_all add: read_input_block_def)
qed

lemma push_inputs_ok:
  assumes "\<And>b. P b" "\<And>i. time_ok (clock i)"
  shows "preserves (chain_ok P) (push_inputs u junk clock j is)"
proof (induction "is")
  case (Cons i js)
  have step: "preserves (chain_ok P) (sbind (chain_pushBlock junk (clock i) b) (\<lambda>res.
      if pr_block_height res = 0 then sret () else if pr_duplicated res then sret ()
      else sbind (\<lambda>ch. case chain_resolveBlock b ch of
               (ch1, None) \<Rightarrow> (ch1, Inr ()) | (ch1, Some r) \<Rightarrow> (apply_to_rdb r ch1, Inr ()))
            (\<lambda>_. push_inputs u junk clock j js)))" if "height_read b" for b
    by (intro preserves_sbind preserves_if preserves_pure chain_pushBlock_ok assms preserves_resolve Cons.IH that) simp
  show ?case
  proof (rule preservesI)
    fix ch assume "chain_ok P ch"
    then show "chain_ok P (fst (push_inputs u junk clock j (i # js) ch))"
      using step[OF read_input_height]
      by (cases "read_input_block u j i") (auto simp: preserves_def sbind_def)
  qed
qed (simp add: preserves_def)

lemma restore_block_ok:
  assumes "\<And>b. P b" "\<And>i. time_ok (stored i)"
  shows "preserves (chain_ok P) (restore_block u stored j)"
proof -
  have push: "preserves (chain_ok P) (on_pool (pushBlock (stored i) b))" if "height_read b" for i b
  proof (rule preservesI)
    fix ch assume "chain_ok P ch"
    then have "stored_ok P (fst (pushBlock (stored i) b (ch_pool ch)), ch_rdb ch)"
      by (intro pushBlock_ok that assms) (simp add: kept_def)
    then show "chain_ok P (fst (on_pool (pushBlock (stored i) b) ch))"
      by (simp add: on_pool_def kept_def split_beta)
  qed
  have msg: "preserves (chain_ok P) (case block_initialize u msg Block_default of (b, Inl e) \<Rightarrow> slift (Inl e)
      | (b, Inr _) \<Rightarrow> sbind (on_pool (pushBlock (stored i) b)) (\<lambda>ret ch. (ch, g b ret ch)))" for i msg
    and g :: "Block \<Rightarrow> BlockPushResult \<Rightarrow> Chain \<Rightarrow> unit result"
  proof -
    obtain b r where b: "block_initialize u msg Block_default = (b, r)" by fastforce
    have "preserves (chain_ok P) (\<lambda>ch. (ch, g b ret ch))" for ret by (simp add: preserves_def)
    then show ?thesis
      using push[OF read_block_height[OF b]] b by (cases r) (auto intro!: preserving)
  qed
  have "preserves (chain_ok P) (\<lambda>ch. sbind (slift (from_cbor u (loadBackupBlock (ch_kv ch) i))) (\<lambda>msg.
      case block_initialize u msg Block_default of (b, Inl e) \<Rightarrow> slift (Inl e)
      | (b, Inr _) \<Rightarrow> sbind (on_pool (pushBlock (stored i) b)) (\<lambda>ret ch. (ch, g b ret ch))) ch)" for i
    and g :: "Block \<Rightarrow> BlockPushResult \<Rightarrow> Chain \<Rightarrow> unit result"
    by (intro preserves_at[where m = "\<lambda>ch. sbind (slift (from_cbor u (loadBackupBlock (ch_kv ch) i))) _"]
        preserves_sbind preserves_pure msg)
  then show ?thesis
    unfolding restore_block_def by (intro preserves_sbind preserves_pure)
qed

lemma restorePool_ok:
  assumes "\<And>b. P b" "\<And>i. time_ok (stored i)"
  shows "preserves (chain_ok P) (restorePool u stored)"
proof -
  have "preserves (chain_ok P) (if ids = [] then sret () else
      sbind (slift (from_cbor u ids)) (\<lambda>js. seq (map (restore_block u stored) (json_items js))))" for ids
    using restore_block_ok[OF assms] by (auto intro!: preserving)
  then have "preserves (chain_ok P) (\<lambda>ch. (if loadBlockIds (ch_kv ch) = [] then sret () else
      sbind (slift (from_cbor u (loadBlockIds (ch_kv ch)))) (\<lambda>js. seq (map (restore_block u stored) (json_items js)))) ch)"
    by (rule preserves_at)
  moreover have "restorePool u stored = (\<lambda>ch. (if loadBlockIds (ch_kv ch) = [] then sret () else
      sbind (slift (from_cbor u (loadBlockIds (ch_kv ch)))) (\<lambda>js. seq (map (restore_block u stored) (json_items js)))) ch)"
    by (simp add: fun_eq_iff restorePool_def Let_def)
  ultimately show ?thesis by simp
qed

subsection \<open>Runs\<close>

abbreviation node_ok :: "(Block \<Rightarrow> bool) \<Rightarrow> chain_node \<Rightarrow> bool" where
  "node_ok P n \<equiv> chain_ok P (nd_chain n)"

lemma on_node_ok: "preserves (chain_ok P) m \<Longrightarrow> preserves (node_ok P) (on_node m)"
  by (simp add: preserves_def on_node_def split_beta)

lemma keeps_chain [keeping]: "keeps nd_chain (on_txs m)" "keeps nd_chain (on_contracts m')"
  "keeps nd_chain monitorUnresolvedBlockProcess" "keeps nd_chain asyncFetchTransactionsFromPool"
  by (simp_all add: keeps_def on_txs_def on_contracts_def monitorUnresolvedBlockProcess_def
      asyncFetchTransactionsFromPool_def split_beta)

lemma other_node_ok [preserving]: "preserves (node_ok P) (on_txs m)" "preserves (node_ok P) (on_contracts m')"
  "preserves (node_ok P) monitorUnresolvedBlockProcess" "preserves (node_ok P) asyncFetchTransactionsFromPool"
  by (rule preserves_keeps[where f = nd_chain], rule keeps_chain, simp)+

lemma process_lowest_ok: "preserves (node_ok P) (process_lowest out)"
proof -
  have "preserves (node_ok P) (if c then sbind (slift r) (\<lambda>b. sbind (on_contracts (procBlock E b)) (\<lambda>res.
      case res of None \<Rightarrow> sret () | Some r \<Rightarrow> on_node (processTxResult (o_env out) r))) else sret ())" for c r E
    by (auto intro!: preserving on_node_ok processTxResult_ok split: option.split)
  note step = this
  have eq: "process_lowest out = (\<lambda>n. (if bp_block_height (ch_longest (nd_chain n)) > bp_block_height (ch_head (nd_chain n))
      then sbind (slift (chain_getLowestUnprocessedBlock (nd_chain n))) (\<lambda>b.
        sbind (on_contracts (procBlock (engine_of out (nd_chain n)) b)) (\<lambda>res.
        case res of None \<Rightarrow> sret () | Some r \<Rightarrow> on_node (processTxResult (o_env out) r))) else sret ()) n)"
    by (simp add: fun_eq_iff process_lowest_def)
  show ?thesis unfolding eq by (rule preserves_at) (rule step)
qed

lemma block_check_ok: "preserves (node_ok P) (block_check out ok)"
proof -
  have "preserves (node_ok P) (\<lambda>n. (n\<lparr>nd_timer := False\<rparr>, Inr ()))" by (simp add: preserves_def)
  then show ?thesis unfolding block_check_def using process_lowest_ok by (auto intro!: preserving)
qed

lemma handle_event_ok:
  assumes "\<And>b. earlyStage v u b \<Longrightarrow> P b" "e_utils (o_env out) = u" "time_ok (e_now (o_env out))"
  shows "preserves (node_ok P) (handle_event v (out, ev))"
  using assms by (cases ev)
    (auto intro!: preserving on_node_ok plugin_pushBlock_ok processTxResult_ok block_check_ok)

lemma run_events_ok:
  assumes "\<And>b. earlyStage v u b \<Longrightarrow> P b"
    and "\<forall>(out, ev)\<in>set evs. e_utils (o_env out) = u \<and> time_ok (e_now (o_env out))"
  shows "preserves (node_ok P) (run_events v evs)"
  unfolding run_events_def using assms handle_event_ok[OF assms(1)] by (intro preserves_seq) force

lemma start_steps:
  "sbind monitorUnresolvedBlockProcess (\<lambda>_. m) n = m (n\<lparr>nd_timer := True\<rparr>)"
  "sbind (chain_setPool i h t x prev) (\<lambda>_. k) ch = k (ch\<lparr>ch_pool := setPool i h t x prev (ch_pool ch)\<rparr>)"
  by (simp_all add: sbind_def monitorUnresolvedBlockProcess_def chain_setPool_def on_pool_def)

lemma start_ok:
  assumes "\<And>i. time_ok (stored i)" "\<And>i. time_ok (clock i)"
    and "chain_plugin_start out stored clock input (node_new kv ids) = (n, r)"
  shows "node_ok (\<lambda>_. True) n"
proof -
  let ?u = "e_utils (o_env out)" and ?Q = "chain_ok (\<lambda>_. True)"
  define M where "M = sbind (setupStateTree ?u (o_rdb out)) (\<lambda>_. sbind (restorePool ?u stored) (\<lambda>_.
      sbind (slift input) (\<lambda>j. push_inputs ?u (e_junk (o_env out)) clock j [0..<input_block_num])))"
  have rest: "preserves ?Q M" unfolding M_def
    using restorePool_ok[of "\<lambda>_. True" stored ?u] push_inputs_ok[of "\<lambda>_. True" clock] assms(1,2)
      preserves_keeps[OF kept_trees(2), of ?Q]
    by (intro preserves_sbind preserves_pure) simp_all
  have eq: "start_chain out stored clock input = sbind (chain_setPool start_block_id 0 0
      ''AAAAAAAAAAAAAAAAAAAAAAAAAAAAAAAAAAAAAAAAAAA='' start_block_id) (\<lambda>_. M)"
    by (simp only: start_chain_def Let_def M_def)
  have new: "?Q ((nd_chain (node_new kv ids))\<lparr>ch_pool := setPool start_block_id 0 0 h start_block_id (ch_pool (nd_chain (node_new kv ids)))\<rparr>)"
    for h
    by (simp add: kept_def stored_ok_def node_new_def setPool_def written_def pool_blocks_def pool_inv_def levels_inv_def)
  define n1 where "n1 = (node_new kv ids)\<lparr>nd_timer := True\<rparr>"
  define c1 where "c1 = (nd_chain n1)\<lparr>ch_pool := setPool start_block_id 0 0
      ''AAAAAAAAAAAAAAAAAAAAAAAAAAAAAAAAAAAAAAAAAAA='' start_block_id (ch_pool (nd_chain n1))\<rparr>"
  obtain ch1 r1 where ch1: "M c1 = (ch1, r1)" by fastforce
  have "chain_plugin_start out stored clock input (node_new kv ids) = on_node (start_chain out stored clock input) n1"
    unfolding chain_plugin_start_def start_steps n1_def ..
  also have "\<dots> = (n1\<lparr>nd_chain := ch1\<rparr>, r1)"
    unfolding on_node_def eq start_steps c1_def[symmetric] ch1 by (rule prod.case)
  finally have n: "n = n1\<lparr>nd_chain := ch1\<rparr>" using assms(3) by simp
  have "?Q c1" using new unfolding c1_def n1_def by simp
  from preservesD[OF rest this ch1] show ?thesis unfolding n by simp
qed

end
