(* ===== verification/Chain_Node_Props.thy ===== *)
theory Chain_Node_Props
  imports Chain_Node_Inv Contract_Props Ledger_Props
begin

text \<open>
  What holds in every run of the chain plugin: the blocks it hands to the database form a chain, and
  which blocks these are; and how far a run can get before the program ends.
\<close>

subsection \<open>The confirmed blocks\<close>

definition known_blocks :: "chain_node \<Rightarrow> Block set" where
  "known_blocks n = pool_blocks (ch_pool (nd_chain n)) \<union> set (written (ch_rdb (nd_chain n)))"

text \<open>C31: in every run of the chain plugin after its start, whatever messages arrive and however the run
  ends, the blocks handed to the database form one chain from the block set at the start: each names
  the one before it as its predecessor and is one higher. Each is a block that was there when the
  start ended or one that passed the checks of \<open>earlyStage\<close>.\<close>

theorem confirmed_blocks_chain:
  assumes "chain_plugin_start out stored clock input (node_new kv ids) = (n0, Inr ())"
    and "\<forall>i. time_ok (stored i)" "\<forall>i. time_ok (clock i)"
    and "\<forall>(out, ev)\<in>set evs. e_utils (o_env out) = u \<and> time_ok (e_now (o_env out))"
    and "run_events v evs n0 = (n, r)"
  shows "chain_from start_block_id 0 (written (ch_rdb (nd_chain n)))
    \<and> (\<forall>b\<in>set (written (ch_rdb (nd_chain n))). b \<in> known_blocks n0 \<or> earlyStage v u b)"
proof -
  let ?P = "\<lambda>b. b \<in> known_blocks n0 \<or> earlyStage v u b"
  have "node_ok (\<lambda>_. True) n0" using start_ok assms(1-3) by blast
  then have "node_ok ?P n0" by (auto simp: stored_ok_def kept_def known_blocks_def)
  moreover have "preserves (node_ok ?P) (run_events v evs)" using assms(4) by (intro run_events_ok) auto
  ultimately have "node_ok ?P n" using assms(5) by (blast dest: preservesD)
  then show ?thesis by (auto simp: stored_ok_def kept_def)
qed

text \<open>Four blocks of an input file, and a node that starts on them.\<close>

definition demo_input :: "nat \<Rightarrow> string \<Rightarrow> string \<Rightarrow> json" where
  "demo_input h bid prev = json_obj
     [(''btime'', JStr ''12''),
      (''block'', json_obj [(''id'', JStr bid), (''time'', JStr ''12''), (''world'', JStr ''W''), (''chain'', JStr ''C''),
         (''height'', JStr (dec_nat h)), (''previd'', JStr prev), (''link'', JStr ''l''), (''hash'', JStr bid)]),
      (''tx'', JArr []),
      (''state'', json_obj [(''txroot'', JStr ''r''), (''usroot'', JStr ''r''), (''csroot'', JStr ''r''), (''sgroot'', JStr ''r'')]),
      (''signer'', JArr [json_obj [(''id'', JStr ''s''), (''sig'', JStr ''x'')]]),
      (''certificate'', JArr []),
      (''producer'', json_obj [(''id'', JStr ''p''), (''sig'', JStr ''y'')])]"

definition demo_outside :: outside where
  "demo_outside = \<lparr>o_env = demo_env, o_engine = demo_tsce JNull, o_rdb = demo_rdb\<rparr>"

definition demo_started :: "chain_node \<times> unit result" where
  "demo_started = chain_plugin_start demo_outside (\<lambda>_. 1000) (\<lambda>_. 1000)
     (Inr (JArr [demo_input 1 ''a'' start_block_id, demo_input 2 ''b'' ''a'', demo_input 3 ''c'' ''b'', demo_input 4 ''d'' ''c'']))
     (node_new \<lparr>kv_db = (\<lambda>_ _. None), kv_batch = (\<lambda>_. []), kv_ok = (\<lambda>_. True)\<rparr>
        \<lparr>ap_world_id = [], ap_chain_id = [], ap_auth_cert = []\<rparr>)"

definition demo_node :: chain_node where
  "demo_node = fst (run_events demo_verifiers [(demo_outside, On_Block JNull), (demo_outside, On_Fetch)] (fst demo_started))"

lemma demo_started_Inr: "snd demo_started = Inr ()"
  unfolding demo_started_def by code_simp

theorem confirmed_blocks_chain_witness:
  "map m_block_id (written (ch_rdb (nd_chain demo_node))) = [''a'']
   \<and> chain_from start_block_id 0 (written (ch_rdb (nd_chain demo_node)))"
proof
  show "map m_block_id (written (ch_rdb (nd_chain demo_node))) = [''a'']" by code_simp
  have "chain_plugin_start demo_outside (\<lambda>_. 1000) (\<lambda>_. 1000)
     (Inr (JArr [demo_input 1 ''a'' start_block_id, demo_input 2 ''b'' ''a'', demo_input 3 ''c'' ''b'', demo_input 4 ''d'' ''c'']))
     (node_new \<lparr>kv_db = (\<lambda>_ _. None), kv_batch = (\<lambda>_. []), kv_ok = (\<lambda>_. True)\<rparr>
        \<lparr>ap_world_id = [], ap_chain_id = [], ap_auth_cert = []\<rparr>) = (fst demo_started, Inr ())"
    using demo_started_Inr unfolding demo_started_def by (metis prod.collapse)
  from confirmed_blocks_chain[OF this _ _ _ prod.collapse[symmetric], of "[(demo_outside, On_Block JNull), (demo_outside, On_Fetch)]"
      demo_utils demo_verifiers]
  show "chain_from start_block_id 0 (written (ch_rdb (nd_chain demo_node)))"
    by (simp add: time_ok_def demo_outside_def demo_env_def demo_node_def)
qed

subsection \<open>How far a run gets\<close>

definition rooted :: "Chain \<Rightarrow> BlockPoolInfo \<times> StateTree \<times> StateTree" where
  "rooted ch = (ch_head ch, ch_us_tree ch, ch_cs_tree ch)"

lemma walk_path_nonempty: "walk_path pool d vec = Inr path \<Longrightarrow> path \<noteq> []"
  by (cases d) (auto simp: rbind_eq_Inr)

lemma first_move_fails:
  assumes "ch_head ch = BlockPoolInfo_default" "target \<noteq> []" "deq_index (ch_pool ch) h = Inr d" "0 \<le> d"
  shows "\<exists>err. moveHead e target h ch = (ch, Inl err)"
proof (cases "getPath (ch_pool ch) target h")
  case (Inl err)
  have "back_to (ch_pool ch) h 0 (-1) v = Inr (0, -1, v)" for v by (subst back_to.simps) simp
  then have "common_block ch target h = Inl err"
    using Inl assms(1) by (simp add: common_block_def Let_def BlockPoolInfo_default_def u64_to_int_def)
  then show ?thesis using assms(2) by (simp add: moveHead_def)
next
  case (Inr path)
  then have "path \<noteq> []" using assms(3,4)
    by (auto simp: getPath_def Let_def rbind_eq_Inr resize_def split: if_splits dest: walk_path_nonempty)
  then have "common_block ch target h = Inl Undefined_Behaviour"
    using first_move Inr assms(1) by (simp add: BlockPoolInfo_default_def)
  then show ?thesis using assms(2) by (simp add: moveHead_def)
qed

lemma keeps_head [keeping]: "keeps ch_head (on_us_tree m)" "keeps ch_head (on_cs_tree m')" "keeps ch_head (on_kv g)"
  "keeps ch_head (with_block ur q)" "keeps ch_head (updateStateTree u ur)" "keeps ch_head (saveBackupResult u ur)"
proof -
  show base: "keeps ch_head (on_us_tree m)" "keeps ch_head (on_cs_tree m')" "keeps ch_head (on_kv g)" for m m' g
    by (simp_all add: keeps_def on_us_tree_def on_cs_tree_def on_kv_def split_beta)
  show "keeps ch_head (with_block ur q)" by (simp add: keeps_def with_block_def split_beta)
  show "keeps ch_head (updateStateTree u ur)" "keeps ch_head (saveBackupResult u ur)"
    unfolding updateStateTree_def saveBackupResult_def Let_def by (auto intro!: keeping base)
qed

text \<open>What storing a processed block tells when it succeeds.\<close>

lemma stored_block:
  assumes "pool_inv p" "same_links u = same_links (getUnresolvedBlock_id p i h)" "setUnresolvedBlock u p = (p', Inr ())"
  shows "ub_block u \<in> pool_blocks p"
    and "\<exists>d. deq_index p' (m_block_height (ub_block u)) = Inr d \<and> 0 \<le> d"
proof -
  have "same_links u \<noteq> same_links UnresolvedBlock_default" using missing_not_stored[OF assms(1), of u] assms(3) by auto
  then obtain w where w: "List.find (\<lambda>u. ub_id u = i \<and> m_block_height (ub_block u) = h) (concat (m_block_pool p)) = Some w"
    using assms(2) by (auto simp: getUnresolvedBlock_id_def split: option.splits)
  then obtain d v where "getUnresolvedBlock p (int d) (int v) = Inr w" by (rule find_position)
  then show "ub_block u \<in> pool_blocks p"
    using assms(2) w by (auto simp: getUnresolvedBlock_Inr pool_blocks_nth getUnresolvedBlock_id_def same_links_eq)
  obtain d w' where d: "deq_index p (m_block_height (ub_block u)) = Inr d" "getUnresolvedBlock p d (cur_vec_idx u) = Inr w'"
    "m_latest_confirmed_height p' = m_latest_confirmed_height p"
    using assms(3) by (auto simp: setUnresolvedBlock_def rbind_eq_Inr split: sum.splits)
  then show "\<exists>d. deq_index p' (m_block_height (ub_block u)) = Inr d \<and> 0 \<le> d"
    by (auto simp: deq_index_def getUnresolvedBlock_Inr)
qed

lemma processTxResult_fails:
  assumes ok: "chain_ok (\<lambda>b. m_block_id b \<noteq> []) ch" and start: "ch_head ch = BlockPoolInfo_default"
  shows "snd (processTxResult e res ch) \<noteq> Inr ()"
proof
  assume "snd (processTxResult e res ch) = Inr ()"
  then obtain t where "processTxResult e res ch = (t, Inr ())" by (metis prod.collapse)
  then obtain i hi results t1 ur t2 u3 t3 u4 t4 where
    block: "with_block (getUnresolvedBlock_id (ch_pool ch) i (word_of_int hi))
      (seq (map (run_result (env_of e ch) i (word_of_int hi)) (json_items results))) ch = (t1, Inr ur)"
    and store: "on_pool (setUnresolvedBlock ur) t1 = (t2, Inr ())"
    and rest: "updateStateTree (e_utils e) ur t2 = (t3, Inr u3)" "saveBackupResult (e_utils e) ur t3 = (t4, Inr u4)"
      "moveHead e (ub_id ur) (m_block_height (ub_block ur)) t4 = (t, Inr ())"
    using start by (auto simp: processTxResult_def Let_def sbind_Inr BlockPoolInfo_default_def)
  let ?p = "ch_pool ch"
  have inv: "pool_inv ?p" "\<forall>b\<in>pool_blocks ?p. m_block_id b \<noteq> []" using ok by (simp_all add: stored_ok_def kept_def)
  have pool: "ch_pool t1 = ?p" using keeps_kept_D[OF kept_parts(4) block] by (simp add: kept_def)
  have links: "same_links ur = same_links (getUnresolvedBlock_id ?p i (word_of_int hi))"
    using with_block_result[OF block queries_links] .
  obtain p' where p': "setUnresolvedBlock ur ?p = (p', Inr ())" "ch_pool t2 = p'" "ch_head t2 = ch_head t1"
    using store pool by (auto simp: on_pool_def split: prod.splits)
  note stored = stored_block[OF inv(1) links p'(1)]
  have "ch_pool t4 = p'" using p'(2) keeps_kept_D[OF kept_trees(1) rest(1)] keeps_kept_D[OF kept_trees(4) rest(2)]
    by (simp add: kept_def)
  moreover have "ch_head t4 = BlockPoolInfo_default"
    using start p'(3) keepsD[OF keeps_head(4) block] keepsD[OF keeps_head(5) rest(1)] keepsD[OF keeps_head(6) rest(2)] by simp
  ultimately have "\<exists>err. moveHead e (ub_id ur) (m_block_height (ub_block ur)) t4 = (t4, Inl err)"
    using first_move_fails[of t4] stored inv(2) by blast
  then show False using rest(3) by simp
qed

lemma result_fails:
  assumes "chain_ok (\<lambda>b. m_block_id b \<noteq> []) ch" "ch_head ch = BlockPoolInfo_default"
  shows "processTxResult e res ch \<noteq> (c, Inr ())"
  using processTxResult_fails[OF assms, of e res] by (metis snd_conv)

text \<open>The messages that do not carry a result leave head and state trees alone.\<close>

lemma rooted_push: "keeps rooted (plugin_pushBlock v u junk now j)"
proof -
  obtain b r where b: "block_initialize u j Block_default = (b, r)" by fastforce
  have push: "keeps rooted (chain_pushBlock junk now b)"
    by (simp add: keeps_def rooted_def chain_pushBlock_def on_pool_def sbind_def split: prod.split sum.split)
  have save: "keeps rooted (on_kv g)" for g by (simp add: keeps_def rooted_def on_kv_def)
  have backup: "keeps rooted (chain_saveBackupBlock u j)" "keeps rooted (chain_saveBlockIds u)"
    unfolding chain_saveBackupBlock_def chain_saveBlockIds_def[abs_def]
    by (intro keeping save) (rule keeps_at, rule save)
  have resolve: "keeps rooted (\<lambda>ch. case chain_resolveBlock b ch of (ch1, None) \<Rightarrow> (ch1, Inr ())
        | (ch1, Some r) \<Rightarrow> chain_saveBlockIds u (apply_to_rdb r ch1))"
    using backup(2)
    by (auto simp: keeps_def rooted_def chain_resolveBlock_def apply_to_rdb_def split: prod.split option.split)
  have "keeps rooted (if earlyStage v u b then sbind (chain_pushBlock junk now b) (\<lambda>res.
      if pr_block_height res = 0 then sret () else if pr_duplicated res then sret ()
      else sbind (chain_saveBackupBlock u j) (\<lambda>_. sbind (chain_saveBlockIds u) (\<lambda>_ ch.
        case chain_resolveBlock b ch of (ch1, None) \<Rightarrow> (ch1, Inr ())
        | (ch1, Some r) \<Rightarrow> chain_saveBlockIds u (apply_to_rdb r ch1)))) else sret ())"
    using push backup resolve by (auto intro!: keeps_sbind keeps_sret)
  then show ?thesis
    using b by (cases r) (auto simp: keeps_def plugin_pushBlock_def split: if_splits)
qed

lemma timer_no_result:
  assumes "chain_ok (\<lambda>b. m_block_id b \<noteq> []) (nd_chain n)" "ch_head (nd_chain n) = BlockPoolInfo_default"
    and "block_check out ok n = (n', Inr ())"
  shows "nd_chain n' = nd_chain n"
proof -
  note fails = result_fails[OF assms(1,2)]
  have lowest: "nd_chain m' = nd_chain m" if m: "process_lowest out m = (m', Inr ())" "nd_chain m = nd_chain n" for m m'
  proof (cases "bp_block_height (ch_longest (nd_chain m)) > bp_block_height (ch_head (nd_chain m))")
    case True
    then obtain b where b: "chain_getLowestUnprocessedBlock (nd_chain m) = Inr b"
      using m(1) by (cases "chain_getLowestUnprocessedBlock (nd_chain m)") (simp_all add: process_lowest_def sbind_def)
    obtain c res where c: "procBlock (engine_of out (nd_chain m)) b (nd_contracts m) = (c, res)" by fastforce
    show ?thesis
    proof (cases res)
      case (Inr answer)
      show ?thesis
      proof (cases answer)
        case (Some y)
        obtain ch' r where "processTxResult (o_env out) y (nd_chain m) = (ch', r)" by fastforce
        then show ?thesis using m(1) True b c Inr Some fails m(2)
          by (simp add: process_lowest_def sbind_def on_contracts_def on_node_def)
      qed (use m(1) True b c Inr in \<open>auto simp: process_lowest_def sbind_def on_contracts_def\<close>)
    qed (use m(1) True b c in \<open>simp add: process_lowest_def sbind_def on_contracts_def\<close>)
  qed (use m(1) in \<open>simp add: process_lowest_def\<close>)
  show ?thesis
    using assms(3) by (auto simp: block_check_def sbind_Inr monitorUnresolvedBlockProcess_def dest!: lowest split: if_splits)
qed

text \<open>A node that still stands where it started, and one event that does not end the program.\<close>

definition at_start :: "chain_node \<Rightarrow> chain_node \<Rightarrow> bool" where
  "at_start n0 n \<longleftrightarrow> node_ok (\<lambda>b. m_block_id b \<noteq> []) n \<and> ch_head (nd_chain n) = BlockPoolInfo_default
     \<and> rooted (nd_chain n) = rooted (nd_chain n0)"

lemma event_at_start:
  assumes "at_start n0 n" "handle_event v (out, ev) n = (n', Inr ())"
    and ids: "\<And>b. earlyStage v u b \<Longrightarrow> m_block_id b \<noteq> []"
    and "e_utils (o_env out) = u" "time_ok (e_now (o_env out))"
  shows "at_start n0 n' \<and> (\<forall>j. ev \<noteq> On_Result j)"
proof -
  have ok: "node_ok (\<lambda>b. m_block_id b \<noteq> []) n'"
    using preservesD[OF handle_event_ok[of v u "\<lambda>b. m_block_id b \<noteq> []" out ev, OF ids assms(4,5)] _ assms(2)] assms(1)
    by (simp add: at_start_def)
  have n: "chain_ok (\<lambda>b. m_block_id b \<noteq> []) (nd_chain n)" "ch_head (nd_chain n) = BlockPoolInfo_default"
    using assms(1) by (simp_all add: at_start_def)
  have "rooted (nd_chain n') = rooted (nd_chain n) \<and> (\<forall>j. ev \<noteq> On_Result j)"
  proof (cases ev)
    case (On_Result j)
    then show ?thesis using assms(2) result_fails[OF n] by (auto simp: on_node_def split: prod.splits)
  next
    case (On_Block j)
    then show ?thesis using assms(2) keepsD[OF rooted_push] by (auto simp: on_node_def split: prod.splits)
  next
    case (On_Timer c)
    then show ?thesis using assms(2) timer_no_result[OF n] by simp
  qed (use assms(2) in \<open>auto simp: on_txs_def asyncFetchTransactionsFromPool_def split: prod.splits\<close>)
  then show ?thesis using ok assms(1) by (auto simp: at_start_def rooted_def)
qed

lemma run_at_start:
  assumes "at_start n0 m" "run_events v evs m = (n, Inr ())"
    and "\<And>b. earlyStage v u b \<Longrightarrow> m_block_id b \<noteq> []"
    and "\<forall>(out, ev)\<in>set evs. e_utils (o_env out) = u \<and> time_ok (e_now (o_env out))"
  shows "at_start n0 n \<and> (\<forall>(out, ev)\<in>set evs. \<forall>j. ev \<noteq> On_Result j)"
  using assms
proof (induction evs arbitrary: m)
  case (Cons oe evs)
  obtain out ev where oe: "oe = (out, ev)" by (cases oe)
  obtain m' where m': "handle_event v (out, ev) m = (m', Inr ())" "run_events v evs m' = (n, Inr ())"
    using Cons.prems(2) by (auto simp: run_events_def oe sbind_Inr)
  have "at_start n0 m' \<and> (\<forall>j. ev \<noteq> On_Result j)"
    using event_at_start[OF Cons.prems(1) m'(1) Cons.prems(3)] Cons.prems(4) by (simp add: oe)
  then show ?case using Cons.IH[OF _ m'(2) Cons.prems(3)] Cons.prems(4) by (simp add: oe)
qed (simp add: run_events_def)

lemma start_rooted:
  assumes "chain_plugin_start out stored clock input (node_new kv ids) = (n, r)"
  shows "ch_head (nd_chain n) = BlockPoolInfo_default"
proof -
  have "keeps ch_head (chain_pushBlock junk now b)" for junk now b
    by (simp add: keeps_def chain_pushBlock_def on_pool_def sbind_def split: prod.split sum.split)
  moreover have "keeps ch_head (\<lambda>ch. case chain_resolveBlock b ch of (ch1, None) \<Rightarrow> (ch1, Inr ())
      | (ch1, Some r) \<Rightarrow> (apply_to_rdb r ch1, Inr ()))" for b
    by (auto simp: keeps_def chain_resolveBlock_def apply_to_rdb_def split: prod.split option.split)
  ultimately have push: "keeps ch_head (push_inputs u junk clock j is)" for u junk j "is"
    by (induction "is") (auto intro!: keeps_sbind keeps_sret)
  have block: "keeps ch_head (restore_block u stored j)" for u j
    unfolding restore_block_def
    by (auto simp: keeps_def sbind_def on_pool_def split: prod.split sum.split)
  have restore: "keeps ch_head (restorePool u stored)" for u
    unfolding restorePool_def Let_def keeps_def
    using keeps_seq[of "map (restore_block u stored) _" ch_head] block
    by (auto simp: keeps_def sbind_def split: sum.split)
  have "keeps ch_head (start_chain out stored clock input)"
    unfolding start_chain_def Let_def chain_setPool_def setupStateTree_def
    by (intro keeping push restore keeps_head(1,2)) (simp add: keeps_def on_pool_def)
  note steps = keepsD[OF this]
  have "ch_head (nd_chain (node_new kv ids)) = BlockPoolInfo_default" by (simp add: node_new_def)
  then show ?thesis
    using assms unfolding chain_plugin_start_def start_steps on_node_def
    by (auto split: prod.splits dest: steps)
qed

lemma checked_id: "\<forall>s. u_to58 u (u_sha256 u s) \<noteq> [] \<Longrightarrow> earlyStage v u b \<Longrightarrow> m_block_id b \<noteq> []"
  by (auto simp: earlyStage_def verifyBlock_def verifyBlockID_def split: if_splits)



end
