(* ===== verification/Net_Node.thy ===== *)
theory Net_Node
  imports Net_Plugin
begin

text \<open>
  The network plugin as it runs (net_plugin.cpp and the \<open>proceed\<close> functions of rpc_services.cpp): the
  objects that wait for calls and serve them, the completion queue that brings them forward, the
  three timers, and the messages of the channels.  gRPC decides which operation completes next, with
  what outcome and what request; this is an argument of every step, and so are the answers of other
  nodes.  Handlers run one after the other; what leaves a handler as an exception ends the program.
\<close>

subsection \<open>State\<close>

datatype RpcCallStatus = RPC_CREATE | RPC_PROCESS | RPC_READ | RPC_WAIT | RPC_FINISH

datatype rpc_service = Push_Service | KeyEx_Service | Signer_Service | User_Service | Merger_Service | Find_Node

text \<open>An object of one of the services; the identifier is that of \<open>PushService\<close>.\<close>

record call_data =
  m_service :: rpc_service
  m_receive_status :: RpcCallStatus
  m_user_id_b58 :: string

datatype call_reply = Reply_User reply | Reply_Merger "merger_status \<times> string" | Reply_Neighbors "(string \<times> string \<times> string) list"

text \<open>
  What an object has asked gRPC for and will hear of through the completion queue: the next request, the
  end of the call, the end of a write to a stream, and the end of the reply.
\<close>

datatype call_op = Op_Request rpc_service | Op_Done | Op_Write | Op_Finish call_reply

datatype net_timer = Message_Timer | Connection_Timer | Broadcast_Timer

text \<open>Objects are named by numbers; one that was deleted has no entry any more.\<close>

record net_node =
  nn_net :: net_state
  nn_calls :: "nat \<Rightarrow> call_data option"
  nn_next :: nat
  nn_queue :: "(nat \<times> call_op) list"
  nn_timers :: "net_timer list"
  nn_listening :: "string option"
  nn_events :: "net_event list"

definition on_net :: "(net_state, 'a) prog \<Rightarrow> (net_node, 'a) prog" where
  "on_net m n = (case m (nn_net n) of (st, r) \<Rightarrow> (n\<lparr>nn_net := st\<rparr>, r))"

subsection \<open>Objects of the services\<close>

text \<open>The method of the interface whose requests an object asks for: the service for signers asks for those
  of users.\<close>

definition requested_method :: "rpc_service \<Rightarrow> rpc_service" where
  "requested_method s = (if s = Signer_Service then User_Service else s)"

definition update_call :: "nat \<Rightarrow> (call_data \<Rightarrow> call_data) \<Rightarrow> net_node \<Rightarrow> net_node" where
  "update_call c f n = n\<lparr>nn_calls := (nn_calls n)(c := map_option f (nn_calls n c))\<rparr>"

abbreviation set_status :: "nat \<Rightarrow> RpcCallStatus \<Rightarrow> net_node \<Rightarrow> net_node" where
  "set_status c s \<equiv> update_call c (\<lambda>d. d\<lparr>m_receive_status := s\<rparr>)"

definition wait_for :: "nat \<Rightarrow> call_op list \<Rightarrow> net_node \<Rightarrow> net_node" where
  "wait_for c ops n = n\<lparr>nn_queue := nn_queue n @ map (Pair c) ops\<rparr>"

text \<open>The streams also ask to hear of the end of their call.\<close>

definition call_create :: "nat \<Rightarrow> net_node \<Rightarrow> net_node" where
  "call_create c n = (case nn_calls n c of
       None \<Rightarrow> n
     | Some d \<Rightarrow> wait_for c ((if m_service d = Push_Service then [Op_Done] else [])
           @ [Op_Request (requested_method (m_service d))]) (set_status c RPC_PROCESS n))"

text \<open>The constructors call \<open>proceed\<close>, which creates the call.\<close>

definition new_call :: "rpc_service \<Rightarrow> net_node \<Rightarrow> net_node" where
  "new_call s n = (let c = nn_next n in
     call_create c (n\<lparr>nn_calls := (nn_calls n)(c \<mapsto>
         \<lparr>m_service = s, m_receive_status = RPC_CREATE, m_user_id_b58 = []\<rparr>), nn_next := Suc c\<rparr>))"

text \<open>What gRPC has read for a call.\<close>

record rpc_request =
  rq_sender :: string
  rq_message :: string
  rq_merger :: merger_request
  rq_target_id :: string
  rq_sender_id :: string
  rq_sender_address :: string
  rq_sender_port :: string
  rq_cancelled :: bool

text \<open>
  A request is served: an object for the next request is made first, then the reply is computed and handed
  to gRPC.
\<close>

definition serve_call :: "nat \<Rightarrow> rpc_service \<Rightarrow> ('r \<Rightarrow> call_reply)
    \<Rightarrow> (net_state \<Rightarrow> net_state \<times> ('r \<times> net_event list) result) \<Rightarrow> (net_node, unit) prog" where
  "serve_call c s mk f n = (let n1 = new_call s n in
     case f (nn_net n1) of
       (st, Inl e) \<Rightarrow> (n1\<lparr>nn_net := st\<rparr>, Inl e)
     | (st, Inr (r, evs)) \<Rightarrow>
         (wait_for c [Op_Finish (mk r)] (set_status c RPC_FINISH
            (n1\<lparr>nn_net := st, nn_events := nn_events n1 @ evs\<rparr>)), Inr ()))"

definition find_node_service :: "rpc_env \<Rightarrow> rpc_request \<Rightarrow> net_state
    \<Rightarrow> net_state \<times> ((string \<times> string \<times> string) list \<times> net_event list) result" where
  "find_node_service env q st =
     (case find_node_process env (rq_target_id q) (rq_sender_id q) (rq_sender_address q) (rq_sender_port q) st of
        (st', r) \<Rightarrow> (st', rbind r (\<lambda>ns. Inr (ns, []))))"

definition push_call :: "rpc_env \<Rightarrow> rpc_request \<Rightarrow> nat \<Rightarrow> (net_node, unit) prog" where
  "push_call env q c n = (let n1 = new_call Push_Service n;
       user = u_to58 (n_utils (rv_net env)) (rq_sender q)
     in (update_call c (\<lambda>d. d\<lparr>m_receive_status := RPC_WAIT, m_user_id_b58 := user\<rparr>)
           (n1\<lparr>nn_net := push_process env c (rq_sender q) (nn_net n1)\<rparr>), Inr ()))"

fun process_call :: "rpc_env \<Rightarrow> rpc_request \<Rightarrow> nat \<Rightarrow> rpc_service \<Rightarrow> (net_node, unit) prog" where
  "process_call env q c Push_Service = push_call env q c"
| "process_call env q c KeyEx_Service = serve_call c KeyEx_Service Reply_User (keyex_process env (rq_message q))"
| "process_call env q c Signer_Service = serve_call c Signer_Service Reply_User (signer_process env (rq_message q))"
| "process_call env q c User_Service = serve_call c User_Service Reply_User (user_process env (rq_message q))"
| "process_call env q c Merger_Service = serve_call c Merger_Service Reply_Merger (merger_process env (rq_merger q))"
| "process_call env q c Find_Node = serve_call c Find_Node Reply_Neighbors (find_node_service env q)"

text \<open>The stream of a user waits until the call is cancelled.\<close>

definition push_wait :: "rpc_request \<Rightarrow> nat \<Rightarrow> string \<Rightarrow> (net_node, unit) prog" where
  "push_wait q c user n = (if rq_cancelled q
     then (n\<lparr>nn_calls := (nn_calls n)(c := None), nn_net := push_cancelled user (nn_net n)\<rparr>, Inr ())
     else (n, Inr ()))"

text \<open>\<open>CallData::proceed\<close>; a tag of an object that is gone points nowhere.\<close>

definition proceed :: "rpc_env \<Rightarrow> rpc_request \<Rightarrow> nat \<Rightarrow> (net_node, unit) prog" where
  "proceed env q c n = (case nn_calls n c of
       None \<Rightarrow> (n, Inl Undefined_Behaviour)
     | Some d \<Rightarrow> (case m_receive_status d of
           RPC_CREATE \<Rightarrow> (call_create c n, Inr ())
         | RPC_PROCESS \<Rightarrow> process_call env q c (m_service d) n
         | s \<Rightarrow> if m_service d \<noteq> Push_Service then (n\<lparr>nn_calls := (nn_calls n)(c := None)\<rparr>, Inr ())
             else if s = RPC_WAIT then push_wait q c (m_user_id_b58 d) n
             else (n, Inr ())))"

subsection \<open>Timers\<close>

definition set_timer :: "net_timer \<Rightarrow> (net_node, unit) prog" where
  "set_timer t n = (n\<lparr>nn_timers := List.insert t (nn_timers n)\<rparr>, Inr ())"

definition timer_fired :: "net_timer \<Rightarrow> (net_node, unit) prog" where
  "timer_fired t n = (n\<lparr>nn_timers := removeAll t (nn_timers n)\<rparr>, Inr ())"

text \<open>An operation that completes: its place among the pending ones, whether it succeeded, and what was read.\<close>

record completion =
  cq_index :: nat
  cq_ok :: bool
  cq_request :: rpc_request

definition next_completion :: "rpc_env \<Rightarrow> completion option \<Rightarrow> (net_node, unit) prog" where
  "next_completion env ev n = (case ev of
       None \<Rightarrow> (n, Inr ())
     | Some k \<Rightarrow> if cq_index k < length (nn_queue n)
         then (let n1 = n\<lparr>nn_queue := erase_at (cq_index k) (nn_queue n)\<rparr>
               in if cq_ok k then proceed env (cq_request k) (fst (nn_queue n ! cq_index k)) n1 else (n1, Inr ()))
         else (n, Inr ()))"

definition monitorCompletionQueue :: "(net_node, unit) prog" where
  "monitorCompletionQueue = set_timer Message_Timer"

definition message_timer :: "rpc_env \<Rightarrow> bool \<Rightarrow> completion option \<Rightarrow> (net_node, unit) prog" where
  "message_timer env ok ev = sbind (timer_fired Message_Timer) (\<lambda>_.
     sbind (if ok then next_completion env ev else sret ()) (\<lambda>_. monitorCompletionQueue))"

definition startConnectionMonitors :: "(net_node, unit) prog" where
  "startConnectionMonitors = set_timer Connection_Timer"

definition connection_timer :: "rpc_env \<Rightarrow> (node \<Rightarrow> (string \<times> string \<times> string) list option) \<Rightarrow> bool \<Rightarrow> (net_node, unit) prog" where
  "connection_timer env answers ok = sbind (timer_fired Connection_Timer) (\<lambda>_.
     if ok then sbind (on_net (refreshBuckets env answers)) (\<lambda>_. startConnectionMonitors)
     else startConnectionMonitors)"

definition monitorBroadcastMsgTable :: "(net_node, unit) prog" where
  "monitorBroadcastMsgTable = set_timer Broadcast_Timer"

definition refresh_broadcasts :: "rpc_env \<Rightarrow> (net_state, unit) prog" where
  "refresh_broadcasts env st = (case refreshBroadcastCheckTable env st of
     Inl e \<Rightarrow> (st, Inl e) | Inr st' \<Rightarrow> (st', Inr ()))"

definition broadcast_timer :: "rpc_env \<Rightarrow> bool \<Rightarrow> (net_node, unit) prog" where
  "broadcast_timer env ok = sbind (timer_fired Broadcast_Timer) (\<lambda>_.
     if ok then sbind (on_net (refresh_broadcasts env)) (\<lambda>_. monitorBroadcastMsgTable)
     else monitorBroadcastMsgTable)"

subsection \<open>Messages of the channels\<close>

text \<open>The streams to which messages for users were written, each with the tag the writer was given.\<close>

definition streams_written :: "nat conn_table \<Rightarrow> net_event list \<Rightarrow> (nat \<times> nat) list" where
  "streams_written conns evs = concat (map (\<lambda>ev. case ev of
     To_User i _ \<Rightarrow> (case map_of conns i of Some (Some c, Some t) \<Rightarrow> [(c, t)] | _ \<Rightarrow> [])
   | _ \<Rightarrow> []) evs)"

text \<open>Writing to the stream of an object that is gone follows a dangling pointer.\<close>

definition out_message :: "rpc_env \<Rightarrow> OutNetMsg \<Rightarrow> (net_node, unit) prog" where
  "out_message env msg n = (case sendMessage env msg (nn_net n) of
       (st, Inl e) \<Rightarrow> (n\<lparr>nn_net := st\<rparr>, Inl e)
     | (st, Inr evs) \<Rightarrow>
        (let ws = streams_written (ns_conns st) evs in
         if list_all (\<lambda>(c, t). nn_calls n c \<noteq> None) ws
         then (n\<lparr>nn_net := st, nn_queue := nn_queue n @ map (\<lambda>(c, t). (t, Op_Write)) ws,
                 nn_events := nn_events n @ evs\<rparr>, Inr ())
         else (n\<lparr>nn_net := st\<rparr>, Inl Undefined_Behaviour)))"

datatype net_input =
    On_Message_Timer bool "completion option"
  | On_Connection_Timer bool "node \<Rightarrow> (string \<times> string \<times> string) list option"
  | On_Broadcast_Timer bool
  | On_Out_Message OutNetMsg
  | On_Control json

fun handle_input :: "rpc_env \<times> net_input \<Rightarrow> (net_node, unit) prog" where
  "handle_input (env, On_Message_Timer ok ev) = message_timer env ok ev"
| "handle_input (env, On_Connection_Timer ok answers) = connection_timer env answers ok"
| "handle_input (env, On_Broadcast_Timer ok) = broadcast_timer env ok"
| "handle_input (env, On_Out_Message msg) = out_message env msg"
| "handle_input (env, On_Control info) = on_net (controlNet info)"

definition run_inputs :: "(rpc_env \<times> net_input) list \<Rightarrow> (net_node, unit) prog" where
  "run_inputs ins = seq (map handle_input ins)"

subsection \<open>Start\<close>

definition net_state_new :: "string \<Rightarrow> routing_table \<Rightarrow> net_state" where
  "net_state_new address rt = \<lparr>ns_users = UserPoolManager_new [] [] [],
     ns_conns = [], ns_ids = [], ns_table = rt, ns_broadcast = [], ns_trackers = [], ns_p2p_address = address\<rparr>"

definition initializeServer :: "net_node \<Rightarrow> net_node" where
  "initializeServer n = (case getHostAndPort (ns_p2p_address (nn_net n)) of
     (_, port) \<Rightarrow> n\<lparr>nn_listening := Some (''0.0.0.0:'' @ port)\<rparr>)"

definition registerServices :: "net_node \<Rightarrow> net_node" where
  "registerServices n = fold new_call
     [Push_Service, KeyEx_Service, Signer_Service, User_Service, Merger_Service, Find_Node]
     (n\<lparr>nn_net := net_state_new (ns_p2p_address (nn_net n)) (ns_table (nn_net n))\<rparr>)"

text \<open>The option is left out or names the address; no routing table exists before it is initialised.\<close>

definition net_pluginInitialize :: "rpc_env \<Rightarrow> string option \<Rightarrow> net_node" where
  "net_pluginInitialize env address =
     (let none = new_routing_table (new_node (rv_sha1 env []) [] [] []) 0;
          n = \<lparr>nn_net = net_state_new (case address of Some a \<Rightarrow> a | None \<Rightarrow> []) none,
               nn_calls = (\<lambda>_. None), nn_next = 0, nn_queue = [], nn_timers = [], nn_listening = None, nn_events = []\<rparr>;
          n1 = initializeServer n
      in registerServices (n1\<lparr>nn_net := initializeRoutingTable env (nn_net n1)\<rparr>))"

definition net_start :: "rpc_env \<Rightarrow> (string \<Rightarrow> string \<Rightarrow> string \<Rightarrow> string) \<Rightarrow> (net_node, unit) prog" where
  "net_start env ask =
     sbind monitorCompletionQueue (\<lambda>_. sbind startConnectionMonitors (\<lambda>_. sbind monitorBroadcastMsgTable (\<lambda>_.
       on_net (getPeersFromTracker env ask))))"

text \<open>
  A run: the plugin is initialised, control messages may arrive, it is started, and then what happens
  is handled.
\<close>

definition net_run :: "rpc_env \<Rightarrow> string option \<Rightarrow> json list \<Rightarrow> (string \<Rightarrow> string \<Rightarrow> string \<Rightarrow> string)
    \<Rightarrow> (rpc_env \<times> net_input) list \<Rightarrow> net_node \<times> unit result" where
  "net_run env address controls ask ins =
     sbind (seq (map (\<lambda>j. on_net (controlNet j)) controls)) (\<lambda>_.
       sbind (net_start env ask) (\<lambda>_. run_inputs ins)) (net_pluginInitialize env address)"

end
