(* ===== verification/Net_Node_Inv.thy ===== *)
theory Net_Node_Inv
  imports Net_Node Kademlia_Props
begin

text \<open>
  What a running network plugin keeps: its routing table is well formed, and every connection of a user
  is the stream of an object that still exists.  Each operation on the plugin's state is shown to keep
  the table and the connections, then every handler.
\<close>

subsection \<open>Operations on the state\<close>

abbreviation table_ok :: "net_state \<Rightarrow> bool" where
  "table_ok st \<equiv> rt_inv (ns_table st)"

lemma preserves_table_keeps: "keeps ns_table m \<Longrightarrow> preserves table_ok m"
  by (simp add: preserves_def keeps_def)

lemma over_buckets_map:
  "fst (over_buckets f bs) = map (\<lambda>b. if kb_empty b then b else fst (f b)) bs"
  by (induction bs) (auto split: prod.split)

text \<open>A change of all buckets that keeps what each may hold.\<close>

lemma rt_inv_map:
  assumes "rt_inv rt"
    and "\<And>b my k. bucket_ok my k b \<Longrightarrow> bucket_ok my k (g b) \<and> holds (g b) = holds b \<and> kb_depth (g b) = kb_depth b"
  shows "rt_inv (rt\<lparr>rt_buckets := map g (rt_buckets rt)\<rparr>)"
proof -
  have b: "\<forall>b\<in>set (rt_buckets rt). bucket_ok (rt_my_node rt) (rt_ksize rt) b"
    using assms(1) by (simp add: rt_inv_def)
  then have "map holds (map g (rt_buckets rt)) = map holds (rt_buckets rt)" using assms(2) by auto
  moreover have "\<forall>b\<in>set (rt_buckets rt). bucket_ok (rt_my_node rt) (rt_ksize rt) (g b)
      \<and> kb_depth (g b) < length (rt_buckets rt)"
    using assms(2) b assms(1) by (metis rt_inv_def)
  ultimately show ?thesis using assms(1) unfolding rt_inv_def by (simp del: map_map)
qed

lemma selectRandomAliveNodes_ok:
  assumes "bucket_ok my k b"
  shows "bucket_ok my k (fst (selectRandomAliveNodes env m b))
    \<and> holds (fst (selectRandomAliveNodes env m b)) = holds b
    \<and> kb_depth (fst (selectRandomAliveNodes env m b)) = kb_depth b"
  using selectAliveNodes_ok[OF assms, of "rv_grpc env" False]
  by (auto simp: selectRandomAliveNodes_def split: prod.split)

text \<open>A change of the state that leaves the connections alone and keeps the table well formed.\<close>

definition calm :: "net_state \<Rightarrow> net_state \<Rightarrow> bool" where
  "calm st st' \<longleftrightarrow> ns_conns st' = ns_conns st \<and> (table_ok st \<longrightarrow> table_ok st')"

lemma calm_same: "ns_conns st' = ns_conns st \<Longrightarrow> ns_table st' = ns_table st \<Longrightarrow> calm st st'"
  by (simp add: calm_def)

lemma calm_refl [simp]: "calm st st"
  by (simp add: calm_def)

lemma calm_trans: "calm st st1 \<Longrightarrow> calm st1 st2 \<Longrightarrow> calm st st2"
  by (simp add: calm_def)

definition passes :: "(net_state \<Rightarrow> net_state \<times> 'a) \<Rightarrow> bool" where
  "passes f \<longleftrightarrow> (\<forall>st. calm st (fst (f st)))"

lemma passesI: "(\<And>st st' x. f st = (st', x) \<Longrightarrow> calm st st') \<Longrightarrow> passes f"
  unfolding passes_def by (metis prod.collapse)

lemma passesD: "passes f \<Longrightarrow> f st = (st', x) \<Longrightarrow> calm st st'"
  unfolding passes_def by (metis fst_conv)

lemma to_some_mergers_passes: "passes (to_some_mergers env mk)"
proof (rule passesI)
  fix st st' evs
  assume eq: "to_some_mergers env mk st = (st', evs)"
  let ?g = "\<lambda>b. if kb_empty b then b else fst (selectRandomAliveNodes env PARALLELISM_ALPHA b)"
  have st': "st' = st\<lparr>ns_table := (ns_table st)\<lparr>rt_buckets := map ?g (rt_buckets (ns_table st))\<rparr>\<rparr>"
    using eq over_buckets_map[of "selectRandomAliveNodes env PARALLELISM_ALPHA" "rt_buckets (ns_table st)"]
    by (auto simp: to_some_mergers_def split: prod.splits)
  have "table_ok st'" if "table_ok st"
    unfolding st' using rt_inv_map[OF that, of ?g] selectRandomAliveNodes_ok by simp
  then show "calm st st'" by (simp add: calm_def st')
qed

text \<open>Handlers of messages touch neither; services only the table, when they pass something on.\<close>

lemma handle_message_passes: "passes (handle_message env kind msg)"
  unfolding handle_message_def mapping_user_id_to_net_id_def Let_def
  by (intro passesI calm_same) (auto split: if_splits sum.splits handler_kind.splits option.splits prod.splits)

lemma calm_handle: "handle_message env kind msg st = (st', r) \<Longrightarrow> calm st st'"
  by (rule passesD[OF handle_message_passes])

lemma keyex_passes: "passes (keyex_process env p)"
  unfolding keyex_process_def
  by (rule passesI) (auto dest: calm_handle split: sum.splits prod.splits option.splits bool.splits if_splits)

lemma forward_tx_passes: "passes (forward_tx env msg)"
  by (rule passesI) (auto simp: forward_tx_def Let_def dest: passesD[OF to_some_mergers_passes] split: if_splits)

lemma pass_on_passes: "passes (pass_on env q)"
proof (rule passesI)
  fix st st' x
  assume eq: "pass_on env q st = (st', x)"
  let ?st = "st\<lparr>ns_broadcast := om_try (mr_message_id q) (rv_now env) (ns_broadcast st)\<rparr>"
  have "calm st ?st" by (simp add: calm_same)
  then show "calm st st'"
    using eq by (auto simp: pass_on_def split: if_splits dest: passesD[OF to_some_mergers_passes] intro: calm_trans)
qed

lemma serve_user_passes:
  assumes "\<And>msg. passes (after msg)"
  shows "passes (serve_user env p after)"
  unfolding serve_user_def
  by (rule passesI) (auto dest!: calm_handle passesD[OF assms] intro: calm_trans
    split: sum.splits prod.splits option.splits bool.splits if_splits)

lemma user_passes: "passes (user_process env p)" "passes (signer_process env p)"
  unfolding user_process_def signer_process_def
  by (intro serve_user_passes forward_tx_passes) (intro serve_user_passes passesI, simp)

lemma merger_passes: "passes (merger_process env q)"
  unfolding merger_process_def
  by (rule passesI) (auto dest!: calm_handle passesD[OF pass_on_passes] intro: calm_trans
    split: sum.splits prod.splits option.splits bool.splits if_splits)

lemma add_ok: "table_ok st \<Longrightarrow> addPeer n (ns_table st) = Inr (ok, rt) \<Longrightarrow> rt_inv rt"
  using addPeer_inv[of "ns_table st" n] by fastforce

lemma find_node_passes: "passes (find_node_service env q)"
  unfolding find_node_service_def find_node_process_def
  by (rule passesI) (auto simp: calm_def dest: add_ok split: sum.splits prod.splits)

text \<open>For programs this is a matter of two rules.\<close>

lemma passes_prog: "keeps ns_conns m \<Longrightarrow> preserves table_ok m \<Longrightarrow> passes m"
  by (simp add: passes_def calm_def keeps_def preserves_def)

lemma keeps_on_users [keeping]: "keeps ns_conns (on_users m)" "keeps ns_table (on_users m)"
  by (simp_all add: keeps_def on_users_def split: prod.split)

lemma controlNet_passes: "passes (controlNet info)"
proof (rule passes_prog)
  have k: "keeps f (\<lambda>st. case r of Inl e \<Rightarrow> (st, Inl e) | Inr x \<Rightarrow> m x st)"
    if "\<And>x. keeps f (m x)" for f :: "net_state \<Rightarrow> 'x" and r :: "json result" and m :: "json \<Rightarrow> (net_state, unit) prog"
    using that by (cases r) (simp_all add: keeps_def)
  show "keeps ns_conns (controlNet info)"
    unfolding controlNet_def by (auto intro!: keeping k)
  have "keeps ns_table (controlNet info)"
    unfolding controlNet_def by (auto intro!: keeping k)
  then show "preserves table_ok (controlNet info)" by (rule preserves_table_keeps)
qed

lemma add_prog_ok:
  "keeps ns_conns (add_peer_to n)" "preserves table_ok (add_peer_to n)"
  "keeps ns_conns (add_tracker_peer env j)" "preserves table_ok (add_tracker_peer env j)"
  by (auto simp: keeps_def preserves_def add_peer_to_def add_tracker_peer_def sbind_def getMyNetId_def
      split: sum.split prod.split dest: add_ok)

lemma getPeersFromTracker_passes: "passes (getPeersFromTracker env ask)"
proof (rule passes_prog)
  have k: "keeps ns_conns (peers_from_tracker env ask tr)" "preserves table_ok (peers_from_tracker env ask tr)" for tr
  proof -
    have "keeps ns_conns (seq (map (add_tracker_peer env) js))"
      "preserves table_ok (seq (map (add_tracker_peer env) js))" for js
      by (auto intro!: keeps_seq preserves_seq add_prog_ok)
    then show "keeps ns_conns (peers_from_tracker env ask tr)" "preserves table_ok (peers_from_tracker env ask tr)"
      by (simp_all add: peers_from_tracker_def keeps_def preserves_def Let_def split: prod.split option.split)
  qed
  have "keeps ns_conns (seq (map (peers_from_tracker env ask) ts))"
    "preserves table_ok (seq (map (peers_from_tracker env ask) ts))" for ts
    by (auto intro!: keeps_seq preserves_seq k)
  then show "keeps ns_conns (getPeersFromTracker env ask)" "preserves table_ok (getPeersFromTracker env ask)"
    by (simp_all add: getPeersFromTracker_def keeps_def preserves_def)
qed

lemma net_findNeighbors_passes: "passes (net_findNeighbors env answers nodes)"
proof (rule passes_prog)
  have "keeps ns_conns (seq (map add_peer_to ns))" "preserves table_ok (seq (map add_peer_to ns))" for ns
    by (auto intro!: keeps_seq preserves_seq add_prog_ok)
  then have k: "ns_conns (fst (seq (map add_peer_to ns) s)) = ns_conns s"
    "table_ok s \<Longrightarrow> table_ok (fst (seq (map add_peer_to ns) s))" for ns s
    by (simp_all add: keeps_def preserves_def)
  show "keeps ns_conns (net_findNeighbors env answers nodes)" unfolding net_findNeighbors_def
    by (intro keeps_seq) (auto simp: keeps_def k split: option.split)
  show "preserves table_ok (net_findNeighbors env answers nodes)" unfolding net_findNeighbors_def
    by (intro preserves_seq) (auto simp: preserves_def k peerTimedOut_inv split: option.split)
qed

lemma refresh_bucket_calm:
  assumes "refresh_bucket env i st = (st', alive)" "i < bucketsCount (ns_table st)"
  shows "calm st st'" "bucketsCount (ns_table st') = bucketsCount (ns_table st)"
proof -
  let ?b = "rt_buckets (ns_table st) ! i"
  obtain b1 dead where b1: "removeDeadNodes (rv_grpc env) ?b = (b1, dead)" by fastforce
  obtain b2 al where b2: "selectAliveNodes (rv_grpc env) False b1 = (b2, al)" by fastforce
  have st': "ns_conns st' = ns_conns st"
    "ns_table st' = (ns_table st)\<lparr>rt_buckets := (rt_buckets (ns_table st))[i := b2]\<rparr>"
    using assms(1) by (auto simp: refresh_bucket_def b1 b2)
  have "table_ok st'" if ok: "table_ok st"
  proof -
    note b = rt_inv_bucket(1)[OF ok, of i]
    have "bucket_ok (rt_my_node (ns_table st)) (rt_ksize (ns_table st)) b2 \<and> holds b2 = holds ?b \<and> kb_depth b2 = kb_depth ?b"
      using removeDeadNodes_ok[OF b, of "rv_grpc env"] selectAliveNodes_ok[of _ _ b1 "rv_grpc env" False] assms(2) b1 b2
      by (auto simp: bucketsCount_def)
    then show ?thesis using rt_inv_update[OF ok, of i b2] assms(2) by (simp add: st' bucketsCount_def)
  qed
  then show "calm st st'" by (simp add: calm_def st')
  show "bucketsCount (ns_table st') = bucketsCount (ns_table st)" by (simp add: bucketsCount_def st')
qed

lemma refresh_loop_calm:
  "refresh_loop env answers k i st = (st', r) \<Longrightarrow> i + k \<le> bucketsCount (ns_table st) \<Longrightarrow> calm st st'"
proof (induction k arbitrary: i st)
  case (Suc k)
  show ?case
  proof (cases "kb_empty (rt_buckets (ns_table st) ! i)")
    case True
    then show ?thesis using Suc by simp
  next
    case False
    obtain st1 alive where b: "refresh_bucket env i st = (st1, alive)" by fastforce
    obtain st2 q where n: "net_findNeighbors env answers alive st1 = (st2, q)" by fastforce
    note c = refresh_bucket_calm[OF b]
    have "calm st st2" using c(1) passesD[OF net_findNeighbors_passes n] Suc.prems(2) by (auto intro: calm_trans)
    moreover have "st' = st2 \<or> (refresh_loop env answers k (Suc i) st2 = (st', r)
        \<and> Suc i + k \<le> bucketsCount (ns_table st2))"
      using Suc.prems False b n c(2) by (auto split: if_splits)
    ultimately show ?thesis using Suc.IH by (blast intro: calm_trans)
  qed
qed simp

lemma refreshBuckets_passes: "passes (refreshBuckets env answers)"
  by (rule passesI) (auto simp: refreshBuckets_def dest: refresh_loop_calm)

lemma refresh_broadcasts_passes: "passes (refresh_broadcasts env)"
  by (rule passesI)
    (auto simp: refresh_broadcasts_def refreshBroadcastCheckTable_def rbind_eq_Inr intro!: calm_same split: sum.splits)

end
