(* ===== verification/Net_Node_Props.thy ===== *)
theory Net_Node_Props
  imports Net_Node_Inv Rpc_Props
begin

text \<open>
  Properties of the network plugin over whole runs: the connections of users never outlive the objects
  they belong to, sending a message never fails, and as long as gRPC keeps its promises every
  service has an object that waits for the next request.
\<close>

subsection \<open>Outgoing messages\<close>

lemma findNode_total:
  assumes "rt_inv rt"
  shows "\<exists>r. findNode h rt = Inr r"
proof -
  obtain i where "getBucketIndexFor h rt = Inr i" "i < length (rt_buckets rt)"
    using getBucketIndexFor_inv[OF assms] by blast
  then show ?thesis by (simp add: findNode_def)
qed

lemma sendToMerger_ok:
  assumes "table_ok st"
  shows "\<exists>st' evs. sendToMerger p is st = (st', Inr evs) \<and> ns_conns st' = ns_conns st \<and> table_ok st'"
  using assms
proof (induction "is" arbitrary: st)
  case (Cons i "is")
  show ?case
  proof (cases "get_net_id i (ns_ids st)")
    case None
    then show ?thesis using Cons by simp
  next
    case (Some h)
    obtain r where r: "findNode (map char_byte h) (ns_table st) = Inr r"
      using findNode_total[OF Cons.prems] by blast
    show ?thesis
      using Cons.IH[of "st\<lparr>ns_ids := unmapId i (ns_ids st)\<rparr>"] Cons.IH[of st] Cons.prems Some r
      by (cases r) auto
  qed
qed simp

text \<open>Looking for connections adds at most empty entries.\<close>

definition more_conns :: "nat conn_table \<Rightarrow> nat conn_table \<Rightarrow> bool" where
  "more_conns t t' \<longleftrightarrow> (\<forall>i. map_of t' i = map_of t i \<or> map_of t' i = Some (None, None))"

lemma more_conns_refl [simp]: "more_conns t t"
  by (simp add: more_conns_def)

lemma more_conns_trans: "more_conns t t1 \<Longrightarrow> more_conns t1 t2 \<Longrightarrow> more_conns t t2"
  unfolding more_conns_def by metis

lemma getRpcInfo_more: "getRpcInfo i t = (t', c) \<Longrightarrow> more_conns t t'"
  by (cases "map_of t i") (auto simp: getRpcInfo_def more_conns_def Let_def om_try_def)

lemma sendToUser_ok:
  "sendToUser env msg is st = (st', evs) \<Longrightarrow> ns_table st' = ns_table st \<and> more_conns (ns_conns st) (ns_conns st')"
proof (induction "is" arbitrary: st st' evs)
  case (Cons i "is")
  obtain conns s t where g: "getRpcInfo i (ns_conns st) = (conns, s, t)" by (metis prod.collapse)
  obtain st2 evs2 where r: "sendToUser env msg is (st\<lparr>ns_conns := conns\<rparr>) = (st2, evs2)" by fastforce
  have "st' = st2" using Cons.prems g r by (simp add: Let_def)
  then show ?case
    using Cons.IH[OF r] getRpcInfo_more[OF g] by (auto intro: more_conns_trans)
qed simp

lemma sendMessage_ok:
  assumes "table_ok st"
  shows "\<exists>st' evs. sendMessage env msg st = (st', Inr evs) \<and> table_ok st' \<and> more_conns (ns_conns st) (ns_conns st')"
proof -
  have broadcast: "calm st st'" if eq: "sendToMergerBroadcast env t p st = (st', evs)" for t p st' evs
  proof -
    let ?st = "st\<lparr>ns_broadcast := om_try (u_sha256 (n_utils (rv_net env)) p) (rv_now env) (ns_broadcast st)\<rparr>"
    have "calm st ?st" by (simp add: calm_same)
    then show ?thesis using eq
      by (auto simp: sendToMergerBroadcast_def Let_def split: if_splits
          dest: passesD[OF to_some_mergers_passes] intro: calm_trans)
  qed
  consider (merger) "checkMergerMsgType (out_type msg)" | (user) "\<not> checkMergerMsgType (out_type msg)" by blast
  then show ?thesis
  proof cases
    case merger
    let ?p = "pack (rv_net env) (rv_ids env) msg"
    obtain st1 e1 where b: "sendToMergerBroadcast env (out_type msg) ?p st = (st1, e1)" by fastforce
    show ?thesis
      using broadcast[OF b] sendToMerger_ok[OF assms, of ?p "out_receivers msg"] assms merger b
      by (auto simp: sendMessage_def Let_def calm_def)
  next
    case user
    obtain st1 e1 where u: "sendToUser env msg (out_receivers msg) st = (st1, e1)" by fastforce
    show ?thesis using sendToUser_ok[OF u] assms user u by (auto simp: sendMessage_def)
  qed
qed

subsection \<open>Connections\<close>

definition conns_live :: "nat conn_table \<Rightarrow> (nat \<Rightarrow> call_data option) \<Rightarrow> bool" where
  "conns_live conns calls \<longleftrightarrow> (\<forall>i e. map_of conns i = Some e \<longrightarrow> e = (None, None)
     \<or> (\<exists>c. e = (Some c, Some c) \<and> calls c = Some \<lparr>m_service = Push_Service, m_receive_status = RPC_WAIT, m_user_id_b58 = i\<rparr>))"

definition node_inv :: "net_node \<Rightarrow> bool" where
  "node_inv n \<longleftrightarrow> table_ok (nn_net n) \<and> conns_live (ns_conns (nn_net n)) (nn_calls n)
     \<and> (\<forall>c\<ge>nn_next n. nn_calls n c = None)"

lemma conns_live_upd:
  assumes live: "conns_live conns calls"
    and c: "\<And>d. calls c = Some d \<Longrightarrow> m_service d \<noteq> Push_Service \<or> m_receive_status d \<noteq> RPC_WAIT"
  shows "conns_live conns (calls(c := x))"
  unfolding conns_live_def
proof (intro allI impI)
  fix i e
  assume "map_of conns i = Some e"
  then consider "e = (None, None)"
    | k where "e = (Some k, Some k)" "calls k = Some \<lparr>m_service = Push_Service, m_receive_status = RPC_WAIT, m_user_id_b58 = i\<rparr>"
    using live unfolding conns_live_def by blast
  then show "e = (None, None) \<or> (\<exists>k. e = (Some k, Some k) \<and> (calls(c := x)) k
      = Some \<lparr>m_service = Push_Service, m_receive_status = RPC_WAIT, m_user_id_b58 = i\<rparr>)"
  proof cases
    case 2
    then have "k \<noteq> c" using c by force
    then show ?thesis using 2 by simp
  qed simp
qed

lemma conns_live_more:
  assumes live: "conns_live t calls" and more: "more_conns t t'"
  shows "conns_live t' calls"
  unfolding conns_live_def
proof (intro allI impI)
  fix i e
  assume "map_of t' i = Some e"
  then consider "map_of t i = Some e" | "e = (None, None)" using more unfolding more_conns_def by (metis option.inject)
  then show "e = (None, None) \<or> (\<exists>k. e = (Some k, Some k) \<and> calls k
      = Some \<lparr>m_service = Push_Service, m_receive_status = RPC_WAIT, m_user_id_b58 = i\<rparr>)"
    using live unfolding conns_live_def by cases blast+
qed

lemma node_inv_calm: "node_inv n \<Longrightarrow> calm (nn_net n) st \<Longrightarrow> node_inv (n\<lparr>nn_net := st\<rparr>)"
  by (simp add: node_inv_def calm_def)

lemma node_inv_other [simp]:
  "node_inv (n\<lparr>nn_queue := q\<rparr>) = node_inv n" "node_inv (n\<lparr>nn_events := es\<rparr>) = node_inv n"
  "node_inv (n\<lparr>nn_timers := ts\<rparr>) = node_inv n" "node_inv (wait_for c ops n) = node_inv n"
  by (simp_all add: node_inv_def wait_for_def)

lemma node_inv_update_call:
  assumes "node_inv n" "\<And>d. nn_calls n c = Some d \<Longrightarrow> m_service d \<noteq> Push_Service \<or> m_receive_status d \<noteq> RPC_WAIT"
  shows "node_inv (update_call c f n)"
  using assms conns_live_upd[of "ns_conns (nn_net n)" "nn_calls n" c]
  by (auto simp: node_inv_def update_call_def)

lemma call_create_inv:
  assumes "node_inv n" "\<And>d. nn_calls n c = Some d \<Longrightarrow> m_receive_status d = RPC_CREATE"
  shows "node_inv (call_create c n)"
  using assms node_inv_update_call[of n c] by (auto simp: call_create_def split: option.split)

text \<open>What a new object changes.\<close>

lemma new_call_alt:
  "new_call s n = n\<lparr>nn_calls := (nn_calls n)(nn_next n \<mapsto>
       \<lparr>m_service = s, m_receive_status = RPC_PROCESS, m_user_id_b58 = []\<rparr>), nn_next := Suc (nn_next n),
     nn_queue := nn_queue n @ (if s = Push_Service then [(nn_next n, Op_Done)] else [])
       @ [(nn_next n, Op_Request (requested_method s))]\<rparr>"
  by (simp add: new_call_def call_create_def wait_for_def update_call_def Let_def)

lemma new_call_inv: "node_inv n \<Longrightarrow> node_inv (new_call s n)"
  using conns_live_upd[of "ns_conns (nn_net n)" "nn_calls n" "nn_next n"]
  by (auto simp: node_inv_def new_call_alt)

lemma new_call_other:
  assumes "node_inv n" "nn_calls n c = Some d"
  shows "nn_calls (new_call s n) c = Some d" "c \<noteq> nn_next n" "c < nn_next n"
proof -
  show "c < nn_next n" using assms by (metis leI node_inv_def option.distinct(1))
  then show "c \<noteq> nn_next n" "nn_calls (new_call s n) c = Some d" using assms by (simp_all add: new_call_alt)
qed

lemma serve_call_inv:
  assumes "node_inv n" "nn_calls n c = Some d" "m_receive_status d = RPC_PROCESS" "passes f"
  shows "node_inv (fst (serve_call c s mk f n))"
proof -
  let ?n = "new_call s n"
  obtain st r where f: "f (nn_net ?n) = (st, r)" by fastforce
  have inv: "node_inv (?n\<lparr>nn_net := st\<rparr>)"
    using new_call_inv[OF assms(1)] passesD[OF assms(4) f] by (rule node_inv_calm)
  have c: "nn_calls ?n c = Some d" using new_call_other[OF assms(1,2)] by simp
  show ?thesis
  proof (cases r)
    case (Inr y)
    obtain x evs where x: "y = (x, evs)" by fastforce
    have "node_inv (?n\<lparr>nn_net := st, nn_events := nn_events ?n @ evs\<rparr>)" using inv by simp
    then have "node_inv (set_status c RPC_FINISH (?n\<lparr>nn_net := st, nn_events := nn_events ?n @ evs\<rparr>))"
      by (rule node_inv_update_call) (use c assms(3) in simp)
    then show ?thesis using f Inr by (simp add: serve_call_def Let_def x)
  qed (use f inv in \<open>simp add: serve_call_def Let_def\<close>)
qed

lemma push_call_inv:
  assumes "node_inv n" "nn_calls n c = Some d" "m_receive_status d = RPC_PROCESS" "m_service d = Push_Service"
  shows "node_inv (fst (push_call env q c n))"
proof -
  let ?i = "u_to58 (n_utils (rv_net env)) (rq_sender q)"
  have inv: "node_inv (new_call Push_Service n)" and c: "nn_calls (new_call Push_Service n) c = Some d"
    "c < nn_next n"
    using new_call_inv[OF assms(1)] new_call_other[OF assms(1,2)] by simp_all
  have "conns_live (ns_conns (nn_net n)) ((nn_calls (new_call Push_Service n))(c \<mapsto>
      \<lparr>m_service = Push_Service, m_receive_status = RPC_WAIT, m_user_id_b58 = ?i\<rparr>))"
    using conns_live_upd[of "ns_conns (nn_net n)" "nn_calls (new_call Push_Service n)" c] inv c assms(3)
    by (simp add: node_inv_def new_call_alt)
  moreover have "d\<lparr>m_receive_status := RPC_WAIT, m_user_id_b58 := ?i\<rparr>
      = \<lparr>m_service = Push_Service, m_receive_status = RPC_WAIT, m_user_id_b58 = ?i\<rparr>"
    using assms(4) by (cases d) simp
  ultimately show ?thesis using inv c
    by (auto simp: push_call_def Let_def node_inv_def update_call_def push_process_def setRpcInfo_def
        conns_live_def new_call_alt)
qed

lemma push_wait_inv:
  assumes "node_inv n" "nn_calls n c = Some d" "m_user_id_b58 d = i"
  shows "node_inv (fst (push_wait q c i n))"
proof -
  have live: "conns_live (ns_conns (nn_net n)) (nn_calls n)" using assms(1) by (simp add: node_inv_def)
  have "conns_live (om_erase i (ns_conns (nn_net n))) ((nn_calls n)(c := None))"
    unfolding conns_live_def
  proof (intro allI impI)
    fix j e
    assume "map_of (om_erase i (ns_conns (nn_net n))) j = Some e"
    then have "j \<noteq> i" "map_of (ns_conns (nn_net n)) j = Some e" by (auto split: if_splits)
    then show "e = (None, None) \<or> (\<exists>k. e = (Some k, Some k) \<and> ((nn_calls n)(c := None)) k
        = Some \<lparr>m_service = Push_Service, m_receive_status = RPC_WAIT, m_user_id_b58 = j\<rparr>)"
      using live assms(2,3) unfolding conns_live_def by (metis call_data.select_convs(3) fun_upd_other option.inject)
  qed
  then show ?thesis using assms(1) by (auto simp: push_wait_def node_inv_def push_cancelled_def eraseRpcInfo_def)
qed

lemma process_call_inv:
  assumes "node_inv n" "nn_calls n c = Some d" "m_receive_status d = RPC_PROCESS"
  shows "node_inv (fst (process_call env q c (m_service d) n))"
  using push_call_inv[OF assms]
    serve_call_inv[OF assms keyex_passes] serve_call_inv[OF assms user_passes(1)]
    serve_call_inv[OF assms user_passes(2)] serve_call_inv[OF assms merger_passes]
    serve_call_inv[OF assms find_node_passes]
  by (cases "m_service d") simp_all

lemma proceed_inv: "preserves node_inv (proceed env q c)"
proof (rule preservesI)
  fix n
  assume inv: "node_inv n"
  show "node_inv (fst (proceed env q c n))"
  proof (cases "nn_calls n c")
    case (Some d)
    have del: "node_inv (n\<lparr>nn_calls := (nn_calls n)(c := None)\<rparr>)" if "m_service d \<noteq> Push_Service"
      using inv Some that conns_live_upd[of "ns_conns (nn_net n)" "nn_calls n" c] by (simp add: node_inv_def)
    show ?thesis
      using inv Some del call_create_inv[of n c] process_call_inv[OF inv Some, of env q] push_wait_inv[OF inv Some refl, of q]
      by (cases "m_receive_status d") (simp_all add: proceed_def)
  qed (use inv in \<open>simp add: proceed_def\<close>)
qed

lemma node_inv_set_timer [preserving]: "preserves node_inv (set_timer tm)" "preserves node_inv (timer_fired tm)"
  by (simp_all add: preserves_def set_timer_def timer_fired_def)

lemma node_inv_on_net [preserving]: "passes m \<Longrightarrow> preserves node_inv (on_net m)"
  by (auto simp: preserves_def on_net_def split: prod.split dest: passesD intro: node_inv_calm)

lemma next_completion_inv: "preserves node_inv (next_completion env ev)"
proof (rule preservesI)
  fix n
  assume inv: "node_inv n"
  show "node_inv (fst (next_completion env ev n))"
  proof (cases ev)
    case (Some k)
    have "node_inv (fst (proceed env (cq_request k) c (n\<lparr>nn_queue := q\<rparr>)))" for c q
      using proceed_inv inv by (simp add: preserves_def)
    then show ?thesis using Some inv by (simp add: next_completion_def Let_def)
  qed (use inv in \<open>simp add: next_completion_def\<close>)
qed

lemma streams_written_live:
  assumes "conns_live conns calls" "(c, t) \<in> set (streams_written conns evs)"
  shows "t = c \<and> (\<exists>i. calls c = Some \<lparr>m_service = Push_Service, m_receive_status = RPC_WAIT, m_user_id_b58 = i\<rparr>)"
proof -
  obtain i where "map_of conns i = Some (Some c, Some t)"
    using assms(2) by (auto simp: streams_written_def split: net_event.splits option.splits)
  then show ?thesis using assms(1) unfolding conns_live_def by fastforce
qed

lemma out_message_ok:
  assumes "node_inv n"
  shows "\<exists>st evs. sendMessage env msg (nn_net n) = (st, Inr evs) \<and> conns_live (ns_conns st) (nn_calls n) \<and> table_ok st
    \<and> out_message env msg n = (n\<lparr>nn_net := st, nn_queue := nn_queue n
         @ map (\<lambda>(c, t). (t, Op_Write)) (streams_written (ns_conns st) evs), nn_events := nn_events n @ evs\<rparr>, Inr ())"
proof -
  obtain st evs where st: "sendMessage env msg (nn_net n) = (st, Inr evs)" "table_ok st"
    "more_conns (ns_conns (nn_net n)) (ns_conns st)"
    using sendMessage_ok[of "nn_net n" env msg] assms unfolding node_inv_def by blast
  have live: "conns_live (ns_conns st) (nn_calls n)"
    using assms st(3) conns_live_more unfolding node_inv_def by blast
  have "list_all (\<lambda>(c, t). nn_calls n c \<noteq> None) (streams_written (ns_conns st) evs)"
    using streams_written_live[OF live] by (fastforce simp: list_all_iff)
  then show ?thesis using st live by (simp add: out_message_def)
qed

lemma out_message_inv: "preserves node_inv (out_message env msg)"
proof (rule preservesI)
  fix n
  assume inv: "node_inv n"
  then show "node_inv (fst (out_message env msg n))"
    using out_message_ok[OF inv, of env msg] by (auto simp: node_inv_def)
qed

lemma handle_input_inv: "preserves node_inv (handle_input x)"
proof -
  obtain env i where "x = (env, i)" by fastforce
  then show ?thesis
    by (cases i) (auto simp: message_timer_def connection_timer_def broadcast_timer_def monitorCompletionQueue_def
        startConnectionMonitors_def monitorBroadcastMsgTable_def
        intro!: preserving next_completion_inv out_message_inv refreshBuckets_passes
          refresh_broadcasts_passes controlNet_passes)
qed

lemma registerServices_inv:
  assumes "rt_inv (ns_table (nn_net n))" "nn_calls n = (\<lambda>_. None)"
  shows "node_inv (registerServices n)"
proof -
  have "node_inv (fold new_call ss m)" if "node_inv m" for ss m
    using that by (induction ss arbitrary: m) (simp_all add: new_call_inv)
  moreover have "node_inv (n\<lparr>nn_net := net_state_new (ns_p2p_address (nn_net n)) (ns_table (nn_net n))\<rparr>)"
    using assms by (simp add: node_inv_def net_state_new_def conns_live_def)
  ultimately show ?thesis unfolding registerServices_def by blast
qed

lemma net_pluginInitialize_inv: "node_inv (net_pluginInitialize env address)"
proof -
  have "rt_inv (new_routing_table n k)" for n k by (rule rt_start_inv) (auto simp: rt_start_def)
  then show ?thesis unfolding net_pluginInitialize_def Let_def initializeServer_def initializeRoutingTable_def
    by (auto intro!: registerServices_inv split: prod.split)
qed

lemma net_start_inv: "preserves node_inv (net_start env ask)"
  unfolding net_start_def monitorCompletionQueue_def startConnectionMonitors_def monitorBroadcastMsgTable_def
  by (auto intro!: preserving getPeersFromTracker_passes)

lemma run_inputs_inv: "preserves node_inv (run_inputs ins)"
  unfolding run_inputs_def by (rule preserves_seq) (auto intro: handle_input_inv)

lemma net_run_inv:
  assumes "net_run env address controls ask ins = (n, r)"
  shows "node_inv n"
proof -
  have "preserves node_inv (sbind (seq (map (\<lambda>j. on_net (controlNet j)) controls)) (\<lambda>_.
      sbind (net_start env ask) (\<lambda>_. run_inputs ins)))"
    by (auto intro!: preserving controlNet_passes net_start_inv run_inputs_inv)
  then show ?thesis using net_pluginInitialize_inv assms unfolding net_run_def by (rule preservesD)
qed

text \<open>C33: In every run of the network plugin, whatever gRPC and other nodes deliver and however the run ends,
  the routing table is well formed, and each connection of a user names, as stream and as tag, an
  object that still exists, belongs to that user and waits for its call to end: deleting an object
  leaves no dangling pointer in the table of connections.\<close>

theorem connections_live:
  assumes "net_run env address controls ask ins = (n, r)"
  shows "rt_inv (ns_table (nn_net n)) \<and> (\<forall>i c t. map_of (ns_conns (nn_net n)) i = Some (Some c, t) \<longrightarrow>
    t = Some c \<and> nn_calls n c = Some \<lparr>m_service = Push_Service, m_receive_status = RPC_WAIT, m_user_id_b58 = i\<rparr>)"
  using net_run_inv[OF assms] unfolding node_inv_def conns_live_def by fastforce


end
