(* ===== verification/Net_Node_Listen.thy ===== *)
theory Net_Node_Listen
  imports Net_Node_Props
begin

text \<open>
  The objects of the services and the operations they wait for, over whole runs: as long as gRPC keeps
  its promises, each method of the interface is waited for by as many objects as were registered for
  it, and the three timers stay set.  For the method of the signers this number is zero.
\<close>

subsection \<open>What gRPC promises\<close>

text \<open>
  A request fails only when the server shuts down, and the end of a call is reported only for a call that
  was begun, after its request.
\<close>

fun is_request :: "call_op \<Rightarrow> bool" where
  "is_request (Op_Request m) \<longleftrightarrow> True"
| "is_request _ \<longleftrightarrow> False"

definition grpc_keeps :: "net_node \<Rightarrow> net_input \<Rightarrow> bool" where
  "grpc_keeps n x = (case x of
       On_Message_Timer True (Some k) \<Rightarrow> cq_index k < length (nn_queue n) \<longrightarrow>
         (case nn_queue n ! cq_index k of
            (c, Op_Request m) \<Rightarrow> cq_ok k
          | (c, Op_Done) \<Rightarrow> list_all (\<lambda>(c', opn). c' = c \<longrightarrow> \<not> is_request opn) (nn_queue n)
          | _ \<Rightarrow> True)
     | _ \<Rightarrow> True)"

fun orderly :: "net_node \<Rightarrow> (rpc_env \<times> net_input) list \<Rightarrow> bool" where
  "orderly n [] \<longleftrightarrow> True"
| "orderly n (x # xs) \<longleftrightarrow> grpc_keeps n (snd x) \<and> orderly (fst (handle_input x n)) xs"

subsection \<open>The pending operations\<close>

fun op_ok :: "(nat \<Rightarrow> call_data option) \<Rightarrow> nat \<times> call_op \<Rightarrow> bool" where
  "op_ok calls (c, Op_Request m) \<longleftrightarrow> (\<exists>d. calls c = Some d \<and> m_receive_status d = RPC_PROCESS \<and> requested_method (m_service d) = m)"
| "op_ok calls (c, Op_Finish r) \<longleftrightarrow> (\<exists>d. calls c = Some d \<and> m_receive_status d = RPC_FINISH \<and> m_service d \<noteq> Push_Service)"
| "op_ok calls (c, Op_Done) \<longleftrightarrow> (\<forall>d. calls c = Some d \<longrightarrow> m_service d = Push_Service \<and> m_receive_status d \<in> {RPC_PROCESS, RPC_WAIT})"
| "op_ok calls (c, Op_Write) \<longleftrightarrow> (\<forall>d. calls c = Some d \<longrightarrow> m_service d = Push_Service \<and> m_receive_status d = RPC_WAIT)"

fun owned :: "call_op \<Rightarrow> bool" where
  "owned (Op_Request m) \<longleftrightarrow> True"
| "owned (Op_Finish r) \<longleftrightarrow> True"
| "owned _ \<longleftrightarrow> False"

definition owners :: "(nat \<times> call_op) list \<Rightarrow> nat list" where
  "owners q = map fst (filter (\<lambda>x. owned (snd x)) q)"

definition requesters :: "(nat \<times> call_op) list \<Rightarrow> nat list" where
  "requesters q = map fst (filter (\<lambda>x. is_request (snd x)) q)"

text \<open>
  Every pending operation fits the state of its object, an object has at most one request or reply
  pending, and one that waits for a request has asked for it.
\<close>

definition queue_ok :: "(nat \<Rightarrow> call_data option) \<Rightarrow> nat \<Rightarrow> (nat \<times> call_op) list \<Rightarrow> bool" where
  "queue_ok calls nxt q \<longleftrightarrow> (\<forall>x\<in>set q. op_ok calls x \<and> fst x < nxt) \<and> distinct (owners q)
     \<and> (\<forall>c d. calls c = Some d \<and> m_receive_status d = RPC_PROCESS \<longrightarrow> c \<in> set (requesters q))"

lemma owners_simps [simp]:
  "owners [] = []" "owners (x # q) = (if owned (snd x) then fst x # owners q else owners q)"
  "owners (q @ r) = owners q @ owners r"
  by (simp_all add: owners_def)

lemma requesters_simps [simp]:
  "requesters [] = []" "requesters (x # q) = (if is_request (snd x) then fst x # requesters q else requesters q)"
  "requesters (q @ r) = requesters q @ requesters r"
  by (simp_all add: requesters_def)

lemma set_owners: "set (owners q) = fst ` {x \<in> set q. owned (snd x)}"
  by (auto simp: owners_def)

lemma owned_request: "is_request x \<Longrightarrow> owned x"
  by (cases x) auto

lemma queue_ok_perm:
  assumes "mset q = mset r" "queue_ok calls nxt q"
  shows "queue_ok calls nxt r"
proof -
  have "mset (owners q) = mset (owners r)" "mset (requesters q) = mset (requesters r)"
    using assms(1) by (simp_all add: owners_def requesters_def mset_filter)
  then show ?thesis using assms mset_eq_setD[OF assms(1)] mset_eq_imp_distinct_iff mset_eq_setD
    unfolding queue_ok_def by metis
qed

lemma queue_ok_drop: "queue_ok calls nxt (x # q) \<Longrightarrow> \<not> is_request (snd x) \<Longrightarrow> queue_ok calls nxt q"
  unfolding queue_ok_def by (auto split: if_splits)

lemma op_ok_other: "op_ok calls x \<Longrightarrow> fst x \<noteq> c \<Longrightarrow> op_ok (calls(c := y)) x"
  by (cases "(calls, x)" rule: op_ok.cases) auto

text \<open>An object is deleted when it has no request or reply pending.\<close>

lemma queue_ok_delete:
  assumes "queue_ok calls nxt q" "c \<notin> set (owners q)"
  shows "queue_ok (calls(c := None)) nxt q"
proof -
  have "op_ok (calls(c := None)) x" if "x \<in> set q" for x
  proof (cases "fst x = c")
    case True
    have "\<not> owned (snd x)" using assms(2) that True by (auto simp: set_owners)
    then show ?thesis using True by (cases "(calls, x)" rule: op_ok.cases) auto
  next
    case False
    have "op_ok calls x" using assms(1) that unfolding queue_ok_def by blast
    then show ?thesis using False by (rule op_ok_other)
  qed
  moreover have "c' \<in> set (requesters q)"
    if "(calls(c := None)) c' = Some d" "m_receive_status d = RPC_PROCESS" for c' d
  proof -
    have "calls c' = Some d" using that(1) by (simp split: if_splits)
    then show ?thesis using that(2) assms(1) unfolding queue_ok_def by blast
  qed
  moreover have "distinct (owners q)" "\<forall>x\<in>set q. fst x < nxt" using assms(1) unfolding queue_ok_def by simp_all
  ultimately show ?thesis unfolding queue_ok_def by simp
qed

text \<open>A request that came in: the object of a stream waits, the others have a reply pending.\<close>

lemma queue_ok_request:
  assumes q: "queue_ok calls nxt ((c, Op_Request m) # q)" and d: "calls c = Some d"
    and d': "m_service d' = m_service d"
      "m_receive_status d' = (if m_service d = Push_Service then RPC_WAIT else RPC_FINISH)"
    and ops: "ops = (if m_service d = Push_Service then [] else [(c, Op_Finish r)])"
  shows "queue_ok (calls(c \<mapsto> d')) nxt (ops @ q)"
proof -
  have c: "c \<notin> set (owners q)" "c < nxt" using q unfolding queue_ok_def by auto
  have status: "m_receive_status d = RPC_PROCESS" using q d unfolding queue_ok_def by auto
  have "op_ok (calls(c \<mapsto> d')) x" if "x \<in> set q" for x
  proof (cases "fst x = c")
    case True
    have "\<not> owned (snd x)" using c(1) that True by (auto simp: set_owners)
    moreover have "op_ok calls x" using q that unfolding queue_ok_def by simp
    moreover obtain opn where x: "x = (c, opn)" using True by (cases x) simp
    moreover have "m_service d' = Push_Service \<longrightarrow> m_receive_status d' = RPC_WAIT" using d' by simp
    ultimately show ?thesis using d d'(1) by (cases opn) simp_all
  next
    case False
    have "op_ok calls x" using q that unfolding queue_ok_def by simp
    then show ?thesis using False by (rule op_ok_other)
  qed
  moreover have "c' \<in> set (requesters q)"
    if "(calls(c \<mapsto> d')) c' = Some e" "m_receive_status e = RPC_PROCESS" for c' e
  proof -
    have "c' \<noteq> c" using that d'(2) by (auto split: if_splits)
    then show ?thesis using q that unfolding queue_ok_def by auto
  qed
  moreover have "distinct (owners (ops @ q))" using q c(1) ops unfolding queue_ok_def by auto
  moreover have "op_ok (calls(c \<mapsto> d')) x" "fst x < nxt" if "x \<in> set ops" for x
    using that ops d' c(2) by (auto split: if_splits)
  moreover have "fst x < nxt" if "x \<in> set q" for x using q that unfolding queue_ok_def by simp
  ultimately show ?thesis unfolding queue_ok_def set_append requesters_simps by blast
qed

lemma queue_ok_new:
  assumes q: "queue_ok calls nxt q" and fresh: "calls nxt = None"
  shows "queue_ok (calls(nxt \<mapsto> \<lparr>m_service = s, m_receive_status = RPC_PROCESS, m_user_id_b58 = i\<rparr>)) (Suc nxt)
    (q @ (if s = Push_Service then [(nxt, Op_Done)] else []) @ [(nxt, Op_Request (requested_method s))])"
proof -
  let ?calls = "calls(nxt \<mapsto> \<lparr>m_service = s, m_receive_status = RPC_PROCESS, m_user_id_b58 = i\<rparr>)"
  have "op_ok ?calls x \<and> fst x < Suc nxt" if "x \<in> set q" for x
    using q that op_ok_other[of calls x nxt] unfolding queue_ok_def by (metis less_SucI less_irrefl)
  moreover have "nxt \<notin> set (owners q)" using q unfolding queue_ok_def by (auto simp: set_owners)
  moreover have "c \<in> set (requesters q)"
    if "?calls c = Some d" "m_receive_status d = RPC_PROCESS" "c \<noteq> nxt" for c d
    using q that unfolding queue_ok_def by auto
  moreover have "distinct (owners q)" using q unfolding queue_ok_def by simp
  ultimately show ?thesis unfolding queue_ok_def
    by (cases "s = Push_Service") (auto simp del: split_paired_All)
qed

lemma queue_ok_writes:
  assumes "queue_ok calls nxt q" "\<And>c. c \<in> set cs \<Longrightarrow> c < nxt \<and>
    (\<exists>d. calls c = Some d \<and> m_service d = Push_Service \<and> m_receive_status d = RPC_WAIT)"
  shows "queue_ok calls nxt (q @ map (\<lambda>c. (c, Op_Write)) cs)"
proof -
  have "owners (map (\<lambda>c. (c, Op_Write)) cs) = []" by (induction cs) simp_all
  then show ?thesis using assms unfolding queue_ok_def by fastforce
qed

subsection \<open>One completion\<close>

definition pending :: "rpc_service \<Rightarrow> net_node \<Rightarrow> nat" where
  "pending m n = length (filter (\<lambda>x. snd x = Op_Request m) (nn_queue n))"

abbreviation queue_inv :: "net_node \<Rightarrow> bool" where
  "queue_inv n \<equiv> queue_ok (nn_calls n) (nn_next n) (nn_queue n)"

lemma new_call_queue:
  assumes "queue_inv n" "nn_calls n (nn_next n) = None"
  shows "queue_inv (new_call s n)"
  using queue_ok_new[OF assms, of s "[]"] by (simp add: new_call_alt)

lemma new_call_pending: "pending m (new_call s n) = pending m n + (if m = requested_method s then 1 else 0)"
  by (simp add: pending_def new_call_alt)

lemma serve_call_queue:
  assumes "serve_call c s mk f n = (n', Inr ())" "nn_calls n c = Some d" "c \<noteq> nn_next n"
  obtains r where "nn_calls n' = (nn_calls n)(nn_next n \<mapsto> \<lparr>m_service = s, m_receive_status = RPC_PROCESS, m_user_id_b58 = []\<rparr>,
      c \<mapsto> d\<lparr>m_receive_status := RPC_FINISH\<rparr>)" "nn_next n' = Suc (nn_next n)"
    "nn_queue n' = nn_queue (new_call s n) @ [(c, Op_Finish r)]"
  using assms by (auto simp: serve_call_def Let_def new_call_alt wait_for_def update_call_def
      split: prod.splits sum.splits intro: that)

text \<open>What is left of a queue when an operation completes, put together in the order of the lemmas above.\<close>

lemma completion_split:
  assumes "k < length q"
  shows "mset (q ! k # erase_at k q) = mset q"
proof -
  have "q = take k q @ q ! k # drop (Suc k) q" using assms by (rule id_take_nth_drop)
  then have "mset q = mset (take k q @ q ! k # drop (Suc k) q)" by (rule arg_cong)
  then show ?thesis by (simp add: erase_at_def)
qed

lemma pending_split:
  assumes "k < length (nn_queue n)"
  shows "pending m n = (if snd (nn_queue n ! k) = Op_Request m then 1 else 0)
    + pending m (n\<lparr>nn_queue := erase_at k (nn_queue n)\<rparr>)"
proof -
  have "size (filter_mset (\<lambda>x. snd x = Op_Request m) (mset (nn_queue n)))
    = size (filter_mset (\<lambda>x. snd x = Op_Request m) (mset (nn_queue n ! k # erase_at k (nn_queue n))))"
    by (simp only: completion_split[OF assms])
  then show ?thesis by (simp add: pending_def flip: mset_filter)
qed

lemma process_call_queue:
  assumes "process_call env q c s n = (n', Inr ())" "s \<noteq> Push_Service" "nn_calls n c = Some d" "c \<noteq> nn_next n"
  obtains r where "nn_calls n' = (nn_calls n)(nn_next n \<mapsto> \<lparr>m_service = s, m_receive_status = RPC_PROCESS, m_user_id_b58 = []\<rparr>,
      c \<mapsto> d\<lparr>m_receive_status := RPC_FINISH\<rparr>)" "nn_next n' = Suc (nn_next n)"
    "nn_queue n' = nn_queue (new_call s n) @ [(c, Op_Finish r)]"
  using assms(1,2) by (cases s) (auto elim!: serve_call_queue[OF _ assms(3,4)] intro: that)

text \<open>A request is served: another object waits in place of the one that serves.\<close>

lemma request_served:
  assumes inv: "queue_ok (nn_calls n) (nn_next n) ((c, Op_Request m) # nn_queue n)"
    and fresh: "nn_calls n (nn_next n) = None"
    and run: "proceed env q c n = (n', Inr ())"
  shows "queue_inv n' \<and> pending k n' = pending k n + (if k = m then 1 else 0)"
proof -
  obtain d where d: "nn_calls n c = Some d" "m_receive_status d = RPC_PROCESS" "requested_method (m_service d) = m"
    using inv unfolding queue_ok_def by auto
  have c: "c \<noteq> nn_next n" using fresh d by auto
  have p: "process_call env q c (m_service d) n = (n', Inr ())" using run d by (simp add: proceed_def)
  let ?new = "\<lparr>m_service = m_service d, m_receive_status = RPC_PROCESS, m_user_id_b58 = []\<rparr>"
  show ?thesis
  proof (cases "m_service d = Push_Service")
    case True
    let ?d = "d\<lparr>m_receive_status := RPC_WAIT, m_user_id_b58 := u_to58 (n_utils (rv_net env)) (rq_sender q)\<rparr>"
    have n': "nn_calls n' = (nn_calls n)(c \<mapsto> ?d, nn_next n \<mapsto> ?new)" "nn_next n' = Suc (nn_next n)"
      "nn_queue n' = nn_queue (new_call Push_Service n)"
      using p True d c by (auto simp: push_call_def Let_def new_call_alt update_call_def fun_upd_twist)
    have "queue_ok ((nn_calls n)(c \<mapsto> ?d)) (nn_next n) ([] @ nn_queue n)"
      by (rule queue_ok_request[OF inv d(1), of ?d "[]"]) (simp_all add: True)
    then have "queue_inv n'"
      using queue_ok_new[of "(nn_calls n)(c \<mapsto> ?d)" "nn_next n" "nn_queue n" Push_Service "[]"] fresh c True
      by (simp add: n' new_call_alt)
    then show ?thesis using d(3) n'(3) new_call_pending[of k Push_Service n] True by (simp add: pending_def)
  next
    case False
    let ?d = "d\<lparr>m_receive_status := RPC_FINISH\<rparr>"
    obtain r where n': "nn_calls n' = (nn_calls n)(nn_next n \<mapsto> ?new, c \<mapsto> ?d)" "nn_next n' = Suc (nn_next n)"
      "nn_queue n' = nn_queue (new_call (m_service d) n) @ [(c, Op_Finish r)]"
      using process_call_queue[OF p False d(1) c] .
    have "queue_ok ((nn_calls n)(c \<mapsto> ?d)) (nn_next n) ([(c, Op_Finish r)] @ nn_queue n)"
      by (rule queue_ok_request[OF inv d(1), of ?d "[(c, Op_Finish r)]" r]) (simp_all add: False)
    then have "queue_ok (nn_calls n') (nn_next n') ([(c, Op_Finish r)] @ nn_queue n @ [(nn_next n, Op_Request m)])"
      using queue_ok_new[of "(nn_calls n)(c \<mapsto> ?d)" "nn_next n" "[(c, Op_Finish r)] @ nn_queue n" "m_service d" "[]"]
        fresh c False d(3) by (simp add: n' fun_upd_twist)
    then have "queue_inv n'"
      by (rule queue_ok_perm[rotated]) (simp add: n' new_call_alt False d(3))
    then show ?thesis using d(3) n'(3) new_call_pending[of k "m_service d" n] by (simp add: pending_def)
  qed
qed

lemma push_wait_queue:
  assumes "queue_inv n" "nn_calls n c = Some d" "m_receive_status d = RPC_WAIT"
  shows "queue_inv (fst (push_wait q c i n))"
proof -
  have "c \<notin> set (owners (nn_queue n))"
  proof
    assume "c \<in> set (owners (nn_queue n))"
    then obtain opn where "(c, opn) \<in> set (nn_queue n)" "owned opn" by (auto simp: set_owners)
    then show False using assms unfolding queue_ok_def by (cases opn) auto
  qed
  then show ?thesis using assms(1) queue_ok_delete by (simp add: push_wait_def)
qed

lemma push_wait_pending: "pending m (fst (push_wait q c i n)) = pending m n"
  by (simp add: push_wait_def pending_def)

text \<open>What is pending besides requests leaves the requests alone.\<close>

lemma other_served:
  assumes inv: "queue_ok (nn_calls n) (nn_next n) ((c, opn) # nn_queue n)" and "\<not> is_request opn"
    and fin: "opn = Op_Done \<Longrightarrow> c \<notin> set (requesters (nn_queue n))"
    and run: "proceed env q c n = (n', Inr ())"
  shows "queue_inv n' \<and> pending k n' = pending k n"
proof -
  have q: "queue_inv n" using inv assms(2) queue_ok_drop by fastforce
  obtain d where d: "nn_calls n c = Some d" using run by (cases "nn_calls n c") (auto simp: proceed_def)
  have wait: ?thesis if "m_service d = Push_Service" "m_receive_status d = RPC_WAIT"
  proof -
    have "n' = fst (push_wait q c (m_user_id_b58 d) n)" using run d that by (simp add: proceed_def)
    then show ?thesis using push_wait_queue[OF q d that(2)] push_wait_pending by simp
  qed
  have ok: "op_ok (nn_calls n) (c, opn)" using inv unfolding queue_ok_def by simp
  show ?thesis
  proof (cases opn)
    case Op_Done
    have "m_receive_status d \<noteq> RPC_PROCESS"
      using fin[OF Op_Done] d inv assms(2) unfolding queue_ok_def by auto
    then show ?thesis using wait ok d Op_Done by auto
  next
    case Op_Write
    then show ?thesis using wait ok d by auto
  next
    case (Op_Finish r)
    have n': "n' = n\<lparr>nn_calls := (nn_calls n)(c := None)\<rparr>"
      using run ok d Op_Finish by (auto simp: proceed_def)
    have "c \<notin> set (owners (nn_queue n))" using inv Op_Finish unfolding queue_ok_def by simp
    then show ?thesis using queue_ok_delete[OF q] n' by (simp add: pending_def)
  qed (use assms(2) in simp)
qed

lemma next_completion_queue:
  assumes inv: "node_inv n" "queue_inv n" and keeps: "grpc_keeps n (On_Message_Timer True ev)"
    and run: "next_completion env ev n = (n', Inr ())"
  shows "queue_inv n' \<and> pending m n' = pending m n"
proof (cases "\<exists>k. ev = Some k \<and> cq_index k < length (nn_queue n)")
  case False
  then show ?thesis using run inv by (auto simp: next_completion_def split: option.splits)
next
  case True
  then obtain k where k: "ev = Some k" "cq_index k < length (nn_queue n)" by blast
  obtain c opn where x: "nn_queue n ! cq_index k = (c, opn)" by fastforce
  let ?n = "n\<lparr>nn_queue := erase_at (cq_index k) (nn_queue n)\<rparr>"
  have q: "queue_ok (nn_calls ?n) (nn_next ?n) ((c, opn) # nn_queue ?n)"
    using queue_ok_perm[OF completion_split[OF k(2), symmetric] inv(2)] x by simp
  have p: "pending m n = (if opn = Op_Request m then 1 else 0) + pending m ?n"
    using pending_split[OF k(2), of m] x by simp
  have fresh: "nn_calls ?n (nn_next ?n) = None" using inv(1) by (simp add: node_inv_def)
  have left: "set (nn_queue ?n) \<subseteq> set (nn_queue n)"
    using set_erase_at[of "cq_index k" "nn_queue n"] by simp
  show ?thesis
  proof (cases "cq_ok k")
    case False
    then have "\<not> is_request opn" using keeps k x by (cases opn) (auto simp: grpc_keeps_def)
    then show ?thesis using run k False p queue_ok_drop[OF q] by (cases opn) (auto simp: next_completion_def)
  next
    case True
    then have go: "proceed env (cq_request k) c ?n = (n', Inr ())" using run k x by (simp add: next_completion_def Let_def)
    show ?thesis
    proof (cases opn)
      case (Op_Request r)
      show ?thesis using request_served[OF q[unfolded Op_Request] fresh go, of m] p Op_Request by auto
    next
      case Op_Done
      have "c \<notin> set (requesters (nn_queue ?n))"
        using keeps k x Op_Done left by (fastforce simp: grpc_keeps_def list_all_iff requesters_def)
      then show ?thesis using other_served[OF q _ _ go, of m] p Op_Done by simp
    qed (use other_served[OF q _ _ go, of m] p in auto)
  qed
qed

subsection \<open>Runs\<close>

definition timers_set :: "net_node \<Rightarrow> bool" where
  "timers_set n \<longleftrightarrow> set (nn_timers n) = {Message_Timer, Connection_Timer, Broadcast_Timer}"

text \<open>How many objects wait for a method.\<close>

definition listeners :: "rpc_service \<Rightarrow> nat" where
  "listeners m = (if m = Signer_Service then 0 else if m = User_Service then 2 else 1)"

definition listening :: "net_node \<Rightarrow> bool" where
  "listening n \<longleftrightarrow> node_inv n \<and> queue_inv n \<and> timers_set n \<and> (\<forall>m. pending m n = listeners m)"

text \<open>The parts of the node an operation on the plugin's state does not touch.\<close>

lemma on_net_parts:
  "on_net f n = (n', r) \<Longrightarrow> nn_calls n' = nn_calls n \<and> nn_next n' = nn_next n \<and> nn_queue n' = nn_queue n \<and> nn_timers n' = nn_timers n"
  by (auto simp: on_net_def split: prod.splits)

lemma pending_cong: "nn_queue n' = nn_queue n \<Longrightarrow> pending m n' = pending m n"
  by (simp add: pending_def)

lemma proceed_timers: "nn_timers (fst (proceed env q c n)) = nn_timers n"
proof -
  have "nn_timers (fst (serve_call c s mk f n)) = nn_timers n"
    for s and mk :: "'r \<Rightarrow> call_reply" and f
    by (auto simp: serve_call_def Let_def wait_for_def update_call_def new_call_alt split: prod.split sum.split)
  note serve = this
  have "nn_timers (fst (process_call env q c s n)) = nn_timers n" for s
    by (cases s) (simp_all add: serve push_call_def Let_def update_call_def new_call_alt)
  then show ?thesis
    by (simp add: proceed_def push_wait_def call_create_def wait_for_def update_call_def
        split: option.split RpcCallStatus.split del: process_call.simps)
qed

lemma next_completion_timers: "nn_timers (fst (next_completion env ev n)) = nn_timers n"
  by (simp add: next_completion_def proceed_timers Let_def split: option.split)

text \<open>A timer that went off and is set again.\<close>

lemma timer_again:
  "t \<in> set ts \<Longrightarrow> set (List.insert t (removeAll t ts)) = set ts"
  by auto

lemma listening_quiet:
  assumes "listening n" "node_inv n'" "nn_calls n' = nn_calls n" "nn_next n' = nn_next n" "nn_queue n' = nn_queue n"
    and "set (nn_timers n') = set (nn_timers n)"
  shows "listening n'"
  using assms by (simp add: listening_def timers_set_def pending_def)

lemma listening_timer:
  assumes lst: "listening n" and t: "t \<in> set (nn_timers n)" and inv: "node_inv n'"
    and run: "sbind (timer_fired t) (\<lambda>_. if ok then sbind (on_net f) (\<lambda>_. set_timer t) else set_timer t) n = (n', Inr ())"
  shows "listening n'"
proof (rule listening_quiet[OF lst inv])
  have "nn_calls n' = nn_calls n \<and> nn_next n' = nn_next n \<and> nn_queue n' = nn_queue n
    \<and> nn_timers n' = List.insert t (removeAll t (nn_timers n))"
    using run by (auto simp: sbind_def timer_fired_def set_timer_def split: if_splits prod.splits sum.splits dest!: on_net_parts)
  then show "nn_calls n' = nn_calls n" "nn_next n' = nn_next n" "nn_queue n' = nn_queue n"
    "set (nn_timers n') = set (nn_timers n)"
    using timer_again[OF t] by simp_all
qed

lemma grpc_keeps_timers: "grpc_keeps (n\<lparr>nn_timers := ts\<rparr>) x = grpc_keeps n x"
proof (cases x)
  case (On_Message_Timer ok ev)
  then show ?thesis by (cases ok; cases ev) (simp_all add: grpc_keeps_def)
qed (simp_all add: grpc_keeps_def)

lemma listening_messages:
  assumes lst: "listening n" and keeps: "grpc_keeps n (On_Message_Timer ok ev)" and inv: "node_inv n'"
    and run: "message_timer env ok ev n = (n', Inr ())"
  shows "listening n'"
proof -
  let ?n = "n\<lparr>nn_timers := removeAll Message_Timer (nn_timers n)\<rparr>"
  obtain n1 where n1: "(if ok then next_completion env ev else sret ()) ?n = (n1, Inr ())"
    "n' = n1\<lparr>nn_timers := List.insert Message_Timer (nn_timers n1)\<rparr>"
    using run by (auto simp: message_timer_def timer_fired_def sbind_def monitorCompletionQueue_def set_timer_def
        split: prod.splits sum.splits)
  have "node_inv ?n" "queue_inv ?n" using lst by (simp_all add: listening_def)
  moreover have "grpc_keeps ?n (On_Message_Timer True ev)" if ok using keeps that by (simp add: grpc_keeps_timers)
  ultimately have q: "queue_inv n1 \<and> pending m n1 = pending m ?n" for m
    using next_completion_queue[of ?n ev env n1 m] n1(1) by (cases ok) auto
  have "nn_timers n1 = nn_timers ?n" using n1(1) next_completion_timers[of env ev ?n] by (cases ok) auto
  then have "set (nn_timers n') = set (nn_timers n)"
    using timer_again[of Message_Timer "nn_timers n"] lst n1(2) by (simp add: listening_def timers_set_def)
  then show ?thesis using lst inv q n1(2) by (simp add: listening_def timers_set_def pending_def)
qed

lemma listening_out:
  assumes lst: "listening n" and inv: "node_inv n'" and run: "out_message env msg n = (n', Inr ())"
  shows "listening n'"
proof -
  have n: "node_inv n" "queue_inv n" using lst by (simp_all add: listening_def)
  obtain st evs where st: "conns_live (ns_conns st) (nn_calls n)"
    "n' = n\<lparr>nn_net := st, nn_queue := nn_queue n
       @ map (\<lambda>(c, t). (t, Op_Write)) (streams_written (ns_conns st) evs), nn_events := nn_events n @ evs\<rparr>"
    using out_message_ok[OF n(1), of env msg] run by auto
  let ?cs = "map snd (streams_written (ns_conns st) evs)"
  have "c < nn_next n \<and> (\<exists>d. nn_calls n c = Some d \<and> m_service d = Push_Service \<and> m_receive_status d = RPC_WAIT)"
    if "c \<in> set ?cs" for c
    using that streams_written_live[OF st(1)] new_call_other(3)[OF n(1)] by fastforce
  then have "queue_ok (nn_calls n) (nn_next n) (nn_queue n @ map (\<lambda>c. (c, Op_Write)) ?cs)"
    by (intro queue_ok_writes n(2))
  moreover have w: "map (\<lambda>(c, t). (t, Op_Write)) ws = map (\<lambda>c. (c, Op_Write)) (map snd ws)" for ws :: "(nat \<times> nat) list"
    by (induction ws) auto
  moreover have "filter (\<lambda>x. snd x = Op_Request m) (map (\<lambda>c. (c, Op_Write)) cs) = []" for m and cs :: "nat list"
    by (induction cs) auto
  ultimately show ?thesis using lst inv by (simp add: listening_def st(2) w timers_set_def pending_def del: map_map)
qed

lemma handle_input_listening:
  assumes lst: "listening n" and keeps: "grpc_keeps n (snd x)" and run: "handle_input x n = (n', Inr ())"
  shows "listening n'"
proof -
  obtain env i where x: "x = (env, i)" by fastforce
  have inv: "node_inv n'" using preservesD[OF handle_input_inv _ run] lst by (simp add: listening_def)
  have ts: "t \<in> set (nn_timers n)" for t using lst by (cases t) (simp_all add: listening_def timers_set_def)
  show ?thesis
  proof (cases i)
    case (On_Message_Timer ok ev)
    then show ?thesis using listening_messages[OF lst _ inv] keeps run x by simp
  next
    case (On_Connection_Timer ok answers)
    then show ?thesis using run[unfolded x]
      by (auto simp: connection_timer_def[unfolded startConnectionMonitors_def] intro: listening_timer[OF lst ts inv])
  next
    case (On_Broadcast_Timer ok)
    then show ?thesis using run[unfolded x]
      by (auto simp: broadcast_timer_def[unfolded monitorBroadcastMsgTable_def] intro: listening_timer[OF lst ts inv])
  next
    case (On_Out_Message msg)
    then show ?thesis using listening_out[OF lst inv] run x by simp
  next
    case (On_Control info)
    then show ?thesis using listening_quiet[OF lst inv] run x by (auto dest: on_net_parts)
  qed
qed

lemma run_inputs_listening:
  "listening n \<Longrightarrow> orderly n ins \<Longrightarrow> run_inputs ins n = (n', Inr ()) \<Longrightarrow> listening n'"
proof (induction ins arbitrary: n)
  case (Cons x ins)
  obtain n1 where n1: "handle_input x n = (n1, Inr ())" "run_inputs ins n1 = (n', Inr ())"
    using Cons.prems(3) by (auto simp: run_inputs_def sbind_Inr)
  then show ?case using Cons handle_input_listening[OF Cons.prems(1) _ n1(1)] by simp
qed (simp add: run_inputs_def)

text \<open>The start of a run.\<close>

definition waiting_part :: "net_node \<Rightarrow> (nat \<Rightarrow> call_data option) \<times> nat \<times> (nat \<times> call_op) list" where
  "waiting_part n = (nn_calls n, nn_next n, nn_queue n)"

lemma keeps_waiting [keeping]:
  "keeps waiting_part (on_net f)" "keeps nn_timers (on_net f)" "keeps waiting_part (set_timer t)"
  by (auto simp: keeps_def waiting_part_def on_net_def set_timer_def split: prod.split)

lemma started_timers:
  assumes "net_start env ask n = (n', Inr ())" "nn_timers n = []"
  shows "timers_set n'"
  using assms by (auto simp: net_start_def monitorCompletionQueue_def startConnectionMonitors_def
      monitorBroadcastMsgTable_def sbind_def set_timer_def timers_set_def dest!: on_net_parts)

lemma registered:
  assumes "n' = registerServices n" "nn_calls n = (\<lambda>_. None)" "nn_queue n = []" "nn_next n = 0" "rt_inv (ns_table (nn_net n))"
  shows "node_inv n'" "queue_inv n'" "pending m n' = listeners m"
proof -
  let ?n0 = "n\<lparr>nn_net := net_state_new (ns_p2p_address (nn_net n)) (ns_table (nn_net n))\<rparr>"
  have all: "node_inv (fold new_call ss k) \<and> queue_inv (fold new_call ss k)
      \<and> pending m (fold new_call ss k) = pending m k + length (filter (\<lambda>s. requested_method s = m) ss)"
    if "node_inv k" "queue_inv k" for ss k
    using that
  proof (induction ss arbitrary: k)
    case (Cons s ss)
    have "nn_calls k (nn_next k) = None" using Cons.prems(1) by (simp add: node_inv_def)
    then show ?case
      using Cons.IH[of "new_call s k"] Cons.prems new_call_inv[of k s] new_call_queue[of k s] new_call_pending[of m s k]
      by simp
  qed simp
  have "node_inv ?n0" using assms by (simp add: node_inv_def net_state_new_def conns_live_def)
  moreover have "queue_inv ?n0" using assms by (simp add: queue_ok_def)
  moreover have "pending m ?n0 = 0" using assms by (simp add: pending_def)
  ultimately show "node_inv n'" "queue_inv n'" "pending m n' = listeners m"
    using all[of ?n0 "[Push_Service, KeyEx_Service, Signer_Service, User_Service, Merger_Service, Find_Node]"] assms(1)
    by (simp_all add: registerServices_def listeners_def requested_method_def del: fold_simps(2)) (cases m; simp)
qed

lemma started_listening:
  assumes run: "net_run env address controls ask [] = (n, Inr ())"
  shows "listening n"
proof -
  let ?i = "net_pluginInitialize env address"
  let ?c = "seq (map (\<lambda>j. on_net (controlNet j)) controls)"
  obtain n1 where n1: "?c ?i = (n1, Inr ())" "net_start env ask n1 = (n, Inr ())"
    using run by (auto simp: net_run_def run_inputs_def sbind_Inr)
  have "keeps waiting_part ?c" "keeps nn_timers ?c" by (auto intro!: keeping)
  from this[THEN keepsD, OF n1(1)]
  have w1: "waiting_part n1 = waiting_part ?i" "nn_timers n1 = nn_timers ?i" .
  have "keeps waiting_part (net_start env ask)"
    unfolding net_start_def monitorCompletionQueue_def startConnectionMonitors_def monitorBroadcastMsgTable_def
    by (auto intro!: keeping)
  from keepsD[OF this n1(2)] have w: "waiting_part n = waiting_part ?i" using w1(1) by simp
  have rt: "rt_inv (new_routing_table m k)" for m k by (rule rt_start_inv) (auto simp: rt_start_def)
  obtain b where b: "?i = registerServices b" "nn_calls b = (\<lambda>_. None)" "nn_queue b = []" "nn_next b = 0"
    "rt_inv (ns_table (nn_net b))" "nn_timers b = []"
    by (rule that[of "(initializeServer \<lparr>nn_net = net_state_new (case address of Some a \<Rightarrow> a | None \<Rightarrow> [])
          (new_routing_table (new_node (rv_sha1 env []) [] [] []) 0), nn_calls = (\<lambda>_. None), nn_next = 0, nn_queue = [],
        nn_timers = [], nn_listening = None, nn_events = []\<rparr>)\<lparr>nn_net := initializeRoutingTable env (net_state_new
          (case address of Some a \<Rightarrow> a | None \<Rightarrow> []) (new_routing_table (new_node (rv_sha1 env []) [] [] []) 0))\<rparr>"])
      (auto simp: net_pluginInitialize_def Let_def initializeServer_def initializeRoutingTable_def rt split: prod.split)
  have "nn_timers (new_call s k) = nn_timers k" for s k by (simp add: new_call_alt)
  then have "nn_timers ?i = []" using b(1,6) by (simp add: registerServices_def)
  then have "timers_set n" using started_timers[OF n1(2)] w1(2) by simp
  moreover have "queue_inv n \<and> pending m n = listeners m" for m
    using registered[OF b(1-5)] w by (simp add: waiting_part_def pending_def)
  moreover have "node_inv n" using net_run_inv[OF run] .
  ultimately show ?thesis by (simp add: listening_def)
qed

text \<open>C34: As long as gRPC keeps its promises (no request fails, and the end of a call is reported only after
  its request) and the program goes on, the network plugin keeps listening: whatever requests,
  messages and timers come in any order, each method of the interface has the objects waiting for it
  that were registered at the start, and the three timers are set.  The method of the signers is
  waited for by nobody, that of the users by two objects.\<close>

theorem services_listen:
  assumes "net_run env address controls ask [] = (n, Inr ())"
    and "orderly n ins" and "run_inputs ins n = (n', Inr ())"
  shows "(\<forall>m. pending m n' = (if m = Signer_Service then 0 else if m = User_Service then 2 else 1))
    \<and> set (nn_timers n') = {Message_Timer, Connection_Timer, Broadcast_Timer}"
  using run_inputs_listening[OF started_listening[OF assms(1)] assms(2,3)]
  by (simp add: listening_def listeners_def timers_set_def)

subsection \<open>What this means for users\<close>

lemma bare_events:
  "handle_message env Bare msg st = (st', Inr (out, evs)) \<Longrightarrow> \<forall>e\<in>set evs. \<exists>ch j. e = Publish ch j"
  by (auto simp: bare_handler split: if_splits)

text \<open>An object of the service for signers, to which a request of a user may come, passes nothing on to other
  mergers: about half of the transactions of users stay with the merger that received them.\<close>

theorem signer_object_keeps_transactions:
  assumes "nn_calls n c = Some d" "m_service d = Signer_Service" "m_receive_status d = RPC_PROCESS"
    and "proceed env q c n = (n', Inr ())"
  shows "\<exists>evs. nn_events n' = nn_events n @ evs \<and> (\<forall>e\<in>set evs. \<exists>ch j. e = Publish ch j)"
proof -
  obtain st r evs where s: "signer_process env (rq_message q) (nn_net n) = (st, Inr (r, evs))"
    "nn_events n' = nn_events n @ evs"
    using assms by (auto simp: proceed_def serve_call_def Let_def new_call_alt wait_for_def update_call_def
        split: prod.splits sum.splits)
  have "\<forall>e\<in>set evs. \<exists>ch j. e = Publish ch j"
    using s(1) by (auto simp: signer_process_def serve_user_alt dest!: bare_events caught_user_status refused_status
        split: sum.splits option.splits prod.splits if_splits)
  then show ?thesis using s(2) by blast
qed

text \<open>Messages for a user are written one after the other without waiting for the end of the last write, of
  which gRPC allows only one at a time.\<close>

theorem writes_pile_up:
  assumes "map_of (ns_conns (nn_net n)) i = Some (Some c, Some c)" "nn_calls n c \<noteq> None"
    and "getHmacKey i (pm_user_pool (ns_users (nn_net n))) = Some k"
    and "checkUserMsgType (out_type msg)" "out_receivers msg = [i]"
  shows "\<exists>n'. out_message env msg n = (n', Inr ()) \<and> nn_queue n' = nn_queue n @ [(c, Op_Write)]"
proof -
  have "\<not> checkMergerMsgType (out_type msg)" using assms(4) by (auto simp: checkUserMsgType_def checkMergerMsgType_def)
  then show ?thesis using assms
    by (simp add: out_message_def sendMessage_def getRpcInfo_def om_try_def Let_def streams_written_def)
qed

subsection \<open>Examples\<close>

definition demo_request :: rpc_request where
  "demo_request = \<lparr>rq_sender = ''u'', rq_message = replicate 64 CHR ''x'', rq_merger = \<lparr>mr_broadcast = False, mr_message_id = [],
     mr_message = [], mr_net_id = None\<rparr>, rq_target_id = [], rq_sender_id = [], rq_sender_address = [],
     rq_sender_port = [], rq_cancelled = False\<rparr>"

text \<open>A user connects; a message that cannot be parsed comes to the key exchange.\<close>

definition demo_inputs :: "(rpc_env \<times> net_input) list" where
  "demo_inputs = [(demo_rpc, On_Message_Timer True (Some \<lparr>cq_index = 1, cq_ok = True, cq_request = demo_request\<rparr>)),
     (demo_rpc, On_Message_Timer True (Some \<lparr>cq_index = 1, cq_ok = True, cq_request = demo_request\<rparr>))]"

abbreviation demo_run :: "(rpc_env \<times> net_input) list \<Rightarrow> net_node \<times> unit result" where
  "demo_run ins \<equiv> net_run demo_rpc (Some ''h:1'') [] (\<lambda>_ _ _. []) ins"

lemma demo_run_result: "snd (demo_run demo_inputs) = Inr ()" by code_simp

lemma demo_run_conns: "ns_conns (nn_net (fst (demo_run demo_inputs))) = [(''uz'', (Some 0, Some 0))]" by code_simp

lemma demo_run_orderly: "orderly (fst (demo_run [])) demo_inputs" by code_simp

theorem connections_live_witness:
  "\<exists>n r. demo_run demo_inputs = (n, r) \<and> ns_conns (nn_net n) = [(''uz'', (Some 0, Some 0))] \<and> rt_inv (ns_table (nn_net n))
    \<and> nn_calls n 0 = Some \<lparr>m_service = Push_Service, m_receive_status = RPC_WAIT, m_user_id_b58 = ''uz''\<rparr>"
proof -
  obtain n r where run: "demo_run demo_inputs = (n, r)" by fastforce
  then have "ns_conns (nn_net n) = [(''uz'', (Some 0, Some 0))]" using demo_run_conns by simp
  then show ?thesis using connections_live[OF run] run by auto
qed


theorem services_listen_witness:
  "\<exists>n. demo_run demo_inputs = (n, Inr ()) \<and> pending Push_Service n = 1 \<and> pending KeyEx_Service n = 1
    \<and> pending Signer_Service n = 0 \<and> pending User_Service n = 2 \<and> nn_next n = 8"
proof -
  obtain n0 where start: "demo_run [] = (n0, Inr ())"
  proof -
    have "snd (demo_run []) = Inr ()" by code_simp
    then show thesis using that by (metis prod.collapse)
  qed
  obtain n where run: "demo_run demo_inputs = (n, Inr ())" using demo_run_result by (metis prod.collapse)
  then have "run_inputs demo_inputs n0 = (n, Inr ())"
    using start by (auto simp: net_run_def run_inputs_def sbind_Inr)
  moreover have "orderly n0 demo_inputs" using demo_run_orderly start by simp
  ultimately have "pending m n = (if m = Signer_Service then 0 else if m = User_Service then 2 else 1)" for m
    using services_listen[OF start] by blast
  moreover have "nn_next (fst (demo_run demo_inputs)) = 8" by code_simp
  ultimately show ?thesis using run by simp
qed

end
