(* ===== verification/Spec2Isabelle.thy ===== *)
theory Spec2Isabelle
  imports Chain_Props Chain_Plugin Ledger_Props State_Tree_Props Kademlia_Props User_Props
    Contract_Props Contract_Parallel Net_Props Producer_Props Admin_Props Schema_Props Rdb_Props Chain_Node_Props Net_Node_Listen
begin

text \<open>
  Gruut (Tethys) is a merger node of a blockchain, in C++. It receives transactions and blocks over
  gRPC, keeps the blocks that are not yet confirmed in a tree, has contracts executed on them, writes
  the ledger changes those ask for into two hash trees and two databases, and finds its peers with
  Kademlia. This development models that logic and proves what makes each part correct, and where
  the code does not do what it means to, it proves that instead.

  \<^bold>\<open>Conventions.\<close> A class is a record of its members and each method a function that takes and
  returns it. A method that can fail returns \<open>result\<close>, a sum of \<open>cpp_error\<close> and a value:
  exceptions of the standard library and of the JSON library, and \<open>Undefined_Behaviour\<close> where C++
  leaves the outcome open (a read outside a vector, a null pointer, a function that ends without a
  return, an uninitialised member). A method that changes its object and can throw in the middle is
  a \<open>prog\<close>: it returns the object as it was left, and the result. Fixed-width integers are words or,
  for \<open>int\<close>, integers with the conversions written out; a \<open>std::map\<close> is a sorted association list.
  Locks are not modelled: each call is one step. What is not in the repository (SHA-256, base
  encodings, CBOR, signatures, LevelDB, MySQL, gRPC, the clock, random numbers) is a parameter: a
  record of functions (\<open>utils\<close>, \<open>verifiers\<close>, \<open>net_utils\<close>, \<open>rdb\<close>, \<open>session_env\<close>, \<open>rpc_env\<close>, \<open>bp_env\<close>,
  \<open>json_env\<close>, \<open>admin_env\<close>) or an
  argument.

  \<^bold>\<open>Parts\<close>, with their sources under \<open>src/src/plugins/\<close> (the contract engine under
  \<open>src/src/contract/\<close>):

  \<^item> \<open>Prelude\<close>, \<open>Containers\<close>: errors, decimal texts and their parsing (\<open>stoi\<close>, \<open>stoul\<close>),
    ordered maps, vectors, JSON values and the interfaces the components share, as locales
    (\<open>finite_map\<close>, \<open>first_wins\<close>, a state machine with an invariant), interpreted in the theories
    of their providers.
  \<^item> \<open>Storage_Types\<close>: \<open>chain_plugin/config/storage_type.hpp\<close> and \<open>structure/\<close>, the records of
    blocks and transactions and their JSON readers.
  \<^item> \<open>Block_Pool\<close>, \<open>_Inv\<close>, \<open>_Resolve\<close>, \<open>_Props\<close>: \<open>unresolved_block_pool.cpp\<close>. Blocks by height
    above the confirmed one, linked by indices. The invariant of the pool, that pushing refines an
    index-free specification, that resolving confirms the branch with the most signatures, paths.
  \<^item> \<open>Merkle_Tree\<close>: \<open>static_merkle_tree.hpp\<close>. Generation against a recursive reference, soundness and
    completeness of proofs.
  \<^item> \<open>State_Tree\<close>, \<open>_Props\<close>: \<open>mem_ledger.cpp\<close>, on a heap of nodes. Insertion and removal are structural
    on the remaining depth, 16 at most, so no fuel is needed.
  \<^item> \<open>Ledger_Ops\<close>, \<open>Ledger_Queries\<close>, \<open>Ledger_Props\<close>: the queries of \<open>chain.cpp\<close> by which contract
    results change the ledger (join, certificates, contracts, creation, transfer, incineration,
    scopes), the search for the latest entry, the type of a variable.
  \<^item> \<open>Kv_Store\<close>: \<open>kv_store.cpp\<close>; what is saved is loaded again, and nothing else changes.
  \<^item> \<open>Chain_State\<close>, \<open>Chain_Ops\<close>, \<open>Chain_Props\<close>: the rest of \<open>chain.cpp\<close>: world and chain setup,
    database queries, backup and restore, pushing and resolving, and moving the head over the trees.
    \<open>back_to\<close> and \<open>meet_path\<close> terminate because a height or an index falls in every round.
  \<^item> \<open>Chain_Plugin\<close>: \<open>chain_plugin.cpp\<close>, \<open>transaction_pool.cpp\<close>: the handlers that compose the above,
    and the checks of transactions and blocks.
  \<^item> \<open>Rdb_Controller\<close>, \<open>Rdb_Props\<close>: \<open>rdb_controller.cpp\<close>, the statements, the values bound to them and the
    reading of rows; SOCI and MySQL are the parameter \<open>soci\<close>. In what order entries are written and what a
    refused statement leaves, that values are bound, what can be read back and what the queries of
    contracts see of it.
  \<^item> \<open>Chain_Node\<close>, \<open>_Inv\<close>, \<open>_Props\<close>: the chain plugin as it runs: its options, \<open>start\<close>, the timer that hands
    blocks to the contract engine and the messages of its channels, as sequences of events. An
    invariant over pool and database writes that every handler keeps, whatever it throws; that the
    confirmed blocks form a chain; that no run survives the result of a block.
  \<^item> \<open>Kademlia\<close>, \<open>_Inv\<close>, \<open>_Props\<close>: \<open>net_plugin/kademlia\<close>. The invariant of the routing table over
    every sequence of additions and removals; the search for neighbours terminates and is complete.
  \<^item> \<open>Json_Validator\<close>: \<open>lib/json/json-validator.cpp\<close>, \<open>json-uri.cpp\<close>: references, the insertion of a schema
    and validation, with its depth as fuel. \<open>Json_Shapes\<close>: validation ends on a stack deeper than the
    schema is large when the schema has no references, and on schemas with few keywords it is
    membership in a type. \<open>Msg_Schema\<close>: the schemas of \<open>net_plugin/include/msg_schema.hpp\<close> as values, each
    nested less than 6 deep, so that a \<open>stack_depth\<close> of 16 is enough for all of them. \<open>Schema_Props\<close>: what a
    body that passed its schema is good for, and what the schemas miss.
  \<^item> \<open>Wire_Format\<close>: \<open>net_plugin/config/include/message.hpp\<close>, the packer, the parser and the builder.
  \<^item> \<open>User_Pool\<close>, \<open>User_Props\<close>: \<open>user_pool_manager.hpp\<close>, \<open>user_conn_table.hpp\<close>,
    \<open>id_mapping_table.cpp\<close>: admission of users over sequences of messages.
  \<^item> \<open>Text_Formats\<close>, \<open>Message_Validator\<close>: the texts the program recognises, and the validator of
    \<open>net_plugin/rpc_services/rpc_services.cpp\<close> against a reference that looks at every member.
  \<^item> \<open>Rpc_Services\<close>, \<open>Rpc_Props\<close>: the services of the same file, one request at a time: who can have a
    message handled, what key exchange answers, that a broadcast is passed on once.
  \<^item> \<open>Net_Plugin\<close>, \<open>Net_Props\<close>: \<open>net_plugin.cpp\<close> and the query encoding of \<open>http_client.cpp\<close>: peers from
    trackers, refreshing buckets, the broadcast table, sending to mergers and users. The loop of
    \<open>refreshBuckets\<close> visits the buckets there are at its start, so their number bounds its steps.
  \<^item> \<open>Net_Node\<close>, \<open>_Inv\<close>, \<open>_Props\<close>, \<open>_Listen\<close>: the network plugin as it runs: the objects of the services
    (\<open>proceed\<close> in \<open>rpc_services.cpp\<close>) with the operations they have pending at gRPC, the completion queue, the
    timers, options and start. Over runs with any input: the routing table stays well formed, no
    connection outlives its object, sending never fails; and, while gRPC keeps its promises
    (\<open>grpc_keeps\<close>), the services go on listening.
  \<^item> \<open>Block_Producer\<close>, \<open>Producer_Props\<close>: \<open>block_producer_plugin.cpp\<close>, \<open>ssig_pool.cpp\<close>: support
    signatures, the optimal merger, the block proposed; what the pool, the checks of other nodes and
    the network plugin make of it.
  \<^item> \<open>Contract_Data\<close>, \<open>Data_Manager\<close>: \<open>misc_tool.hpp\<close>, \<open>xml_tool.hpp\<close>, \<open>types.hpp\<close>, \<open>data_manager.*\<close>:
    contract documents as trees, the values of the running transaction, the caches of the chain's answers.
  \<^item> \<open>Contract_Conditions\<close>: the condition handlers and \<open>condition_manager.*\<close>, by recursion on documents.
  \<^item> \<open>Contract_Handlers\<close>: \<open>input_handler\<close>, \<open>get_handler\<close>, \<open>fee_handler\<close>, \<open>set_handler\<close>, \<open>tag_handler\<close>.
  \<^item> \<open>Contract_Engine\<close>, \<open>Contract_Props\<close>: \<open>element_parser\<close>, \<open>contract_runner\<close>, \<open>contract_manager\<close>,
    \<open>query_composer\<close>, \<open>engine.cpp\<close>. What a result can be, what the caches do to conditions and
    queries, and that the chain plugin cannot read what the engine composes.
  \<^item> \<open>Contract_Parallel\<close>: \<open>tx_parallelizer.cpp\<close>, which transactions reach which thread.
  \<^item> \<open>Admin_Services\<close>, \<open>Admin_Props\<close>: \<open>admin_plugin/\<close> with its middleware, the status of the application and the
    order of plugins (\<open>src/lib/appbase\<close>), \<open>initBuiltInContracts\<close> of \<open>chain.cpp\<close>. Which states of a node
    sequences of requests reach; plugins are initialised after those they require, if none requires
    itself through others (\<open>init_all\<close> is partial, as the recursion of the code need not end).

  \<^bold>\<open>How they interact.\<close> \<open>pushTransaction\<close> fills the transaction pool; \<open>plugin_pushBlock\<close> checks a
  block, pushes it into the block pool, stores its backup and, when \<open>resolveBlock\<close> confirms one, hands
  the confirmed block's results to the database. \<open>processTxResult\<close> runs the queries of a contract
  result on the block's ledger, stores the block, changes the state trees and moves the head; those
  results are what \<open>procBlock\<close> of the contract engine answers for a block, reading the chain through
  \<open>processRequestQuery\<close>.
  The services parse a message with \<open>parseMessage\<close>, check it with \<open>validate\<close> and its HMAC with the keys
  \<open>handleMsg\<close> agreed on, then publish its body to the chain plugin or the block producer, and pass it on
  to mergers of the routing table; \<open>sendMessage\<close> is the way out. \<open>makePartialBlock\<close> takes the pool that
  \<open>pushTransaction\<close> fills; the block it makes would come back to \<open>plugin_pushBlock\<close> of another node.
  Before anything else looks at a body, \<open>validateSchema\<close> does. The administrator's \<open>login\<close> and \<open>load_chain\<close>
  write the keys and the chain into the key-value store and tell the network plugin of both through
  \<open>controlNet\<close>.

  \<^bold>\<open>Not modelled.\<close> Vendored and generated code (\<open>src/include\<close>, \<open>lib/tinyxml\<close>, \<open>*.pb.cc\<close>); regular expressions and the
  floating-point keyword \<open>multipleOf\<close> of schemas (parameters of \<open>json_env\<close>; floating-point numbers are not
  JSON values here); the floating-point delay of the block producer; the inside of gRPC and of HTTP connections;
  the threads (handlers run one after the other); the timer and program options of the producer plugin.
\<close>

end
